(* ===== verification/Prelude.thy ===== *)
theory Prelude
  imports Main "HOL-Library.AList" "HOL-Library.Word"
begin

text \<open>
  What every component shares: JSON values as the standard library reads and
  prints them, Python dictionaries, truthiness and number printing, the
  exceptions the sources raise, and a few generic lemmas on lists and maps.

  Strings are \<^typ>\<open>string\<close>, read as the UTF-8 bytes of the Python string.
  A dictionary is an association list in insertion order; \<open>AList.update\<close>
  replaces a value in place or appends the key, as Python's does.  A float is
  its 64-bit pattern: no function modelled here computes with one.
\<close>

named_theorems prog_simps "unfolding rules of programs over the server interface"
named_theorems wp_simps "weakest preconditions of programs"
named_theorems key_simps "distinctness of the server's key families"

section \<open>Python values\<close>

datatype json =
    JNull
  | JBool bool
  | JInt int
  | JFloat "64 word"
  | JStr string
  | JList "json list"
  | JObj "(string \<times> json) list"

type_synonym jdict = "(string \<times> json) list"

datatype exn =
    ValueError string
  | TypeError string
  | KeyError string
  | LookupError string
  | AttributeError string
  | RuntimeError string
  | FrameworkError string
  | UnsupportedCommandError string
  | ExecutionDataError string
  | RedisError string
  | TimeoutError string
  | CancelledError string
  | Diverges

text \<open>
  \<open>Diverges\<close> is no exception of Python: it is the outcome of a coroutine whose loop
  never ends.  Nothing catches it and no \<open>finally\<close> runs.
\<close>

text \<open>Python's truth value of an object.\<close>

fun truthy :: "json \<Rightarrow> bool" where
  "truthy JNull = False"
| "truthy (JBool b) = b"
| "truthy (JInt n) = (n \<noteq> 0)"
| "truthy (JFloat w) = (w \<noteq> 0 \<and> w \<noteq> 0x8000000000000000)"
| "truthy (JStr s) = (s \<noteq> [])"
| "truthy (JList xs) = (xs \<noteq> [])"
| "truthy (JObj d) = (d \<noteq> [])"

definition py_or :: "json \<Rightarrow> json \<Rightarrow> json" where
  "py_or a b = (if truthy a then a else b)"

text \<open>\<open>s or t\<close> on two strings.\<close>

definition str_or :: "string \<Rightarrow> string \<Rightarrow> string" where
  "str_or s t = (if s = [] then t else s)"

text \<open>\<open>d.get(k, x)\<close> and \<open>d.get(k)\<close>.\<close>

definition dget :: "jdict \<Rightarrow> string \<Rightarrow> json \<Rightarrow> json" where
  "dget d k x = (case map_of d k of None \<Rightarrow> x | Some v \<Rightarrow> v)"

definition dget0 :: "jdict \<Rightarrow> string \<Rightarrow> json" where
  "dget0 d k = dget d k JNull"

definition dhas :: "jdict \<Rightarrow> string \<Rightarrow> bool" where
  "dhas d k = (map_of d k \<noteq> None)"

definition dset :: "string \<Rightarrow> json \<Rightarrow> jdict \<Rightarrow> jdict" where
  "dset k v d = AList.update k v d"

definition dsetdefault :: "string \<Rightarrow> json \<Rightarrow> jdict \<Rightarrow> jdict" where
  "dsetdefault k v d = (if dhas d k then d else dset k v d)"

text \<open>\<open>d.update(e)\<close>, and \<open>{**d, **e}\<close> on a copy.\<close>

definition dupdate :: "jdict \<Rightarrow> jdict \<Rightarrow> jdict" where
  "dupdate d e = fold (\<lambda>(k, v). dset k v) e d"

section \<open>Numbers as text\<close>

definition digit_char :: "nat \<Rightarrow> char" where
  "digit_char d = char_of (48 + d)"

fun show_nat :: "nat \<Rightarrow> string" where
  "show_nat n = (if n < 10 then [digit_char n]
                 else show_nat (n div 10) @ [digit_char (n mod 10)])"

declare show_nat.simps [simp del]

definition show_int :: "int \<Rightarrow> string" where
  "show_int i = (if i < 0 then CHR ''-'' # show_nat (nat (- i)) else show_nat (nat i))"

text \<open>
  \<open>str(x)\<close>.  What Python prints for a float or a container is not modelled:
  no field the sources pass to \<open>str\<close> is written as one.
\<close>

fun py_str :: "json \<Rightarrow> string" where
  "py_str JNull = ''None''"
| "py_str (JBool b) = (if b then ''True'' else ''False'')"
| "py_str (JInt n) = show_int n"
| "py_str (JStr s) = s"
| "py_str (JFloat w) = ''<float>''"
| "py_str (JList xs) = ''<list>''"
| "py_str (JObj d) = ''<dict>''"

text \<open>\<open>str(x or "")\<close>, the idiom \<open>_text\<close> of the sweeper and of the registry.\<close>

definition py_text :: "json \<Rightarrow> string" where
  "py_text v = (if truthy v then py_str v else [])"

text \<open>\<open>int(x or 0)\<close> on a value that holds an integer (or nothing).\<close>

fun py_int :: "json \<Rightarrow> int" where
  "py_int (JInt n) = n"
| "py_int (JBool b) = (if b then 1 else 0)"
| "py_int _ = 0"

text \<open>\<open>str.isspace\<close> on one-byte characters.\<close>

definition is_space :: "char \<Rightarrow> bool" where
  "is_space c = (of_char c \<in> {9 :: nat, 10, 11, 12, 13, 28, 29, 30, 31, 32})"

definition strip :: "string \<Rightarrow> string" where
  "strip s = rev (dropWhile is_space (rev (dropWhile is_space s)))"

definition is_digit :: "char \<Rightarrow> bool" where
  "is_digit c = (48 \<le> (of_char c :: nat) \<and> (of_char c :: nat) \<le> 57)"

definition digits_value :: "string \<Rightarrow> int" where
  "digits_value s = foldl (\<lambda>n c. n * 10 + (of_char c - 48)) 0 s"

text \<open>\<open>int(s)\<close> on optionally signed decimal digits; underscores between digits are not modelled.\<close>

definition parse_int :: "string \<Rightarrow> int option" where
  "parse_int s = (case strip s of
       [] \<Rightarrow> None
     | c # ds \<Rightarrow>
         if c = CHR ''-'' then (if ds \<noteq> [] \<and> list_all is_digit ds then Some (- digits_value ds) else None)
         else if c = CHR ''+'' then (if ds \<noteq> [] \<and> list_all is_digit ds then Some (digits_value ds) else None)
         else if list_all is_digit (c # ds) then Some (digits_value (c # ds)) else None)"

text \<open>\<open>str.upper\<close> on ASCII letters; other characters are kept.\<close>

definition upper_char :: "char \<Rightarrow> char" where
  "upper_char c = (if 97 \<le> (of_char c :: nat) \<and> (of_char c :: nat) \<le> 122 then char_of ((of_char c :: nat) - 32) else c)"

text \<open>\<open>str.lower\<close> on ASCII letters; other characters are kept.\<close>

definition lower_char :: "char \<Rightarrow> char" where
  "lower_char c = (if 65 \<le> (of_char c :: nat) \<and> (of_char c :: nat) \<le> 90 then char_of ((of_char c :: nat) + 32) else c)"

text \<open>\<open>int(x)\<close>; a float is not converted.\<close>

fun to_int :: "json \<Rightarrow> exn + int" where
  "to_int (JInt n) = Inr n"
| "to_int (JBool b) = Inr (if b then 1 else 0)"
| "to_int (JStr s) = (case parse_int s of Some n \<Rightarrow> Inr n | None \<Rightarrow> Inl (ValueError ''invalid literal for int()''))"
| "to_int v = Inl (TypeError ''int() argument'')"

section \<open>Lemmas on dictionaries\<close>

lemma dget_dset [simp]: "dget (dset k v d) k' x = (if k' = k then v else dget d k' x)"
  by (simp add: dget_def dset_def update_conv')

lemma dget0_dset [simp]: "dget0 (dset k v d) k' = (if k' = k then v else dget0 d k')"
  by (simp add: dget0_def)

lemma dhas_dset [simp]: "dhas (dset k v d) k' = (k' = k \<or> dhas d k')"
  by (simp add: dhas_def dset_def update_conv')

lemma map_of_dset [simp]: "map_of (dset k v d) = (map_of d)(k \<mapsto> v)"
  by (simp add: dset_def update_conv')

lemma dset_ne [simp]: "dset k v d \<noteq> []"
  by (cases d) (auto simp: dset_def)

lemma map_of_dupdate: "distinct (map fst e) \<Longrightarrow> map_of (dupdate d e) = map_of d ++ map_of e"
proof (induction e arbitrary: d)
  case Nil
  then show ?case by (simp add: dupdate_def)
next
  case (Cons p e)
  obtain k v where p: "p = (k, v)" by (cases p)
  have "map_of (dupdate d (p # e)) = map_of (dupdate (dset k v d) e)"
    by (simp add: dupdate_def p)
  also have "\<dots> = (map_of d)(k \<mapsto> v) ++ map_of e"
    using Cons by simp
  also have "\<dots> = map_of d ++ map_of (p # e)"
    using Cons.prems by (simp add: p map_add_upd_left dom_map_of_conv_image_fst)
  finally show ?case .
qed

lemma dupdate_Nil [simp]: "dupdate d [] = d"
  by (simp add: dupdate_def)

lemma dupdate_Cons [simp]: "dupdate d ((k, v) # e) = dupdate (dset k v d) e"
  by (simp add: dupdate_def)

lemma distinct_dset: "distinct (map fst d) \<Longrightarrow> distinct (map fst (dset k v d))"
  by (simp add: dset_def distinct_update)

lemma py_text_str [simp]: "py_text (JStr s) = s"
  by (simp add: py_text_def)

lemma py_text_null [simp]: "py_text JNull = []"
  by (simp add: py_text_def)

section \<open>Lemmas on lists and printed numbers\<close>

lemma append_eq_same_length:
  "length a = length b \<Longrightarrow> (a @ x = b @ y) \<longleftrightarrow> (a = b \<and> x = y)"
  by auto

lemma show_nat_ne [simp]: "show_nat n \<noteq> []"
  by (subst show_nat.simps) simp

lemma Nil_neq_show_nat [simp]: "[] \<noteq> show_nat n"
  using show_nat_ne by metis

lemma digit_char_inj: "a < 10 \<Longrightarrow> b < 10 \<Longrightarrow> digit_char a = digit_char b \<Longrightarrow> a = b"
  by (simp add: digit_char_def char_of_eq_iff take_bit_nat_eq_self)

lemma show_nat_inj: "show_nat a = show_nat b \<Longrightarrow> a = b"
proof (induction a arbitrary: b rule: show_nat.induct)
  case (1 a)
  show ?case
  proof (cases "a < 10 \<or> b < 10")
    case True
    then show ?thesis
      using "1.prems" show_nat.simps [of a] show_nat.simps [of b]
      by (auto split: if_splits dest: digit_char_inj)
  next
    case False
    then have "show_nat (a div 10) = show_nat (b div 10)"
      and "digit_char (a mod 10) = digit_char (b mod 10)"
      using "1.prems" show_nat.simps [of a] show_nat.simps [of b] by auto
    moreover have "a mod 10 < 10" and "b mod 10 < 10"
      by simp_all
    ultimately have "a div 10 = b div 10" and "a mod 10 = b mod 10"
      using False "1.IH" digit_char_inj [of "a mod 10" "b mod 10"] by auto
    then show ?thesis by (metis mult_div_mod_eq)
  qed
qed

end
