(* ===== verification/Server.thy ===== *)
theory Server
  imports Prelude
begin

text \<open>
  The interface between the framework and everything it awaits: the Redis
  server, the clock and the source of fresh identifiers.

  A coroutine is a program (\<open>'a prog\<close>): it returns, raises, or issues one
  command and continues with the reply.  Every \<open>await\<close> on the server is one
  command, so one command is also one atomic step when coroutines interleave.
  The server itself is not part of the repository: it is a parameter
  \<open>exec\<close> of \<open>run\<close>, and what the code relies on is the locale
  \<open>redis\<close>, which states the documented effect of each command on the
  keyspace (\<open>apply_cmd\<close>) and the documented reply (\<open>reply_ok\<close>).
  Facts that need no such law are proved for an arbitrary \<open>exec\<close>, one that
  fails, forgets or lies included.

  A text stored under a key is \<open>Doc v\<close> when it is the JSON text of \<open>v\<close> and
  \<open>Txt s\<close> when it is not JSON; \<open>json.dumps v\<close> is \<open>Doc v\<close>, a printed integer is
  \<open>Doc (JInt n)\<close>.
\<close>

section \<open>Commands and replies\<close>

datatype rtext = Txt string | Doc json

fun loads :: "rtext \<Rightarrow> json option" where
  "loads (Doc v) = Some v"
| "loads (Txt s) = None"

fun rtext_str :: "rtext \<Rightarrow> string" where
  "rtext_str (Txt s) = s"
| "rtext_str (Doc v) = py_str v"

text \<open>
  A server-side script over its one key: \<open>redis.call('GET', KEYS[1])\<close>,
  \<open>SET\<close> with \<open>EX\<close> and possibly \<open>NX\<close>, \<open>EXPIRE\<close>, \<open>DEL\<close>, \<open>return\<close>.
\<close>

datatype lua =
    LRet int
  | LGet "rtext option \<Rightarrow> lua"
  | LSet rtext int bool "bool \<Rightarrow> lua"
  | LExpire int lua
  | LDel lua

datatype cmd =
    Get string
  | Set string rtext "int option" bool
  | Del string
  | Exists string
  | Expire string int
  | HGet string string
  | HSet string string rtext
  | HDel string string
  | HGetAll string
  | HMGet string "string list"
  | HIncrBy string string int
  | SAdd string string
  | SRem string string
  | SMembers string
  | SIsMember string string
  | ZAdd string string int
  | ZRem string string
  | ZRangeByScore string int int nat
  | ZRemRangeByScore string int int
  | ZRevRange string nat
  | XAdd string rtext
  | RPush string rtext
  | XRead string string nat
  | XAck string string string
  | Eval string lua
  | Pipe "cmd list"
  | Now
  | Monotonic
  | Uuid

datatype reply =
    RFail exn
  | ROk
  | RText "rtext option"
  | RTexts "rtext option list"
  | RInt int
  | RBool bool
  | RPairs "(string \<times> rtext) list"
  | RMembers "string list"
  | RScored "(string \<times> int) list"
  | REntries "(string \<times> rtext option) list"

fun r_text :: "reply \<Rightarrow> rtext option" where
  "r_text (RText t) = t"
| "r_text _ = None"

fun r_texts :: "reply \<Rightarrow> rtext option list" where
  "r_texts (RTexts t) = t"
| "r_texts _ = []"

fun r_int :: "reply \<Rightarrow> int" where
  "r_int (RInt n) = n"
| "r_int _ = 0"

fun r_bool :: "reply \<Rightarrow> bool" where
  "r_bool (RBool b) = b"
| "r_bool _ = False"

fun r_pairs :: "reply \<Rightarrow> (string \<times> rtext) list" where
  "r_pairs (RPairs l) = l"
| "r_pairs _ = []"

fun r_members :: "reply \<Rightarrow> string list" where
  "r_members (RMembers l) = l"
| "r_members _ = []"

fun r_scored :: "reply \<Rightarrow> (string \<times> int) list" where
  "r_scored (RScored l) = l"
| "r_scored _ = []"

text \<open>The entries of one stream: the id and the field \<open>data\<close>, when there is one.\<close>

fun r_entries :: "reply \<Rightarrow> (string \<times> rtext option) list" where
  "r_entries (REntries l) = l"
| "r_entries _ = []"

section \<open>Programs\<close>

datatype 'a prog =
    Ret 'a
  | Raise exn
  | Do cmd "reply \<Rightarrow> 'a prog"

primrec bindp :: "'a prog \<Rightarrow> ('a \<Rightarrow> 'b prog) \<Rightarrow> 'b prog" where
  "bindp (Ret a) f = f a"
| "bindp (Raise e) f = Raise e"
| "bindp (Do c k) f = Do c (\<lambda>r. bindp (k r) f)"

primrec catch :: "'a prog \<Rightarrow> (exn \<Rightarrow> 'a prog) \<Rightarrow> 'a prog" where
  "catch (Ret a) h = Ret a"
| "catch (Raise e) h = (if e = Diverges then Raise e else h e)"
| "catch (Do c k) h = Do c (\<lambda>r. catch (k r) h)"

text \<open>\<open>except Exception\<close>: a cancellation is a \<open>BaseException\<close> and passes.\<close>

definition try_exc :: "'a prog \<Rightarrow> (exn \<Rightarrow> 'a prog) \<Rightarrow> 'a prog" where
  "try_exc p h = catch p (\<lambda>e. case e of CancelledError m \<Rightarrow> Raise e | _ \<Rightarrow> h e)"

text \<open>\<open>try: p finally: q\<close>: \<open>q\<close> runs either way; what it raises replaces \<open>p\<close>'s outcome.\<close>

definition finally_do :: "'a prog \<Rightarrow> unit prog \<Rightarrow> 'a prog" where
  "finally_do p q = bindp (catch (bindp p (\<lambda>a. Ret (Inr a))) (\<lambda>e. Ret (Inl e)))
     (\<lambda>o'. bindp q (\<lambda>_. case o' of Inl e \<Rightarrow> Raise e | Inr a \<Rightarrow> Ret a))"

text \<open>One command; a failure reply raises in the client (and never stands for a loop).\<close>

definition raised :: "exn \<Rightarrow> exn" where
  "raised e = (if e = Diverges then RuntimeError [] else e)"

lemma raised_neq [simp]: "raised e \<noteq> Diverges"
  by (simp add: raised_def)

definition call :: "cmd \<Rightarrow> (reply \<Rightarrow> 'a) \<Rightarrow> 'a prog" where
  "call c f = Do c (\<lambda>r. case r of RFail e \<Rightarrow> Raise (raised e) | _ \<Rightarrow> Ret (f r))"

definition exec_cmd :: "cmd \<Rightarrow> unit prog" where
  "exec_cmd c = call c (\<lambda>_. ())"

definition get :: "string \<Rightarrow> rtext option prog" where
  "get k = call (Get k) r_text"

definition now_ms :: "int prog" where
  "now_ms = call Now r_int"

text \<open>\<open>uuid.uuid4().hex\<close>.\<close>

definition uuid_hex :: "string prog" where
  "uuid_hex = call Uuid (\<lambda>r. case r_text r of Some t \<Rightarrow> rtext_str t | None \<Rightarrow> [])"

text \<open>A pure computation that may raise.\<close>

definition lift_res :: "exn + 'a \<Rightarrow> 'a prog" where
  "lift_res r = (case r of Inl e \<Rightarrow> Raise e | Inr a \<Rightarrow> Ret a)"

primrec for_each :: "('x \<Rightarrow> unit prog) \<Rightarrow> 'x list \<Rightarrow> unit prog" where
  "for_each f [] = Ret ()"
| "for_each f (x # xs) = bindp (f x) (\<lambda>_. for_each f xs)"

primrec fold_prog :: "('x \<Rightarrow> 'a \<Rightarrow> 'a prog) \<Rightarrow> 'x list \<Rightarrow> 'a \<Rightarrow> 'a prog" where
  "fold_prog f [] a = Ret a"
| "fold_prog f (x # xs) a = bindp (f x a) (fold_prog f xs)"

text \<open>Running a program against a server.\<close>

primrec run :: "(cmd \<Rightarrow> 's \<Rightarrow> reply \<times> 's) \<Rightarrow> 'a prog \<Rightarrow> 's \<Rightarrow> (exn + 'a) \<times> 's" where
  "run X (Ret a) s = (Inr a, s)"
| "run X (Raise e) s = (Inl e, s)"
| "run X (Do c k) s = run X (k (fst (X c s))) (snd (X c s))"

text \<open>Whatever the server replies, the program issues only commands that satisfy \<open>P\<close>.\<close>

primrec only :: "(cmd \<Rightarrow> bool) \<Rightarrow> 'a prog \<Rightarrow> bool" where
  "only P (Ret a) = True"
| "only P (Raise e) = True"
| "only P (Do c k) = (P c \<and> (\<forall>r. only P (k r)))"

text \<open>Whatever the server replies, the program returns, and with a result in \<open>Q\<close>.\<close>

primrec returns :: "('a \<Rightarrow> bool) \<Rightarrow> 'a prog \<Rightarrow> bool" where
  "returns Q (Ret a) = Q a"
| "returns Q (Raise e) = (\<exists>m. e = CancelledError m)"
| "returns Q (Do c k) = (\<forall>r. returns Q (k r))"

text \<open>The program ends, and if it returns its result is in \<open>Q\<close>.\<close>

primrec results :: "('a \<Rightarrow> bool) \<Rightarrow> 'a prog \<Rightarrow> bool" where
  "results Q (Ret a) = Q a"
| "results Q (Raise e) = (e \<noteq> Diverges)"
| "results Q (Do c k) = (\<forall>r. results Q (k r))"

section \<open>The algebra of programs\<close>

lemma bindp_Ret [simp]: "bindp p Ret = p"
  by (induction p) auto

lemma bindp_assoc: "bindp (bindp p f) g = bindp p (\<lambda>a. bindp (f a) g)"
  by (induction p) auto

lemma run_bindp [prog_simps]:
  "run X (bindp p f) s = (case run X p s of (Inl e, t) \<Rightarrow> (Inl e, t) | (Inr a, t) \<Rightarrow> run X (f a) t)"
  by (induction p arbitrary: s) auto

lemma run_catch [prog_simps]:
  "run X (catch p h) s = (case run X p s of
     (Inl e, t) \<Rightarrow> if e = Diverges then (Inl e, t) else run X (h e) t
   | (Inr a, t) \<Rightarrow> (Inr a, t))"
  by (induction p arbitrary: s) auto

lemma run_try_exc [prog_simps]:
  "run X (try_exc p h) s =
     (case run X p s of
        (Inl e, t) \<Rightarrow> (case e of CancelledError m \<Rightarrow> (Inl e, t) | Diverges \<Rightarrow> (Inl e, t) | _ \<Rightarrow> run X (h e) t)
      | (Inr a, t) \<Rightarrow> (Inr a, t))"
  by (auto simp: try_exc_def run_catch split: prod.splits sum.splits exn.splits)

lemma run_finally_do [prog_simps]:
  "run X (finally_do p q) s =
     (case run X p s of (o', t) \<Rightarrow> if o' = Inl Diverges then (o', t) else
        (case run X q t of (Inl e, u) \<Rightarrow> (Inl e, u) | (Inr _, u) \<Rightarrow> (o', u)))"
  by (auto simp: finally_do_def run_bindp run_catch split: prod.splits sum.splits)

lemma only_bindp [intro]: "only P p \<Longrightarrow> (\<And>a. only P (f a)) \<Longrightarrow> only P (bindp p f)"
  by (induction p) auto

lemma only_catch [intro]: "only P p \<Longrightarrow> (\<And>e. only P (h e)) \<Longrightarrow> only P (catch p h)"
  by (induction p) auto

lemma only_try_exc [intro]: "only P p \<Longrightarrow> (\<And>e. only P (h e)) \<Longrightarrow> only P (try_exc p h)"
  by (auto simp: try_exc_def split: exn.splits)

lemma only_call [simp]: "only P (call c f) = P c"
  by (auto simp: call_def split: reply.splits)

lemma only_prims [simp]:
  "only P (exec_cmd c) = P c" "only P (get k) = P (Get k)"
  "only P now_ms = P Now" "only P uuid_hex = P Uuid"
  by (simp_all add: exec_cmd_def get_def now_ms_def uuid_hex_def)

lemma only_lift_res [simp]: "only P (lift_res r)"
  by (simp add: lift_res_def split: sum.splits)

lemma only_for_each [intro]: "(\<And>x. only P (f x)) \<Longrightarrow> only P (for_each f xs)"
  by (induction xs) auto

lemma only_fold_prog [intro]: "(\<And>x a. only P (f x a)) \<Longrightarrow> only P (fold_prog f xs a)"
  by (induction xs arbitrary: a) auto

lemma only_mono: "only P p \<Longrightarrow> (\<And>c. P c \<Longrightarrow> Q c) \<Longrightarrow> only Q p"
  by (induction p) auto

text \<open>A relation on states that every allowed command respects is respected by the program.\<close>

lemma only_run:
  assumes "only P p" and "\<And>c s. P c \<Longrightarrow> R s (snd (X c s))"
    and "\<And>s. R s s" and "\<And>s t u. R s t \<Longrightarrow> R t u \<Longrightarrow> R s u"
  shows "R s (snd (run X p s))"
  using assms(1)
proof (induction p arbitrary: s)
  case (Do c k)
  have "R s (snd (X c s))" using Do.prems assms(2) by simp
  moreover have "R (snd (X c s)) (snd (run X (k (fst (X c s))) (snd (X c s))))"
    using Do by simp
  ultimately show ?case using assms(4) by simp
qed (simp_all add: assms(3))

lemma returns_bindp [intro]:
  "returns A p \<Longrightarrow> (\<And>a. A a \<Longrightarrow> returns Q (f a)) \<Longrightarrow> returns Q (bindp p f)"
  by (induction p) auto

lemma results_bindp [intro]:
  "results (\<lambda>_. True) p \<Longrightarrow> (\<And>a. results Q (f a)) \<Longrightarrow> results Q (bindp p f)"
  by (induction p) auto

lemma results_call [simp]: "results Q (call c f) \<longleftrightarrow> (\<forall>r. (\<forall>e. r \<noteq> RFail e) \<longrightarrow> Q (f r))"
proof -
  have "results Q (case r of RFail e \<Rightarrow> Raise (raised e) | _ \<Rightarrow> Ret (f r)) \<longleftrightarrow> ((\<forall>e. r \<noteq> RFail e) \<longrightarrow> Q (f r))" for r
    by (cases r) auto
  then show ?thesis by (simp add: call_def)
qed

lemma returns_try_exc [intro]:
  assumes "results Q p" and "\<And>e. returns Q (h e)"
  shows "returns Q (try_exc p h)"
  using assms(1)
proof (induction p)
  case (Raise e)
  then show ?case using assms(2) [of e] by (cases e) (auto simp: try_exc_def)
qed (auto simp: try_exc_def)

lemma returns_run:
  "returns Q p \<Longrightarrow> (case fst (run X p s) of Inr a \<Rightarrow> Q a | Inl e \<Rightarrow> (\<exists>m. e = CancelledError m))"
  by (induction p arbitrary: s) auto

end
