(* ===== verification/Redis.thy ===== *)
theory Redis
  imports Server
begin

text \<open>
  What the code relies on of the Redis server.  \<open>kspace\<close> is the server's data
  as the commands show it; \<open>apply_cmd\<close> is the documented effect of each command
  and \<open>reply_ok\<close> its documented reply, which fixes neither the order of a hash
  or set listing nor the clock, the stream ids and the fresh identifiers.  The
  locale \<open>redis\<close> says that a server \<open>exec\<close> whose data are read by \<open>view\<close>
  behaves that way.  Programs use a key at one type only (see \<open>Redis_Keys\<close>), so the
  five families of data are kept apart; \<open>strm\<close> holds the entries of streams and lists.  The time to live of a string key is kept;
  that of aggregates is not, and expiry is a step of the environment
  (\<open>expire_key\<close>).  Zset scores are integers: epoch milliseconds are exact in the
  server's doubles.

  \<open>ref_exec\<close> is a server over association lists for which the laws hold.
\<close>

section \<open>Keyspace and documented commands\<close>

type_synonym entry = "rtext \<times> int option"

record kspace =
  kv :: "string \<Rightarrow> entry option"
  hs :: "string \<Rightarrow> string \<Rightarrow> rtext option"
  ss :: "string \<Rightarrow> string set"
  zs :: "string \<Rightarrow> string \<Rightarrow> int option"
  strm :: "string \<Rightarrow> rtext list"
  acked :: "(string \<times> string \<times> string) set"

primrec run_lua :: "lua \<Rightarrow> entry option \<Rightarrow> int \<times> entry option" where
  "run_lua (LRet n) e = (n, e)"
| "run_lua (LGet k) e = run_lua (k (map_option fst e)) e"
| "run_lua (LSet v ttl nx k) e =
     (if nx \<and> e \<noteq> None then run_lua (k False) e else run_lua (k True) (Some (v, Some ttl)))"
| "run_lua (LExpire ttl k) e = run_lua k (map_option (\<lambda>(v, _). (v, Some ttl)) e)"
| "run_lua (LDel k) e = run_lua k None"

definition hash_int :: "rtext option \<Rightarrow> int option" where
  "hash_int t = (case t of None \<Rightarrow> Some 0 | Some (Doc (JInt n)) \<Rightarrow> Some n | _ \<Rightarrow> None)"

definition present :: "kspace \<Rightarrow> string \<Rightarrow> bool" where
  "present K k = (kv K k \<noteq> None \<or> hs K k \<noteq> (\<lambda>_. None) \<or> ss K k \<noteq> {} \<or> zs K k \<noteq> (\<lambda>_. None) \<or> strm K k \<noteq> [])"

definition in_range :: "kspace \<Rightarrow> string \<Rightarrow> int \<Rightarrow> int \<Rightarrow> string \<Rightarrow> bool" where
  "in_range K k lo hi m = (case zs K k m of None \<Rightarrow> False | Some sc \<Rightarrow> lo \<le> sc \<and> sc \<le> hi)"

fun apply_cmd :: "cmd \<Rightarrow> kspace \<Rightarrow> kspace" where
  "apply_cmd (Set k v ttl nx) K =
     (if nx \<and> kv K k \<noteq> None then K else K\<lparr>kv := (kv K)(k := Some (v, ttl))\<rparr>)"
| "apply_cmd (Del k) K = K\<lparr>kv := (kv K)(k := None), hs := (hs K)(k := (\<lambda>_. None)),
     ss := (ss K)(k := {}), zs := (zs K)(k := (\<lambda>_. None)), strm := (strm K)(k := [])\<rparr>"
| "apply_cmd (Expire k n) K = K\<lparr>kv := (kv K)(k := map_option (\<lambda>(v, _). (v, Some n)) (kv K k))\<rparr>"
| "apply_cmd (HSet k f v) K = K\<lparr>hs := (hs K)(k := (hs K k)(f := Some v))\<rparr>"
| "apply_cmd (HDel k f) K = K\<lparr>hs := (hs K)(k := (hs K k)(f := None))\<rparr>"
| "apply_cmd (HIncrBy k f n) K = (case hash_int (hs K k f) of None \<Rightarrow> K
     | Some m \<Rightarrow> K\<lparr>hs := (hs K)(k := (hs K k)(f := Some (Doc (JInt (m + n)))))\<rparr>)"
| "apply_cmd (SAdd k m) K = K\<lparr>ss := (ss K)(k := insert m (ss K k))\<rparr>"
| "apply_cmd (SRem k m) K = K\<lparr>ss := (ss K)(k := ss K k - {m})\<rparr>"
| "apply_cmd (ZAdd k m sc) K = K\<lparr>zs := (zs K)(k := (zs K k)(m := Some sc))\<rparr>"
| "apply_cmd (ZRem k m) K = K\<lparr>zs := (zs K)(k := (zs K k)(m := None))\<rparr>"
| "apply_cmd (ZRemRangeByScore k lo hi) K =
     K\<lparr>zs := (zs K)(k := (\<lambda>m. if in_range K k lo hi m then None else zs K k m))\<rparr>"
| "apply_cmd (XAdd k v) K = K\<lparr>strm := (strm K)(k := strm K k @ [v])\<rparr>"
| "apply_cmd (RPush k v) K = K\<lparr>strm := (strm K)(k := strm K k @ [v])\<rparr>"
| "apply_cmd (XAck st g i) K = K\<lparr>acked := insert (st, g, i) (acked K)\<rparr>"
| "apply_cmd (Eval k l) K = K\<lparr>kv := (kv K)(k := snd (run_lua l (kv K k)))\<rparr>"
| "apply_cmd (Pipe cs) K = fold apply_cmd cs K"
| "apply_cmd c K = K"

fun reply_ok :: "cmd \<Rightarrow> kspace \<Rightarrow> reply \<Rightarrow> bool" where
  "reply_ok (Get k) K r = (r = RText (map_option fst (kv K k)))"
| "reply_ok (Set k v ttl nx) K r = (r = RBool (\<not> (nx \<and> kv K k \<noteq> None)))"
| "reply_ok (Exists k) K r = (r = RBool (present K k))"
| "reply_ok (HGet k f) K r = (r = RText (hs K k f))"
| "reply_ok (HMGet k fs) K r = (r = RTexts (map (hs K k) fs))"
| "reply_ok (HGetAll k) K r = (\<exists>l. r = RPairs l \<and> distinct (map fst l) \<and> map_of l = hs K k)"
| "reply_ok (HIncrBy k f n) K r = (case hash_int (hs K k f) of
      None \<Rightarrow> (\<exists>e. r = RFail (RedisError e)) | Some m \<Rightarrow> r = RInt (m + n))"
| "reply_ok (SMembers k) K r = (\<exists>l. r = RMembers l \<and> distinct l \<and> set l = ss K k)"
| "reply_ok (SIsMember k m) K r = (r = RBool (m \<in> ss K k))"
| "reply_ok (ZRem k m) K r = (r = RInt (if zs K k m = None then 0 else 1))"
| "reply_ok (ZRangeByScore k lo hi n) K r =
     (\<exists>l. r = RScored (take n l) \<and> distinct (map fst l) \<and> sorted (map snd l) \<and>
          (\<forall>m sc. (m, sc) \<in> set l \<longleftrightarrow> zs K k m = Some sc \<and> lo \<le> sc \<and> sc \<le> hi))"
| "reply_ok (ZRemRangeByScore k lo hi) K r = (r = RInt (int (card {m. in_range K k lo hi m})))"
| "reply_ok (ZRevRange k n) K r =
     (\<exists>l. r = RMembers (map fst (take n l)) \<and> distinct (map fst l) \<and> sorted (map (\<lambda>p. - snd p) l) \<and>
          map_of l = zs K k)"
| "reply_ok (XAdd k v) K r = (\<exists>i. r = RText (Some (Txt i)))"
| "reply_ok (XRead k i n) K r = (\<exists>l. r = REntries l \<and> length l \<le> n \<and> distinct (map fst l) \<and>
     set (map snd l) \<subseteq> Some ` set (strm K k) \<and> (i = ''0-0'' \<longrightarrow> map snd l = map Some (take n (strm K k))))"
| "reply_ok (Eval k l) K r = (r = RInt (fst (run_lua l (kv K k))))"
| "reply_ok Now K r = (\<exists>n. r = RInt n)"
| "reply_ok Monotonic K r = (\<exists>n. r = RInt n)"
| "reply_ok Uuid K r = (\<exists>s. s \<noteq> [] \<and> r = RText (Some (Txt s)))"
| "reply_ok c K r = (\<forall>e. r \<noteq> RFail e)"

text \<open>A key whose time to live is over is gone.\<close>

definition expire_key :: "string \<Rightarrow> kspace \<Rightarrow> kspace" where
  "expire_key k K = apply_cmd (Del k) K"

locale redis =
  fixes exec :: "cmd \<Rightarrow> 's \<Rightarrow> reply \<times> 's"
    and view :: "'s \<Rightarrow> kspace"
  assumes exec_view: "view (snd (exec c s)) = apply_cmd c (view s)"
    and exec_reply: "reply_ok c (view s) (fst (exec c s))"
begin

lemma reply_Get [simp]: "fst (exec (Get k) s) = RText (map_option fst (kv (view s) k))"
  using exec_reply [of "Get k" s] by simp

lemma reply_Set [simp]: "fst (exec (Set k v ttl nx) s) = RBool (\<not> (nx \<and> kv (view s) k \<noteq> None))"
  using exec_reply [of "Set k v ttl nx" s] by simp

lemma reply_Exists [simp]: "fst (exec (Exists k) s) = RBool (present (view s) k)"
  using exec_reply [of "Exists k" s] by simp

lemma reply_HGet [simp]: "fst (exec (HGet k f) s) = RText (hs (view s) k f)"
  using exec_reply [of "HGet k f" s] by simp

lemma reply_SIsMember [simp]: "fst (exec (SIsMember k m) s) = RBool (m \<in> ss (view s) k)"
  using exec_reply [of "SIsMember k m" s] by simp

lemma reply_ZRem [simp]: "fst (exec (ZRem k m) s) = RInt (if zs (view s) k m = None then 0 else 1)"
  using exec_reply [of "ZRem k m" s] by simp

lemma reply_ZRemRange [simp]:
  "fst (exec (ZRemRangeByScore k lo hi) s) = RInt (int (card {m. in_range (view s) k lo hi m}))"
  using exec_reply [of "ZRemRangeByScore k lo hi" s] by simp

lemma reply_Eval [simp]: "fst (exec (Eval k l) s) = RInt (fst (run_lua l (kv (view s) k)))"
  using exec_reply [of "Eval k l" s] by simp

lemma no_fail: "(\<forall>k f n. c \<noteq> HIncrBy k f n) \<Longrightarrow> fst (exec c s) \<noteq> RFail e"
  using exec_reply [of c s] by (cases c) auto

lemma run_call:
  "(\<forall>k f n. c \<noteq> HIncrBy k f n) \<Longrightarrow> run exec (call c f) s = (Inr (f (fst (exec c s))), snd (exec c s))"
  using no_fail [of c s] by (auto simp: call_def split: reply.splits)

lemma run_call_HIncrBy:
  assumes "hash_int (hs (view s) k f) = Some m"
  shows "run exec (call (HIncrBy k f n) g) s = (Inr (g (RInt (m + n))), snd (exec (HIncrBy k f n) s))"
  using exec_reply [of "HIncrBy k f n" s] assms by (simp add: call_def)

lemma run_exec_cmd [simp]:
  "(\<forall>k f n. c \<noteq> HIncrBy k f n) \<Longrightarrow> run exec (exec_cmd c) s = (Inr (), snd (exec c s))"
  by (simp add: exec_cmd_def run_call)

lemma run_get [simp]:
  "run exec (get k) s = (Inr (map_option fst (kv (view s) k)), snd (exec (Get k) s))"
  by (simp add: get_def run_call)

lemma run_now_ms [simp]: "run exec now_ms s = (Inr (r_int (fst (exec Now s))), snd (exec Now s))"
  by (simp add: now_ms_def run_call)

lemmas server_simps = run_call exec_view

end

section \<open>Weakest preconditions\<close>

text \<open>
  \<open>wp p Q K\<close>: from the data \<open>K\<close>, whatever documented replies the server gives, the
  program ends with an outcome and data that satisfy \<open>Q\<close>.
\<close>

primrec wp :: "'a prog \<Rightarrow> (exn + 'a \<Rightarrow> kspace \<Rightarrow> bool) \<Rightarrow> kspace \<Rightarrow> bool" where
  "wp (Ret a) Q K = Q (Inr a) K"
| "wp (Raise e) Q K = Q (Inl e) K"
| "wp (Do c k) Q K = (\<forall>r. reply_ok c K r \<longrightarrow> wp (k r) Q (apply_cmd c K))"

lemma wp_bindp [wp_simps]:
  "wp (bindp p f) Q K =
     wp p (\<lambda>o' K'. case o' of Inl e \<Rightarrow> Q (Inl e) K' | Inr a \<Rightarrow> wp (f a) Q K') K"
  by (induction p arbitrary: K) auto

lemma wp_catch [wp_simps]:
  "wp (catch p h) Q K =
     wp p (\<lambda>o' K'. case o' of Inl e \<Rightarrow> if e = Diverges then Q (Inl e) K' else wp (h e) Q K'
       | Inr a \<Rightarrow> Q (Inr a) K') K"
  by (induction p arbitrary: K) auto

lemma wp_mono: "wp p Q K \<Longrightarrow> (\<And>o' K'. Q o' K' \<Longrightarrow> R o' K') \<Longrightarrow> wp p R K"
  by (induction p arbitrary: K) auto

lemma wp_conj: "wp p Q K \<Longrightarrow> wp p R K \<Longrightarrow> wp p (\<lambda>o' K'. Q o' K' \<and> R o' K') K"
  by (induction p arbitrary: K) auto

lemma wp_try_exc [wp_simps]:
  "wp (try_exc p h) Q K =
     wp p (\<lambda>o' K'. case o' of
        Inl e \<Rightarrow> (case e of CancelledError m \<Rightarrow> Q (Inl e) K' | Diverges \<Rightarrow> Q (Inl e) K'
           | _ \<Rightarrow> wp (h e) Q K')
      | Inr a \<Rightarrow> Q (Inr a) K') K"
proof -
  have "(\<lambda>o' K'. case o' of Inl e \<Rightarrow> if e = Diverges then Q (Inl e) K'
            else wp (case e of CancelledError m \<Rightarrow> Raise e | _ \<Rightarrow> h e) Q K'
          | Inr a \<Rightarrow> Q (Inr a) K')
      = (\<lambda>o' K'. case o' of Inl e \<Rightarrow> (case e of CancelledError m \<Rightarrow> Q (Inl e) K' | Diverges \<Rightarrow> Q (Inl e) K'
            | _ \<Rightarrow> wp (h e) Q K')
          | Inr a \<Rightarrow> Q (Inr a) K')"
    by (auto simp: fun_eq_iff split: sum.splits exn.splits)
  then show ?thesis by (simp add: try_exc_def wp_catch)
qed

lemma wp_finally_do [wp_simps]:
  "wp (finally_do p q) Q K =
     wp p (\<lambda>o' K'. if o' = Inl Diverges then Q o' K'
       else wp q (\<lambda>u K''. case u of Inl e \<Rightarrow> Q (Inl e) K'' | Inr _ \<Rightarrow> Q o' K'') K') K"
proof (induction p arbitrary: K)
  case (Do c k)
  then show ?case by (simp add: finally_do_def)
qed (simp_all add: finally_do_def wp_bindp cong: sum.case_cong)

lemma wp_call [wp_simps]:
  "wp (call c f) Q K = (\<forall>r. reply_ok c K r \<longrightarrow>
     (case r of RFail e \<Rightarrow> Q (Inl (raised e)) (apply_cmd c K) | _ \<Rightarrow> Q (Inr (f r)) (apply_cmd c K)))"
proof -
  have "wp (case r of RFail e \<Rightarrow> Raise (raised e) | _ \<Rightarrow> Ret (f r)) Q K' =
     (case r of RFail e \<Rightarrow> Q (Inl (raised e)) K' | _ \<Rightarrow> Q (Inr (f r)) K')" for r K'
    by (cases r) auto
  then show ?thesis by (simp add: call_def)
qed

text \<open>Commands that always have a reply, and never a failing one.\<close>

fun plain_write :: "cmd \<Rightarrow> bool" where
  "plain_write (Set k v ttl nx) = True"
| "plain_write (Del k) = True"
| "plain_write (Expire k n) = True"
| "plain_write (HSet k f v) = True"
| "plain_write (HDel k f) = True"
| "plain_write (SAdd k m) = True"
| "plain_write (SRem k m) = True"
| "plain_write (ZAdd k m sc) = True"
| "plain_write (ZRem k m) = True"
| "plain_write (XAdd k v) = True"
| "plain_write (RPush k v) = True"
| "plain_write (XAck st g i) = True"
| "plain_write (Eval k l) = True"
| "plain_write (Pipe cs) = True"
| "plain_write _ = False"

lemma all_not_fail: "(\<forall>r. (\<forall>e. r \<noteq> RFail e) \<longrightarrow> P) = P"
  by (metis reply.distinct(1))

lemma wp_exec_cmd [wp_simps]: "plain_write c \<Longrightarrow> wp (exec_cmd c) Q K = Q (Inr ()) (apply_cmd c K)"
proof -
  assume "plain_write c"
  then have ex: "\<exists>r. reply_ok c K r" and nf: "reply_ok c K r \<Longrightarrow> r \<noteq> RFail e" for r e
    by (cases c; force)+
  have "(case r of RFail e \<Rightarrow> Q (Inl (raised e)) (apply_cmd c K) | _ \<Rightarrow> Q (Inr ()) (apply_cmd c K)) =
      Q (Inr ()) (apply_cmd c K)" if "reply_ok c K r" for r
    using nf [OF that] by (cases r) auto
  then show ?thesis
    using ex by (auto simp: exec_cmd_def wp_call)
qed

lemma wp_get [wp_simps]: "wp (get k) Q K = Q (Inr (map_option fst (kv K k))) K"
  by (simp add: get_def wp_call)

lemma wp_simple_reads [wp_simps]:
  "wp (call (HGet k f) g) Q K = Q (Inr (g (RText (hs K k f)))) K"
  "wp (call (Exists k) g) Q K = Q (Inr (g (RBool (present K k)))) K"
  "wp (call (SIsMember k m) g) Q K = Q (Inr (g (RBool (m \<in> ss K k)))) K"
  "wp (call (Set k v ttl nx) g) Q K =
     Q (Inr (g (RBool (\<not> (nx \<and> kv K k \<noteq> None))))) (apply_cmd (Set k v ttl nx) K)"
  "wp (call (ZRem k m) g) Q K =
     Q (Inr (g (RInt (if zs K k m = None then 0 else 1)))) (apply_cmd (ZRem k m) K)"
  "wp (call (Eval k l) g) Q K =
     Q (Inr (g (RInt (fst (run_lua l (kv K k)))))) (apply_cmd (Eval k l) K)"
  "wp now_ms R K = (\<forall>n. R (Inr n) K)"
  "wp (call (SMembers k) r_members) T K = (\<forall>l. distinct l \<and> set l = ss K k \<longrightarrow> T (Inr l) K)"
  "wp (call (HGetAll k) r_pairs) U K =
     (\<forall>l. distinct (map fst l) \<and> map_of l = hs K k \<longrightarrow> U (Inr l) K)"
  by (auto simp: wp_call now_ms_def)

lemma wp_uuid [wp_simps]: "wp uuid_hex Q K = (\<forall>s. s \<noteq> [] \<longrightarrow> Q (Inr s) K)"
  by (auto simp: uuid_hex_def wp_call)

lemma wp_lift_res: "wp (lift_res r) Q K = Q r K"
  by (simp add: lift_res_def split: sum.splits)

lemma wp_for_each:
  assumes "\<And>x K Q. x \<in> set l \<Longrightarrow> wp (f x) Q K = Q (Inr ()) (g x K)"
  shows "wp (for_each f l) Q K = Q (Inr ()) (fold g l K)"
  using assms by (induction l arbitrary: K) (auto simp: wp_bindp)

text \<open>A program that never waits for the server and never fails can be replaced by its effect.\<close>

lemma wp_for_each_cmd [wp_simps]:
  assumes "\<And>x. plain_write (c x)"
  shows "wp (for_each (\<lambda>x. exec_cmd (c x)) l) Q K = Q (Inr ()) (fold (\<lambda>x. apply_cmd (c x)) l K)"
  by (rule wp_for_each) (simp add: wp_exec_cmd assms)

lemma wp_true [simp]: "wp p (\<lambda>_ _. True) K"
  by (induction p arbitrary: K) auto

text \<open>A relation to the first data that every allowed command keeps holds at the end.\<close>

lemma wp_only:
  assumes "only P p" and "\<And>c K'. P c \<Longrightarrow> R K K' \<Longrightarrow> R K (apply_cmd c K')" and "R K K"
  shows "wp p (\<lambda>o' K'. R K K') K"
proof -
  have "wp p (\<lambda>o' K'. R K K') K1" if "R K K1" "only P p" for K1
    using that by (induction p arbitrary: K1) (auto intro: assms(2))
  then show ?thesis using assms by blast
qed

text \<open>Commands that write no stream, and commands that take no member out of a sorted set.\<close>

definition quiet :: "cmd \<Rightarrow> bool" where
  "quiet c = (\<forall>K. strm (apply_cmd c K) = strm K)"

lemma quiet_simps [simp]:
  "quiet (Get k)" "quiet (Set k v ttl nx)" "quiet (Exists k)" "quiet (Expire k n)" "quiet (HGet k f)"
  "quiet (HSet k f v)" "quiet (HDel k f)" "quiet (HGetAll k)" "quiet (HMGet k fs)" "quiet (SAdd k m)"
  "quiet (SRem k m)" "quiet (SMembers k)" "quiet (SIsMember k m)" "quiet (ZAdd k m n)" "quiet (ZRem k m)"
  "quiet Now" "quiet Monotonic" "quiet Uuid"
  by (auto simp: quiet_def)

lemma quiet_Pipe: "\<forall>c \<in> set cs. quiet c \<Longrightarrow> quiet (Pipe cs)"
proof (induction cs)
  case (Cons c cs)
  then show ?case by (simp add: quiet_def)
qed (simp add: quiet_def)

lemma quiet_Pipe_Cons [simp]: "quiet (Pipe [])" "quiet c \<Longrightarrow> quiet (Pipe cs) \<Longrightarrow> quiet (Pipe (c # cs))"
  by (auto simp: quiet_def)

definition spares :: "string \<Rightarrow> string \<Rightarrow> cmd \<Rightarrow> bool" where
  "spares k m c = (\<forall>K. zs K k m \<noteq> None \<longrightarrow> zs (apply_cmd c K) k m \<noteq> None)"

lemma spares_simps [simp]:
  "spares k m (Get x)" "spares k m (Set x v ttl nx)" "spares k m (Expire x n)" "spares k m (HGet x f)"
  "spares k m (HSet x f v)" "spares k m (ZAdd x y n)" "spares k m (XAdd x v)" "spares k m (RPush x v)"
  "spares k m Now" "spares k m Monotonic" "spares k m Uuid" "spares k m (Pipe [])"
  by (auto simp: spares_def)

lemma spares_Del [simp]: "spares k m (Del x) = (x \<noteq> k)"
proof
  assume a: "spares k m (Del x)"
  have "zs ((undefined :: kspace)\<lparr>zs := \<lambda>_ _. Some 0\<rparr>) k m \<noteq> None" by simp
  then show "x \<noteq> k" using a unfolding spares_def by fastforce
qed (simp add: spares_def)

lemma spares_Pipe: "\<forall>c \<in> set cs. spares k m c \<Longrightarrow> spares k m (Pipe cs)"
proof (induction cs)
  case (Cons c cs)
  then show ?case by (simp add: spares_def)
qed simp

context redis begin

lemma wp_run:
  assumes "wp p Q (view s)"
  shows "case run exec p s of (o', t) \<Rightarrow> Q o' (view t)"
  using assms
proof (induction p arbitrary: s)
  case (Do c k)
  then have "wp (k (fst (exec c s))) Q (view (snd (exec c s)))"
    using exec_reply [of c s] exec_view [of c s] by simp
  with Do show ?case by simp
qed simp_all

end

section \<open>Coroutines interleaved on one server\<close>

text \<open>
  A pool of coroutines over one server: each step is one command of one
  coroutine, or the environment's (another process, an expiry).
\<close>

inductive pool_step ::
  "(cmd \<Rightarrow> 's \<Rightarrow> reply \<times> 's) \<Rightarrow> ('s \<Rightarrow> 's \<Rightarrow> bool) \<Rightarrow> 's \<times> (nat \<Rightarrow> 'a prog) \<Rightarrow> 's \<times> (nat \<Rightarrow> 'a prog) \<Rightarrow> bool"
  for X env where
  pool_do: "ps i = Do c k \<Longrightarrow>
     pool_step X env (s, ps) (snd (X c s), ps(i := k (fst (X c s))))"
| pool_env: "env s t \<Longrightarrow> pool_step X env (s, ps) (t, ps)"

inductive pool_reach ::
  "(cmd \<Rightarrow> 's \<Rightarrow> reply \<times> 's) \<Rightarrow> ('s \<Rightarrow> 's \<Rightarrow> bool) \<Rightarrow> 's \<times> (nat \<Rightarrow> 'a prog) \<Rightarrow> 's \<times> (nat \<Rightarrow> 'a prog) \<Rightarrow> bool"
  for X env P0 where
  pool_start: "pool_reach X env P0 P0"
| pool_more: "pool_reach X env P0 P \<Longrightarrow> pool_step X env P Q \<Longrightarrow> pool_reach X env P0 Q"

inductive_cases pool_stepE: "pool_step X env P Q"

lemma pool_invariant:
  assumes "pool_reach X env P0 P" and "I P0"
    and "\<And>P Q. I P \<Longrightarrow> pool_step X env P Q \<Longrightarrow> I Q"
  shows "I P"
  using assms(1) by induction (auto intro: assms)

text \<open>An invariant of the server that every command the coroutines may issue preserves.\<close>

lemma pool_only:
  assumes "pool_reach X env (s0, ps0) (s, ps)" and "\<And>i. only P (ps0 i)"
    and "\<And>c a. P c \<Longrightarrow> I a \<Longrightarrow> I (snd (X c a))"
    and "\<And>a b. env a b \<Longrightarrow> I a \<Longrightarrow> I b" and "I s0"
  shows "I s"
proof -
  have "I (fst (s, ps)) \<and> (\<forall>i. only P (snd (s, ps) i))"
    using assms(1)
  proof (rule pool_invariant)
    show "I (fst (s0, ps0)) \<and> (\<forall>i. only P (snd (s0, ps0) i))"
      using assms by simp
  next
    fix A B
    assume A: "I (fst A) \<and> (\<forall>i. only P (snd A i))" and "pool_step X env A B"
    from this(2) show "I (fst B) \<and> (\<forall>i. only P (snd B i))"
    proof (cases rule: pool_step.cases)
      case (pool_do ps i c k a)
      then have "only P (Do c k)" using A by (metis snd_conv)
      then show ?thesis using A assms(3) pool_do by auto
    qed (use A assms(4) in auto)
  qed
  then show ?thesis by simp
qed

text \<open>A given schedule: which coroutine takes the next step.\<close>

fun pool_run ::
  "(cmd \<Rightarrow> 's \<Rightarrow> reply \<times> 's) \<Rightarrow> nat list \<Rightarrow> 's \<times> (nat \<Rightarrow> 'a prog) \<Rightarrow> 's \<times> (nat \<Rightarrow> 'a prog)" where
  "pool_run X [] P = P"
| "pool_run X (i # is) (s, ps) = (case ps i of
     Do c k \<Rightarrow> pool_run X is (snd (X c s), ps(i := k (fst (X c s)))) | _ \<Rightarrow> pool_run X is (s, ps))"

lemma pool_reach_trans:
  "pool_reach X env Q R \<Longrightarrow> pool_reach X env P Q \<Longrightarrow> pool_reach X env P R"
  by (induction rule: pool_reach.induct) (auto intro: pool_more)

lemma pool_run_reach: "pool_reach X env P (pool_run X is P)"
proof (induction X "is" P rule: pool_run.induct)
  case (2 X i "is" s ps)
  show ?case
  proof (cases "ps i")
    case (Do c k)
    then have "pool_reach X env (s, ps) (snd (X c s), ps(i := k (fst (X c s))))"
      by (intro pool_more [OF pool_start] pool_do)
    moreover have "pool_reach X env (snd (X c s), ps(i := k (fst (X c s))))
        (pool_run X is (snd (X c s), ps(i := k (fst (X c s)))))"
      using 2 Do by simp
    ultimately show ?thesis using pool_reach_trans Do by fastforce
  qed (use 2 in auto)
qed (simp add: pool_start)

section \<open>A reference server\<close>

record rserver =
  l_kv :: "(string \<times> entry) list"
  l_hs :: "(string \<times> (string \<times> rtext) list) list"
  l_ss :: "(string \<times> string list) list"
  l_zs :: "(string \<times> (string \<times> int) list) list"
  l_xs :: "(string \<times> rtext list) list"
  l_acked :: "(string \<times> string \<times> string) list"
  l_clock :: int
  l_seed :: nat

definition look :: "(string \<times> 'b list) list \<Rightarrow> string \<Rightarrow> 'b list" where
  "look l k = (case map_of l k of None \<Rightarrow> [] | Some v \<Rightarrow> v)"

definition rview :: "rserver \<Rightarrow> kspace" where
  "rview s = \<lparr>kv = map_of (l_kv s), hs = (\<lambda>k. map_of (look (l_hs s) k)),
     ss = (\<lambda>k. set (look (l_ss s) k)), zs = (\<lambda>k. map_of (look (l_zs s) k)),
     strm = look (l_xs s), acked = set (l_acked s)\<rparr>"

definition in_scores :: "int \<Rightarrow> int \<Rightarrow> string \<times> int \<Rightarrow> bool" where
  "in_scores lo hi p = (lo \<le> snd p \<and> snd p \<le> hi)"

fun rapply :: "cmd \<Rightarrow> rserver \<Rightarrow> rserver" where
  "rapply (Set k v ttl nx) s =
     (if nx \<and> map_of (l_kv s) k \<noteq> None then s else s\<lparr>l_kv := AList.update k (v, ttl) (l_kv s)\<rparr>)"
| "rapply (Del k) s = s\<lparr>l_kv := AList.delete k (l_kv s), l_hs := AList.delete k (l_hs s),
     l_ss := AList.delete k (l_ss s), l_zs := AList.delete k (l_zs s), l_xs := AList.delete k (l_xs s)\<rparr>"
| "rapply (Expire k n) s = (case map_of (l_kv s) k of None \<Rightarrow> s
     | Some (v, _) \<Rightarrow> s\<lparr>l_kv := AList.update k (v, Some n) (l_kv s)\<rparr>)"
| "rapply (HSet k f v) s = s\<lparr>l_hs := AList.update k (AList.update f v (look (l_hs s) k)) (l_hs s)\<rparr>"
| "rapply (HDel k f) s = s\<lparr>l_hs := AList.update k (AList.delete f (look (l_hs s) k)) (l_hs s)\<rparr>"
| "rapply (HIncrBy k f n) s = (case hash_int (map_of (look (l_hs s) k) f) of None \<Rightarrow> s
     | Some m \<Rightarrow> s\<lparr>l_hs := AList.update k
         (AList.update f (Doc (JInt (m + n))) (look (l_hs s) k)) (l_hs s)\<rparr>)"
| "rapply (SAdd k m) s = s\<lparr>l_ss := AList.update k (List.insert m (look (l_ss s) k)) (l_ss s)\<rparr>"
| "rapply (SRem k m) s = s\<lparr>l_ss := AList.update k (removeAll m (look (l_ss s) k)) (l_ss s)\<rparr>"
| "rapply (ZAdd k m sc) s = s\<lparr>l_zs := AList.update k (AList.update m sc (look (l_zs s) k)) (l_zs s)\<rparr>"
| "rapply (ZRem k m) s = s\<lparr>l_zs := AList.update k (AList.delete m (look (l_zs s) k)) (l_zs s)\<rparr>"
| "rapply (ZRemRangeByScore k lo hi) s = s\<lparr>l_zs := AList.update k
     (filter (\<lambda>p. \<not> in_scores lo hi p) (AList.clearjunk (look (l_zs s) k))) (l_zs s)\<rparr>"
| "rapply (XAdd k v) s = s\<lparr>l_xs := AList.update k (look (l_xs s) k @ [v]) (l_xs s)\<rparr>"
| "rapply (RPush k v) s = s\<lparr>l_xs := AList.update k (look (l_xs s) k @ [v]) (l_xs s)\<rparr>"
| "rapply (XAck st g i) s = s\<lparr>l_acked := (st, g, i) # l_acked s\<rparr>"
| "rapply (Eval k l) s = (case snd (run_lua l (map_of (l_kv s) k)) of
       None \<Rightarrow> s\<lparr>l_kv := AList.delete k (l_kv s)\<rparr>
     | Some e \<Rightarrow> s\<lparr>l_kv := AList.update k e (l_kv s)\<rparr>)"
| "rapply (Pipe cs) s = fold rapply cs s"
| "rapply Uuid s = s\<lparr>l_seed := Suc (l_seed s)\<rparr>"
| "rapply c s = s"

fun rreply :: "cmd \<Rightarrow> rserver \<Rightarrow> reply" where
  "rreply (Get k) s = RText (map_option fst (map_of (l_kv s) k))"
| "rreply (Set k v ttl nx) s = RBool (\<not> (nx \<and> map_of (l_kv s) k \<noteq> None))"
| "rreply (Exists k) s = RBool (map_of (l_kv s) k \<noteq> None \<or> look (l_hs s) k \<noteq> [] \<or>
     look (l_ss s) k \<noteq> [] \<or> look (l_zs s) k \<noteq> [] \<or> look (l_xs s) k \<noteq> [])"
| "rreply (HGet k f) s = RText (map_of (look (l_hs s) k) f)"
| "rreply (HMGet k fs) s = RTexts (map (map_of (look (l_hs s) k)) fs)"
| "rreply (HGetAll k) s = RPairs (AList.clearjunk (look (l_hs s) k))"
| "rreply (HIncrBy k f n) s = (case hash_int (map_of (look (l_hs s) k) f) of
      None \<Rightarrow> RFail (RedisError ''hash value is not an integer'') | Some m \<Rightarrow> RInt (m + n))"
| "rreply (SMembers k) s = RMembers (remdups (look (l_ss s) k))"
| "rreply (SIsMember k m) s = RBool (m \<in> set (look (l_ss s) k))"
| "rreply (ZRem k m) s = RInt (if map_of (look (l_zs s) k) m = None then 0 else 1)"
| "rreply (ZRangeByScore k lo hi n) s =
     RScored (take n (sort_key snd (filter (in_scores lo hi) (AList.clearjunk (look (l_zs s) k)))))"
| "rreply (ZRemRangeByScore k lo hi) s =
     RInt (int (length (filter (in_scores lo hi) (AList.clearjunk (look (l_zs s) k)))))"
| "rreply (ZRevRange k n) s =
     RMembers (map fst (take n (sort_key (\<lambda>p. - snd p) (AList.clearjunk (look (l_zs s) k)))))"
| "rreply (XRead k i n) s = REntries
     (if i = ''0-0'' then let l = map Some (take n (look (l_xs s) k)) in zip (map show_nat [0..<length l]) l else [])"
| "rreply (XAdd k v) s = RText (Some (Txt ''1-0''))"
| "rreply (Eval k l) s = RInt (fst (run_lua l (map_of (l_kv s) k)))"
| "rreply Now s = RInt (l_clock s)"
| "rreply Monotonic s = RInt (l_clock s)"
| "rreply Uuid s = RText (Some (Txt (CHR ''u'' # show_nat (l_seed s))))"
| "rreply c s = ROk"

definition ref_exec :: "cmd \<Rightarrow> rserver \<Rightarrow> reply \<times> rserver" where
  "ref_exec c s = (rreply c s, rapply c s)"

definition empty_server :: rserver where
  "empty_server = \<lparr>l_kv = [], l_hs = [], l_ss = [], l_zs = [], l_xs = [], l_acked = [],
     l_clock = 0, l_seed = 0\<rparr>"

lemma look_update [simp]: "look (AList.update k v l) k' = (if k' = k then v else look l k')"
  by (simp add: look_def update_conv')

lemma look_delete [simp]: "look (AList.delete k l) k' = (if k' = k then [] else look l k')"
  by (simp add: look_def delete_conv')

lemma map_of_nil_iff: "map_of l = (\<lambda>_. None) \<longleftrightarrow> l = []"
  by (metis map_of.simps(1) map_of_eq_empty_iff)

lemma map_of_filter_scores:
  "distinct (map fst l) \<Longrightarrow>
     map_of (filter P l) m = (case map_of l m of None \<Rightarrow> None | Some v \<Rightarrow> if P (m, v) then Some v else None)"
  by (induction l) (auto split: option.splits simp: map_of_eq_None_iff dest: map_of_SomeD)

lemma rview_rapply: "rview (rapply c s) = apply_cmd c (rview s)"
proof (induction c arbitrary: s rule: cmd.induct)
  case (Pipe cs)
  have "rview (fold rapply cs s) = fold apply_cmd cs (rview s)"
    using Pipe by (induction cs arbitrary: s) auto
  then show ?case by simp
qed (auto simp: rview_def fun_eq_iff update_conv' delete_conv' in_range_def in_scores_def
       map_of_filter_scores distinct_clearjunk map_of_clearjunk Let_def
     split: option.splits)

lemma sorted_filter_scores:
  "(m, sc) \<in> set (sort_key snd (filter (in_scores lo hi) (AList.clearjunk l))) \<longleftrightarrow>
     map_of l m = Some sc \<and> lo \<le> sc \<and> sc \<le> hi"
proof -
  have "(m, sc) \<in> set (AList.clearjunk l) \<longleftrightarrow> map_of l m = Some sc"
    by (metis distinct_clearjunk map_of_clearjunk map_of_eq_Some_iff)
  then show ?thesis by (auto simp: in_scores_def)
qed

lemma distinct_fst_sort_filter:
  "distinct (map fst l) \<Longrightarrow> distinct (map fst (sort_key f (filter P l)))"
proof -
  assume d: "distinct (map fst l)"
  have "distinct (map fst (filter P l))" using d by (rule distinct_map_filter)
  then have "distinct (filter P l)" and "inj_on fst (set (filter P l))"
    by (auto simp: distinct_map)
  then show ?thesis by (simp add: distinct_map)
qed

lemma card_in_scores:
  "card {m. in_range (rview s) k lo hi m} =
     length (filter (in_scores lo hi) (AList.clearjunk (look (l_zs s) k)))"
proof -
  let ?l = "filter (in_scores lo hi) (AList.clearjunk (look (l_zs s) k))"
  have "{m. in_range (rview s) k lo hi m} = fst ` set ?l"
  proof (rule set_eqI)
    fix m
    have "m \<in> fst ` set ?l \<longleftrightarrow> (\<exists>sc. (m, sc) \<in> set (sort_key snd ?l))" by force
    also have "\<dots> \<longleftrightarrow> m \<in> {m. in_range (rview s) k lo hi m}"
      by (auto simp only: sorted_filter_scores) (auto simp: in_range_def rview_def split: option.splits)
    finally show "m \<in> {m. in_range (rview s) k lo hi m} \<longleftrightarrow> m \<in> fst ` set ?l" by simp
  qed
  moreover have "distinct (map fst ?l)"
    by (intro distinct_map_filter distinct_clearjunk)
  ultimately show ?thesis by (metis distinct_card length_map set_map)
qed

lemma map_of_sort_key: "distinct (map fst l) \<Longrightarrow> map_of (sort_key f l) = map_of l"
proof -
  assume d: "distinct (map fst l)"
  have "distinct (map fst (sort_key f l))"
    using distinct_fst_sort_filter [OF d, of f "\<lambda>_. True"] by simp
  with d show ?thesis by (intro map_of_inject_set [THEN iffD2]) auto
qed

lemma reply_ok_ref: "reply_ok c (rview s) (rreply c s)"
proof (cases c)
  case (ZRangeByScore k lo hi n)
  let ?l = "sort_key snd (filter (in_scores lo hi) (AList.clearjunk (look (l_zs s) k)))"
  have "\<forall>m sc. (m, sc) \<in> set ?l \<longleftrightarrow> zs (rview s) k m = Some sc \<and> lo \<le> sc \<and> sc \<le> hi"
    by (simp only: sorted_filter_scores) (simp add: rview_def)
  moreover have "distinct (map fst ?l)"
    by (intro distinct_fst_sort_filter distinct_clearjunk)
  ultimately show ?thesis
    unfolding ZRangeByScore reply_ok.simps rreply.simps
    by (intro exI [of _ ?l] conjI refl sorted_sort_key)
next
  case (ZRevRange k n)
  let ?l = "sort_key (\<lambda>p. - snd p) (AList.clearjunk (look (l_zs s) k))"
  have "distinct (map fst ?l)"
    using distinct_fst_sort_filter [OF distinct_clearjunk, of "\<lambda>p. - snd p" "\<lambda>_. True"] by simp
  moreover have "map_of ?l = zs (rview s) k"
    by (simp only: map_of_sort_key distinct_clearjunk map_of_clearjunk) (simp add: rview_def)
  ultimately show ?thesis
    unfolding ZRevRange reply_ok.simps rreply.simps
    by (intro exI [of _ ?l] conjI refl sorted_sort_key)
next
  case (ZRemRangeByScore k lo hi)
  then show ?thesis by (simp add: card_in_scores)
next
  case (XRead k i n)
  let ?l = "map Some (take n (look (l_xs s) k))"
  let ?z = "zip (map show_nat [0..<length ?l]) ?l"
  have d: "distinct (map show_nat [0..<m])" for m
    by (auto simp: distinct_map intro!: inj_onI show_nat_inj)
  have f: "map fst ?z = map show_nat [0..<length ?l]" and z: "map snd ?z = ?l"
    by (simp_all only: map_fst_zip map_snd_zip length_map length_upt diff_zero)
  have l: "length ?z \<le> n" by simp
  have b: "set ?l \<subseteq> Some ` set (look (l_xs s) k)"
    using set_take_subset [of n "look (l_xs s) k"] by auto
  have "rreply c s = REntries (if i = ''0-0'' then ?z else [])" by (simp only: XRead rreply.simps Let_def)
  then show ?thesis
    unfolding XRead reply_ok.simps using d f z l b
    by (intro exI [of _ "if i = ''0-0'' then ?z else []"]) (simp add: rview_def del: map_map set_map zip_map1 zip_map2 length_map)
next
  case (HGetAll k)
  then show ?thesis by (simp add: rview_def distinct_clearjunk map_of_clearjunk)
next
  case (Exists k)
  then show ?thesis by (simp add: rview_def present_def map_of_nil_iff)
next
  case (HIncrBy k f n)
  then show ?thesis by (simp add: rview_def split: option.splits)
qed (simp_all add: rview_def)

interpretation ref: redis ref_exec rview
  by unfold_locales (simp_all add: ref_exec_def rview_rapply reply_ok_ref)

end
