(* ===== verification/Redis_Keys.thy ===== *)
theory Redis_Keys
  imports Server
begin

text \<open>
  \<open>common/constants.py\<close>: the names of every server key (class \<open>RedisKeys\<close>), in
  both key schemas.  The schema is read from the environment by
  \<open>get_key_schema_version\<close>; every factory takes it as its argument \<open>V\<close>.

  \<open>rkey\<close> is the abstract key space (one constructor per family) and \<open>render\<close>
  its spelling; \<open>render_inj\<close> says that no two keys of the modelled families
  collide, which is what lets the data of each family be reasoned about alone.
  \<open>hash_tag\<close> is the part of a key that a cluster hashes to choose the slot.
\<close>

section \<open>The key schema\<close>

datatype schema = V1 | V2

definition get_key_schema_version :: "(string \<Rightarrow> string option) \<Rightarrow> exn + schema" where
  "get_key_schema_version env =
     (let version = (case env ''REDIS_KEY_SCHEMA_VERSION'' of
            Some v \<Rightarrow> v
          | None \<Rightarrow> (case env ''REDIS_CLUSTER_HOST'' of
                None \<Rightarrow> ''v1''
              | Some h \<Rightarrow> if h \<noteq> [] then ''v2'' else ''v1''))
      in if version = ''v1'' then Inr V1
         else if version = ''v2'' then Inr V2
         else Inl (ValueError (''Invalid REDIS_KEY_SCHEMA_VERSION: '' @ version)))"

definition versioned :: "schema \<Rightarrow> string \<Rightarrow> string \<Rightarrow> string" where
  "versioned V v1_key v2_suffix =
     (case V of V2 \<Rightarrow> ''byai_gateway:v2:'' @ v2_suffix | V1 \<Rightarrow> v1_key)"

section \<open>The key factories\<close>

definition ctrl_stream :: "schema \<Rightarrow> string \<Rightarrow> string" where
  "ctrl_stream V agent_type = versioned V
     (''byai_gateway:ctrl:agent_type:'' @ agent_type)
     (''ctrl:agent_type:'' @ agent_type)"

definition worker_ctrl_stream :: "schema \<Rightarrow> string \<Rightarrow> string" where
  "worker_ctrl_stream V worker_id = versioned V
     (''byai_gateway:ctrl:worker:'' @ worker_id)
     (''ctrl:worker:{'' @ worker_id @ ''}'')"

definition plugin_reload_ack_stream :: "schema \<Rightarrow> string \<Rightarrow> string" where
  "plugin_reload_ack_stream V reload_id = versioned V
     (''byai_gateway:plugin_reload:'' @ reload_id @ '':ack'')
     (''plugin_reload:'' @ reload_id @ '':ack'')"

definition control_plane_wakeup_stream :: "schema \<Rightarrow> string" where
  "control_plane_wakeup_stream V = versioned V
     (''byai_gateway:control_plane:mgmt:wakeup'')
     (''control_plane:mgmt:wakeup'')"

definition control_plane_wakeup_result_stream :: "schema \<Rightarrow> string \<Rightarrow> string" where
  "control_plane_wakeup_result_stream V execution_id = versioned V
     (''byai_gateway:control_plane:mgmt:wakeup:result:'' @ execution_id)
     (''control_plane:mgmt:wakeup:result:'' @ execution_id)"

definition control_plane_delivery_pending_stream :: "schema \<Rightarrow> string" where
  "control_plane_delivery_pending_stream V = versioned V
     (''byai_gateway:control_plane:mgmt:delivery:pending'')
     (''control_plane:mgmt:delivery:pending'')"

definition control_plane_deadletter_stream :: "schema \<Rightarrow> string" where
  "control_plane_deadletter_stream V = versioned V
     (''byai_gateway:control_plane:mgmt:deadletter'')
     (''control_plane:mgmt:deadletter'')"

definition control_plane_agent_availability :: "schema \<Rightarrow> string \<Rightarrow> string" where
  "control_plane_agent_availability V agent_type = versioned V
     (''byai_gateway:control_plane:availability:agent_type:'' @ agent_type)
     (''control_plane:availability:agent_type:'' @ agent_type)"

definition control_plane_agent_circuit :: "schema \<Rightarrow> string \<Rightarrow> string" where
  "control_plane_agent_circuit V agent_type = versioned V
     (''byai_gateway:control_plane:circuit:agent_type:'' @ agent_type)
     (''control_plane:circuit:agent_type:'' @ agent_type)"

definition control_plane_agent_fallback :: "schema \<Rightarrow> string \<Rightarrow> string" where
  "control_plane_agent_fallback V agent_type = versioned V
     (''byai_gateway:control_plane:fallback:agent_type:'' @ agent_type)
     (''control_plane:fallback:agent_type:'' @ agent_type)"

definition control_plane_user_quota :: "schema \<Rightarrow> string \<Rightarrow> string" where
  "control_plane_user_quota V user_code = versioned V
     (''byai_gateway:control_plane:quota:user:'' @ user_code)
     (''control_plane:quota:user:'' @ user_code)"

definition control_plane_wakeup_dedupe :: "schema \<Rightarrow> string \<Rightarrow> string \<Rightarrow> string \<Rightarrow> string" where
  "control_plane_wakeup_dedupe V agent_type user_code region = versioned V
     (''byai_gateway:control_plane:wakeup:dedupe:'' @ agent_type @ '':'' @ user_code @ '':'' @ region)
     (''control_plane:wakeup:dedupe:'' @ agent_type @ '':'' @ user_code @ '':'' @ region)"

definition agent_configs_snapshot :: "schema \<Rightarrow> string \<Rightarrow> string" where
  "agent_configs_snapshot V snapshot_key = versioned V
     (''byai_gateway:agent_configs_snapshot:'' @ snapshot_key)
     (''agent_configs_snapshot:'' @ snapshot_key)"

definition session_data_stream :: "schema \<Rightarrow> string \<Rightarrow> string" where
  "session_data_stream V session_id = versioned V
     (''byai_gateway:session:'' @ session_id @ '':data_stream'')
     (''session:{'' @ session_id @ ''}:data_stream'')"

definition session_data_checkpoint :: "schema \<Rightarrow> string \<Rightarrow> string \<Rightarrow> string" where
  "session_data_checkpoint V session_id consumer_name = versioned V
     (''byai_gateway:session:'' @ session_id @ '':consumer:'' @ consumer_name @ '':checkpoint'')
     (''session:{'' @ session_id @ ''}:consumer:'' @ consumer_name @ '':checkpoint'')"

definition trace_meta :: "schema \<Rightarrow> string \<Rightarrow> string" where
  "trace_meta V trace_id = versioned V
     (''by_framework:trace:'' @ trace_id)
     (''trace:{'' @ trace_id @ ''}'')"

definition trace_spans :: "schema \<Rightarrow> string \<Rightarrow> string" where
  "trace_spans V trace_id = versioned V
     (''by_framework:trace:spans:'' @ trace_id)
     (''trace:spans:{'' @ trace_id @ ''}'')"

definition trace_index_session :: "schema \<Rightarrow> string \<Rightarrow> string" where
  "trace_index_session V session_id = versioned V
     (''by_framework:trace:idx:session:'' @ session_id)
     (''trace:idx:session:'' @ session_id)"

definition trace_index_worker :: "schema \<Rightarrow> string \<Rightarrow> string" where
  "trace_index_worker V worker_id = versioned V
     (''by_framework:trace:idx:worker:'' @ worker_id)
     (''trace:idx:worker:'' @ worker_id)"

definition trace_index_agent :: "schema \<Rightarrow> string \<Rightarrow> string" where
  "trace_index_agent V agent_type = versioned V
     (''by_framework:trace:idx:agent:'' @ agent_type)
     (''trace:idx:agent:'' @ agent_type)"

definition task_group :: "schema \<Rightarrow> string \<Rightarrow> string" where
  "task_group V group_id = versioned V
     (''byai_gateway:task_group:'' @ group_id)
     (''task_group:{'' @ group_id @ ''}'')"

definition task_group_results :: "schema \<Rightarrow> string \<Rightarrow> string" where
  "task_group_results V group_id = versioned V
     (''byai_gateway:task_group:'' @ group_id @ '':results'')
     (''task_group:{'' @ group_id @ ''}:results'')"

definition wait_index :: "schema \<Rightarrow> int \<Rightarrow> string" where
  "wait_index V shard = versioned V
     (''byai_gateway:wait:index:'' @ show_int shard)
     (''wait:index:'' @ show_int shard)"

definition wait_sweep_lock :: "schema \<Rightarrow> int \<Rightarrow> string" where
  "wait_sweep_lock V shard = versioned V
     (''byai_gateway:wait:sweep_lock:'' @ show_int shard)
     (''wait:sweep_lock:'' @ show_int shard)"

definition wait_consumed :: "schema \<Rightarrow> string \<Rightarrow> string \<Rightarrow> string" where
  "wait_consumed V session_id member_digest = versioned V
     (''byai_gateway:wait:consumed:'' @ session_id @ '':'' @ member_digest)
     (''wait:consumed:{'' @ session_id @ ''}:'' @ member_digest)"

definition wait_renew_origin :: "schema \<Rightarrow> string \<Rightarrow> string \<Rightarrow> string" where
  "wait_renew_origin V session_id member_digest = versioned V
     (''byai_gateway:wait:renew_origin:'' @ session_id @ '':'' @ member_digest)
     (''wait:renew_origin:{'' @ session_id @ ''}:'' @ member_digest)"

definition harness_state :: "schema \<Rightarrow> string \<Rightarrow> string" where
  "harness_state V execution_id = versioned V
     (''byai_gateway:harness_state:'' @ execution_id)
     (''harness_state:{'' @ execution_id @ ''}'')"

definition known_workers :: "schema \<Rightarrow> string" where
  "known_workers V = versioned V
     (''byai_gateway:registry:workers'')
     (''registry:workers'')"

definition admin_workers :: "schema \<Rightarrow> string" where
  "admin_workers V = versioned V
     (''byai_gateway:registry:worker:admin_workers'')
     (''registry:worker:admin_workers'')"

definition worker_declared_agent_types :: "schema \<Rightarrow> string \<Rightarrow> string" where
  "worker_declared_agent_types V worker_id = versioned V
     (''byai_gateway:registry:worker:agent_types:'' @ worker_id)
     (''registry:worker:{'' @ worker_id @ ''}:agent_types'')"

definition agent_type_members :: "schema \<Rightarrow> string \<Rightarrow> string" where
  "agent_type_members V agent_type = versioned V
     (''byai_gateway:registry:agent_type:workers:'' @ agent_type)
     (''registry:agent_type:{'' @ agent_type @ ''}:workers'')"

definition worker_lock :: "schema \<Rightarrow> string \<Rightarrow> string" where
  "worker_lock V worker_id = versioned V
     (''byai_gateway:registry:worker:lock:'' @ worker_id)
     (''registry:worker:{'' @ worker_id @ ''}:lock'')"

definition worker_online_lease :: "schema \<Rightarrow> string \<Rightarrow> string" where
  "worker_online_lease V worker_id = versioned V
     (''byai_gateway:registry:worker:online:'' @ worker_id)
     (''registry:worker:{'' @ worker_id @ ''}:online'')"

definition worker_status :: "schema \<Rightarrow> string \<Rightarrow> string" where
  "worker_status V worker_id = versioned V
     (''byai_gateway:registry:worker:status:'' @ worker_id)
     (''registry:worker:{'' @ worker_id @ ''}:status'')"

definition worker_executions :: "schema \<Rightarrow> string \<Rightarrow> string" where
  "worker_executions V worker_id = versioned V
     (''byai_gateway:registry:worker:executions:'' @ worker_id)
     (''registry:worker:{'' @ worker_id @ ''}:executions'')"

definition worker_active_executions :: "schema \<Rightarrow> string \<Rightarrow> string" where
  "worker_active_executions V worker_id = versioned V
     (''byai_gateway:registry:worker:active_executions:'' @ worker_id)
     (''registry:worker:{'' @ worker_id @ ''}:active_executions'')"

definition worker_active_execution_index :: "schema \<Rightarrow> string \<Rightarrow> string" where
  "worker_active_execution_index V worker_id = versioned V
     (''byai_gateway:registry:worker:active_execution_index:'' @ worker_id)
     (''registry:worker:{'' @ worker_id @ ''}:active_execution_index'')"

definition worker_active_snapshots :: "schema \<Rightarrow> string \<Rightarrow> string" where
  "worker_active_snapshots V worker_id = versioned V
     (''byai_gateway:registry:worker:active_snapshots:'' @ worker_id)
     (''registry:worker:{'' @ worker_id @ ''}:active_snapshots'')"

definition worker_history_snapshots :: "schema \<Rightarrow> string \<Rightarrow> string" where
  "worker_history_snapshots V worker_id = versioned V
     (''byai_gateway:registry:worker:history_snapshots:'' @ worker_id)
     (''registry:worker:{'' @ worker_id @ ''}:history_snapshots'')"

definition worker_admin :: "schema \<Rightarrow> string \<Rightarrow> string" where
  "worker_admin V worker_id = versioned V
     (''byai_gateway:registry:worker:admin:'' @ worker_id)
     (''registry:worker:{'' @ worker_id @ ''}:admin'')"

definition agent_type_denied :: "schema \<Rightarrow> string \<Rightarrow> string" where
  "agent_type_denied V agent_type = versioned V
     (''byai_gateway:registry:agent_type:denied:'' @ agent_type)
     (''registry:agent_type:{'' @ agent_type @ ''}:denied'')"

definition session_registry :: "schema \<Rightarrow> string \<Rightarrow> string" where
  "session_registry V session_id = versioned V
     (''byai_gateway:session:'' @ session_id @ '':registry'')
     (''session:{'' @ session_id @ ''}:registry'')"

definition sd_active_instances :: "schema \<Rightarrow> string \<Rightarrow> string" where
  "sd_active_instances V service_name = versioned V
     (''byai_gateway:sd:active:'' @ service_name)
     (''sd:{'' @ service_name @ ''}:active'')"

definition sd_instance_details :: "schema \<Rightarrow> string \<Rightarrow> string" where
  "sd_instance_details V service_name = versioned V
     (''byai_gateway:sd:instances:'' @ service_name)
     (''sd:{'' @ service_name @ ''}:instances'')"

definition sd_services :: "schema \<Rightarrow> string" where
  "sd_services V = versioned V
     (''byai_gateway:sd:services'')
     (''sd:services'')"

definition control_plane_tenant_quota :: "schema \<Rightarrow> string \<Rightarrow> string" where
  "control_plane_tenant_quota V tenant_id = control_plane_user_quota V tenant_id"

definition worker_scan_pattern :: "schema \<Rightarrow> string \<Rightarrow> string \<Rightarrow> string" where
  "worker_scan_pattern V v1_prefix v2_field = (case V of
       V2 \<Rightarrow> ''byai_gateway:v2:registry:worker:{*}:'' @ v2_field
     | V1 \<Rightarrow> v1_prefix @ ''*'')"

definition starts_with :: "string \<Rightarrow> string \<Rightarrow> bool" where
  "starts_with p s = (take (length p) s = p)"

definition ends_with :: "string \<Rightarrow> string \<Rightarrow> bool" where
  "ends_with q s = (length q \<le> length s \<and> drop (length s - length q) s = q)"

text \<open>\<open>key[len(prefix) : -len(suffix)]\<close>, empty when the bounds cross.\<close>

definition slice_between :: "nat \<Rightarrow> nat \<Rightarrow> string \<Rightarrow> string" where
  "slice_between i j s = drop i (take (length s - j) s)"

definition worker_id_from_scanned_key :: "schema \<Rightarrow> string \<Rightarrow> string \<Rightarrow> string \<Rightarrow> string option" where
  "worker_id_from_scanned_key V key v1_prefix v2_field = (case V of
       V2 \<Rightarrow> (let prefix = ''byai_gateway:v2:registry:worker:{''; suffix = ''}:'' @ v2_field
              in if starts_with prefix key \<and> ends_with suffix key
                 then Some (slice_between (length prefix) (length suffix) key) else None)
     | V1 \<Rightarrow> if starts_with v1_prefix key then Some (drop (length v1_prefix) key) else None)"

definition worker_online_lease_scan_pattern :: "schema \<Rightarrow> string" where
  "worker_online_lease_scan_pattern V =
     worker_scan_pattern V ''byai_gateway:registry:worker:online:'' ''online''"

definition worker_id_from_online_lease_key :: "schema \<Rightarrow> string \<Rightarrow> string option" where
  "worker_id_from_online_lease_key V key =
     worker_id_from_scanned_key V key ''byai_gateway:registry:worker:online:'' ''online''"

definition worker_admin_scan_pattern :: "schema \<Rightarrow> string" where
  "worker_admin_scan_pattern V =
     worker_scan_pattern V ''byai_gateway:registry:worker:admin:'' ''admin''"

definition worker_id_from_admin_key :: "schema \<Rightarrow> string \<Rightarrow> string option" where
  "worker_id_from_admin_key V key =
     worker_id_from_scanned_key V key ''byai_gateway:registry:worker:admin:'' ''admin''"

definition single_call_task_group_id :: "string \<Rightarrow> string" where
  "single_call_task_group_id child_message_id = ''tg-single-'' @ child_message_id"

section \<open>Time constants\<close>

definition DEFAULT_SESSION_TTL :: int where "DEFAULT_SESSION_TTL = 7 * 24 * 3600"

definition TASK_GROUP_TTL_SECONDS :: int where "TASK_GROUP_TTL_SECONDS = 86400"

definition WAIT_INDEX_SHARDS :: nat where "WAIT_INDEX_SHARDS = 16"

definition DEFAULT_REPLY_TIMEOUT_MS :: int where "DEFAULT_REPLY_TIMEOUT_MS = 3600000"

definition DEFAULT_ASK_USER_TIMEOUT_MS :: int where
  "DEFAULT_ASK_USER_TIMEOUT_MS = DEFAULT_SESSION_TTL * 1000"

definition WAIT_SWEEP_BATCH_LIMIT :: nat where "WAIT_SWEEP_BATCH_LIMIT = 200"

definition WAIT_RENEW_INCREMENT_MS :: int where "WAIT_RENEW_INCREMENT_MS = 300000"

definition WAIT_RENEW_ORIGIN_TTL_SECONDS :: int where
  "WAIT_RENEW_ORIGIN_TTL_SECONDS = TASK_GROUP_TTL_SECONDS"

definition WAIT_CONSUMED_TTL_SECONDS :: int where
  "WAIT_CONSUMED_TTL_SECONDS = DEFAULT_SESSION_TTL"

definition WAIT_PRUNE_AFTER_SECONDS :: int where
  "WAIT_PRUNE_AFTER_SECONDS = DEFAULT_SESSION_TTL + 86400"

section \<open>The abstract key space\<close>

datatype rkey =
    KLease string | KAdmin string | KDeclared string | KStatus string | KExecs string
  | KActiveIndex string | KActiveSnaps string | KHistorySnaps string
  | KMembers string | KDenied string | KKnown | KAdminSet
  | KSession string | KConfigs string
  | KWaitIndex int | KSweepLock int | KConsumed string string | KRenew string string
  | KGroup string | KResults string

fun render :: "schema \<Rightarrow> rkey \<Rightarrow> string" where
  "render V (KLease w) = worker_online_lease V w"
| "render V (KAdmin w) = worker_admin V w"
| "render V (KDeclared w) = worker_declared_agent_types V w"
| "render V (KStatus w) = worker_status V w"
| "render V (KExecs w) = worker_executions V w"
| "render V (KActiveIndex w) = worker_active_execution_index V w"
| "render V (KActiveSnaps w) = worker_active_snapshots V w"
| "render V (KHistorySnaps w) = worker_history_snapshots V w"
| "render V (KMembers t) = agent_type_members V t"
| "render V (KDenied t) = agent_type_denied V t"
| "render V KKnown = known_workers V"
| "render V KAdminSet = admin_workers V"
| "render V (KSession s) = session_registry V s"
| "render V (KConfigs k) = agent_configs_snapshot V k"
| "render V (KWaitIndex n) = wait_index V n"
| "render V (KSweepLock n) = wait_sweep_lock V n"
| "render V (KConsumed s d) = wait_consumed V s d"
| "render V (KRenew s d) = wait_renew_origin V s d"
| "render V (KGroup g) = task_group V g"
| "render V (KResults g) = task_group_results V g"

text \<open>
  Digests are forty characters long; a group's tracker must not be named like
  another group's results (see \<open>task_group_collision\<close>).
\<close>

fun wf_rkey :: "rkey \<Rightarrow> bool" where
  "wf_rkey (KConsumed s d) = (length d = 40)"
| "wf_rkey (KRenew s d) = (length d = 40)"
| "wf_rkey (KGroup g) = (\<not> ends_with '':results'' g)"
| "wf_rkey _ = True"

lemmas family_defs = versioned_def
  worker_online_lease_def
  worker_admin_def
  worker_declared_agent_types_def
  worker_status_def
  worker_executions_def
  worker_active_execution_index_def
  worker_active_snapshots_def
  worker_history_snapshots_def
  agent_type_members_def
  agent_type_denied_def
  known_workers_def
  admin_workers_def
  session_registry_def
  agent_configs_snapshot_def
  wait_index_def
  wait_sweep_lock_def
  wait_consumed_def
  wait_renew_origin_def
  task_group_def
  task_group_results_def

section \<open>Injectivity\<close>

lemma starts_with_append [simp]: "starts_with p (p @ s)"
  by (simp add: starts_with_def)

lemma starts_withD: "starts_with p s \<Longrightarrow> \<exists>t. s = p @ t"
  unfolding starts_with_def by (metis append_take_drop_id)

lemma ends_with_append [simp]: "ends_with q (s @ q)"
  by (simp add: ends_with_def)

lemma ends_withD: "ends_with q s \<Longrightarrow> \<exists>t. s = t @ q"
  unfolding ends_with_def by (metis append_take_drop_id)

lemma digit_char_neq_minus: "d < 10 \<Longrightarrow> digit_char d \<noteq> CHR ''-''"
  by (simp add: digit_char_def char_of_eq_iff take_bit_nat_eq_self)

lemma show_nat_neq_minus: "show_nat n \<noteq> CHR ''-'' # s"
proof (induction n arbitrary: s rule: show_nat.induct)
  case (1 n)
  show ?case
    using "1" show_nat.simps [of n] digit_char_neq_minus [of n] show_nat_ne [of "n div 10"]
    by (cases "show_nat (n div 10)") auto
qed

lemma show_int_inj [simp]: "show_int i = show_int j \<longleftrightarrow> i = j"
  using show_nat_neq_minus [of "nat i" "show_nat (nat (- j))"]
    show_nat_neq_minus [of "nat j" "show_nat (nat (- i))"]
  by (auto simp: show_int_def dest!: show_nat_inj)

lemma rev_eqD: "(a :: string) = b \<Longrightarrow> rev a = rev b"
  by simp

lemma render_inj_V1: "wf_rkey k \<Longrightarrow> wf_rkey k' \<Longrightarrow> render V1 k = render V1 k' \<Longrightarrow> k = k'"
  by (cases k; cases k'; simp add: family_defs) auto

lemma render_inj_V2: "wf_rkey k \<Longrightarrow> wf_rkey k' \<Longrightarrow> render V2 k = render V2 k' \<Longrightarrow> k = k'"
  by (cases k; cases k'; simp add: family_defs)

lemma render_inj: "wf_rkey k \<Longrightarrow> wf_rkey k' \<Longrightarrow> render V k = render V k' \<longleftrightarrow> k = k'"
  using render_inj_V1 render_inj_V2 by (cases V) blast+



text \<open>
  Under the default schema the tracker hash of a group whose id ends in
  ":results" is the results hash of the shorter id, so the two kinds of hash are
  separate only for ids without that ending.
\<close>

lemma task_group_collision: "task_group V1 (g @ '':results'') = task_group_results V1 g"
  by (simp add: family_defs)

lemma slice_between_mid: "slice_between (length p) (length q) (p @ w @ q) = w"
  by (simp add: slice_between_def)

lemma scanned_key_split:
  assumes "starts_with (p @ [a]) key" and "ends_with q key" and "a \<notin> set q"
  shows "\<exists>w. key = (p @ [a]) @ w @ q"
proof -
  from assms(1) obtain t where t: "key = (p @ [a]) @ t" by (metis starts_withD)
  from assms(2) obtain u where u: "key = u @ q" by (metis ends_withD)
  have "length (p @ [a]) \<le> length u"
  proof (rule ccontr)
    assume "\<not> length (p @ [a]) \<le> length u"
    then have le: "length u \<le> length p" by simp
    have "length p < length (u @ q)" using t u by (metis add_Suc_right append.assoc
          append_Cons append_Nil le_add1 length_Cons length_append less_Suc_eq_le)
    then have "length p - length u < length q" using le by simp
    moreover have "q ! (length p - length u) = a"
      using t u le by (metis append.assoc append_Cons nth_append nth_append_length leD)
    ultimately show False using assms(3) nth_mem by blast
  qed
  moreover obtain us where "p @ [a] = u @ us \<or> (p @ [a]) @ us = u"
    using append_eq_append_conv2 [of "p @ [a]" t u q] t u by auto
  moreover have "us = []" if "p @ [a] = u @ us" and "length (p @ [a]) \<le> length u"
    using that arg_cong [OF that(1), of length] by simp
  ultimately have "\<exists>w. u = (p @ [a]) @ w" by (metis append_Nil2)
  then show ?thesis using u by auto
qed

lemma scan_between:
  assumes "a \<notin> set q"
  shows "(if starts_with (p @ [a]) key \<and> ends_with q key
          then Some (slice_between (length (p @ [a])) (length q) key) else None) = Some w
         \<longleftrightarrow> key = (p @ [a]) @ w @ q"
proof
  assume l: "(if starts_with (p @ [a]) key \<and> ends_with q key
     then Some (slice_between (length (p @ [a])) (length q) key) else None) = Some w"
  then have "starts_with (p @ [a]) key" and "ends_with q key"
    by (auto split: if_splits)
  then obtain w' where w': "key = (p @ [a]) @ w' @ q"
    using assms scanned_key_split by blast
  with l show "key = (p @ [a]) @ w @ q"
    using slice_between_mid [of "p @ [a]" q w'] by (auto split: if_splits)
next
  assume r: "key = (p @ [a]) @ w @ q"
  have "starts_with (p @ [a]) key" unfolding r by (rule starts_with_append)
  moreover have "ends_with q key" unfolding r append_assoc [symmetric] by (rule ends_with_append)
  ultimately show "(if starts_with (p @ [a]) key \<and> ends_with q key
     then Some (slice_between (length (p @ [a])) (length q) key) else None) = Some w"
    using slice_between_mid [of "p @ [a]" q w] r by simp
qed

lemma worker_id_scan:
  assumes "CHR ''{'' \<notin> set field"
  shows "worker_id_from_scanned_key V key pre field = Some w \<longleftrightarrow>
     key = versioned V (pre @ w) (''registry:worker:{'' @ w @ ''}:'' @ field)"
proof (cases V)
  case V1
  then show ?thesis
    by (auto simp: worker_id_from_scanned_key_def versioned_def dest!: starts_withD)
next
  case V2
  have q: "CHR ''{'' \<notin> set (''}:'' @ field)" using assms by simp
  have p: "''byai_gateway:v2:registry:worker:'' @ [CHR ''{''] = ''byai_gateway:v2:registry:worker:{''"
    by simp
  have k: "versioned V (pre @ w) (''registry:worker:{'' @ w @ ''}:'' @ field) =
      ''byai_gateway:v2:registry:worker:{'' @ w @ ''}:'' @ field"
    by (simp add: V2 versioned_def)
  show ?thesis
    unfolding k using scan_between [OF q, of "''byai_gateway:v2:registry:worker:''" key w]
    by (simp only: p V2 worker_id_from_scanned_key_def Let_def schema.case)
qed

text \<open>
  Reading a worker id out of a scanned key is exactly inverse to building the
  key: a key yields the id \<open>w\<close> if and only if it is the key of \<open>w\<close>, in both schemas.
\<close>

lemma worker_id_from_scanned_keys:
  "(worker_id_from_admin_key V key = Some w) = (key = worker_admin V w)"
  "(worker_id_from_online_lease_key V key = Some w) = (key = worker_online_lease V w)"
  by (simp_all add: worker_id_from_admin_key_def worker_id_from_online_lease_key_def
      worker_id_scan worker_admin_def worker_online_lease_def)

section \<open>Keys of one kind of data are pairwise different\<close>

text \<open>Consequences of \<open>render_inj\<close> in the form the simplifier uses.\<close>

lemma set_keys [key_simps]:
  "(agent_type_members V a = agent_type_members V a') = (a = a')"
  "agent_type_members V a \<noteq> agent_type_denied V a'"
  "agent_type_members V a \<noteq> worker_declared_agent_types V a'"
  "agent_type_members V a \<noteq> known_workers V"
  "agent_type_members V a \<noteq> admin_workers V"
  "agent_type_denied V a \<noteq> agent_type_members V a'"
  "(agent_type_denied V a = agent_type_denied V a') = (a = a')"
  "agent_type_denied V a \<noteq> worker_declared_agent_types V a'"
  "agent_type_denied V a \<noteq> known_workers V"
  "agent_type_denied V a \<noteq> admin_workers V"
  "worker_declared_agent_types V a \<noteq> agent_type_members V a'"
  "worker_declared_agent_types V a \<noteq> agent_type_denied V a'"
  "(worker_declared_agent_types V a = worker_declared_agent_types V a') = (a = a')"
  "worker_declared_agent_types V a \<noteq> known_workers V"
  "worker_declared_agent_types V a \<noteq> admin_workers V"
  "known_workers V \<noteq> agent_type_members V a'"
  "known_workers V \<noteq> agent_type_denied V a'"
  "known_workers V \<noteq> worker_declared_agent_types V a'"
  "known_workers V \<noteq> admin_workers V"
  "admin_workers V \<noteq> agent_type_members V a'"
  "admin_workers V \<noteq> agent_type_denied V a'"
  "admin_workers V \<noteq> worker_declared_agent_types V a'"
  "admin_workers V \<noteq> known_workers V"
  using
    render_inj [of "KMembers a" "KMembers a'" V]
    render_inj [of "KMembers a" "KDenied a'" V]
    render_inj [of "KMembers a" "KDeclared a'" V]
    render_inj [of "KMembers a" "KKnown" V]
    render_inj [of "KMembers a" "KAdminSet" V]
    render_inj [of "KDenied a" "KMembers a'" V]
    render_inj [of "KDenied a" "KDenied a'" V]
    render_inj [of "KDenied a" "KDeclared a'" V]
    render_inj [of "KDenied a" "KKnown" V]
    render_inj [of "KDenied a" "KAdminSet" V]
    render_inj [of "KDeclared a" "KMembers a'" V]
    render_inj [of "KDeclared a" "KDenied a'" V]
    render_inj [of "KDeclared a" "KDeclared a'" V]
    render_inj [of "KDeclared a" "KKnown" V]
    render_inj [of "KDeclared a" "KAdminSet" V]
    render_inj [of "KKnown" "KMembers a'" V]
    render_inj [of "KKnown" "KDenied a'" V]
    render_inj [of "KKnown" "KDeclared a'" V]
    render_inj [of "KKnown" "KAdminSet" V]
    render_inj [of "KAdminSet" "KMembers a'" V]
    render_inj [of "KAdminSet" "KDenied a'" V]
    render_inj [of "KAdminSet" "KDeclared a'" V]
    render_inj [of "KAdminSet" "KKnown" V]
  by (simp_all only: render.simps wf_rkey.simps rkey.simps simp_thms)

lemma string_keys [key_simps]:
  "(worker_online_lease V a = worker_online_lease V a') = (a = a')"
  "worker_online_lease V a \<noteq> wait_sweep_lock V n'"
  "length d' = 40 \<Longrightarrow> worker_online_lease V a \<noteq> wait_consumed V a' d'"
  "length d' = 40 \<Longrightarrow> worker_online_lease V a \<noteq> wait_renew_origin V a' d'"
  "worker_online_lease V a \<noteq> agent_configs_snapshot V a'"
  "wait_sweep_lock V n \<noteq> worker_online_lease V a'"
  "(wait_sweep_lock V n = wait_sweep_lock V n') = (n = n')"
  "length d' = 40 \<Longrightarrow> wait_sweep_lock V n \<noteq> wait_consumed V a' d'"
  "length d' = 40 \<Longrightarrow> wait_sweep_lock V n \<noteq> wait_renew_origin V a' d'"
  "wait_sweep_lock V n \<noteq> agent_configs_snapshot V a'"
  "length d = 40 \<Longrightarrow> wait_consumed V a d \<noteq> worker_online_lease V a'"
  "length d = 40 \<Longrightarrow> wait_consumed V a d \<noteq> wait_sweep_lock V n'"
  "length d = 40 \<Longrightarrow> length d' = 40 \<Longrightarrow> (wait_consumed V a d = wait_consumed V a' d') = (a = a' \<and> d = d')"
  "length d = 40 \<Longrightarrow> length d' = 40 \<Longrightarrow> wait_consumed V a d \<noteq> wait_renew_origin V a' d'"
  "length d = 40 \<Longrightarrow> wait_consumed V a d \<noteq> agent_configs_snapshot V a'"
  "length d = 40 \<Longrightarrow> wait_renew_origin V a d \<noteq> worker_online_lease V a'"
  "length d = 40 \<Longrightarrow> wait_renew_origin V a d \<noteq> wait_sweep_lock V n'"
  "length d = 40 \<Longrightarrow> length d' = 40 \<Longrightarrow> wait_renew_origin V a d \<noteq> wait_consumed V a' d'"
  "length d = 40 \<Longrightarrow> length d' = 40 \<Longrightarrow> (wait_renew_origin V a d = wait_renew_origin V a' d') = (a = a' \<and> d = d')"
  "length d = 40 \<Longrightarrow> wait_renew_origin V a d \<noteq> agent_configs_snapshot V a'"
  "agent_configs_snapshot V a \<noteq> worker_online_lease V a'"
  "agent_configs_snapshot V a \<noteq> wait_sweep_lock V n'"
  "length d' = 40 \<Longrightarrow> agent_configs_snapshot V a \<noteq> wait_consumed V a' d'"
  "length d' = 40 \<Longrightarrow> agent_configs_snapshot V a \<noteq> wait_renew_origin V a' d'"
  "(agent_configs_snapshot V a = agent_configs_snapshot V a') = (a = a')"
  using
    render_inj [of "KLease a" "KLease a'" V]
    render_inj [of "KLease a" "KSweepLock n'" V]
    render_inj [of "KLease a" "KConsumed a' d'" V]
    render_inj [of "KLease a" "KRenew a' d'" V]
    render_inj [of "KLease a" "KConfigs a'" V]
    render_inj [of "KSweepLock n" "KLease a'" V]
    render_inj [of "KSweepLock n" "KSweepLock n'" V]
    render_inj [of "KSweepLock n" "KConsumed a' d'" V]
    render_inj [of "KSweepLock n" "KRenew a' d'" V]
    render_inj [of "KSweepLock n" "KConfigs a'" V]
    render_inj [of "KConsumed a d" "KLease a'" V]
    render_inj [of "KConsumed a d" "KSweepLock n'" V]
    render_inj [of "KConsumed a d" "KConsumed a' d'" V]
    render_inj [of "KConsumed a d" "KRenew a' d'" V]
    render_inj [of "KConsumed a d" "KConfigs a'" V]
    render_inj [of "KRenew a d" "KLease a'" V]
    render_inj [of "KRenew a d" "KSweepLock n'" V]
    render_inj [of "KRenew a d" "KConsumed a' d'" V]
    render_inj [of "KRenew a d" "KRenew a' d'" V]
    render_inj [of "KRenew a d" "KConfigs a'" V]
    render_inj [of "KConfigs a" "KLease a'" V]
    render_inj [of "KConfigs a" "KSweepLock n'" V]
    render_inj [of "KConfigs a" "KConsumed a' d'" V]
    render_inj [of "KConfigs a" "KRenew a' d'" V]
    render_inj [of "KConfigs a" "KConfigs a'" V]
  by (simp_all only: render.simps wf_rkey.simps rkey.simps simp_thms)

lemma hash_keys [key_simps]:
  "(worker_status V a = worker_status V a') = (a = a')"
  "worker_status V a \<noteq> worker_active_snapshots V a'"
  "worker_status V a \<noteq> worker_history_snapshots V a'"
  "worker_status V a \<noteq> worker_admin V a'"
  "worker_status V a \<noteq> session_registry V a'"
  "\<not> ends_with '':results'' a' \<Longrightarrow> worker_status V a \<noteq> task_group V a'"
  "worker_status V a \<noteq> task_group_results V a'"
  "worker_active_snapshots V a \<noteq> worker_status V a'"
  "(worker_active_snapshots V a = worker_active_snapshots V a') = (a = a')"
  "worker_active_snapshots V a \<noteq> worker_history_snapshots V a'"
  "worker_active_snapshots V a \<noteq> worker_admin V a'"
  "worker_active_snapshots V a \<noteq> session_registry V a'"
  "\<not> ends_with '':results'' a' \<Longrightarrow> worker_active_snapshots V a \<noteq> task_group V a'"
  "worker_active_snapshots V a \<noteq> task_group_results V a'"
  "worker_history_snapshots V a \<noteq> worker_status V a'"
  "worker_history_snapshots V a \<noteq> worker_active_snapshots V a'"
  "(worker_history_snapshots V a = worker_history_snapshots V a') = (a = a')"
  "worker_history_snapshots V a \<noteq> worker_admin V a'"
  "worker_history_snapshots V a \<noteq> session_registry V a'"
  "\<not> ends_with '':results'' a' \<Longrightarrow> worker_history_snapshots V a \<noteq> task_group V a'"
  "worker_history_snapshots V a \<noteq> task_group_results V a'"
  "worker_admin V a \<noteq> worker_status V a'"
  "worker_admin V a \<noteq> worker_active_snapshots V a'"
  "worker_admin V a \<noteq> worker_history_snapshots V a'"
  "(worker_admin V a = worker_admin V a') = (a = a')"
  "worker_admin V a \<noteq> session_registry V a'"
  "\<not> ends_with '':results'' a' \<Longrightarrow> worker_admin V a \<noteq> task_group V a'"
  "worker_admin V a \<noteq> task_group_results V a'"
  "session_registry V a \<noteq> worker_status V a'"
  "session_registry V a \<noteq> worker_active_snapshots V a'"
  "session_registry V a \<noteq> worker_history_snapshots V a'"
  "session_registry V a \<noteq> worker_admin V a'"
  "(session_registry V a = session_registry V a') = (a = a')"
  "\<not> ends_with '':results'' a' \<Longrightarrow> session_registry V a \<noteq> task_group V a'"
  "session_registry V a \<noteq> task_group_results V a'"
  "\<not> ends_with '':results'' a \<Longrightarrow> task_group V a \<noteq> worker_status V a'"
  "\<not> ends_with '':results'' a \<Longrightarrow> task_group V a \<noteq> worker_active_snapshots V a'"
  "\<not> ends_with '':results'' a \<Longrightarrow> task_group V a \<noteq> worker_history_snapshots V a'"
  "\<not> ends_with '':results'' a \<Longrightarrow> task_group V a \<noteq> worker_admin V a'"
  "\<not> ends_with '':results'' a \<Longrightarrow> task_group V a \<noteq> session_registry V a'"
  "\<not> ends_with '':results'' a \<Longrightarrow> \<not> ends_with '':results'' a' \<Longrightarrow> (task_group V a = task_group V a') = (a = a')"
  "\<not> ends_with '':results'' a \<Longrightarrow> task_group V a \<noteq> task_group_results V a'"
  "task_group_results V a \<noteq> worker_status V a'"
  "task_group_results V a \<noteq> worker_active_snapshots V a'"
  "task_group_results V a \<noteq> worker_history_snapshots V a'"
  "task_group_results V a \<noteq> worker_admin V a'"
  "task_group_results V a \<noteq> session_registry V a'"
  "\<not> ends_with '':results'' a' \<Longrightarrow> task_group_results V a \<noteq> task_group V a'"
  "(task_group_results V a = task_group_results V a') = (a = a')"
  using
    render_inj [of "KStatus a" "KStatus a'" V]
    render_inj [of "KStatus a" "KActiveSnaps a'" V]
    render_inj [of "KStatus a" "KHistorySnaps a'" V]
    render_inj [of "KStatus a" "KAdmin a'" V]
    render_inj [of "KStatus a" "KSession a'" V]
    render_inj [of "KStatus a" "KGroup a'" V]
    render_inj [of "KStatus a" "KResults a'" V]
    render_inj [of "KActiveSnaps a" "KStatus a'" V]
    render_inj [of "KActiveSnaps a" "KActiveSnaps a'" V]
    render_inj [of "KActiveSnaps a" "KHistorySnaps a'" V]
    render_inj [of "KActiveSnaps a" "KAdmin a'" V]
    render_inj [of "KActiveSnaps a" "KSession a'" V]
    render_inj [of "KActiveSnaps a" "KGroup a'" V]
    render_inj [of "KActiveSnaps a" "KResults a'" V]
    render_inj [of "KHistorySnaps a" "KStatus a'" V]
    render_inj [of "KHistorySnaps a" "KActiveSnaps a'" V]
    render_inj [of "KHistorySnaps a" "KHistorySnaps a'" V]
    render_inj [of "KHistorySnaps a" "KAdmin a'" V]
    render_inj [of "KHistorySnaps a" "KSession a'" V]
    render_inj [of "KHistorySnaps a" "KGroup a'" V]
    render_inj [of "KHistorySnaps a" "KResults a'" V]
    render_inj [of "KAdmin a" "KStatus a'" V]
    render_inj [of "KAdmin a" "KActiveSnaps a'" V]
    render_inj [of "KAdmin a" "KHistorySnaps a'" V]
    render_inj [of "KAdmin a" "KAdmin a'" V]
    render_inj [of "KAdmin a" "KSession a'" V]
    render_inj [of "KAdmin a" "KGroup a'" V]
    render_inj [of "KAdmin a" "KResults a'" V]
    render_inj [of "KSession a" "KStatus a'" V]
    render_inj [of "KSession a" "KActiveSnaps a'" V]
    render_inj [of "KSession a" "KHistorySnaps a'" V]
    render_inj [of "KSession a" "KAdmin a'" V]
    render_inj [of "KSession a" "KSession a'" V]
    render_inj [of "KSession a" "KGroup a'" V]
    render_inj [of "KSession a" "KResults a'" V]
    render_inj [of "KGroup a" "KStatus a'" V]
    render_inj [of "KGroup a" "KActiveSnaps a'" V]
    render_inj [of "KGroup a" "KHistorySnaps a'" V]
    render_inj [of "KGroup a" "KAdmin a'" V]
    render_inj [of "KGroup a" "KSession a'" V]
    render_inj [of "KGroup a" "KGroup a'" V]
    render_inj [of "KGroup a" "KResults a'" V]
    render_inj [of "KResults a" "KStatus a'" V]
    render_inj [of "KResults a" "KActiveSnaps a'" V]
    render_inj [of "KResults a" "KHistorySnaps a'" V]
    render_inj [of "KResults a" "KAdmin a'" V]
    render_inj [of "KResults a" "KSession a'" V]
    render_inj [of "KResults a" "KGroup a'" V]
    render_inj [of "KResults a" "KResults a'" V]
  by (simp_all only: render.simps wf_rkey.simps rkey.simps simp_thms)

lemma zset_keys [key_simps]:
  "(wait_index V n = wait_index V n') = (n = n')"
  "wait_index V n \<noteq> worker_executions V a'"
  "wait_index V n \<noteq> worker_active_execution_index V a'"
  "worker_executions V a \<noteq> wait_index V n'"
  "(worker_executions V a = worker_executions V a') = (a = a')"
  "worker_executions V a \<noteq> worker_active_execution_index V a'"
  "worker_active_execution_index V a \<noteq> wait_index V n'"
  "worker_active_execution_index V a \<noteq> worker_executions V a'"
  "(worker_active_execution_index V a = worker_active_execution_index V a') = (a = a')"
  using
    render_inj [of "KWaitIndex n" "KWaitIndex n'" V]
    render_inj [of "KWaitIndex n" "KExecs a'" V]
    render_inj [of "KWaitIndex n" "KActiveIndex a'" V]
    render_inj [of "KExecs a" "KWaitIndex n'" V]
    render_inj [of "KExecs a" "KExecs a'" V]
    render_inj [of "KExecs a" "KActiveIndex a'" V]
    render_inj [of "KActiveIndex a" "KWaitIndex n'" V]
    render_inj [of "KActiveIndex a" "KExecs a'" V]
    render_inj [of "KActiveIndex a" "KActiveIndex a'" V]
  by (simp_all only: render.simps wf_rkey.simps rkey.simps simp_thms)

lemma config_keys [key_simps]:
  "agent_configs_snapshot V a \<noteq> worker_status V a'"
  "worker_status V a' \<noteq> agent_configs_snapshot V a"
  "agent_configs_snapshot V a \<noteq> worker_active_snapshots V a'"
  "worker_active_snapshots V a' \<noteq> agent_configs_snapshot V a"
  "agent_configs_snapshot V a \<noteq> worker_history_snapshots V a'"
  "worker_history_snapshots V a' \<noteq> agent_configs_snapshot V a"
  "agent_configs_snapshot V a \<noteq> worker_admin V a'"
  "worker_admin V a' \<noteq> agent_configs_snapshot V a"
  "agent_configs_snapshot V a \<noteq> session_registry V a'"
  "session_registry V a' \<noteq> agent_configs_snapshot V a"
  "\<not> ends_with '':results'' a' \<Longrightarrow> agent_configs_snapshot V a \<noteq> task_group V a'"
  "\<not> ends_with '':results'' a' \<Longrightarrow> task_group V a' \<noteq> agent_configs_snapshot V a"
  "agent_configs_snapshot V a \<noteq> task_group_results V a'"
  "task_group_results V a' \<noteq> agent_configs_snapshot V a"
  "agent_configs_snapshot V a \<noteq> wait_index V n'"
  "wait_index V n' \<noteq> agent_configs_snapshot V a"
  "agent_configs_snapshot V a \<noteq> worker_executions V a'"
  "worker_executions V a' \<noteq> agent_configs_snapshot V a"
  "agent_configs_snapshot V a \<noteq> worker_active_execution_index V a'"
  "worker_active_execution_index V a' \<noteq> agent_configs_snapshot V a"
  using
    render_inj [of "KConfigs a" "KStatus a'" V]
    render_inj [of "KConfigs a" "KActiveSnaps a'" V]
    render_inj [of "KConfigs a" "KHistorySnaps a'" V]
    render_inj [of "KConfigs a" "KAdmin a'" V]
    render_inj [of "KConfigs a" "KSession a'" V]
    render_inj [of "KConfigs a" "KGroup a'" V]
    render_inj [of "KConfigs a" "KResults a'" V]
    render_inj [of "KConfigs a" "KWaitIndex n'" V]
    render_inj [of "KConfigs a" "KExecs a'" V]
    render_inj [of "KConfigs a" "KActiveIndex a'" V]
  by (simp_all only: render.simps wf_rkey.simps rkey.simps simp_thms eq_commute [of _ "agent_configs_snapshot V a"])

section \<open>Cluster slots\<close>

text \<open>
  The slot of a key is computed from its hash tag: what stands between the first
  opening brace and the first closing brace after it, when that is not empty;
  otherwise from the whole key.
\<close>

definition hash_tag :: "string \<Rightarrow> string" where
  "hash_tag key =
     (case dropWhile (\<lambda>c. c \<noteq> CHR ''{'') key of
        [] \<Rightarrow> key
      | _ # rest \<Rightarrow>
          (let tag = takeWhile (\<lambda>c. c \<noteq> CHR ''}'') rest
           in if tag = [] \<or> tag = rest then key else tag))"

text \<open>An identifier that a brace pair really tags: not empty, not starting with the closing brace.\<close>

definition plain_id :: "string \<Rightarrow> bool" where
  "plain_id w = (w \<noteq> [] \<and> hd w \<noteq> CHR ''}'')"

definition id_tag :: "string \<Rightarrow> string" where
  "id_tag w = takeWhile (\<lambda>c. c \<noteq> CHR ''}'') w"

lemma tag_append: "takeWhile (\<lambda>c. c \<noteq> CHR ''}'') (v @ CHR ''}'' # q) = id_tag v"
  by (induction v) (auto simp: id_tag_def)

lemma tag_shorter: "id_tag v \<noteq> v @ CHR ''}'' # q"
proof -
  have "length (id_tag v) < length (v @ CHR ''}'' # q)"
    using length_takeWhile_le [of "\<lambda>c. c \<noteq> CHR ''}''" v]
    by (simp add: id_tag_def less_Suc_eq_le trans_le_add1)
  then show ?thesis by (metis less_irrefl)
qed

lemma tag_ne: "plain_id v \<Longrightarrow> id_tag v \<noteq> []"
  by (cases v) (auto simp: plain_id_def id_tag_def)

lemma hash_tag_families [simp]:
  assumes "plain_id w"
  shows "hash_tag (worker_online_lease V2 w) = id_tag w"
    and "hash_tag (worker_admin V2 w) = id_tag w"
    and "hash_tag (worker_declared_agent_types V2 w) = id_tag w"
    and "hash_tag (worker_status V2 w) = id_tag w"
    and "hash_tag (worker_executions V2 w) = id_tag w"
    and "hash_tag (worker_active_execution_index V2 w) = id_tag w"
    and "hash_tag (worker_active_snapshots V2 w) = id_tag w"
    and "hash_tag (worker_history_snapshots V2 w) = id_tag w"
    and "hash_tag (agent_type_members V2 w) = id_tag w"
    and "hash_tag (agent_type_denied V2 w) = id_tag w"
    and "hash_tag (session_registry V2 w) = id_tag w"
    and "hash_tag (task_group V2 w) = id_tag w"
    and "hash_tag (task_group_results V2 w) = id_tag w"
  using assms
  by (simp_all add: family_defs hash_tag_def Let_def tag_append tag_ne tag_shorter)


end
