(* ===== verification/Emitter.thy ===== *)
theory Emitter
  imports Redis Redis_Keys
begin

text \<open>
  \<open>common/emitter.py\<close> with the records of \<open>core/protocol/data_message.py\<close> and
  \<open>core/protocol/events.py\<close>: events on the data stream of a session.  The layout of
  the payload is a hook (\<open>DataLayoutBuilder\<close>); \<open>default_layout\<close> is the one of the
  repository.  \<open>printed\<close> and \<open>parsed\<close> stand for \<open>json.dumps\<close> and \<open>json.loads\<close> where
  a JSON text becomes part of another value.
\<close>

section \<open>Events on the session data stream\<close>

record data_message =
  dm_trace_id :: string
  dm_session_id :: string
  dm_event_type :: string
  dm_source_agent_type :: string
  dm_message_id :: string
  dm_parent_message_id :: string
  dm_timestamp :: int
  dm_data :: jdict
  dm_state_msg :: string
  dm_artifact_url :: string
  dm_metadata :: jdict

definition data_payload :: "data_message \<Rightarrow> rtext" where
  "data_payload m = Doc (JObj
     [(''trace_id'', JStr (dm_trace_id m)), (''session_id'', JStr (dm_session_id m)),
      (''event_type'', JStr (dm_event_type m)), (''source_agent_type'', JStr (dm_source_agent_type m)),
      (''message_id'', JStr (dm_message_id m)), (''parent_message_id'', JStr (dm_parent_message_id m)),
      (''timestamp'', JInt (dm_timestamp m)), (''data'', JObj (dm_data m)),
      (''state_msg'', JStr (dm_state_msg m)), (''artifact_url'', JStr (dm_artifact_url m)),
      (''metadata'', JObj (dm_metadata m))])"

text \<open>\<open>fixed\<close> is the fixed stream name of the emitter, or the empty string.\<close>

definition stream_of :: "schema \<Rightarrow> string \<Rightarrow> string \<Rightarrow> string" where
  "stream_of V fixed session_id = str_or fixed (session_data_stream V session_id)"

definition emit_event :: "schema \<Rightarrow> string \<Rightarrow> string \<Rightarrow> string \<Rightarrow> string \<Rightarrow> string \<Rightarrow> string \<Rightarrow> string \<Rightarrow> jdict \<Rightarrow> jdict \<Rightarrow> unit prog" where
  "emit_event V fixed session_id trace_id event_type source_agent_type message_id parent_message_id data metadata =
     bindp now_ms (\<lambda>timestamp.
     exec_cmd (Pipe
       [XAdd (stream_of V fixed session_id) (data_payload
          \<lparr>dm_trace_id = trace_id, dm_session_id = session_id, dm_event_type = event_type,
           dm_source_agent_type = source_agent_type, dm_message_id = message_id,
           dm_parent_message_id = parent_message_id, dm_timestamp = timestamp, dm_data = data,
           dm_state_msg = [], dm_artifact_url = [], dm_metadata = metadata\<rparr>),
        Expire (stream_of V fixed session_id) DEFAULT_SESSION_TTL]))"

section \<open>Layouts\<close>

text \<open>The arguments of \<open>build\<close>; \<open>None\<close> is \<open>JNull\<close>.\<close>

record layout_args =
  la_content :: json
  la_role :: json
  la_content_type :: string
  la_source_agent_type :: string
  la_function_call :: json
  la_function_response :: json
  la_tool_calls :: json
  la_tool_responses :: json
  la_order_id :: string
  la_parent_order_id :: string
  la_object_type :: json
  la_status :: json

record layout =
  lb_build :: "layout_args \<Rightarrow> jdict prog"
  lb_ask_user :: "string \<Rightarrow> string \<Rightarrow> string \<Rightarrow> string \<Rightarrow> jdict prog"

definition plain_args :: "json \<Rightarrow> json \<Rightarrow> string \<Rightarrow> string \<Rightarrow> string \<Rightarrow> string \<Rightarrow> layout_args" where
  "plain_args content role content_type source order_id parent_order_id =
     \<lparr>la_content = content, la_role = role, la_content_type = content_type, la_source_agent_type = source,
      la_function_call = JNull, la_function_response = JNull, la_tool_calls = JNull, la_tool_responses = JNull,
      la_order_id = order_id, la_parent_order_id = parent_order_id, la_object_type = JNull, la_status = JNull\<rparr>"

definition sse_payload :: "string \<Rightarrow> int \<Rightarrow> layout_args \<Rightarrow> jdict" where
  "sse_payload fresh now a =
     [(''id'', JStr (map upper_char fresh)), (''created'', JInt (now div 1000)), (''model'', JStr []),
      (''object'', JStr []), (''contentType'', JStr (la_content_type a)),
      (''agentId'', if la_source_agent_type a \<noteq> [] then JStr (la_source_agent_type a) else JNull),
      (''orderId'', JStr (la_order_id a)), (''parentOrderId'', JStr (la_parent_order_id a)),
      (''objectType'', la_object_type a), (''status'', la_status a),
      (''choices'', JList [JObj [(''index'', JInt 0), (''finish_reason'', JStr []),
         (''delta'', JObj [(''role'', la_role a), (''content'', la_content a),
            (''function_call'', la_function_call a), (''function_response'', la_function_response a),
            (''tool_calls'', la_tool_calls a), (''tool_responses'', la_tool_responses a)])]])]"

definition sse_build :: "layout_args \<Rightarrow> jdict prog" where
  "sse_build a = bindp uuid_hex (\<lambda>fresh. bindp now_ms (\<lambda>now. Ret (sse_payload fresh now a)))"

text \<open>The form a plain prompt is wrapped in.\<close>

definition input_form :: "string \<Rightarrow> json" where
  "input_form prompt = JObj [(''formStatus'', JInt 0), (''pluginMachineFields'', JList [JObj
     [(''formType'', JStr ''textarea''), (''fieldName'', JStr ''user_input''), (''fieldCode'', JStr ''user_input''),
      (''description'', JStr prompt), (''required'', JBool True)]])]"

definition sse_ask_user ::
  "(json \<Rightarrow> string) \<Rightarrow> (string \<Rightarrow> json option) \<Rightarrow> string \<Rightarrow> string \<Rightarrow> string \<Rightarrow> string \<Rightarrow> jdict prog" where
  "sse_ask_user printed parsed prompt source order_id parent_order_id =
     (case parsed prompt of
        Some (JObj d) \<Rightarrow>
          if dhas d ''questions''
          then sse_build (plain_args (JStr prompt) (JStr ''assistant'') ''3014'' source order_id parent_order_id)
          else sse_build (plain_args (JStr (printed (input_form prompt))) (JStr ''assistant'') ''3013'' source
                 order_id parent_order_id)
      | _ \<Rightarrow> sse_build (plain_args (JStr (printed (input_form prompt))) (JStr ''assistant'') ''3013'' source
                 order_id parent_order_id))"

definition default_layout :: "(json \<Rightarrow> string) \<Rightarrow> (string \<Rightarrow> json option) \<Rightarrow> layout" where
  "default_layout printed parsed = \<lparr>lb_build = sse_build, lb_ask_user = sse_ask_user printed parsed\<rparr>"

section \<open>The emitter\<close>

record emitter =
  em_fixed :: string
  em_layout :: layout
  em_printed :: "json \<Rightarrow> string"

record chunk_event =
  ce_content :: json
  ce_role :: string
  ce_function_call :: json
  ce_function_response :: json
  ce_tool_calls :: json
  ce_tool_responses :: json
  ce_metadata :: jdict

definition text_chunk :: "string \<Rightarrow> chunk_event" where
  "text_chunk s = \<lparr>ce_content = JStr s, ce_role = ''assistant'', ce_function_call = JNull,
     ce_function_response = JNull, ce_tool_calls = JNull, ce_tool_responses = JNull, ce_metadata = []\<rparr>"

text \<open>An optional keyword \<open>x or default\<close>; \<open>None\<close> and the empty string are \<open>[]\<close>.\<close>

definition emitter_chunk :: "schema \<Rightarrow> emitter \<Rightarrow> string \<Rightarrow> string \<Rightarrow> chunk_event \<Rightarrow> string \<Rightarrow> string \<Rightarrow> string \<Rightarrow>
    string \<Rightarrow> string \<Rightarrow> json \<Rightarrow> json \<Rightarrow> unit prog" where
  "emitter_chunk V em session_id trace_id ev source message_id parent_message_id event_type content_type object_type status =
     bindp (lb_build (em_layout em)
       \<lparr>la_content = ce_content ev, la_role = JStr (ce_role ev), la_content_type = str_or content_type ''1002'',
        la_source_agent_type = source, la_function_call = ce_function_call ev,
        la_function_response = ce_function_response ev, la_tool_calls = ce_tool_calls ev,
        la_tool_responses = ce_tool_responses ev, la_order_id = message_id, la_parent_order_id = parent_message_id,
        la_object_type = object_type, la_status = status\<rparr>) (\<lambda>data.
     emit_event V (em_fixed em) session_id trace_id (str_or event_type ''answerDelta'') source message_id
       parent_message_id data (ce_metadata ev))"

definition emitter_state :: "schema \<Rightarrow> emitter \<Rightarrow> string \<Rightarrow> string \<Rightarrow> string \<Rightarrow> jdict \<Rightarrow> string \<Rightarrow> string \<Rightarrow> string \<Rightarrow>
    string \<Rightarrow> string \<Rightarrow> unit prog" where
  "emitter_state V em session_id trace_id state metadata source message_id parent_message_id event_type content_type =
     bindp (lb_build (em_layout em) (plain_args (JStr state) JNull (str_or content_type ''3003'') source
       message_id parent_message_id)) (\<lambda>data.
     emit_event V (em_fixed em) session_id trace_id (str_or event_type ''reasoningLogDelta'') source message_id
       parent_message_id data metadata)"

definition emitter_artifact :: "schema \<Rightarrow> emitter \<Rightarrow> string \<Rightarrow> string \<Rightarrow> string \<Rightarrow> jdict \<Rightarrow> string \<Rightarrow> string \<Rightarrow> string \<Rightarrow>
    string \<Rightarrow> string \<Rightarrow> unit prog" where
  "emitter_artifact V em session_id trace_id url metadata source message_id parent_message_id event_type content_type =
     bindp (lb_build (em_layout em) (plain_args
       (JStr (em_printed em (JList [JObj [(''fileUrl'', JStr url)]]))) JNull (str_or content_type ''3010'') source
       message_id parent_message_id)) (\<lambda>data.
     emit_event V (em_fixed em) session_id trace_id (str_or event_type ''reasoningLogDelta'') source message_id
       parent_message_id data metadata)"

definition emitter_ask_user :: "schema \<Rightarrow> emitter \<Rightarrow> string \<Rightarrow> string \<Rightarrow> string \<Rightarrow> jdict \<Rightarrow> string \<Rightarrow> string \<Rightarrow> string \<Rightarrow> unit prog" where
  "emitter_ask_user V em session_id trace_id prompt metadata source message_id parent_message_id =
     bindp (lb_ask_user (em_layout em) prompt source message_id parent_message_id) (\<lambda>data.
     emit_event V (em_fixed em) session_id trace_id ''reasoningLogDelta'' source message_id parent_message_id data metadata)"

section \<open>What an event changes\<close>

lemma emit_event_wp:
  "wp (emit_event V fixed sid tid ty src mid pid data metadata) (\<lambda>o' K'. o' = Inr () \<and> (\<exists>t.
     K' = K\<lparr>strm := (strm K)(stream_of V fixed sid := strm K (stream_of V fixed sid) @ [t]),
       kv := kv K'\<rparr> \<and> (\<forall>k. k \<noteq> stream_of V fixed sid \<longrightarrow> kv K' k = kv K k))) K"
  by (auto simp: emit_event_def wp_simps)

end
