(* ===== verification/Protocol.thy ===== *)
theory Protocol
  imports Server
begin

text \<open>
  \<open>core/protocol\<close>: agent states, the message header, the seven commands with their
  wire form (\<open>to_dict\<close>, \<open>from_dict\<close>, the command registry), and the normalisation
  of what a handler returns (\<open>results.py\<close>).  Fields have the types the dataclasses
  declare; a wire value of another type is a \<open>TypeError\<close> here, where Python would
  carry it until first use.
\<close>

section \<open>Results of fallible functions\<close>

definition res_bind :: "exn + 'a \<Rightarrow> ('a \<Rightarrow> exn + 'b) \<Rightarrow> exn + 'b" where
  "res_bind r f = (case r of Inl e \<Rightarrow> Inl e | Inr a \<Rightarrow> f a)"

lemma res_bind_simps [simp]: "res_bind (Inl e) f = Inl e" "res_bind (Inr a) f = f a"
  by (simp_all add: res_bind_def)

section \<open>Agent states\<close>

definition TERMINAL_STATES :: "string set" where
  "TERMINAL_STATES = {''COMPLETED'', ''FAILED'', ''CANCELLED''}"

definition is_terminal_state :: "string \<Rightarrow> bool" where
  "is_terminal_state state = (state \<in> TERMINAL_STATES)"

definition AgentStateLiteral :: "string list" where
  "AgentStateLiteral = [''STARTING'', ''COMPLETED'', ''FAILED'', ''CANCELLING'', ''CANCELLED'',
     ''RESUMED'', ''WAITING_AGENT'', ''WAITING_USER'', ''QUEUED'', ''CALLING_AGENT'']"

section \<open>The message header\<close>

record header =
  mh_message_id :: string
  mh_session_id :: string
  mh_trace_id :: string
  mh_source_agent_type :: string
  mh_target_agent_type :: string
  mh_parent_message_id :: string
  mh_task_group_id :: string
  mh_user_code :: string
  mh_user_name :: string
  mh_metadata :: jdict
  mh_trace_parent_span_id :: string
  mh_langfuse_parent_observation_id :: string

definition header_to_dict :: "header \<Rightarrow> jdict" where
  "header_to_dict h = [
     (''message_id'', JStr (mh_message_id h)),
     (''session_id'', JStr (mh_session_id h)),
     (''trace_id'', JStr (mh_trace_id h)),
     (''source_agent_type'', JStr (mh_source_agent_type h)),
     (''target_agent_type'', JStr (mh_target_agent_type h)),
     (''parent_message_id'', JStr (mh_parent_message_id h)),
     (''task_group_id'', JStr (mh_task_group_id h)),
     (''user_code'', JStr (mh_user_code h)),
     (''user_name'', JStr (mh_user_name h)),
     (''metadata'', JObj (mh_metadata h)),
     (''trace_parent_span_id'', JStr (mh_trace_parent_span_id h)),
     (''langfuse_parent_observation_id'', JStr (mh_langfuse_parent_observation_id h))]"

fun as_str :: "json \<Rightarrow> exn + string" where
  "as_str (JStr s) = Inr s"
| "as_str _ = Inl (TypeError ''expected a string'')"

fun as_dict :: "json \<Rightarrow> exn + jdict" where
  "as_dict (JObj d) = Inr d"
| "as_dict _ = Inl (TypeError ''expected a dictionary'')"

text \<open>\<open>data[k]\<close>, \<open>data.get(k, x)\<close> at a string and at a dictionary.\<close>

definition need :: "jdict \<Rightarrow> string \<Rightarrow> exn + json" where
  "need d k = (case map_of d k of None \<Rightarrow> Inl (KeyError k) | Some v \<Rightarrow> Inr v)"

definition get_str :: "jdict \<Rightarrow> string \<Rightarrow> string \<Rightarrow> exn + string" where
  "get_str d k x = as_str (dget d k (JStr x))"

definition get_dict :: "jdict \<Rightarrow> string \<Rightarrow> exn + jdict" where
  "get_dict d k = as_dict (dget d k (JObj []))"

definition header_from_dict :: "jdict \<Rightarrow> exn + header" where
  "header_from_dict d =
     res_bind (res_bind (need d ''message_id'') as_str) (\<lambda>mid.
     res_bind (res_bind (need d ''session_id'') as_str) (\<lambda>sid.
     res_bind (res_bind (need d ''trace_id'') as_str) (\<lambda>tid.
     res_bind (get_str d ''source_agent_type'' []) (\<lambda>src.
     res_bind (get_str d ''target_agent_type'' []) (\<lambda>tgt.
     res_bind (get_str d ''parent_message_id'' []) (\<lambda>pmid.
     res_bind (get_str d ''task_group_id'' []) (\<lambda>gid.
     res_bind (get_str d ''user_code'' []) (\<lambda>uc.
     res_bind (get_str d ''user_name'' []) (\<lambda>un.
     res_bind (get_dict d ''metadata'') (\<lambda>md.
     res_bind (get_str d ''trace_parent_span_id'' []) (\<lambda>tp.
     res_bind (get_str d ''langfuse_parent_observation_id'' []) (\<lambda>lf.
       Inr \<lparr>mh_message_id = mid, mh_session_id = sid, mh_trace_id = tid,
            mh_source_agent_type = src, mh_target_agent_type = tgt,
            mh_parent_message_id = pmid, mh_task_group_id = gid, mh_user_code = uc,
            mh_user_name = un, mh_metadata = md, mh_trace_parent_span_id = tp,
            mh_langfuse_parent_observation_id = lf\<rparr>))))))))))))"

lemma header_roundtrip: "header_from_dict (header_to_dict h) = Inr h"
  by (simp add: header_from_dict_def header_to_dict_def need_def get_str_def get_dict_def dget_def)

section \<open>Commands\<close>

fun has_content :: "json \<Rightarrow> bool" where
  "has_content (JStr s) = (\<exists>c \<in> set s. \<not> is_space c)"
| "has_content (JList l) = (l \<noteq> [])"
| "has_content v = (v \<noteq> JNull)"

record ask_cmd =
  ask_header :: header
  ask_content :: json
  ask_wait_for_reply :: bool
  ask_extra_payload :: jdict

record resume_cmd =
  res_header :: header
  res_content :: json
  res_status :: string
  res_reply_data :: json
  res_extra_payload :: jdict

record cancel_cmd =
  can_header :: header
  can_target_message_id :: string
  can_target_execution_id :: string
  can_target_worker_id :: string
  can_reason :: string
  can_requested_by :: string
  can_cancel_mode :: string

datatype command =
    AskAgentCommand ask_cmd
  | ResumeCommand resume_cmd
  | CancelTaskCommand cancel_cmd
  | ReloadPluginsCommand header string string
  | SuspendWorkerCommand header string
  | ResumeWorkerCommand header
  | EvictWorkerCommand header string bool

text \<open>The constructors with the checks of their \<open>__post_init__\<close>.\<close>

definition new_ask :: "ask_cmd \<Rightarrow> exn + command" where
  "new_ask a = (if has_content (ask_content a) then Inr (AskAgentCommand a)
                else Inl (ValueError ''AskAgentCommand requires non-empty content''))"

definition new_resume :: "resume_cmd \<Rightarrow> exn + command" where
  "new_resume r = (if res_status r = [] \<and> \<not> has_content (res_content r)
                   then Inl (ValueError ''ResumeCommand requires status or content'')
                   else Inr (ResumeCommand r))"

definition new_cancel :: "cancel_cmd \<Rightarrow> exn + command" where
  "new_cancel c =
     (if can_target_message_id c = []
      then Inl (ValueError ''CancelTaskCommand requires target_message_id'')
      else if can_cancel_mode c \<notin> {''graceful'', ''force''}
      then Inl (ValueError ''CancelTaskCommand cancel_mode must be graceful or force'')
      else Inr (CancelTaskCommand c))"

definition new_reload :: "header \<Rightarrow> string \<Rightarrow> string \<Rightarrow> exn + command" where
  "new_reload h rid reason =
     (if rid = [] then Inl (ValueError ''ReloadPluginsCommand requires reload_id'')
      else Inr (ReloadPluginsCommand h rid reason))"

text \<open>A command that some constructor call has produced.\<close>

fun constructed :: "command \<Rightarrow> bool" where
  "constructed (AskAgentCommand a) = (new_ask a = Inr (AskAgentCommand a))"
| "constructed (ResumeCommand r) = (new_resume r = Inr (ResumeCommand r))"
| "constructed (CancelTaskCommand c) = (new_cancel c = Inr (CancelTaskCommand c))"
| "constructed (ReloadPluginsCommand h rid reason) =
     (new_reload h rid reason = Inr (ReloadPluginsCommand h rid reason))"
| "constructed _ = True"

definition wire :: "string \<Rightarrow> header \<Rightarrow> jdict \<Rightarrow> jdict" where
  "wire action_type h body = [(''action_type'', JStr action_type),
     (''header'', JObj (header_to_dict h)), (''body'', JObj body)]"

definition with_extra :: "jdict \<Rightarrow> jdict \<Rightarrow> jdict" where
  "with_extra extra body = (if extra \<noteq> [] then body @ [(''extra_payload'', JObj extra)] else body)"

definition ask_to_dict :: "ask_cmd \<Rightarrow> jdict" where
  "ask_to_dict a = wire ''ASK_AGENT'' (ask_header a) (with_extra (ask_extra_payload a)
     [(''content'', ask_content a), (''wait_for_reply'', JBool (ask_wait_for_reply a))])"

definition resume_to_dict :: "resume_cmd \<Rightarrow> jdict" where
  "resume_to_dict r = wire ''RESUME'' (res_header r) (with_extra (res_extra_payload r)
     [(''content'', res_content r), (''status'', JStr (res_status r)),
      (''reply_data'', res_reply_data r)])"

definition cancel_to_dict :: "cancel_cmd \<Rightarrow> jdict" where
  "cancel_to_dict c = wire ''CANCEL_TASK'' (can_header c)
     [(''target_message_id'', JStr (can_target_message_id c)),
      (''target_execution_id'', JStr (can_target_execution_id c)),
      (''target_worker_id'', JStr (can_target_worker_id c)),
      (''reason'', JStr (can_reason c)),
      (''requested_by'', JStr (can_requested_by c)),
      (''cancel_mode'', JStr (can_cancel_mode c))]"

fun command_to_dict :: "command \<Rightarrow> jdict" where
  "command_to_dict (AskAgentCommand a) = ask_to_dict a"
| "command_to_dict (ResumeCommand r) = resume_to_dict r"
| "command_to_dict (CancelTaskCommand c) = cancel_to_dict c"
| "command_to_dict (ReloadPluginsCommand h rid reason) =
     wire ''RELOAD_PLUGINS'' h [(''reload_id'', JStr rid), (''reason'', JStr reason)]"
| "command_to_dict (SuspendWorkerCommand h reason) =
     wire ''SUSPEND_WORKER'' h [(''reason'', JStr reason)]"
| "command_to_dict (ResumeWorkerCommand h) = wire ''RESUME_WORKER'' h []"
| "command_to_dict (EvictWorkerCommand h reason force) =
     wire ''EVICT_WORKER'' h [(''reason'', JStr reason), (''force'', JBool force)]"

text \<open>\<open>{"data": json.dumps(self.to_dict())}\<close>: the one field of a stream entry.\<close>

definition to_redis_payload :: "command \<Rightarrow> rtext" where
  "to_redis_payload c = Doc (JObj (command_to_dict c))"

text \<open>\<open>MessageHeader.from_dict(data["header"])\<close> and \<open>dict(data.get("body", {}))\<close>.\<close>

definition wire_header :: "jdict \<Rightarrow> exn + header" where
  "wire_header d = res_bind (res_bind (need d ''header'') as_dict) header_from_dict"

definition wire_body :: "jdict \<Rightarrow> exn + jdict" where
  "wire_body d = get_dict d ''body''"

definition ask_from_dict :: "jdict \<Rightarrow> exn + command" where
  "ask_from_dict d =
     res_bind (wire_body d) (\<lambda>body.
     res_bind (wire_header d) (\<lambda>h.
     res_bind (get_dict body ''extra_payload'') (\<lambda>extra.
       new_ask \<lparr>ask_header = h, ask_content = dget body ''content'' (JStr []),
         ask_wait_for_reply = truthy (dget body ''wait_for_reply'' (JBool False)),
         ask_extra_payload = extra\<rparr>)))"

definition resume_from_dict :: "jdict \<Rightarrow> exn + command" where
  "resume_from_dict d =
     res_bind (wire_body d) (\<lambda>body.
     res_bind (wire_header d) (\<lambda>h.
     res_bind (get_str body ''status'' []) (\<lambda>status.
     res_bind (get_dict body ''extra_payload'') (\<lambda>extra.
       new_resume \<lparr>res_header = h, res_content = dget body ''content'' (JStr []),
         res_status = status, res_reply_data = dget0 body ''reply_data'',
         res_extra_payload = extra\<rparr>))))"

definition cancel_from_dict :: "jdict \<Rightarrow> exn + command" where
  "cancel_from_dict d =
     res_bind (wire_body d) (\<lambda>body.
     res_bind (wire_header d) (\<lambda>h.
     res_bind (get_str body ''target_message_id'' []) (\<lambda>tm.
     res_bind (get_str body ''target_execution_id'' []) (\<lambda>te.
     res_bind (get_str body ''target_worker_id'' []) (\<lambda>tw.
     res_bind (get_str body ''reason'' []) (\<lambda>reason.
     res_bind (get_str body ''requested_by'' []) (\<lambda>rb.
     res_bind (get_str body ''cancel_mode'' ''graceful'') (\<lambda>mode.
       new_cancel \<lparr>can_header = h, can_target_message_id = tm, can_target_execution_id = te,
         can_target_worker_id = tw, can_reason = reason, can_requested_by = rb,
         can_cancel_mode = mode\<rparr>))))))))"

definition reload_from_dict :: "jdict \<Rightarrow> exn + command" where
  "reload_from_dict d =
     res_bind (wire_body d) (\<lambda>body.
     res_bind (wire_header d) (\<lambda>h.
     res_bind (get_str body ''reload_id'' []) (\<lambda>rid.
     res_bind (get_str body ''reason'' []) (\<lambda>reason. new_reload h rid reason))))"

definition suspend_from_dict :: "jdict \<Rightarrow> exn + command" where
  "suspend_from_dict d =
     res_bind (wire_body d) (\<lambda>body.
     res_bind (wire_header d) (\<lambda>h.
     res_bind (get_str body ''reason'' []) (\<lambda>reason. Inr (SuspendWorkerCommand h reason))))"

definition resume_worker_from_dict :: "jdict \<Rightarrow> exn + command" where
  "resume_worker_from_dict d = res_bind (wire_header d) (\<lambda>h. Inr (ResumeWorkerCommand h))"

definition evict_from_dict :: "jdict \<Rightarrow> exn + command" where
  "evict_from_dict d =
     res_bind (wire_body d) (\<lambda>body.
     res_bind (wire_header d) (\<lambda>h.
     res_bind (get_str body ''reason'' []) (\<lambda>reason.
       Inr (EvictWorkerCommand h reason (truthy (dget body ''force'' (JBool False)))))))"

section \<open>The command registry\<close>

datatype command_cls =
    AskAgentCls | ResumeCls | CancelTaskCls | ReloadPluginsCls | SuspendWorkerCls
  | ResumeWorkerCls | EvictWorkerCls

type_synonym cmd_registry = "string \<Rightarrow> command_cls option"

fun cls_action_type :: "command_cls \<Rightarrow> string" where
  "cls_action_type AskAgentCls = ''ASK_AGENT''"
| "cls_action_type ResumeCls = ''RESUME''"
| "cls_action_type CancelTaskCls = ''CANCEL_TASK''"
| "cls_action_type ReloadPluginsCls = ''RELOAD_PLUGINS''"
| "cls_action_type SuspendWorkerCls = ''SUSPEND_WORKER''"
| "cls_action_type ResumeWorkerCls = ''RESUME_WORKER''"
| "cls_action_type EvictWorkerCls = ''EVICT_WORKER''"

fun cls_from_dict :: "command_cls \<Rightarrow> jdict \<Rightarrow> exn + command" where
  "cls_from_dict AskAgentCls = ask_from_dict"
| "cls_from_dict ResumeCls = resume_from_dict"
| "cls_from_dict CancelTaskCls = cancel_from_dict"
| "cls_from_dict ReloadPluginsCls = reload_from_dict"
| "cls_from_dict SuspendWorkerCls = suspend_from_dict"
| "cls_from_dict ResumeWorkerCls = resume_worker_from_dict"
| "cls_from_dict EvictWorkerCls = evict_from_dict"

definition register_command :: "command_cls \<Rightarrow> cmd_registry \<Rightarrow> exn + cmd_registry" where
  "register_command c reg =
     (if cls_action_type c = [] then Inl (ValueError ''must define action_type'')
      else Inr (reg(cls_action_type c \<mapsto> c)))"

definition unregister_command :: "string \<Rightarrow> cmd_registry \<Rightarrow> cmd_registry" where
  "unregister_command a reg = reg(a := None)"

definition command_from_dict :: "cmd_registry \<Rightarrow> jdict \<Rightarrow> exn + command" where
  "command_from_dict reg d =
     (case reg (py_str (dget0 d ''action_type'')) of
        None \<Rightarrow> Inl (ValueError (''Unsupported action_type: '' @ py_str (dget0 d ''action_type'')))
      | Some c \<Rightarrow> cls_from_dict c d)"

text \<open>The registrations the module runs when it is imported.\<close>

definition builtin_commands :: cmd_registry where
  "builtin_commands = fold (\<lambda>c reg. case register_command c reg of Inl _ \<Rightarrow> reg | Inr r \<Rightarrow> r)
     [AskAgentCls, ResumeCls, CancelTaskCls, ReloadPluginsCls, SuspendWorkerCls,
      ResumeWorkerCls, EvictWorkerCls] Map.empty"

lemma builtin_lookup [simp]: "builtin_commands (cls_action_type c) = Some c"
  by (cases c) (simp_all add: builtin_commands_def register_command_def)

lemmas wire_defs = wire_def with_extra_def wire_header_def wire_body_def get_dict_def get_str_def
  need_def dget_def dget0_def header_roundtrip

lemmas from_dict_defs = ask_from_dict_def resume_from_dict_def cancel_from_dict_def
  reload_from_dict_def suspend_from_dict_def resume_worker_from_dict_def evict_from_dict_def

lemmas to_dict_defs = ask_to_dict_def resume_to_dict_def cancel_to_dict_def

fun cls_of :: "command \<Rightarrow> command_cls" where
  "cls_of (AskAgentCommand a) = AskAgentCls"
| "cls_of (ResumeCommand r) = ResumeCls"
| "cls_of (CancelTaskCommand c) = CancelTaskCls"
| "cls_of (ReloadPluginsCommand h i r) = ReloadPluginsCls"
| "cls_of (SuspendWorkerCommand h r) = SuspendWorkerCls"
| "cls_of (ResumeWorkerCommand h) = ResumeWorkerCls"
| "cls_of (EvictWorkerCommand h r f) = EvictWorkerCls"

lemma wire_action [simp]: "dget0 (command_to_dict c) ''action_type'' = JStr (cls_action_type (cls_of c))"
  by (cases c) (simp_all add: to_dict_defs wire_def dget0_def dget_def)

lemma cls_roundtrip: "constructed c \<Longrightarrow> cls_from_dict (cls_of c) (command_to_dict c) = Inr c"
proof (cases c)
  case (AskAgentCommand a)
  then show "constructed c \<Longrightarrow> ?thesis"
    by (cases a) (auto simp: from_dict_defs to_dict_defs wire_defs)
next
  case (ResumeCommand r)
  then show "constructed c \<Longrightarrow> ?thesis"
    by (cases r) (auto simp: from_dict_defs to_dict_defs wire_defs)
next
  case (CancelTaskCommand k)
  then show "constructed c \<Longrightarrow> ?thesis"
    by (cases k) (auto simp: from_dict_defs to_dict_defs wire_defs)
qed (auto simp: from_dict_defs to_dict_defs wire_defs)

text \<open>
  C27: every command a constructor accepts survives the wire: decoding what
  \<open>to_redis_payload\<close> writes, through the command registry, gives the same command,
  whatever its header, metadata, content and extra payload.
\<close>

theorem command_wire_roundtrip:
  assumes "constructed c"
  shows "map_option (\<lambda>v. res_bind (as_dict v) (command_from_dict builtin_commands))
           (loads (to_redis_payload c)) = Some (Inr c)"
  using cls_roundtrip [OF assms] by (simp add: to_redis_payload_def command_from_dict_def)

text \<open>Conversely nothing that fails its constructor's check is ever decoded.\<close>

lemma new_constructed:
  "new_ask a = Inr c \<Longrightarrow> constructed c" "new_resume r = Inr c \<Longrightarrow> constructed c"
  "new_cancel k = Inr c \<Longrightarrow> constructed c" "new_reload h i s = Inr c \<Longrightarrow> constructed c"
  by (auto simp: new_ask_def new_resume_def new_cancel_def new_reload_def split: if_splits)

lemma res_bind_Inr_iff [simp]: "res_bind r f = Inr b \<longleftrightarrow> (\<exists>a. r = Inr a \<and> f a = Inr b)"
  by (cases r) auto

lemma cls_from_dict_constructed: "cls_from_dict k d = Inr c \<Longrightarrow> constructed c \<and> cls_of c = k"
  by (cases k) (auto simp: from_dict_defs new_constructed dest: new_constructed,
      auto simp: new_ask_def new_resume_def new_cancel_def new_reload_def split: if_splits)

text \<open>
  C40: whatever dictionary arrives on a control stream, if it decodes at all then the
  command has passed its constructor's checks and its class is the one its
  \<open>action_type\<close> names; an unregistered action type is a \<open>ValueError\<close>.
\<close>

theorem command_decode_sound:
  "(command_from_dict builtin_commands d = Inr c \<longrightarrow>
      constructed c \<and> py_str (dget0 d ''action_type'') = cls_action_type (cls_of c)) \<and>
   (reg (py_str (dget0 d ''action_type'')) = None \<longrightarrow>
      (\<exists>m. command_from_dict reg d = Inl (ValueError m)))"
proof -
  have "builtin_commands a = Some k \<Longrightarrow> a = cls_action_type k" for a k
    by (auto simp: builtin_commands_def register_command_def split: if_splits)
  then show ?thesis
    by (auto simp: command_from_dict_def split: option.splits dest: cls_from_dict_constructed)
qed

definition demo_resume :: command where
  "demo_resume = ResumeCommand \<lparr>res_header = \<lparr>mh_message_id = ''m2'', mh_session_id = ''s'', mh_trace_id = ''t'', mh_source_agent_type = ''b'',
        mh_target_agent_type = ''a'', mh_parent_message_id = ''m1'', mh_task_group_id = [], mh_user_code = ''u'',
        mh_user_name = [], mh_metadata = [(''k'', JInt 1)], mh_trace_parent_span_id = [],
        mh_langfuse_parent_observation_id = []\<rparr>,
     res_content = JStr ''done'', res_status = ''COMPLETED'', res_reply_data = JNull, res_extra_payload = [(''x'', JBool True)]\<rparr>"

theorem command_wire_roundtrip_witness:
  "map_option (\<lambda>v. res_bind (as_dict v) (command_from_dict builtin_commands))
     (loads (to_redis_payload demo_resume)) = Some (Inr demo_resume)"
  by (rule command_wire_roundtrip) (simp add: demo_resume_def new_resume_def)

theorem command_decode_sound_witness:
  "constructed demo_resume \<and> py_str (dget0 (command_to_dict demo_resume) ''action_type'') = ''RESUME'' \<and>
   (\<exists>m. command_from_dict (unregister_command ''RESUME'' builtin_commands) (command_to_dict demo_resume) = Inl (ValueError m))"
proof -
  have d: "command_from_dict builtin_commands (command_to_dict demo_resume) = Inr demo_resume" by code_simp
  have a: "py_str (dget0 (command_to_dict demo_resume) ''action_type'') = ''RESUME''" by code_simp
  show ?thesis
    using command_decode_sound [of "command_to_dict demo_resume" demo_resume
        "unregister_command ''RESUME'' builtin_commands"] d a
    by (simp add: unregister_command_def)
qed

section \<open>What a handler returns\<close>

record task_result =
  tr_status :: string
  tr_content :: json
  tr_reply_data :: json
  tr_metadata :: jdict
  tr_extra_payload :: jdict

definition default_result :: task_result where
  "default_result = \<lparr>tr_status = ''COMPLETED'', tr_content = JStr [], tr_reply_data = JNull,
     tr_metadata = [], tr_extra_payload = []\<rparr>"

text \<open>
  A Python object a handler may return: JSON-like values, a structured result, a
  dictionary with a key that is no string, or any other object.
\<close>

datatype pyobj =
    PNull | PBool bool | PInt int | PFloat "64 word" | PStr string
  | PList "pyobj list"
  | PDict "(pyobj \<times> pyobj) list"
  | PResult string pyobj pyobj pyobj pyobj
  | POther string

fun ensure_json_serializable :: "pyobj \<Rightarrow> exn + json"
  and ensure_items :: "pyobj list \<Rightarrow> exn + json list"
  and ensure_fields :: "(pyobj \<times> pyobj) list \<Rightarrow> jdict \<Rightarrow> exn + jdict" where
  "ensure_json_serializable PNull = Inr JNull"
| "ensure_json_serializable (PBool b) = Inr (JBool b)"
| "ensure_json_serializable (PInt n) = Inr (JInt n)"
| "ensure_json_serializable (PFloat w) = Inr (JFloat w)"
| "ensure_json_serializable (PStr s) = Inr (JStr s)"
| "ensure_json_serializable (PList l) = res_bind (ensure_items l) (\<lambda>x. Inr (JList x))"
| "ensure_json_serializable (PDict d) = res_bind (ensure_fields d []) (\<lambda>x. Inr (JObj x))"
| "ensure_json_serializable _ = Inl (TypeError ''process_command return value must be JSON serializable'')"
| "ensure_items [] = Inr []"
| "ensure_items (x # l) = res_bind (ensure_json_serializable x) (\<lambda>v.
     res_bind (ensure_items l) (\<lambda>vs. Inr (v # vs)))"
| "ensure_fields [] acc = Inr acc"
| "ensure_fields ((k, v) # d) acc = (case k of
     PStr s \<Rightarrow> res_bind (ensure_json_serializable v) (\<lambda>j. ensure_fields d (dset s j acc))
   | _ \<Rightarrow> Inl (TypeError ''got non-string key''))"

fun is_jobj :: "json \<Rightarrow> bool" where
  "is_jobj (JObj d) = True"
| "is_jobj _ = False"

fun ensure_wire_content :: "pyobj \<Rightarrow> exn + json" where
  "ensure_wire_content (PStr s) = Inr (JStr s)"
| "ensure_wire_content (PList l) = res_bind (ensure_items l) (\<lambda>items.
     if list_all is_jobj items then Inr (JList items)
     else Inl (TypeError ''content must be a string or list of dicts''))"
| "ensure_wire_content _ = Inl (TypeError ''content must be a string or list of dicts'')"

definition ensure_json_object :: "pyobj \<Rightarrow> exn + jdict" where
  "ensure_json_object v = res_bind (ensure_json_serializable v) (\<lambda>j. case j of
     JObj d \<Rightarrow> Inr d | _ \<Rightarrow> Inl (TypeError ''metadata fields must be JSON objects''))"

fun py_truthy :: "pyobj \<Rightarrow> bool" where
  "py_truthy PNull = False"
| "py_truthy (PBool b) = b"
| "py_truthy (PInt n) = (n \<noteq> 0)"
| "py_truthy (PFloat w) = (w \<noteq> 0 \<and> w \<noteq> 0x8000000000000000)"
| "py_truthy (PStr s) = (s \<noteq> [])"
| "py_truthy (PList l) = (l \<noteq> [])"
| "py_truthy (PDict d) = (d \<noteq> [])"
| "py_truthy _ = True"

fun pyobj_str :: "pyobj \<Rightarrow> string" where
  "pyobj_str (PStr s) = s"
| "pyobj_str (PInt n) = show_int n"
| "pyobj_str (PBool b) = (if b then ''True'' else ''False'')"
| "pyobj_str PNull = ''None''"
| "pyobj_str _ = ''<object>''"

definition pget :: "(pyobj \<times> pyobj) list \<Rightarrow> string \<Rightarrow> pyobj \<Rightarrow> pyobj" where
  "pget d k x = (case map_of d (PStr k) of None \<Rightarrow> x | Some v \<Rightarrow> v)"

definition phas :: "(pyobj \<times> pyobj) list \<Rightarrow> string \<Rightarrow> bool" where
  "phas d k = (map_of d (PStr k) \<noteq> None)"

definition RESULT_FIELDS :: "string list" where
  "RESULT_FIELDS = [''status'', ''content'', ''reply_data'', ''metadata'', ''extra_payload'',
     ''finalAnswer'', ''final_answer'']"

definition pyobj_or :: "pyobj \<Rightarrow> pyobj \<Rightarrow> pyobj" where
  "pyobj_or a b = (if py_truthy a then a else b)"

definition is_structured :: "(pyobj \<times> pyobj) list \<Rightarrow> bool" where
  "is_structured d =
     (phas d ''reply_data'' \<or> phas d ''content'' \<or> phas d ''finalAnswer'' \<or> phas d ''final_answer'' \<or>
      (fst ` set d \<subseteq> PStr ` set RESULT_FIELDS \<and> fst ` set d \<inter> PStr ` set RESULT_FIELDS \<noteq> {}))"

definition extract_metadata :: "(pyobj \<times> pyobj) list \<Rightarrow> exn + jdict" where
  "extract_metadata d = (if phas d ''metadata'' then ensure_json_object (pget d ''metadata'' PNull)
                         else Inr [])"

fun normalize_process_result :: "pyobj \<Rightarrow> exn + task_result" where
  "normalize_process_result (PResult st c rd md ex) =
     res_bind (ensure_wire_content c) (\<lambda>c'.
     res_bind (ensure_json_serializable rd) (\<lambda>rd'.
     res_bind (ensure_json_object md) (\<lambda>md'.
     res_bind (ensure_json_object ex) (\<lambda>ex'.
       Inr \<lparr>tr_status = st, tr_content = c', tr_reply_data = rd', tr_metadata = md',
            tr_extra_payload = ex'\<rparr>))))"
| "normalize_process_result (PStr s) =
     (if s \<in> set AgentStateLiteral then Inr (default_result\<lparr>tr_status := s\<rparr>)
      else Inr (default_result\<lparr>tr_reply_data := JStr s\<rparr>))"
| "normalize_process_result (PDict d) =
     res_bind (extract_metadata d) (\<lambda>md.
     if is_structured d then
       res_bind (ensure_wire_content (pyobj_or (pget d ''content'' PNull)
           (pyobj_or (pget d ''finalAnswer'' PNull)
             (pyobj_or (pget d ''final_answer'' PNull) (PStr []))))) (\<lambda>c.
       res_bind (ensure_json_serializable (pget d ''reply_data'' PNull)) (\<lambda>rd.
       res_bind (ensure_json_object (pget d ''extra_payload'' (PDict []))) (\<lambda>ex.
         Inr \<lparr>tr_status = pyobj_str (pget d ''status'' (PStr ''COMPLETED'')), tr_content = c,
              tr_reply_data = rd, tr_metadata = md, tr_extra_payload = ex\<rparr>)))
     else
       res_bind (ensure_json_serializable (PDict d)) (\<lambda>rd.
         Inr \<lparr>tr_status = pyobj_str (pget d ''status'' (PStr ''COMPLETED'')), tr_content = JStr [],
              tr_reply_data = rd, tr_metadata = md, tr_extra_payload = []\<rparr>))"
| "normalize_process_result v =
     res_bind (ensure_json_serializable v) (\<lambda>rd. Inr (default_result\<lparr>tr_reply_data := rd\<rparr>))"

end
