(* ===== verification/Wait_Index.thy ===== *)
theory Wait_Index
  imports Redis_Keys Protocol
begin

text \<open>
  \<open>core/wait_index.py\<close>: the member a suspended caller registers in the sharded
  wait index, how a member is rebuilt from the reply that clears it, the digest
  that names a member's own keys, and the shard of a session.
  SHA-1 is \<open>hashlib.sha1\<close> of the standard library, written out (FIPS 180-4).
\<close>

unbundle bit_operations_syntax

section \<open>Members\<close>

record wait_member =
  wm_session_id :: string
  wm_parent_message_id :: string
  wm_child_message_id :: string
  wm_task_group_id :: string

definition SEPARATOR :: char where "SEPARATOR = CHR ''|''"

definition ESCAPE :: char where "ESCAPE = CHR 0x5C"

text \<open>The two \<open>str.replace\<close> of \<open>_escape\<close>.\<close>

definition replace_char :: "char \<Rightarrow> string \<Rightarrow> string \<Rightarrow> string" where
  "replace_char c t s = concat (map (\<lambda>x. if x = c then t else [x]) s)"

definition escape :: "string \<Rightarrow> string" where
  "escape v = replace_char SEPARATOR [ESCAPE, SEPARATOR] (replace_char ESCAPE [ESCAPE, ESCAPE] v)"

text \<open>The loop of \<open>_split_escaped\<close>: the remaining text, \<open>fields\<close>, \<open>current\<close>, \<open>escaped\<close>.\<close>

fun split_loop :: "string \<Rightarrow> string list \<Rightarrow> string \<Rightarrow> bool \<Rightarrow> exn + string list" where
  "split_loop [] fs current escaped =
     (if escaped then Inl (ValueError ''Invalid wait-index member (dangling escape)'')
      else Inr (fs @ [current]))"
| "split_loop (c # cs) fs current escaped =
     (if escaped then split_loop cs fs (current @ [c]) False
      else if c = ESCAPE then split_loop cs fs current True
      else if c = SEPARATOR then split_loop cs (fs @ [current]) [] False
      else split_loop cs fs (current @ [c]) False)"

definition split_escaped :: "string \<Rightarrow> exn + string list" where
  "split_escaped encoded = split_loop encoded [] [] False"

fun join :: "string \<Rightarrow> string list \<Rightarrow> string" where
  "join sep [] = []"
| "join sep [x] = x"
| "join sep (x # y # zs) = x @ sep @ join sep (y # zs)"

definition encode_member :: "string \<Rightarrow> string \<Rightarrow> string \<Rightarrow> string \<Rightarrow> string" where
  "encode_member session_id parent_message_id child_message_id task_group_id =
     join [SEPARATOR] (map escape
       [session_id, parent_message_id, child_message_id, task_group_id])"

definition decode_member :: "string \<Rightarrow> exn + wait_member" where
  "decode_member member = res_bind (split_escaped member) (\<lambda>fs.
     case fs of
       [s, p, c, g] \<Rightarrow> Inr \<lparr>wm_session_id = s, wm_parent_message_id = p,
                            wm_child_message_id = c, wm_task_group_id = g\<rparr>
     | _ \<Rightarrow> Inl (ValueError ''Invalid wait-index member (expected 4 fields)''))"

text \<open>The header of the reply: the direction is reversed.\<close>

definition member_from_resume :: "header \<Rightarrow> string" where
  "member_from_resume h = encode_member (mh_session_id h) (mh_message_id h)
     (mh_parent_message_id h) (mh_task_group_id h)"

section \<open>SHA-1\<close>

definition hex_char :: "int \<Rightarrow> char" where
  "hex_char d = (if d < 10 then char_of (48 + d) else char_of (87 + d))"

fun hex_digits :: "nat \<Rightarrow> int \<Rightarrow> string" where
  "hex_digits 0 n = []"
| "hex_digits (Suc k) n = hex_digits k (n div 16) @ [hex_char (n mod 16)]"

fun big_endian :: "nat \<Rightarrow> int \<Rightarrow> int list" where
  "big_endian 0 n = []"
| "big_endian (Suc k) n = big_endian k (n div 256) @ [n mod 256]"

definition sha1_pad :: "int list \<Rightarrow> int list" where
  "sha1_pad bs = bs @ [128] @ replicate ((119 - length bs mod 64) mod 64) 0 @ big_endian 8 (8 * int (length bs))"

fun to_words :: "int list \<Rightarrow> 32 word list" where
  "to_words (a # b # c # d # bs) = of_int (((a * 256 + b) * 256 + c) * 256 + d) # to_words bs"
| "to_words _ = []"

text \<open>The schedule, newest word first.\<close>

fun sha1_schedule :: "nat \<Rightarrow> 32 word list \<Rightarrow> 32 word list" where
  "sha1_schedule 0 ws = ws"
| "sha1_schedule (Suc n) ws =
     sha1_schedule n (word_rotl 1 (ws ! 2 XOR ws ! 7 XOR ws ! 13 XOR ws ! 15) # ws)"

type_synonym sha1_state = "32 word \<times> 32 word \<times> 32 word \<times> 32 word \<times> 32 word"

definition sha1_f :: "nat \<Rightarrow> 32 word \<Rightarrow> 32 word \<Rightarrow> 32 word \<Rightarrow> 32 word" where
  "sha1_f t b c d = (if t < 20 then (b AND c) OR (NOT b AND d)
     else if t < 40 then b XOR c XOR d
     else if t < 60 then (b AND c) OR (b AND d) OR (c AND d)
     else b XOR c XOR d)"

definition sha1_k :: "nat \<Rightarrow> 32 word" where
  "sha1_k t = (if t < 20 then 0x5A827999 else if t < 40 then 0x6ED9EBA1
     else if t < 60 then 0x8F1BBCDC else 0xCA62C1D6)"

fun sha1_rounds :: "nat \<Rightarrow> 32 word list \<Rightarrow> sha1_state \<Rightarrow> sha1_state" where
  "sha1_rounds t [] st = st"
| "sha1_rounds t (w # ws) (a, b, c, d, e) =
     sha1_rounds (Suc t) ws (word_rotl 5 a + sha1_f t b c d + e + w + sha1_k t, a, word_rotl 30 b, c, d)"

definition sha1_block :: "32 word list \<Rightarrow> sha1_state \<Rightarrow> sha1_state" where
  "sha1_block ws st = (case st of (a, b, c, d, e) \<Rightarrow>
     (case sha1_rounds 0 (rev (sha1_schedule 64 (rev ws))) st of
        (a', b', c', d', e') \<Rightarrow> (a + a', b + b', c + c', d + d', e + e')))"

fun sha1_blocks :: "nat \<Rightarrow> 32 word list \<Rightarrow> sha1_state \<Rightarrow> sha1_state" where
  "sha1_blocks 0 ws st = st"
| "sha1_blocks (Suc n) ws st = sha1_blocks n (drop 16 ws) (sha1_block (take 16 ws) st)"

definition sha1_print :: "sha1_state \<Rightarrow> string" where
  "sha1_print st = (case st of (a, b, c, d, e) \<Rightarrow>
     concat (map (\<lambda>w. hex_digits 8 (uint w)) [a, b, c, d, e]))"

definition sha1_hex :: "int list \<Rightarrow> string" where
  "sha1_hex bs = (let ws = to_words (sha1_pad bs) in
     sha1_print (sha1_blocks (length ws div 16) ws
       (0x67452301, 0xEFCDAB89, 0x98BADCFE, 0x10325476, 0xC3D2E1F0)))"

definition member_digest :: "string \<Rightarrow> string" where
  "member_digest member = sha1_hex (map of_char member)"

section \<open>Shards\<close>

text \<open>Python's unbounded integers, cut to 32 bits after each multiplication.\<close>

definition fnv1a32 :: "string \<Rightarrow> int" where
  "fnv1a32 text = foldl (\<lambda>digest byte. ((digest XOR of_char byte) * 0x01000193) AND 0xFFFFFFFF)
     0x811C9DC5 text"

definition wait_index_shard :: "string \<Rightarrow> int" where
  "wait_index_shard session_id = fnv1a32 session_id mod int WAIT_INDEX_SHARDS"

definition wait_index_key :: "schema \<Rightarrow> string \<Rightarrow> string" where
  "wait_index_key V session_id = wait_index V (wait_index_shard session_id)"

section \<open>Lemmas\<close>

lemma escape_Nil [simp]: "escape [] = []"
  by (simp add: escape_def replace_char_def)

lemma escape_Cons: "escape (c # s) =
    (if c = ESCAPE then [ESCAPE, ESCAPE] else if c = SEPARATOR then [ESCAPE, SEPARATOR] else [c])
    @ escape s"
  by (simp add: escape_def replace_char_def ESCAPE_def SEPARATOR_def)

lemma split_escape:
  "split_loop (escape v @ rest) fs current False = split_loop rest fs (current @ v) False"
  by (induction v arbitrary: current) (auto simp: escape_Cons ESCAPE_def SEPARATOR_def)

lemma split_separator [simp]:
  "split_loop (SEPARATOR # rest) fs current False = split_loop rest (fs @ [current]) [] False"
  by (simp add: ESCAPE_def SEPARATOR_def)

lemma split_join:
  assumes "xs \<noteq> []"
  shows "split_loop (join [SEPARATOR] (map escape xs)) fs [] False = Inr (fs @ xs)"
  using assms
proof (induction xs arbitrary: fs rule: induct_list012)
  case (2 x)
  then show ?case using split_escape [of x "[]" fs "[]"] by simp
next
  case (3 x y zs)
  then show ?case by (simp add: split_escape del: split_loop.simps)
qed simp

lemma decode_encode:
  "decode_member (encode_member s p c g) =
     Inr \<lparr>wm_session_id = s, wm_parent_message_id = p, wm_child_message_id = c, wm_task_group_id = g\<rparr>"
proof -
  have "split_escaped (encode_member s p c g) = Inr ([] @ [s, p, c, g])"
    unfolding split_escaped_def encode_member_def by (rule split_join) simp
  then show ?thesis by (simp only: decode_member_def res_bind_simps append_Nil list.case)
qed

lemma encode_member_inj [simp]:
  "encode_member s p c g = encode_member s' p' c' g' \<longleftrightarrow> s = s' \<and> p = p' \<and> c = c' \<and> g = g'"
proof
  assume "encode_member s p c g = encode_member s' p' c' g'"
  then have "decode_member (encode_member s p c g) = decode_member (encode_member s' p' c' g')"
    by (rule arg_cong)
  then show "s = s' \<and> p = p' \<and> c = c' \<and> g = g'"
    unfolding decode_encode by (simp only: sum.inject wait_member.iffs)
qed simp

lemma fnv_and: "(n::int) AND 0xFFFFFFFF = n mod 2 ^ 32"
proof -
  have "(0xFFFFFFFF::int) = mask 32" by (simp add: mask_eq_exp_minus_1)
  then show ?thesis by (simp only: flip: take_bit_eq_mask) (simp add: take_bit_eq_mod)
qed

lemma shard_range: "0 \<le> wait_index_shard s \<and> wait_index_shard s < 16"
  by (simp add: wait_index_shard_def WAIT_INDEX_SHARDS_def)

lemma length_hex_digits [simp]: "length (hex_digits k n) = k"
  by (induction k arbitrary: n) auto

lemma length_sha1_print [simp]: "length (sha1_print st) = 40"
  by (cases st) (simp add: sha1_print_def)

lemma length_digest [simp]: "length (member_digest m) = 40"
  unfolding member_digest_def sha1_hex_def Let_def by (rule length_sha1_print)

text \<open>
  C38: what \<open>encode_member\<close> writes, \<open>decode_member\<close> reads back, for any four strings
  (separators and backslashes in a caller's ids included), so members of different
  waits are different.
\<close>

theorem wait_member_roundtrip:
  "decode_member (encode_member s p c g) =
     Inr \<lparr>wm_session_id = s, wm_parent_message_id = p, wm_child_message_id = c, wm_task_group_id = g\<rparr>"
  by (rule decode_encode)

section \<open>The shard hash on machine words\<close>

definition fnv1a32_word :: "string \<Rightarrow> 32 word" where
  "fnv1a32_word text = foldl (\<lambda>h b. (h XOR of_char b) * 0x01000193) 0x811C9DC5 text"

lemma of_char_bounds: "0 \<le> (of_char c :: int) \<and> (of_char c :: int) < 256"
proof -
  have "(of_char c :: nat) < 256" by (rule nat_of_char_less_256)
  then have "int (of_char c) < int 256" by (rule iffD2 [OF of_nat_less_iff])
  moreover have "0 \<le> int (of_char c)" by (rule of_nat_0_le_iff)
  ultimately show ?thesis by (simp only: of_nat_of_char) simp
qed

lemma fnv_step:
  "((uint (h :: 32 word) XOR of_char b) * 0x01000193) AND 0xFFFFFFFF =
     uint ((h XOR of_char b) * 0x01000193)"
proof -
  have "(of_char b :: 32 word) = of_int (of_char b)"
    by (simp add: of_int_of_char)
  then have "uint (of_char b :: 32 word) = of_char b"
    using of_char_bounds [of b] by (simp add: uint_word_of_int)
  then have "uint (h XOR of_char b) = uint h XOR of_char b"
    by (simp add: uint_xor)
  then show ?thesis
    by (simp add: fnv_and uint_word_ariths)
qed

text \<open>
  The shard hash computed on unbounded integers with a final mask is the 32-bit
  wrap-around FNV-1a of the other SDKs, so every SDK finds a session's entries in
  the same shard, one of the sixteen.
\<close>

theorem fnv1a32_is_word_hash:
  "fnv1a32 s = uint (fnv1a32_word s) \<and> 0 \<le> wait_index_shard s \<and> wait_index_shard s < 16"
proof -
  have "foldl (\<lambda>d b. ((d XOR of_char b) * 0x01000193) AND 0xFFFFFFFF) (uint h) s =
      uint (foldl (\<lambda>h b. (h XOR of_char b) * 0x01000193) h s)" for h :: "32 word"
    by (induction s arbitrary: h) (simp_all only: foldl_Nil foldl_Cons fnv_step)
  from this [of "0x811C9DC5"] show ?thesis
    using shard_range [of s] by (simp add: fnv1a32_def fnv1a32_word_def)
qed

end
