(* ===== verification/Wait_Gate.thy ===== *)
theory Wait_Gate
  imports Emitter Wait_Index
begin

text \<open>
  \<open>core/wait_gate.py\<close>: the gate every reply passes once, which claims the wait it
  resolves or recognises a duplicate, and the event that announces a dropped reply
  (\<open>GatewayDataEmitter.emit_event\<close> of \<open>common/emitter.py\<close>).
  The properties: what it decides on a quiet server, that it never raises whatever
  the server does, that no wait is claimed twice in any interleaving, and the
  interleaving in which two copies of a reply are nevertheless both let through.
\<close>

section \<open>The gate\<close>

definition ALLOW_CLAIMED :: string where "ALLOW_CLAIMED = ''claimed''"

definition ALLOW_UNREGISTERED :: string where "ALLOW_UNREGISTERED = ''unregistered''"

definition ALLOW_GATE_ERROR :: string where "ALLOW_GATE_ERROR = ''gate_error''"

definition DENY_ALREADY_CONSUMED :: string where "DENY_ALREADY_CONSUMED = ''already_consumed''"

lemmas reason_defs = ALLOW_CLAIMED_def ALLOW_UNREGISTERED_def ALLOW_GATE_ERROR_def DENY_ALREADY_CONSUMED_def

record decision =
  gd_allow :: bool
  gd_reason :: string
  gd_member :: string

definition consumed_marker_key :: "schema \<Rightarrow> string \<Rightarrow> string \<Rightarrow> string" where
  "consumed_marker_key V session_id member = wait_consumed V session_id (member_digest member)"

definition ask_user_member :: "header \<Rightarrow> string" where
  "ask_user_member h = encode_member (mh_session_id h) (mh_message_id h) [] []"

definition candidate_members :: "header \<Rightarrow> string list" where
  "candidate_members h =
     (if mh_task_group_id h = [] \<and> ask_user_member h \<noteq> member_from_resume h
      then [member_from_resume h, ask_user_member h] else [member_from_resume h])"

definition mark_consumed :: "schema \<Rightarrow> string \<Rightarrow> string \<Rightarrow> unit prog" where
  "mark_consumed V session_id member =
     try_exc (exec_cmd (Set (consumed_marker_key V session_id member) (Doc (JInt 1))
       (Some WAIT_CONSUMED_TTL_SECONDS) False)) (\<lambda>_. Ret ())"

primrec try_members :: "schema \<Rightarrow> string \<Rightarrow> string list \<Rightarrow> decision prog" where
  "try_members V session_id [] =
     Ret \<lparr>gd_allow = True, gd_reason = ALLOW_UNREGISTERED, gd_member = []\<rparr>"
| "try_members V session_id (member # rest) =
     bindp (call (ZRem (wait_index_key V session_id) member) r_int) (\<lambda>removed.
     if removed > 0 then
       bindp (mark_consumed V session_id member) (\<lambda>_.
       Ret \<lparr>gd_allow = True, gd_reason = ALLOW_CLAIMED, gd_member = member\<rparr>)
     else bindp (call (Exists (consumed_marker_key V session_id member)) r_bool) (\<lambda>marked.
       if marked then Ret \<lparr>gd_allow = False, gd_reason = DENY_ALREADY_CONSUMED, gd_member = member\<rparr>
       else try_members V session_id rest))"

definition consume_wait_entry :: "schema \<Rightarrow> header \<Rightarrow> decision prog" where
  "consume_wait_entry V h =
     try_exc (try_members V (mh_session_id h) (candidate_members h))
       (\<lambda>_. Ret \<lparr>gd_allow = True, gd_reason = ALLOW_GATE_ERROR, gd_member = []\<rparr>)"

definition command_header :: "command \<Rightarrow> header" where
  "command_header c = (case c of
     AskAgentCommand a \<Rightarrow> ask_header a | ResumeCommand r \<Rightarrow> res_header r
   | CancelTaskCommand k \<Rightarrow> can_header k | ReloadPluginsCommand h i r \<Rightarrow> h
   | SuspendWorkerCommand h r \<Rightarrow> h | ResumeWorkerCommand h \<Rightarrow> h | EvictWorkerCommand h r f \<Rightarrow> h)"

definition command_status :: "command \<Rightarrow> string" where
  "command_status c = (case c of ResumeCommand r \<Rightarrow> res_status r | _ \<Rightarrow> [])"

definition emit_orphaned_reply :: "schema \<Rightarrow> command \<Rightarrow> string \<Rightarrow> string \<Rightarrow> unit prog" where
  "emit_orphaned_reply V command worker_id reason =
     (let h = command_header command in
      try_exc (emit_event V [] (mh_session_id h) (mh_trace_id h) ''orphanedReply''
         (mh_source_agent_type h) (mh_message_id h) (mh_parent_message_id h)
         [(''reason'', JStr reason), (''caller_message_id'', JStr (mh_message_id h)),
          (''child_message_id'', JStr (mh_parent_message_id h)),
          (''task_group_id'', JStr (mh_task_group_id h)),
          (''status'', JStr (command_status command)), (''worker_id'', JStr worker_id)] [])
       (\<lambda>_. Ret ()))"

section \<open>What the gate decides\<close>

lemma results_mark [simp]: "results Q (mark_consumed V s m) = Q ()"
  by (auto simp: mark_consumed_def exec_cmd_def try_exc_def call_def split: reply.splits exn.splits)

lemma gate_returns: "returns (\<lambda>d. gd_allow d \<or> gd_reason d = DENY_ALREADY_CONSUMED) (consume_wait_entry V h)"
proof -
  have "results (\<lambda>d. gd_allow d \<or> gd_reason d = DENY_ALREADY_CONSUMED) (try_members V s ms)" for s ms
    by (induction ms) (auto intro!: results_bindp)
  then show ?thesis
    unfolding consume_wait_entry_def by (intro returns_try_exc) simp_all
qed

lemma wp_mark_consumed [wp_simps]:
  "wp (mark_consumed V s m) Q K = Q (Inr ())
     (K\<lparr>kv := (kv K)(consumed_marker_key V s m \<mapsto> (Doc (JInt 1), Some WAIT_CONSUMED_TTL_SECONDS))\<rparr>)"
  by (simp add: mark_consumed_def wp_simps)

text \<open>The first candidate that is registered or marked decides.\<close>

definition waiting :: "schema \<Rightarrow> kspace \<Rightarrow> string \<Rightarrow> string \<Rightarrow> bool" where
  "waiting V K session_id member = (zs K (wait_index_key V session_id) member \<noteq> None)"

definition consumed :: "schema \<Rightarrow> kspace \<Rightarrow> string \<Rightarrow> string \<Rightarrow> bool" where
  "consumed V K session_id member = present K (consumed_marker_key V session_id member)"

fun gate_result :: "schema \<Rightarrow> kspace \<Rightarrow> string \<Rightarrow> string list \<Rightarrow> decision" where
  "gate_result V K session_id [] = \<lparr>gd_allow = True, gd_reason = ALLOW_UNREGISTERED, gd_member = []\<rparr>"
| "gate_result V K session_id (m # ms) =
     (if waiting V K session_id m then \<lparr>gd_allow = True, gd_reason = ALLOW_CLAIMED, gd_member = m\<rparr>
      else if consumed V K session_id m
      then \<lparr>gd_allow = False, gd_reason = DENY_ALREADY_CONSUMED, gd_member = m\<rparr>
      else gate_result V K session_id ms)"

text \<open>A claim takes the entry out and leaves the marker; nothing else changes the data.\<close>

definition after_gate :: "schema \<Rightarrow> string \<Rightarrow> decision \<Rightarrow> kspace \<Rightarrow> kspace" where
  "after_gate V session_id d K =
     (if gd_reason d = ALLOW_CLAIMED
      then (apply_cmd (ZRem (wait_index_key V session_id) (gd_member d)) K)
        \<lparr>kv := (kv K)(consumed_marker_key V session_id (gd_member d)
                 \<mapsto> (Doc (JInt 1), Some WAIT_CONSUMED_TTL_SECONDS))\<rparr>
      else K)"

lemma zrem_absent: "zs K k m = None \<Longrightarrow> apply_cmd (ZRem k m) K = K"
  by (simp add: fun_upd_idem)

lemma try_members_wp:
  "wp (try_members V s ms) Q K = Q (Inr (gate_result V K s ms)) (after_gate V s (gate_result V K s ms) K)"
proof (induction ms)
  case Nil
  then show ?case by (simp add: after_gate_def reason_defs)
next
  case (Cons m ms)
  show ?case
  proof (cases "waiting V K s m")
    case True
    then obtain sc where "zs K (wait_index_key V s) m = Some sc" by (auto simp: waiting_def)
    then show ?thesis
      by (simp add: wp_simps waiting_def after_gate_def reason_defs)
  next
    case False
    then have "zs K (wait_index_key V s) m = None" by (simp add: waiting_def)
    then show ?thesis
      using Cons False
      by (auto simp: wp_simps fun_upd_idem consumed_def after_gate_def reason_defs)
  qed
qed

lemma gate_wp [wp_simps]:
  "wp (consume_wait_entry V h) Q K =
     Q (Inr (gate_result V K (mh_session_id h) (candidate_members h)))
       (after_gate V (mh_session_id h) (gate_result V K (mh_session_id h) (candidate_members h)) K)"
  by (simp add: consume_wait_entry_def wp_try_exc try_members_wp)

lemma gate_wp_refl: "wp (consume_wait_entry V h) (\<lambda>o' K'.
     o' = Inr (gate_result V K (mh_session_id h) (candidate_members h)) \<and>
     K' = after_gate V (mh_session_id h) (gate_result V K (mh_session_id h) (candidate_members h)) K) K"
  by (simp add: gate_wp)

text \<open>
  On a server that behaves as documented the gate decides by the first of the
  reply's candidates that is registered or marked: a registered one is claimed (entry
  removed, marker written), a marked one is denied as a duplicate; with neither the
  reply passes as unregistered.  Nothing but a claim changes the data, and an unknown
  reply is never dropped.
\<close>

theorem gate_decision:
  assumes "redis exec view"
  shows "case run exec (consume_wait_entry V h) s of (res, u) \<Rightarrow>
     res = Inr (gate_result V (view s) (mh_session_id h) (candidate_members h)) \<and>
     view u = after_gate V (mh_session_id h)
       (gate_result V (view s) (mh_session_id h) (candidate_members h)) (view s)"
  by (rule redis.wp_run [OF assms gate_wp_refl])

text \<open>
  The gate fails open: whatever the server does, failing or answering nonsense
  included, it raises nothing but a cancellation and drops a reply only as a
  duplicate; announcing a dropped reply never fails either.
\<close>

theorem gate_never_raises:
  "(case fst (run X (consume_wait_entry V h) s) of
      Inl e \<Rightarrow> \<exists>m. e = CancelledError m
    | Inr d \<Rightarrow> gd_allow d \<or> gd_reason d = DENY_ALREADY_CONSUMED) \<and>
   (case fst (run X (emit_orphaned_reply V c w r) s) of
      Inl e \<Rightarrow> \<exists>m. e = CancelledError m | Inr u \<Rightarrow> True)"
proof
  show "case fst (run X (consume_wait_entry V h) s) of
      Inl e \<Rightarrow> \<exists>m. e = CancelledError m
    | Inr d \<Rightarrow> gd_allow d \<or> gd_reason d = DENY_ALREADY_CONSUMED"
    using returns_run [OF gate_returns, of X V h s] by (auto split: sum.splits)
  have "returns (\<lambda>_. True) (emit_orphaned_reply V c w r)"
    unfolding emit_orphaned_reply_def Let_def
    by (rule returns_try_exc [where Q = "\<lambda>_. True"])
      (auto simp: emit_event_def exec_cmd_def now_ms_def intro!: results_bindp)
  from returns_run [OF this, of X s]
  show "case fst (run X (emit_orphaned_reply V c w r) s) of
      Inl e \<Rightarrow> \<exists>m. e = CancelledError m | Inr u \<Rightarrow> True"
    by (auto split: sum.splits)
qed

section \<open>A wait is claimed at most once\<close>

definition claims :: "string \<Rightarrow> decision \<Rightarrow> bool" where
  "claims m d = (gd_reason d = ALLOW_CLAIMED \<and> gd_member d = m)"

text \<open>
  \<open>unclaimed k m p\<close>: the rest \<open>p\<close> of a gate call can only end in a claim of \<open>m\<close> after
  a \<open>ZREM\<close> of \<open>m\<close> that removes something, and it never registers \<open>m\<close>.
\<close>

primrec unclaimed :: "string \<Rightarrow> string \<Rightarrow> decision prog \<Rightarrow> bool" where
  "unclaimed k m (Ret d) = (\<not> claims m d)"
| "unclaimed k m (Raise e) = True"
| "unclaimed k m (Do c f) = (\<forall>r. unclaimed k m (f r) \<or> (c = ZRem k m \<and> r_int r > 0))"

lemma unclaimed_bindp: "(\<And>a. unclaimed k m (f a)) \<Longrightarrow> unclaimed k m (bindp p f)"
  by (induction p) auto

lemma unclaimed_try: "unclaimed k m p \<Longrightarrow> (\<And>e. unclaimed k m (h e)) \<Longrightarrow> unclaimed k m (try_exc p h)"
  unfolding try_exc_def by (induction p) (auto split: exn.splits)

lemma unclaimed_member:
  assumes "m' \<noteq> m \<or> wait_index_key V s = k" and "unclaimed k m (try_members V s ms)"
  shows "unclaimed k m (try_members V s (m' # ms))"
proof -
  have "unclaimed k m (bindp (mark_consumed V s m') (\<lambda>_. Ret \<lparr>gd_allow = True, gd_reason = ALLOW_CLAIMED,
      gd_member = m'\<rparr>))" if "m' \<noteq> m"
    using that by (intro unclaimed_bindp) (simp add: claims_def)
  moreover have "unclaimed k m (bindp (call (Exists (consumed_marker_key V s m')) r_bool) (\<lambda>marked.
       if marked then Ret \<lparr>gd_allow = False, gd_reason = DENY_ALREADY_CONSUMED, gd_member = m'\<rparr>
       else try_members V s ms))"
    using assms(2) by (intro unclaimed_bindp) (simp add: claims_def reason_defs)
  ultimately show ?thesis
    using assms(1) by (auto simp: call_def split: reply.splits)
qed

lemma gate_unclaimed:
  assumes m: "m = encode_member sess p c g"
  shows "unclaimed (wait_index_key V sess) m (consume_wait_entry V h)"
proof -
  have "unclaimed (wait_index_key V sess) m (try_members V (mh_session_id h) ms)"
    if "set ms \<subseteq> {member_from_resume h, ask_user_member h}" for ms
    using that
  proof (induction ms)
    case (Cons x ms)
    then have "x = member_from_resume h \<or> x = ask_user_member h" by auto
    then have "x \<noteq> m \<or> wait_index_key V (mh_session_id h) = wait_index_key V sess"
      by (auto simp: m member_from_resume_def ask_user_member_def)
    then show ?case using Cons by (intro unclaimed_member) auto
  qed (simp add: claims_def reason_defs)
  then have "unclaimed (wait_index_key V sess) m (try_members V (mh_session_id h) (candidate_members h))"
    by (simp add: candidate_members_def)
  then show ?thesis
    unfolding consume_wait_entry_def by (intro unclaimed_try) (simp_all add: claims_def reason_defs)
qed

definition adds_nothing :: "string \<Rightarrow> string \<Rightarrow> cmd \<Rightarrow> bool" where
  "adds_nothing k m c = (\<forall>K. zs K k m = None \<longrightarrow> zs (apply_cmd c K) k m = None)"

lemma gate_adds_nothing: "only (adds_nothing k m) (consume_wait_entry V h)"
proof -
  have [simp]: "adds_nothing k m (ZRem a b)" "adds_nothing k m (Exists a)" "adds_nothing k m (Set a v t nx)" for a b v t nx
    by (auto simp: adds_nothing_def)
  have "only (adds_nothing k m) (try_members V s ms)" for s ms
    by (induction ms) (auto simp: mark_consumed_def intro!: only_bindp only_try_exc)
  then show ?thesis by (auto simp: consume_wait_entry_def intro!: only_try_exc)
qed

text \<open>The invariant: at most one call holds the claim, and none while the entry is there.\<close>

definition claim_inv ::
  "('s \<Rightarrow> kspace) \<Rightarrow> string \<Rightarrow> string \<Rightarrow> 's \<times> (nat \<Rightarrow> decision prog) \<Rightarrow> bool" where
  "claim_inv view k m P =
     ((\<forall>i. only (adds_nothing k m) (snd P i)) \<and>
      (\<forall>i j. \<not> unclaimed k m (snd P i) \<longrightarrow> \<not> unclaimed k m (snd P j) \<longrightarrow> i = j) \<and>
      (zs (view (fst P)) k m \<noteq> None \<longrightarrow> (\<forall>i. unclaimed k m (snd P i))))"

context redis begin

lemma claim_inv_step:
  assumes "claim_inv view k m P" and "pool_step exec env P Q"
    and env: "\<And>a b. env a b \<Longrightarrow> zs (view a) k m = None \<Longrightarrow> zs (view b) k m = None"
  shows "claim_inv view k m Q"
  using assms(2)
proof (cases rule: pool_step.cases)
  case (pool_do ps i c f s)
  let ?r = "fst (exec c s)"
  have o: "\<forall>j. only (adds_nothing k m) (ps j)"
    and u: "\<And>a b. \<not> unclaimed k m (ps a) \<Longrightarrow> \<not> unclaimed k m (ps b) \<Longrightarrow> a = b"
    and z: "zs (view s) k m \<noteq> None \<Longrightarrow> unclaimed k m (ps j)" for j
    using assms(1) pool_do(1) unfolding claim_inv_def by auto
  have oc: "adds_nothing k m c" "\<forall>r. only (adds_nothing k m) (f r)"
    using o pool_do(3) by (metis only.simps(3))+
  have gone: "zs (view s) k m = None \<Longrightarrow> zs (view (snd (exec c s))) k m = None"
    using oc(1) by (simp add: adds_nothing_def exec_view)
  show ?thesis
  proof (cases "unclaimed k m (ps i) \<and> \<not> unclaimed k m (f ?r)")
    case True
    then have c: "c = ZRem k m" and "r_int ?r > 0"
      using pool_do(3) by (metis unclaimed.simps(3))+
    then have "zs (view s) k m \<noteq> None" by (auto split: if_splits)
    then have "\<forall>j. unclaimed k m (ps j)" using z by blast
    moreover have "zs (view (snd (exec c s))) k m = None" by (simp add: exec_view c)
    ultimately show ?thesis
      using o oc pool_do(2) by (auto simp: claim_inv_def)
  next
    case False
    then have "\<not> unclaimed k m (f ?r) \<Longrightarrow> \<not> unclaimed k m (ps i)" by blast
    then show ?thesis
      using o oc u z gone pool_do(2) unfolding claim_inv_def by (auto; metis)
  qed
next
  case (pool_env s u ps)
  then show ?thesis using assms(1) env [of s u] unfolding claim_inv_def by auto
qed

lemma claimed_once:
  assumes "pool_reach exec env (s0, \<lambda>i. consume_wait_entry V (hdr i)) (s, ps)"
    and "\<And>a b. env a b \<Longrightarrow> zs (view a) (wait_index_key V sess) (encode_member sess p c g) = None \<Longrightarrow>
       zs (view b) (wait_index_key V sess) (encode_member sess p c g) = None"
    and "ps i = Ret d" "ps j = Ret d'"
    and "claims (encode_member sess p c g) d" "claims (encode_member sess p c g) d'"
  shows "i = j"
proof -
  have "claim_inv view (wait_index_key V sess) (encode_member sess p c g) (s, ps)"
    using assms(1)
  proof (rule pool_invariant)
    show "claim_inv view (wait_index_key V sess) (encode_member sess p c g)
        (s0, \<lambda>i. consume_wait_entry V (hdr i))"
      by (simp add: claim_inv_def gate_unclaimed gate_adds_nothing)
  qed (rule claim_inv_step [OF _ _ assms(2)])
  then show ?thesis
    using assms(3-6) unfolding claim_inv_def by (metis snd_conv unclaimed.simps(1))
qed

end

text \<open>
  C1: a wait is claimed at most once: of any number of gate calls on any replies,
  interleaved command by command with each other and with anything that does not
  register the same wait again, at most one ends with a claim of a given member.
\<close>

theorem wait_claimed_once:
  assumes "redis exec view"
    and "pool_reach exec env (s0, \<lambda>i. consume_wait_entry V (hdr i)) (s, ps)"
    and "\<And>a b. env a b \<Longrightarrow> zs (view a) (wait_index_key V sess) (encode_member sess p c g) = None \<Longrightarrow>
       zs (view b) (wait_index_key V sess) (encode_member sess p c g) = None"
    and "ps i = Ret d" "ps j = Ret d'"
    and "claims (encode_member sess p c g) d" "claims (encode_member sess p c g) d'"
  shows "i = j"
  by (rule redis.claimed_once [OF assms(1,2) _ assms(4-7)]) (fact assms(3))

lemma candidate_first: "\<exists>rest. candidate_members h = member_from_resume h # rest"
  by (simp add: candidate_members_def)

lemma twice_wp:
  assumes "waiting V K (mh_session_id h) (member_from_resume h)"
  shows "wp (bindp (consume_wait_entry V h) (\<lambda>d1. bindp (consume_wait_entry V h) (\<lambda>d2. Ret (d1, d2))))
    (\<lambda>o' K'. o' = Inr
       (\<lparr>gd_allow = True, gd_reason = ALLOW_CLAIMED, gd_member = member_from_resume h\<rparr>,
        \<lparr>gd_allow = False, gd_reason = DENY_ALREADY_CONSUMED, gd_member = member_from_resume h\<rparr>)) K"
proof -
  obtain rest where c: "candidate_members h = member_from_resume h # rest"
    using candidate_first by blast
  show ?thesis
    using assms by (simp add: wp_simps c after_gate_def reason_defs waiting_def consumed_def present_def)
qed

text \<open>
  Of two copies of a reply that pass the gate one after the other, the first claims
  the registered wait and the second is dropped as a duplicate.
\<close>

theorem second_copy_dropped:
  assumes "redis exec view" and "waiting V (view s) (mh_session_id h) (member_from_resume h)"
  shows "fst (run exec (bindp (consume_wait_entry V h) (\<lambda>d1.
       bindp (consume_wait_entry V h) (\<lambda>d2. Ret (d1, d2)))) s) = Inr
     (\<lparr>gd_allow = True, gd_reason = ALLOW_CLAIMED, gd_member = member_from_resume h\<rparr>,
      \<lparr>gd_allow = False, gd_reason = DENY_ALREADY_CONSUMED, gd_member = member_from_resume h\<rparr>)"
  using redis.wp_run [OF assms(1) twice_wp [OF assms(2)]] by (auto split: prod.splits)

section \<open>Two copies at once\<close>

definition waiting_server :: "schema \<Rightarrow> header \<Rightarrow> rserver" where
  "waiting_server V h = empty_server\<lparr>l_zs := [(wait_index_key V (mh_session_id h), [(member_from_resume h, 5)])]\<rparr>"

lemma waiting_server_view [simp]: "waiting V (rview (waiting_server V h)) (mh_session_id h) (member_from_resume h)"
  by (simp add: waiting_def waiting_server_def rview_def look_def)

lemma race_schedule:
  assumes "mh_task_group_id h \<noteq> []"
  shows "case pool_run ref_exec [0, 1, 1, 0] (waiting_server V h, \<lambda>_. consume_wait_entry V h) of (u, ps) \<Rightarrow>
     ps 0 = Ret \<lparr>gd_allow = True, gd_reason = ALLOW_CLAIMED, gd_member = member_from_resume h\<rparr> \<and>
     ps 1 = Ret \<lparr>gd_allow = True, gd_reason = ALLOW_UNREGISTERED, gd_member = []\<rparr>"
proof -
  have "candidate_members h = [member_from_resume h]"
    using assms by (simp add: candidate_members_def)
  then show ?thesis
    by (simp add: consume_wait_entry_def call_def try_exc_def mark_consumed_def exec_cmd_def ref_exec_def
        waiting_server_def look_def empty_server_def)
qed

text \<open>
  The claim and the marker that makes it visible are two commands.  When the second
  copy of a sub-agent's reply passes the gate between them it finds neither entry nor
  marker, so both copies are let through: the caller is woken twice.
\<close>

theorem gate_race:
  assumes "mh_task_group_id h \<noteq> []"
  shows "\<exists>schedule u ps d0 d1. pool_run ref_exec schedule (waiting_server V h, \<lambda>_. consume_wait_entry V h) = (u, ps) \<and>
     ps 0 = Ret d0 \<and> ps 1 = Ret d1 \<and> gd_allow d0 \<and> gd_allow d1 \<and>
     claims (member_from_resume h) d0 \<and> gd_reason d1 = ALLOW_UNREGISTERED"
proof -
  obtain u ps where "pool_run ref_exec [0, 1, 1, 0] (waiting_server V h, \<lambda>_. consume_wait_entry V h) = (u, ps)"
    by (cases "pool_run ref_exec [0, 1, 1, 0] (waiting_server V h, \<lambda>_. consume_wait_entry V h)")
  with race_schedule [OF assms, of V] show ?thesis
    by (intro exI [of _ "[0, 1, 1, 0]"] exI [of _ u] exI [of _ ps] exI) (auto simp: claims_def)
qed

section \<open>The properties at a concrete server\<close>

definition demo_reply :: header where
  "demo_reply = \<lparr>mh_message_id = ''caller'', mh_session_id = ''s'', mh_trace_id = [],
     mh_source_agent_type = [], mh_target_agent_type = [], mh_parent_message_id = ''child'',
     mh_task_group_id = ''g'', mh_user_code = [], mh_user_name = [], mh_metadata = [],
     mh_trace_parent_span_id = [], mh_langfuse_parent_observation_id = []\<rparr>"

theorem gate_race_witness:
  "\<exists>schedule u ps d0 d1. pool_run ref_exec schedule (waiting_server V1 demo_reply,
       \<lambda>_. consume_wait_entry V1 demo_reply) = (u, ps) \<and>
     ps 0 = Ret d0 \<and> ps 1 = Ret d1 \<and> gd_allow d0 \<and> gd_allow d1 \<and>
     claims (member_from_resume demo_reply) d0 \<and> gd_reason d1 = ALLOW_UNREGISTERED"
  using gate_race [of demo_reply V1] by (simp add: demo_reply_def)

theorem second_copy_dropped_witness:
  "\<exists>d1 d2. fst (run ref_exec (bindp (consume_wait_entry V1 demo_reply) (\<lambda>d1.
       bindp (consume_wait_entry V1 demo_reply) (\<lambda>d2. Ret (d1, d2)))) (waiting_server V1 demo_reply)) =
       Inr (d1, d2) \<and> gd_allow d1 \<and> \<not> gd_allow d2"
  using second_copy_dropped [OF ref.redis_axioms waiting_server_view, of V1 demo_reply] by simp

theorem gate_decision_witness:
  "\<exists>d. fst (run ref_exec (consume_wait_entry V1 demo_reply) (waiting_server V1 demo_reply)) = Inr d"
  using gate_decision [OF ref.redis_axioms, where V = V1 and h = demo_reply and s = "waiting_server V1 demo_reply"]
  by (auto split: prod.splits)

theorem wait_claimed_once_witness:
  "\<exists>s ps d. pool_reach ref_exec (\<lambda>_ _. False) (waiting_server V1 demo_reply,
        \<lambda>_. consume_wait_entry V1 demo_reply) (s, ps) \<and>
     ps 0 = Ret d \<and> claims (member_from_resume demo_reply) d \<and>
     (\<forall>j d'. ps j = Ret d' \<longrightarrow> claims (member_from_resume demo_reply) d' \<longrightarrow> 0 = j)"
proof -
  let ?start = "(waiting_server V1 demo_reply, \<lambda>_ :: nat. consume_wait_entry V1 demo_reply)"
  obtain s ps where r: "pool_run ref_exec [0, 1, 1, 0] ?start = (s, ps)"
    by (cases "pool_run ref_exec [0, 1, 1, 0] ?start")
  then have reach: "pool_reach ref_exec (\<lambda>_ _. False) ?start (s, ps)"
    by (metis pool_run_reach)
  have g: "mh_task_group_id demo_reply \<noteq> []" by (simp add: demo_reply_def)
  obtain d where d: "ps 0 = Ret d" "claims (member_from_resume demo_reply) d"
    using race_schedule [OF g, of V1] r by (auto simp: claims_def)
  have "0 = j" if "ps j = Ret d'" and "claims (member_from_resume demo_reply) d'" for j d'
    using wait_claimed_once [OF ref.redis_axioms reach _ d(1) that(1)] d(2) that(2)
    unfolding member_from_resume_def by blast
  then show ?thesis using reach d by blast
qed

end
