(* ===== verification/Wait_Reply.thy ===== *)
theory Wait_Reply
  imports Wait_Gate
begin

text \<open>
  \<open>core/wait_reply.py\<close>: the replies built on behalf of a sub-agent that will never
  send one, and the delivery of those a fan-out queued.
\<close>

definition SYNTHESIZED_BY_SWEEPER :: string where "SYNTHESIZED_BY_SWEEPER = ''wait_sweeper''"

definition SYNTHESIZED_BY_DISPATCH :: string where "SYNTHESIZED_BY_DISPATCH = ''dispatch''"

definition failure_reply_data :: "string \<Rightarrow> string \<Rightarrow> string \<Rightarrow> json" where
  "failure_reply_data error error_code child_message_id = JObj
     [(''error'', JStr error), (''error_code'', JStr error_code),
      (''child_message_id'', JStr child_message_id)]"

text \<open>The keyword arguments of \<open>stand_in_reply\<close>.\<close>

record stand_in =
  si_session_id :: string
  si_caller_message_id :: string
  si_caller_agent_type :: string
  si_child_message_id :: string
  si_child_agent_type :: string
  si_task_group_id :: string
  si_trace_id :: string
  si_status :: string
  si_content :: json
  si_reply_data :: json
  si_extra_payload :: jdict
  si_metadata :: jdict
  si_error_code :: string
  si_synthesized_by :: string
  si_user_code :: string
  si_user_name :: string

definition stand_in_header :: "stand_in \<Rightarrow> string \<Rightarrow> header" where
  "stand_in_header a trace_id =
     \<lparr>mh_message_id = si_caller_message_id a, mh_session_id = si_session_id a, mh_trace_id = trace_id,
      mh_source_agent_type = si_child_agent_type a, mh_target_agent_type = si_caller_agent_type a,
      mh_parent_message_id = si_child_message_id a, mh_task_group_id = si_task_group_id a,
      mh_user_code = si_user_code a, mh_user_name = si_user_name a,
      mh_metadata = dupdate (si_metadata a)
        [(''synthesized_by'', JStr (si_synthesized_by a)),
         (''liveness_error_code'', JStr (si_error_code a)),
         (''child_message_id'', JStr (si_child_message_id a))],
      mh_trace_parent_span_id = [], mh_langfuse_parent_observation_id = []\<rparr>"

definition stand_in_reply :: "stand_in \<Rightarrow> command prog" where
  "stand_in_reply a =
     bindp (if si_trace_id a \<noteq> [] then Ret (si_trace_id a) else uuid_hex) (\<lambda>trace_id.
     case new_resume \<lparr>res_header = stand_in_header a trace_id, res_content = si_content a,
            res_status = si_status a, res_reply_data = si_reply_data a,
            res_extra_payload = si_extra_payload a\<rparr> of
       Inl e \<Rightarrow> Raise e | Inr c \<Rightarrow> Ret c)"

text \<open>
  The context's pending list is empty afterwards; what is passed is its content.
\<close>

definition flush_pending_group_replies :: "schema \<Rightarrow> command list \<Rightarrow> unit prog" where
  "flush_pending_group_replies V pending =
     for_each (\<lambda>reply. try_exc
       (exec_cmd (XAdd (ctrl_stream V (mh_target_agent_type (command_header reply))) (to_redis_payload reply)))
       (\<lambda>_. Ret ())) pending"

section \<open>Lemmas\<close>

lemma stand_in_member:
  "member_from_resume (stand_in_header a trace_id) =
     encode_member (si_session_id a) (si_caller_message_id a) (si_child_message_id a) (si_task_group_id a)"
  by (simp add: member_from_resume_def stand_in_header_def)

lemma stand_in_header_simps [simp]:
  "mh_message_id (stand_in_header a t) = si_caller_message_id a"
  "mh_parent_message_id (stand_in_header a t) = si_child_message_id a"
  "mh_session_id (stand_in_header a t) = si_session_id a"
  "mh_task_group_id (stand_in_header a t) = si_task_group_id a"
  "mh_target_agent_type (stand_in_header a t) = si_caller_agent_type a"
  by (simp_all add: stand_in_header_def)

text \<open>
  A stand-in reply, when it can be built, is a constructed \<open>ResumeCommand\<close> addressed
  at the caller that reattaches the caller's execution, and the gate rebuilds from it
  exactly the member the caller registered for that sub-task: whoever builds the reply,
  it clears that wait and no other.
\<close>

theorem stand_in_clears_its_wait:
  "case fst (run X (stand_in_reply a) s) of
     Inl e \<Rightarrow> True
   | Inr c \<Rightarrow> constructed c \<and> cls_of c = ResumeCls \<and> command_status c = si_status a \<and>
       mh_message_id (command_header c) = si_caller_message_id a \<and>
       mh_target_agent_type (command_header c) = si_caller_agent_type a \<and>
       decode_member (member_from_resume (command_header c)) = Inr
         \<lparr>wm_session_id = si_session_id a, wm_parent_message_id = si_caller_message_id a,
          wm_child_message_id = si_child_message_id a, wm_task_group_id = si_task_group_id a\<rparr>"
  by (auto simp: stand_in_reply_def run_bindp new_resume_def command_header_def command_status_def
      stand_in_member decode_encode split: prod.splits sum.splits if_splits)

lemma flush_returns: "returns (\<lambda>_. True) (flush_pending_group_replies V pending)"
  unfolding flush_pending_group_replies_def
  by (induction pending) (auto simp: exec_cmd_def intro!: returns_bindp [where A = "\<lambda>_. True"]
      returns_try_exc [where Q = "\<lambda>_. True"])

definition sent_replies :: "schema \<Rightarrow> command list \<Rightarrow> kspace \<Rightarrow> kspace" where
  "sent_replies V pending = fold (\<lambda>reply. apply_cmd
     (XAdd (ctrl_stream V (mh_target_agent_type (command_header reply))) (to_redis_payload reply))) pending"

lemma flush_wp:
  "wp (flush_pending_group_replies V pending) Q K = Q (Inr ()) (sent_replies V pending K)"
  unfolding flush_pending_group_replies_def sent_replies_def
  by (rule wp_for_each) (simp add: wp_try_exc wp_exec_cmd)

end
