(* ===== verification/Registry_Lease.thy ===== *)
theory Registry_Lease
  imports Redis Redis_Keys "HOL-Library.List_Lexorder" "HOL-Library.Char_ord"
begin

text \<open>
  \<open>core/registry.py\<close>, the worker half: the presence value of a worker's lease and
  the three server-side scripts that read it, the exclusive worker id
  (\<open>claim_worker_id\<close>, \<open>refresh_worker_id_lock\<close>, \<open>release_worker_id\<close>), heartbeats,
  the scoped locks, the membership of workers in agent types, the denylist and the
  admin state.  Python sets are lists here; what is left in the server does not
  depend on the order they are walked in.
\<close>

section \<open>Presence values\<close>

text \<open>Lua's \<open>tostring\<close> of a decoded JSON value; numbers of up to fourteen digits.\<close>

fun lua_tostring :: "json \<Rightarrow> string" where
  "lua_tostring (JStr s) = s"
| "lua_tostring (JInt n) = show_int n"
| "lua_tostring (JBool b) = (if b then ''true'' else ''false'')"
| "lua_tostring JNull = ''userdata: NULL''"
| "lua_tostring (JFloat w) = ''number''"
| "lua_tostring v = ''table''"

text \<open>
  \<open>decode_token\<close> of the scripts: \<open>None\<close> when the text does not parse, else the
  token if there is one.
\<close>

definition decode_token :: "rtext \<Rightarrow> string option option" where
  "decode_token raw =
     (case loads raw of
        None \<Rightarrow> None
      | Some data \<Rightarrow> Some
          (case data of
             JObj d \<Rightarrow> (case map_of d ''token'' of
                None \<Rightarrow> None | Some JNull \<Rightarrow> None | Some stored \<Rightarrow> Some (lua_tostring stored))
           | JList xs \<Rightarrow> None
           | _ \<Rightarrow> if data = JInt 1 then None else Some (lua_tostring data)))"

definition HEARTBEAT_CAS_SCRIPT :: "string \<Rightarrow> rtext \<Rightarrow> int \<Rightarrow> lua" where
  "HEARTBEAT_CAS_SCRIPT token new_value ttl = LGet (\<lambda>raw.
     if token \<noteq> [] then
       (case raw of
          None \<Rightarrow> LSet new_value ttl True (\<lambda>ok. LRet (if ok then 1 else 0))
        | Some r \<Rightarrow> (case decode_token r of
              None \<Rightarrow> LRet (-1)
            | Some None \<Rightarrow> LRet 0
            | Some (Some stored) \<Rightarrow> if stored \<noteq> token then LRet 0
                else LSet new_value ttl False (\<lambda>_. LRet 1)))
     else
       (case raw of
          None \<Rightarrow> LSet new_value ttl False (\<lambda>_. LRet 1)
        | Some r \<Rightarrow> (case decode_token r of
              None \<Rightarrow> LRet 0
            | Some (Some stored) \<Rightarrow> LRet 0
            | Some None \<Rightarrow> LSet new_value ttl False (\<lambda>_. LRet 1))))"

text \<open>In the other two scripts an unparsable value has no token.\<close>

definition decode_token_or_nil :: "rtext \<Rightarrow> string option" where
  "decode_token_or_nil raw = (case decode_token raw of None \<Rightarrow> None | Some t \<Rightarrow> t)"

definition REFRESH_LOCK_SCRIPT :: "string \<Rightarrow> int \<Rightarrow> lua" where
  "REFRESH_LOCK_SCRIPT expected ttl = LGet (\<lambda>raw. case raw of
       None \<Rightarrow> LRet 0
     | Some r \<Rightarrow> (case decode_token_or_nil r of
          None \<Rightarrow> LRet 0
        | Some stored \<Rightarrow> if stored \<noteq> expected then LRet 0 else LExpire ttl (LRet 1)))"

definition RELEASE_LOCK_SCRIPT :: "string \<Rightarrow> lua" where
  "RELEASE_LOCK_SCRIPT expected = LGet (\<lambda>raw. case raw of
       None \<Rightarrow> if expected = [] then LRet 1 else LRet 0
     | Some r \<Rightarrow> if expected = [] then LDel (LRet 1)
         else (case decode_token_or_nil r of
            None \<Rightarrow> LRet 0
          | Some stored \<Rightarrow> if stored \<noteq> expected then LRet 0 else LDel (LRet 1)))"

text \<open>The owner token, the last seen time, whether the payload is legacy, the address.\<close>

type_synonym presence = "string option \<times> int \<times> bool \<times> string"

definition decode_worker_presence :: "rtext option \<Rightarrow> presence" where
  "decode_worker_presence raw =
     (case raw of
        None \<Rightarrow> (None, 0, False, [])
      | Some r \<Rightarrow> (case loads r of
            None \<Rightarrow> (Some (rtext_str r), 0, True, [])
          | Some (JObj d) \<Rightarrow>
              (case dget0 d ''token'' of JNull \<Rightarrow> None | t \<Rightarrow> Some (py_str t),
               py_int (dget d ''last_seen'' (JInt 0)), False, py_text (dget0 d ''ip_address''))
          | Some payload \<Rightarrow>
              if payload = JInt 1 \<or> payload = JBool True then (None, 0, True, [])
              else (Some (py_str payload), 0, True, [])))"

definition PRESENCE_PAYLOAD_VERSION :: int where "PRESENCE_PAYLOAD_VERSION = 1"

definition encode_worker_presence :: "string option \<Rightarrow> int \<Rightarrow> string \<Rightarrow> rtext" where
  "encode_worker_presence token last_seen ip_address = Doc (JObj
     [(''version'', JInt PRESENCE_PAYLOAD_VERSION),
      (''token'', case token of None \<Rightarrow> JNull | Some t \<Rightarrow> JStr t),
      (''last_seen'', JInt last_seen),
      (''ip_address'', JStr ip_address)])"

section \<open>Probing\<close>

definition presence_online :: "presence \<Rightarrow> bool" where
  "presence_online p = (case p of (token, last_seen, is_legacy, ip) \<Rightarrow> is_legacy \<or> last_seen > 0)"

definition check_worker_online :: "schema \<Rightarrow> string \<Rightarrow> bool prog" where
  "check_worker_online V worker_id =
     bindp (get (worker_online_lease V worker_id)) (\<lambda>lease_value.
     case lease_value of
       None \<Rightarrow> Ret False
     | Some r \<Rightarrow> Ret (presence_online (decode_worker_presence (Some r))))"

text \<open>The loop that keeps the workers whose lease is live.\<close>

primrec filter_online :: "schema \<Rightarrow> string list \<Rightarrow> string list prog" where
  "filter_online V [] = Ret []"
| "filter_online V (w # ws) =
     bindp (check_worker_online V w) (\<lambda>up.
     bindp (filter_online V ws) (\<lambda>rest. Ret (if up then w # rest else rest)))"

definition check_agent_type_online :: "schema \<Rightarrow> string \<Rightarrow> bool \<Rightarrow> (bool \<times> string list) prog" where
  "check_agent_type_online V agent_type check_active =
     bindp (call (SMembers (agent_type_members V agent_type)) r_members) (\<lambda>workers.
     if workers = [] then Ret (False, [])
     else bindp (if check_active then filter_online V workers else Ret workers) (\<lambda>worker_ids.
       Ret (worker_ids \<noteq> [], worker_ids)))"

section \<open>Scoped locks\<close>

definition scoped_lock_value :: "string \<Rightarrow> rtext" where
  "scoped_lock_value token = Doc (JObj [(''token'', JStr token)])"

definition acquire_scoped_lock :: "string \<Rightarrow> string \<Rightarrow> int \<Rightarrow> bool prog" where
  "acquire_scoped_lock key token ttl_seconds =
     call (Set key (scoped_lock_value token) (Some ttl_seconds) True) r_bool"

definition release_scoped_lock :: "string \<Rightarrow> string \<Rightarrow> bool prog" where
  "release_scoped_lock key token =
     call (Eval key (RELEASE_LOCK_SCRIPT token)) (\<lambda>r. r_int r \<noteq> 0)"

section \<open>The exclusive worker id\<close>

text \<open>
  The object's own state.  An operation that changes it returns it; when an
  operation raises instead, the object is as before, except that a \<open>claim\<close> whose
  last command fails has already kept its token: it returns the failure with the
  new state.
\<close>

record registry =
  lock_tokens :: "(string \<times> string) list"
  reg_ip_address :: string

text \<open>\<open>token or self._lock_tokens.get(worker_id)\<close>, the empty string for \<open>None\<close>.\<close>

definition held_token :: "registry \<Rightarrow> string \<Rightarrow> string" where
  "held_token reg worker_id = (case map_of (lock_tokens reg) worker_id of None \<Rightarrow> [] | Some t \<Rightarrow> t)"

definition expected_token :: "registry \<Rightarrow> string \<Rightarrow> string option \<Rightarrow> string" where
  "expected_token reg worker_id token =
     (case token of None \<Rightarrow> held_token reg worker_id | Some t \<Rightarrow> str_or t (held_token reg worker_id))"

definition claim_worker_id :: "schema \<Rightarrow> registry \<Rightarrow> string \<Rightarrow> int \<Rightarrow> (registry \<times> (exn + string)) prog" where
  "claim_worker_id V reg worker_id ttl_seconds =
     bindp uuid_hex (\<lambda>token.
     bindp (call (Set (worker_online_lease V worker_id)
         (encode_worker_presence (Some token) 0 (reg_ip_address reg)) (Some ttl_seconds) True) r_bool) (\<lambda>ok.
     if \<not> ok then Raise (ValueError (''worker_id already in use: '' @ worker_id))
     else let reg' = reg\<lparr>lock_tokens := AList.update worker_id token (lock_tokens reg)\<rparr>
       in catch (bindp (exec_cmd (SAdd (known_workers V) worker_id)) (\<lambda>_. Ret (reg', Inr token)))
            (\<lambda>e. Ret (reg', Inl e))))"

definition refresh_worker_id_lock :: "schema \<Rightarrow> registry \<Rightarrow> string \<Rightarrow> int \<Rightarrow> bool prog" where
  "refresh_worker_id_lock V reg worker_id ttl_seconds =
     (if held_token reg worker_id = [] then Ret False
      else call (Eval (worker_online_lease V worker_id)
             (REFRESH_LOCK_SCRIPT (held_token reg worker_id) ttl_seconds)) (\<lambda>r. r_int r \<noteq> 0))"

definition release_worker_id :: "schema \<Rightarrow> registry \<Rightarrow> string \<Rightarrow> string option \<Rightarrow> (registry \<times> bool) prog" where
  "release_worker_id V reg worker_id token =
     (let expected = expected_token reg worker_id token in
      if expected = [] then Ret (reg, False)
      else bindp (call (Eval (worker_online_lease V worker_id) (RELEASE_LOCK_SCRIPT expected)) r_int) (\<lambda>result.
        Ret (if result \<noteq> 0 then reg\<lparr>lock_tokens := AList.delete worker_id (lock_tokens reg)\<rparr> else reg,
             result \<noteq> 0)))"

definition mark_worker_inactive :: "schema \<Rightarrow> registry \<Rightarrow> string \<Rightarrow> string option \<Rightarrow> bool prog" where
  "mark_worker_inactive V reg worker_id token =
     call (Eval (worker_online_lease V worker_id)
       (RELEASE_LOCK_SCRIPT (expected_token reg worker_id token))) (\<lambda>r. r_int r \<noteq> 0)"

definition heartbeat_worker :: "schema \<Rightarrow> registry \<Rightarrow> string \<Rightarrow> int \<Rightarrow> bool prog" where
  "heartbeat_worker V reg worker_id lease_ttl_seconds =
     bindp now_ms (\<lambda>now.
     let token = held_token reg worker_id;
         new_value = encode_worker_presence (if token \<noteq> [] then Some token else None) now (reg_ip_address reg)
     in bindp (call (Eval (worker_online_lease V worker_id)
            (HEARTBEAT_CAS_SCRIPT token new_value lease_ttl_seconds)) r_int) (\<lambda>result.
        if result = -1 then Ret False
        else if result = 0 then Ret False
        else bindp (exec_cmd (SAdd (known_workers V) worker_id)) (\<lambda>_. Ret True)))"

section \<open>Membership\<close>

definition register_worker_membership :: "schema \<Rightarrow> string \<Rightarrow> string list \<Rightarrow> unit prog" where
  "register_worker_membership V worker_id agent_types =
     (let declared_key = worker_declared_agent_types V worker_id;
          new_agent_types = remdups agent_types in
      bindp (call (SMembers declared_key) r_members) (\<lambda>old_agent_types.
      bindp (exec_cmd (SAdd (known_workers V) worker_id)) (\<lambda>_.
      bindp (for_each (\<lambda>stale.
          bindp (exec_cmd (SRem (agent_type_members V stale) worker_id)) (\<lambda>_.
          exec_cmd (SRem declared_key stale)))
        (filter (\<lambda>t. t \<notin> set new_agent_types) old_agent_types)) (\<lambda>_.
      for_each (\<lambda>agent_type.
          bindp (exec_cmd (SAdd declared_key agent_type)) (\<lambda>_.
          bindp (call (SIsMember (agent_type_denied V agent_type) worker_id) r_bool) (\<lambda>denied.
          if \<not> denied then exec_cmd (SAdd (agent_type_members V agent_type) worker_id) else Ret ())))
        new_agent_types))))"

definition unregister_worker_membership :: "schema \<Rightarrow> string \<Rightarrow> unit prog" where
  "unregister_worker_membership V worker_id =
     bindp (call (SMembers (worker_declared_agent_types V worker_id)) r_members) (\<lambda>agent_types.
     bindp (exec_cmd (Del (worker_declared_agent_types V worker_id))) (\<lambda>_.
     bindp (exec_cmd (SRem (known_workers V) worker_id)) (\<lambda>_.
     for_each (\<lambda>agent_type. exec_cmd (SRem (agent_type_members V agent_type) worker_id)) agent_types)))"

definition register_worker :: "schema \<Rightarrow> registry \<Rightarrow> string \<Rightarrow> string list \<Rightarrow> int \<Rightarrow> unit prog" where
  "register_worker V reg worker_id agent_types lease_ttl =
     bindp (register_worker_membership V worker_id agent_types) (\<lambda>_.
     bindp (heartbeat_worker V reg worker_id lease_ttl) (\<lambda>_. Ret ()))"

definition unregister_worker :: "schema \<Rightarrow> registry \<Rightarrow> string \<Rightarrow> unit prog" where
  "unregister_worker V reg worker_id =
     bindp (mark_worker_inactive V reg worker_id None) (\<lambda>_.
     unregister_worker_membership V worker_id)"

definition remove_worker_from_type_members :: "schema \<Rightarrow> string \<Rightarrow> unit prog" where
  "remove_worker_from_type_members V worker_id =
     bindp (call (SMembers (worker_declared_agent_types V worker_id)) r_members) (\<lambda>agent_types.
     for_each (\<lambda>agent_type. exec_cmd (SRem (agent_type_members V agent_type) worker_id)) agent_types)"

definition is_worker_denied_for_type :: "schema \<Rightarrow> string \<Rightarrow> string \<Rightarrow> bool prog" where
  "is_worker_denied_for_type V agent_type worker_id =
     call (SIsMember (agent_type_denied V agent_type) worker_id) r_bool"

definition restore_worker_to_type_members :: "schema \<Rightarrow> string \<Rightarrow> unit prog" where
  "restore_worker_to_type_members V worker_id =
     bindp (call (SMembers (worker_declared_agent_types V worker_id)) r_members) (\<lambda>agent_types.
     for_each (\<lambda>agent_type.
       bindp (is_worker_denied_for_type V agent_type worker_id) (\<lambda>denied.
       if \<not> denied then exec_cmd (SAdd (agent_type_members V agent_type) worker_id) else Ret ())) agent_types)"

definition deny_worker_for_type :: "schema \<Rightarrow> string \<Rightarrow> string \<Rightarrow> unit prog" where
  "deny_worker_for_type V agent_type worker_id = exec_cmd (Pipe
     [SAdd (agent_type_denied V agent_type) worker_id,
      SRem (agent_type_members V agent_type) worker_id])"

definition allow_worker_for_type :: "schema \<Rightarrow> string \<Rightarrow> string \<Rightarrow> unit prog" where
  "allow_worker_for_type V agent_type worker_id =
     exec_cmd (SRem (agent_type_denied V agent_type) worker_id)"

definition get_agent_type_denylist :: "schema \<Rightarrow> string \<Rightarrow> string list prog" where
  "get_agent_type_denylist V agent_type = call (SMembers (agent_type_denied V agent_type)) r_members"

section \<open>Admin state and listing\<close>

definition set_worker_admin_state :: "schema \<Rightarrow> string \<Rightarrow> string \<Rightarrow> string \<Rightarrow> unit prog" where
  "set_worker_admin_state V worker_id lifecycle reason =
     bindp now_ms (\<lambda>now.
     bindp (exec_cmd (Pipe [HSet (worker_admin V worker_id) ''lifecycle'' (Txt lifecycle),
        HSet (worker_admin V worker_id) ''reason'' (Txt reason),
        HSet (worker_admin V worker_id) ''updated_at'' (Doc (JInt now))])) (\<lambda>_.
     try_exc (exec_cmd (SAdd (admin_workers V) worker_id)) (\<lambda>_. Ret ())))"

definition admin_field :: "string \<times> rtext \<Rightarrow> string \<times> json" where
  "admin_field p = (case p of (f, v) \<Rightarrow>
     (f, if f = ''updated_at'' then (case v of Doc (JInt n) \<Rightarrow> JInt n | _ \<Rightarrow> JStr (rtext_str v))
         else JStr (rtext_str v)))"

definition get_worker_admin_state :: "schema \<Rightarrow> string \<Rightarrow> jdict prog" where
  "get_worker_admin_state V worker_id =
     bindp (call (HGetAll (worker_admin V worker_id)) r_pairs) (\<lambda>raw. Ret (map admin_field raw))"

definition clear_worker_admin_state :: "schema \<Rightarrow> string \<Rightarrow> unit prog" where
  "clear_worker_admin_state V worker_id =
     bindp (exec_cmd (Del (worker_admin V worker_id))) (\<lambda>_.
     try_exc (exec_cmd (SRem (admin_workers V) worker_id)) (\<lambda>_. Ret ()))"

record worker_info =
  wi_agent_types :: "string list"
  wi_last_seen :: int
  wi_ip_address :: string
  wi_lifecycle :: string
  wi_lifecycle_reason :: string

text \<open>One round of the loop: nothing for a worker with no live lease.\<close>

definition get_worker_info :: "schema \<Rightarrow> string \<Rightarrow> worker_info option prog" where
  "get_worker_info V worker_id =
     bindp (get (worker_online_lease V worker_id)) (\<lambda>presence.
     case decode_worker_presence presence of (token, last_seen, is_legacy, ip) \<Rightarrow>
     if presence = None \<or> (\<not> is_legacy \<and> last_seen \<le> 0) then Ret None
     else bindp (call (SMembers (worker_declared_agent_types V worker_id)) r_members) (\<lambda>agent_types.
       bindp (get_worker_admin_state V worker_id) (\<lambda>admin.
       bindp (if is_legacy then now_ms else Ret last_seen) (\<lambda>seen.
       Ret (Some \<lparr>wi_agent_types = agent_types, wi_last_seen = seen, wi_ip_address = ip,
          wi_lifecycle = str_or (py_text (dget admin ''lifecycle'' (JStr ''active''))) ''active'',
          wi_lifecycle_reason = py_str (dget admin ''reason'' (JStr []))\<rparr>)))))"

primrec collect_workers :: "schema \<Rightarrow> string list \<Rightarrow> (string \<times> worker_info) list prog" where
  "collect_workers V [] = Ret []"
| "collect_workers V (w # ws) =
     bindp (get_worker_info V w) (\<lambda>info.
     bindp (collect_workers V ws) (\<lambda>rest.
     Ret (case info of None \<Rightarrow> rest | Some i \<Rightarrow> (w, i) # rest)))"

definition get_all_workers :: "schema \<Rightarrow> (string \<times> worker_info) list prog" where
  "get_all_workers V =
     bindp (call (SMembers (known_workers V)) r_members) (\<lambda>worker_ids.
     collect_workers V (sort worker_ids))"

definition get_online_workers :: "schema \<Rightarrow> string \<Rightarrow> string list prog" where
  "get_online_workers V agent_type =
     bindp (check_agent_type_online V agent_type True) (\<lambda>r. Ret (snd r))"

text \<open>\<open>random.choice\<close> is the argument \<open>choice\<close>: some member of the list it is given.\<close>

definition get_random_online_worker :: "schema \<Rightarrow> (string list \<Rightarrow> string) \<Rightarrow> string \<Rightarrow> string option prog" where
  "get_random_online_worker V choice agent_type =
     bindp (get_online_workers V agent_type) (\<lambda>workers.
     Ret (if workers = [] then None else Some (choice workers)))"

section \<open>Token locks\<close>

text \<open>The token that owns an entry.\<close>

definition owner :: "entry option \<Rightarrow> string option" where
  "owner e = (case e of None \<Rightarrow> None | Some (r, ttl) \<Rightarrow> decode_token_or_nil r)"

lemma owner_None [simp]: "owner None = None"
  by (simp add: owner_def)

text \<open>
  What the two users of the scripts share: a lock is taken with \<open>SET NX\<close> of a value
  from which the scripts read the token back.
\<close>

locale token_lock =
  fixes stored :: "string \<Rightarrow> rtext"
  assumes stored_token: "decode_token (stored t) = Some (Some t)"
begin

lemma owner_stored [simp]: "owner (Some (stored t, ttl)) = Some t"
  by (simp add: owner_def decode_token_or_nil_def stored_token)

lemma acquire:
  "wp (call (Set k (stored t) (Some ttl) True) r_bool) Q K =
     (if kv K k = None then Q (Inr True) (K\<lparr>kv := (kv K)(k \<mapsto> (stored t, Some ttl))\<rparr>)
      else Q (Inr False) K)"
  by (cases "kv K k") (auto simp: wp_simps)

lemma release:
  assumes "t \<noteq> []"
  shows "wp (call (Eval k (RELEASE_LOCK_SCRIPT t)) (\<lambda>r. r_int r \<noteq> 0)) Q K =
    (if owner (kv K k) = Some t then Q (Inr True) (K\<lparr>kv := (kv K)(k := None)\<rparr>) else Q (Inr False) K)"
  using assms
  by (auto simp: wp_simps RELEASE_LOCK_SCRIPT_def owner_def fun_upd_idem split: option.splits)

text \<open>Acquire and release by another token leave an owned lock alone; its owner can free it.\<close>

lemma foreign_acquire:
  "owner (kv K k) = Some t \<Longrightarrow>
     wp (call (Set k (stored t') (Some ttl) True) r_bool) (\<lambda>o' K'. o' = Inr False \<and> K' = K) K"
  by (cases "kv K k") (auto simp: acquire)

lemma acquire_release:
  assumes "t \<noteq> []" and "kv K k = None"
  shows "wp (bindp (call (Set k (stored t) (Some ttl) True) r_bool)
              (\<lambda>_. call (Eval k (RELEASE_LOCK_SCRIPT t)) (\<lambda>r. r_int r \<noteq> 0)))
            (\<lambda>o' K'. o' = Inr True \<and> K' = K) K"
  using assms by (simp add: wp_bindp acquire release fun_upd_idem)

end

interpretation scoped: token_lock scoped_lock_value
  by unfold_locales (simp add: decode_token_def scoped_lock_value_def)

interpretation lease: token_lock "\<lambda>t. encode_worker_presence (Some t) n ip" for n ip
  by unfold_locales (simp add: decode_token_def encode_worker_presence_def)

lemma decode_encode_presence:
  "decode_worker_presence (Some (encode_worker_presence tok n ip)) = (tok, n, False, ip)"
  by (cases tok) (simp_all add: decode_worker_presence_def encode_worker_presence_def dget0_def dget_def py_text_def)

lemma legacy_token [simp]: "decode_token (encode_worker_presence None n ip) = Some None"
  by (simp add: decode_token_def encode_worker_presence_def)

text \<open>
  The presence value the client writes is read back unchanged by the client, and
  the scripts on the server read the same owner token out of it.
\<close>

theorem presence_roundtrip:
  "decode_worker_presence (Some (encode_worker_presence tok n ip)) = (tok, n, False, ip) \<and>
   decode_token (encode_worker_presence tok n ip) = Some tok"
  by (cases tok) (simp_all add: decode_encode_presence lease.stored_token)

subsection \<open>Who may change a lease\<close>

text \<open>Commands that leave the lease of \<open>w\<close> as it is while \<open>t\<close> owns it.\<close>

definition keeps_lease :: "schema \<Rightarrow> string \<Rightarrow> string \<Rightarrow> cmd \<Rightarrow> bool" where
  "keeps_lease V w t c = (\<forall>K. owner (kv K (worker_online_lease V w)) = Some t \<longrightarrow>
     kv (apply_cmd c K) (worker_online_lease V w) = kv K (worker_online_lease V w))"

lemma keeps_reads [simp]:
  "keeps_lease V w t Now" "keeps_lease V w t Uuid" "keeps_lease V w t (SAdd k m)"
  by (simp_all add: keeps_lease_def)

lemma keeps_claim: "keeps_lease V w t (Set (worker_online_lease V w') v ttl True)"
  by (auto simp: keeps_lease_def key_simps) (metis owner_None option.distinct(1) not_None_eq surj_pair)

lemma keeps_release: "u \<noteq> [] \<Longrightarrow> u \<noteq> t \<or> w' \<noteq> w \<Longrightarrow>
    keeps_lease V w t (Eval (worker_online_lease V w') (RELEASE_LOCK_SCRIPT u))"
  by (auto simp: keeps_lease_def key_simps owner_def RELEASE_LOCK_SCRIPT_def split: option.splits)

lemma keeps_refresh: "u \<noteq> t \<or> w' \<noteq> w \<Longrightarrow>
    keeps_lease V w t (Eval (worker_online_lease V w') (REFRESH_LOCK_SCRIPT u ttl))"
  by (auto simp: keeps_lease_def key_simps owner_def REFRESH_LOCK_SCRIPT_def split: option.splits)

lemma keeps_heartbeat: "u \<noteq> t \<or> w' \<noteq> w \<Longrightarrow>
    keeps_lease V w t (Eval (worker_online_lease V w') (HEARTBEAT_CAS_SCRIPT u v ttl))"
  by (auto simp: keeps_lease_def key_simps owner_def HEARTBEAT_CAS_SCRIPT_def
      decode_token_or_nil_def split: option.splits)

text \<open>
  What a process does whose registry object does not hold the token \<open>t\<close>: any
  sequence of the operations on worker ids, each with a token of its own.
\<close>

inductive foreign :: "schema \<Rightarrow> string \<Rightarrow> string \<Rightarrow> unit prog \<Rightarrow> bool" for V w t where
  foreign_done: "foreign V w t (Ret ())"
| foreign_claim: "(\<And>r. foreign V w t (k r)) \<Longrightarrow>
     foreign V w t (bindp (claim_worker_id V reg w' ttl) k)"
| foreign_heartbeat: "held_token reg w' \<noteq> t \<or> w' \<noteq> w \<Longrightarrow> (\<And>r. foreign V w t (k r)) \<Longrightarrow>
     foreign V w t (bindp (heartbeat_worker V reg w' ttl) k)"
| foreign_refresh: "held_token reg w' \<noteq> t \<or> w' \<noteq> w \<Longrightarrow> (\<And>r. foreign V w t (k r)) \<Longrightarrow>
     foreign V w t (bindp (refresh_worker_id_lock V reg w' ttl) k)"
| foreign_release: "expected_token reg w' tok \<noteq> t \<or> w' \<noteq> w \<Longrightarrow> (\<And>r. foreign V w t (k r)) \<Longrightarrow>
     foreign V w t (bindp (release_worker_id V reg w' tok) k)"
| foreign_inactive: "expected_token reg w' tok \<noteq> [] \<Longrightarrow>
     expected_token reg w' tok \<noteq> t \<or> w' \<noteq> w \<Longrightarrow> (\<And>r. foreign V w t (k r)) \<Longrightarrow>
     foreign V w t (bindp (mark_worker_inactive V reg w' tok) k)"

lemma foreign_only: "foreign V w t p \<Longrightarrow> only (keeps_lease V w t) p"
proof (induction rule: foreign.induct)
  case (foreign_claim k reg w' ttl)
  then show ?case
    by (auto simp: claim_worker_id_def Let_def keeps_claim intro!: only_bindp only_catch)
next
  case (foreign_heartbeat reg w' k ttl)
  then show ?case
    by (auto simp: heartbeat_worker_def Let_def keeps_heartbeat intro!: only_bindp)
next
  case (foreign_refresh reg w' k ttl)
  then show ?case
    by (auto simp: refresh_worker_id_lock_def keeps_refresh intro!: only_bindp)
next
  case (foreign_release reg w' tok k)
  then show ?case
    by (auto simp: release_worker_id_def Let_def keeps_release intro!: only_bindp)
next
  case (foreign_inactive reg w' tok k)
  then show ?case
    by (auto simp: mark_worker_inactive_def keeps_release intro!: only_bindp)
qed simp

context redis begin

lemma pool_keeps_lease:
  assumes "pool_reach exec env (s0, ps0) (s, ps)"
    and "\<And>i. foreign V w t (ps0 i)"
    and "\<And>a b. env a b \<Longrightarrow>
      kv (view b) (worker_online_lease V w) = kv (view a) (worker_online_lease V w)"
    and "owner (kv (view s0) (worker_online_lease V w)) = Some t"
  shows "kv (view s) (worker_online_lease V w) = kv (view s0) (worker_online_lease V w)"
  using assms(1) foreign_only [OF assms(2)]
proof (rule pool_only)
  fix c a
  assume "keeps_lease V w t c"
    and "kv (view a) (worker_online_lease V w) = kv (view s0) (worker_online_lease V w)"
  then show "kv (view (snd (exec c a))) (worker_online_lease V w) =
      kv (view s0) (worker_online_lease V w)"
    using assms(4) by (simp add: keeps_lease_def exec_view)
qed (use assms(3) in simp_all)

end


text \<open>What it means for a worker to be online.\<close>

definition worker_online :: "schema \<Rightarrow> kspace \<Rightarrow> string \<Rightarrow> bool" where
  "worker_online V K w = (case kv K (worker_online_lease V w) of
     None \<Rightarrow> False | Some (r, ttl) \<Rightarrow> presence_online (decode_worker_presence (Some r)))"

lemma wp_check_worker_online [wp_simps]:
  "wp (check_worker_online V w) Q K = Q (Inr (worker_online V K w)) K"
  by (auto simp: check_worker_online_def wp_simps worker_online_def split: option.splits)

lemma claim_wp:
  "wp (claim_worker_id V reg w ttl) (\<lambda>o' K'.
     (case o' of
        Inl e \<Rightarrow> kv K (worker_online_lease V w) \<noteq> None \<and> K' = K \<and>
               e = ValueError (''worker_id already in use: '' @ w)
      | Inr (reg', r) \<Rightarrow> kv K (worker_online_lease V w) = None \<and>
          (\<exists>token. r = Inr token \<and> token \<noteq> [] \<and> held_token reg' w = token \<and>
             owner (kv K' (worker_online_lease V w)) = Some token \<and>
             w \<in> ss K' (known_workers V) \<and>
             \<not> worker_online V K' w))) K"
  by (cases "kv K (worker_online_lease V w)")
    (auto simp: claim_worker_id_def wp_simps Let_def lease.owner_stored held_token_def
      worker_online_def decode_encode_presence presence_online_def update_conv')

lemma heartbeat_wp:
  assumes "held_token reg w = t" and "t \<noteq> []"
  shows "wp (heartbeat_worker V reg w ttl) (\<lambda>o' K'. \<exists>now.
     if kv K (worker_online_lease V w) = None \<or> owner (kv K (worker_online_lease V w)) = Some t
     then o' = Inr True \<and> w \<in> ss K' (known_workers V) \<and>
       kv K' = (kv K)(worker_online_lease V w \<mapsto>
         (encode_worker_presence (Some t) now (reg_ip_address reg), Some ttl))
     else o' = Inr False \<and> K' = K) K"
proof (cases "kv K (worker_online_lease V w)")
  case None
  then show ?thesis using assms
    by (auto simp: heartbeat_worker_def wp_simps Let_def HEARTBEAT_CAS_SCRIPT_def)
next
  case (Some e)
  then show ?thesis using assms
    by (cases e) (auto simp: heartbeat_worker_def wp_simps wp_call Let_def HEARTBEAT_CAS_SCRIPT_def
        owner_def decode_token_or_nil_def fun_upd_idem split: option.splits)
qed

lemma release_wp:
  assumes "expected_token reg w tok = t" and "t \<noteq> []"
  shows "wp (release_worker_id V reg w tok) (\<lambda>o' K'.
     if owner (kv K (worker_online_lease V w)) = Some t
     then K' = K\<lparr>kv := (kv K)(worker_online_lease V w := None)\<rparr> \<and>
       (\<exists>reg'. o' = Inr (reg', True) \<and> held_token reg' w = [])
     else K' = K \<and> o' = Inr (reg, False)) K"
  using assms
  by (auto simp: release_worker_id_def wp_simps wp_call Let_def RELEASE_LOCK_SCRIPT_def owner_def
      held_token_def delete_conv' fun_upd_idem split: option.splits)

lemma heartbeat_online:
  "kv K (worker_online_lease V w) = Some (encode_worker_presence tok n ip, ttl) \<Longrightarrow>
     worker_online V K w = (0 < n)"
  by (simp add: worker_online_def decode_encode_presence presence_online_def)

text \<open>
  Claiming a worker id succeeds exactly when nobody holds its lease; then the fresh
  token owns the lease and is remembered, and the worker is known but not yet online.
  A refused claim changes nothing and raises \<open>ValueError\<close>.
\<close>

theorem claim_spec:
  assumes "redis exec view"
  shows "case run exec (claim_worker_id V reg w ttl) s of
     (Inl e, u) \<Rightarrow> kv (view s) (worker_online_lease V w) \<noteq> None \<and> view u = view s \<and>
        e = ValueError (''worker_id already in use: '' @ w)
   | (Inr (reg', r), u) \<Rightarrow> kv (view s) (worker_online_lease V w) = None \<and>
        (\<exists>token. r = Inr token \<and> token \<noteq> [] \<and> held_token reg' w = token \<and>
           owner (kv (view u) (worker_online_lease V w)) = Some token \<and>
           w \<in> ss (view u) (known_workers V) \<and> \<not> worker_online V (view u) w)"
  using redis.wp_run [OF assms claim_wp [where V = V and reg = reg and w = w and ttl = ttl], where s = s] by (auto split: prod.splits sum.splits)

text \<open>
  A heartbeat with an own token succeeds exactly when the lease is free or its own:
  it then renews the lease, records the time, and the worker is online from then on;
  another owner's lease is left untouched and the heartbeat reports failure.
\<close>

theorem heartbeat_spec:
  assumes "redis exec view" and "held_token reg w \<noteq> []"
  shows "case run exec (heartbeat_worker V reg w ttl) s of (res, u) \<Rightarrow>
     if kv (view s) (worker_online_lease V w) = None \<or>
        owner (kv (view s) (worker_online_lease V w)) = Some (held_token reg w)
     then res = Inr True \<and> w \<in> ss (view u) (known_workers V) \<and>
        owner (kv (view u) (worker_online_lease V w)) = Some (held_token reg w) \<and>
        (\<exists>now. decode_worker_presence (map_option fst (kv (view u) (worker_online_lease V w))) =
             (Some (held_token reg w), now, False, reg_ip_address reg) \<and>
           worker_online V (view u) w = (0 < now))
     else res = Inr False \<and> view u = view s"
  using redis.wp_run [OF assms(1) heartbeat_wp [where V = V and ttl = ttl, OF refl assms(2)], where s = s]
  by (auto simp: lease.owner_stored decode_encode_presence heartbeat_online split: prod.splits if_splits)

text \<open>
  A release with a token succeeds exactly when that token owns the lease; then the
  lease is gone and the token forgotten, otherwise nothing changes.
\<close>

theorem release_spec:
  assumes "redis exec view" and "expected_token reg w tok \<noteq> []"
  shows "case run exec (release_worker_id V reg w tok) s of (res, u) \<Rightarrow>
     if owner (kv (view s) (worker_online_lease V w)) = Some (expected_token reg w tok)
     then kv (view u) (worker_online_lease V w) = None \<and>
        (\<exists>reg'. res = Inr (reg', True) \<and> held_token reg' w = [])
     else res = Inr (reg, False) \<and> view u = view s"
  using redis.wp_run [OF assms(1) release_wp [where V = V, OF refl assms(2)], where s = s]
  by (auto split: prod.splits if_splits)

section \<open>Membership and the denylist\<close>

text \<open>Routed workers of a type, the types a worker declares, the denied workers of a type.\<close>

abbreviation "members V K a \<equiv> ss K (agent_type_members V a)"
abbreviation "declared V K w \<equiv> ss K (worker_declared_agent_types V w)"
abbreviation "denied V K a \<equiv> ss K (agent_type_denied V a)"

definition routing_ok :: "schema \<Rightarrow> kspace \<Rightarrow> bool" where
  "routing_ok V K = (\<forall>a w. w \<in> members V K a \<longrightarrow> a \<in> declared V K w \<and> w \<notin> denied V K a)"

definition drop_stale :: "schema \<Rightarrow> string \<Rightarrow> string \<Rightarrow> kspace \<Rightarrow> kspace" where
  "drop_stale V w a K = apply_cmd (SRem (worker_declared_agent_types V w) a)
     (apply_cmd (SRem (agent_type_members V a) w) K)"

definition add_type :: "schema \<Rightarrow> string \<Rightarrow> string \<Rightarrow> kspace \<Rightarrow> kspace" where
  "add_type V w a K = (let K' = apply_cmd (SAdd (worker_declared_agent_types V w) a) K
     in if w \<in> denied V K a then K' else apply_cmd (SAdd (agent_type_members V a) w) K')"

lemma fold_drop_stale:
  "members V (fold (drop_stale V w) l K) a = (if a \<in> set l then members V K a - {w} else members V K a)"
  "declared V (fold (drop_stale V w) l K) w' = (if w' = w then declared V K w - set l else declared V K w')"
  "denied V (fold (drop_stale V w) l K) a = denied V K a"
  by (induction l arbitrary: K) (auto simp: drop_stale_def key_simps)

lemma fold_add_type:
  "members V (fold (add_type V w) l K) a =
     (if a \<in> set l \<and> w \<notin> denied V K a then insert w (members V K a) else members V K a)"
  "declared V (fold (add_type V w) l K) w' = (if w' = w then declared V K w \<union> set l else declared V K w')"
  "denied V (fold (add_type V w) l K) a = denied V K a"
  by (induction l arbitrary: K) (auto simp: add_type_def Let_def key_simps)

lemma fold_srem:
  "members V (fold (\<lambda>a. apply_cmd (SRem (agent_type_members V a) w)) l K) b =
     (if b \<in> set l then members V K b - {w} else members V K b)"
  "declared V (fold (\<lambda>a. apply_cmd (SRem (agent_type_members V a) w)) l K) w' = declared V K w'"
  "denied V (fold (\<lambda>a. apply_cmd (SRem (agent_type_members V a) w)) l K) b = denied V K b"
  by (induction l arbitrary: K) (auto simp: key_simps)

definition restore_type :: "schema \<Rightarrow> string \<Rightarrow> string \<Rightarrow> kspace \<Rightarrow> kspace" where
  "restore_type V w a K = (if w \<in> denied V K a then K else apply_cmd (SAdd (agent_type_members V a) w) K)"

lemma fold_restore:
  "members V (fold (restore_type V w) l K) a =
     (if a \<in> set l \<and> w \<notin> denied V K a then insert w (members V K a) else members V K a)"
  "declared V (fold (restore_type V w) l K) w' = declared V K w'"
  "denied V (fold (restore_type V w) l K) a = denied V K a"
  by (induction l arbitrary: K) (auto simp: restore_type_def key_simps)

lemma register_membership_wp:
  "wp (register_worker_membership V w types) (\<lambda>o' K'. o' = Inr () \<and>
     declared V K' = (declared V K)(w := set types) \<and> denied V K' = denied V K \<and>
     (\<forall>a w'. w' \<in> members V K' a \<longleftrightarrow>
        (if w' = w \<and> a \<in> set types then w \<in> members V K a \<or> w \<notin> denied V K a
         else if w' = w then w \<in> members V K a \<and> a \<notin> declared V K w
         else w' \<in> members V K a))) K"
proof -
  have stale: "wp (for_each (\<lambda>a. bindp (exec_cmd (SRem (agent_type_members V a) w))
      (\<lambda>_. exec_cmd (SRem (worker_declared_agent_types V w) a))) l) Q K =
      Q (Inr ()) (fold (drop_stale V w) l K)" for l Q K
    by (rule wp_for_each) (simp add: wp_simps drop_stale_def)
  have add: "wp (for_each (\<lambda>a. bindp (exec_cmd (SAdd (worker_declared_agent_types V w) a)) (\<lambda>_.
      bindp (call (SIsMember (agent_type_denied V a) w) r_bool) (\<lambda>d.
      if \<not> d then exec_cmd (SAdd (agent_type_members V a) w) else Ret ()))) l) Q K =
      Q (Inr ()) (fold (add_type V w) l K)" for l Q K
    by (rule wp_for_each) (simp add: wp_simps add_type_def Let_def key_simps)
  show ?thesis
    by (auto simp: register_worker_membership_def Let_def wp_bindp wp_simps stale add
        fold_drop_stale fold_add_type key_simps fun_eq_iff)
qed

lemma unregister_membership_wp:
  "wp (unregister_worker_membership V w) (\<lambda>o' K'. o' = Inr () \<and>
     declared V K' = (declared V K)(w := {}) \<and> denied V K' = denied V K \<and>
     (\<forall>a. members V K' a = (if a \<in> declared V K w then members V K a - {w} else members V K a))) K"
  by (auto simp: unregister_worker_membership_def wp_simps fold_srem key_simps fun_eq_iff)

lemma remove_wp:
  "wp (remove_worker_from_type_members V w) (\<lambda>o' K'. o' = Inr () \<and>
     declared V K' = declared V K \<and> denied V K' = denied V K \<and>
     (\<forall>a. members V K' a = (if a \<in> declared V K w then members V K a - {w} else members V K a))) K"
  by (auto simp: remove_worker_from_type_members_def wp_simps fold_srem key_simps fun_eq_iff)

lemma restore_wp:
  "wp (restore_worker_to_type_members V w) (\<lambda>o' K'. o' = Inr () \<and>
     declared V K' = declared V K \<and> denied V K' = denied V K \<and>
     (\<forall>a. members V K' a =
        (if a \<in> declared V K w \<and> w \<notin> denied V K a then insert w (members V K a) else members V K a))) K"
proof -
  have body: "wp (for_each (\<lambda>a. bindp (is_worker_denied_for_type V a w) (\<lambda>d.
      if \<not> d then exec_cmd (SAdd (agent_type_members V a) w) else Ret ())) l) Q K =
      Q (Inr ()) (fold (restore_type V w) l K)" for l Q K
    by (rule wp_for_each) (simp add: wp_simps restore_type_def is_worker_denied_for_type_def)
  show ?thesis
    by (auto simp: restore_worker_to_type_members_def wp_simps body fold_restore key_simps fun_eq_iff)
qed

lemma deny_wp:
  "wp (deny_worker_for_type V a w) (\<lambda>o' K'. o' = Inr () \<and> declared V K' = declared V K \<and>
     denied V K' = (denied V K)(a := insert w (denied V K a)) \<and>
     members V K' = (members V K)(a := members V K a - {w})) K"
  by (auto simp: deny_worker_for_type_def wp_simps key_simps fun_eq_iff)

lemma allow_wp:
  "wp (allow_worker_for_type V a w) (\<lambda>o' K'. o' = Inr () \<and> declared V K' = declared V K \<and>
     denied V K' = (denied V K)(a := denied V K a - {w}) \<and> members V K' = members V K) K"
  by (auto simp: allow_worker_for_type_def wp_simps key_simps fun_eq_iff)

subsection \<open>Routing\<close>

text \<open>The operations on membership, as one alphabet.\<close>

datatype membership_op =
    Register string "string list"
  | Unregister string
  | Remove string
  | Restore string
  | Deny string string
  | Allow string string

fun membership_prog :: "schema \<Rightarrow> membership_op \<Rightarrow> unit prog" where
  "membership_prog V (Register w types) = register_worker_membership V w types"
| "membership_prog V (Unregister w) = unregister_worker_membership V w"
| "membership_prog V (Remove w) = remove_worker_from_type_members V w"
| "membership_prog V (Restore w) = restore_worker_to_type_members V w"
| "membership_prog V (Deny a w) = deny_worker_for_type V a w"
| "membership_prog V (Allow a w) = allow_worker_for_type V a w"

lemma routing_op_wp:
  assumes "routing_ok V K"
  shows "wp (membership_prog V op) (\<lambda>o' K'. o' = Inr () \<and> routing_ok V K') K"
proof (cases op)
  case (Register w types)
  show ?thesis unfolding Register membership_prog.simps
    by (rule wp_mono [OF register_membership_wp]) (use assms in \<open>auto simp: routing_ok_def fun_eq_iff split: if_splits\<close>)
next
  case (Unregister w)
  show ?thesis unfolding Unregister membership_prog.simps
    by (rule wp_mono [OF unregister_membership_wp]) (use assms in \<open>auto simp: routing_ok_def fun_eq_iff split: if_splits\<close>)
next
  case (Remove w)
  show ?thesis unfolding Remove membership_prog.simps
    by (rule wp_mono [OF remove_wp]) (use assms in \<open>auto simp: routing_ok_def fun_eq_iff split: if_splits\<close>)
next
  case (Restore w)
  show ?thesis unfolding Restore membership_prog.simps
    by (rule wp_mono [OF restore_wp]) (use assms in \<open>auto simp: routing_ok_def fun_eq_iff split: if_splits\<close>)
next
  case (Deny a w)
  show ?thesis unfolding Deny membership_prog.simps
    by (rule wp_mono [OF deny_wp]) (use assms in \<open>auto simp: routing_ok_def fun_eq_iff split: if_splits\<close>)
next
  case (Allow a w)
  show ?thesis unfolding Allow membership_prog.simps
    by (rule wp_mono [OF allow_wp]) (use assms in \<open>auto simp: routing_ok_def fun_eq_iff split: if_splits\<close>)
qed

lemma routing_ops_wp:
  "routing_ok V K \<Longrightarrow> wp (for_each (membership_prog V) ops) (\<lambda>o' K'. o' = Inr () \<and> routing_ok V K') K"
proof (induction ops arbitrary: K)
  case (Cons op ops)
  show ?case unfolding for_each.simps wp_bindp
    by (rule wp_mono [OF routing_op_wp [OF Cons.prems]]) (auto intro: Cons.IH)
qed simp

text \<open>
  C26: routing and denylist stay consistent: after any sequence of registrations,
  deregistrations, suspensions, restorations and denylist edits, a worker is routed
  for an agent type only if it declares that type and is not denied for it.
\<close>

theorem routing_invariant:
  assumes "redis exec view" and "routing_ok V (view s)"
  shows "fst (run exec (for_each (membership_prog V) ops) s) = Inr () \<and>
     routing_ok V (view (snd (run exec (for_each (membership_prog V) ops) s)))"
  using redis.wp_run [OF assms(1) routing_ops_wp [where ops = ops, OF assms(2)]]
  by (auto split: prod.splits)

text \<open>
  Registering declares exactly the given types and, on consistent routing data,
  routes the worker for exactly those of them it is not denied for, leaving every
  other worker's routing alone.
\<close>

theorem register_membership_spec:
  assumes "redis exec view" and "routing_ok V (view s)"
  shows "case run exec (register_worker_membership V w types) s of (res, u) \<Rightarrow>
     res = Inr () \<and> declared V (view u) w = set types \<and>
     (\<forall>a. w \<in> members V (view u) a \<longleftrightarrow> a \<in> set types \<and> w \<notin> denied V (view s) a) \<and>
     (\<forall>a w'. w' \<noteq> w \<longrightarrow> w' \<in> members V (view u) a \<longleftrightarrow> w' \<in> members V (view s) a)"
  using redis.wp_run [OF assms(1) register_membership_wp [where V = V and w = w and types = types],
      where s = s] assms(2)
  by (auto simp: routing_ok_def fun_eq_iff split: prod.splits)

lemma filter_online_wp [wp_simps]:
  "wp (filter_online V ws) Q K = Q (Inr (filter (worker_online V K) ws)) K"
  by (induction ws arbitrary: Q) (simp_all add: wp_simps)

lemma check_agent_type_online_wp:
  "wp (check_agent_type_online V a active) (\<lambda>o' K'. K' = K \<and> (\<exists>ws. o' = Inr (ws \<noteq> [], ws) \<and>
     distinct ws \<and> set ws = {w \<in> members V K a. active \<longrightarrow> worker_online V K w})) K"
  by (auto simp: check_agent_type_online_def wp_simps filter_empty_conv)

lemma suspend_probe_wp:
  assumes "routing_ok V K"
  shows "wp (bindp (remove_worker_from_type_members V w) (\<lambda>_. check_agent_type_online V a active))
    (\<lambda>o' K'. \<exists>ws. o' = Inr (ws \<noteq> [], ws) \<and> w \<notin> set ws \<and> distinct ws \<and>
      set ws = {w' \<in> members V K a. w' \<noteq> w \<and> (active \<longrightarrow> worker_online V K' w')}) K"
  unfolding wp_bindp
proof (rule wp_mono [OF remove_wp])
  fix o' and K' :: kspace
  assume a: "o' = Inr () \<and> declared V K' = declared V K \<and> denied V K' = denied V K \<and>
     (\<forall>a. members V K' a = (if a \<in> declared V K w then members V K a - {w} else members V K a))"
  then have "members V K' a = members V K a - {w}"
    using assms by (auto simp: routing_ok_def fun_eq_iff)
  then show "case o' of Inl e \<Rightarrow> \<exists>ws. Inl e = Inr (ws \<noteq> [], ws) \<and> w \<notin> set ws \<and> distinct ws \<and>
        set ws = {w' \<in> members V K a. w' \<noteq> w \<and> (active \<longrightarrow> worker_online V K' w')}
    | Inr x \<Rightarrow> wp (check_agent_type_online V a active) (\<lambda>o' K'. \<exists>ws. o' = Inr (ws \<noteq> [], ws) \<and>
        w \<notin> set ws \<and> distinct ws \<and>
        set ws = {w' \<in> members V K a. w' \<noteq> w \<and> (active \<longrightarrow> worker_online V K' w')}) K'"
    using a by (auto intro!: wp_mono [OF check_agent_type_online_wp])
qed

text \<open>
  A suspended worker is invisible to routing: once
  \<open>remove_worker_from_type_members\<close> has run on consistent data, probing any agent type
  returns exactly the other routed workers that are online, each once, and never it.
\<close>

theorem suspended_worker_invisible:
  assumes "redis exec view" and "routing_ok V (view s)"
  shows "case run exec (bindp (remove_worker_from_type_members V w)
       (\<lambda>_. check_agent_type_online V a active)) s of (res, u) \<Rightarrow>
     \<exists>ws. res = Inr (ws \<noteq> [], ws) \<and> w \<notin> set ws \<and> distinct ws \<and>
       set ws = {w' \<in> members V (view s) a. w' \<noteq> w \<and> (active \<longrightarrow> worker_online V (view u) w')}"
  using redis.wp_run [OF assms(1) suspend_probe_wp [where w = w and a = a and active = active, OF assms(2)]]
  by (auto split: prod.splits)

text \<open>
  The denylist check of a registration and the routing write that follows it are two
  commands: a \<open>deny_worker_for_type\<close> between them leaves the worker both denied and
  routed, although every single operation alone keeps the two apart.
\<close>

theorem denylist_race:
  "\<exists>schedule u ps. pool_run ref_exec schedule (empty_server,
       (\<lambda>_. Ret ())(0 := register_worker_membership V w [a], 1 := deny_worker_for_type V a w)) = (u, ps) \<and>
     ps 0 = Ret () \<and> ps 1 = Ret () \<and>
     w \<in> members V (rview u) a \<and> w \<in> denied V (rview u) a"
  by (rule exI [of _ "[0, 0, 0, 0, 1, 0]"])
    (simp add: register_worker_membership_def deny_worker_for_type_def Let_def call_def exec_cmd_def
      ref_exec_def empty_server_def rview_def look_def key_simps)

section \<open>The properties at concrete servers\<close>

definition demo_registry :: registry where
  "demo_registry = \<lparr>lock_tokens = [(''w'', ''t'')], reg_ip_address = ''10.0.0.1''\<rparr>"

text \<open>A server on which token \<open>t\<close> holds the lease of \<open>w\<close>.\<close>

definition leased_server :: rserver where
  "leased_server = empty_server\<lparr>l_kv := [(worker_online_lease V1 ''w'',
     (encode_worker_presence (Some ''t'') 5 ''10.0.0.1'', Some 30))]\<rparr>"

lemma leased_view [simp]:
  "kv (rview leased_server) (worker_online_lease V1 ''w'') =
     Some (encode_worker_presence (Some ''t'') 5 ''10.0.0.1'', Some 30)"
  by (simp add: leased_server_def rview_def)

lemma empty_view [simp]:
  "kv (rview empty_server) k = None" "ss (rview empty_server) k = {}"
  "hs (rview empty_server) k f = None" "zs (rview empty_server) k f = None"
  by (simp_all add: empty_server_def rview_def look_def)

lemma demo_token [simp]: "held_token demo_registry ''w'' = ''t''"
  by (simp add: demo_registry_def held_token_def)


theorem claim_spec_witness:
  "\<exists>e. fst (run ref_exec (claim_worker_id V1 demo_registry ''w'' 30) leased_server) = Inl e"
  using claim_spec [OF ref.redis_axioms, where V = V1 and reg = demo_registry and w = "''w''" and ttl = 30
      and s = leased_server]
  by (auto split: prod.splits sum.splits)

theorem heartbeat_spec_witness:
  "fst (run ref_exec (heartbeat_worker V1 demo_registry ''w'' 30) leased_server) = Inr True"
  using heartbeat_spec [OF ref.redis_axioms, where V = V1 and reg = demo_registry and w = "''w''" and ttl = 30
      and s = leased_server]
  by (auto simp: lease.owner_stored split: prod.splits)

theorem release_spec_witness:
  "fst (run ref_exec (release_worker_id V1 demo_registry ''w'' (Some ''u'')) leased_server) =
     Inr (demo_registry, False)"
  using release_spec [OF ref.redis_axioms, where V = V1 and reg = demo_registry and w = "''w''"
      and tok = "Some ''u''" and s = leased_server]
  by (auto simp: lease.owner_stored expected_token_def str_or_def split: prod.splits)

lemma empty_routing: "routing_ok V (rview empty_server)"
  by (simp add: routing_ok_def)

theorem routing_invariant_witness:
  "routing_ok V1 (rview (snd (run ref_exec (for_each (membership_prog V1)
     [Register ''w'' [''a'', ''b''], Deny ''a'' ''w'', Remove ''w'', Restore ''w'']) empty_server)))"
  using routing_invariant [OF ref.redis_axioms empty_routing] by blast

theorem register_membership_spec_witness:
  "''w'' \<in> members V1 (rview (snd (run ref_exec
     (register_worker_membership V1 ''w'' [''a'', ''b'']) empty_server))) ''a''"
  using register_membership_spec [OF ref.redis_axioms empty_routing, where V = V1 and w = "''w''"
      and types = "[''a'', ''b'']"]
  by (auto split: prod.splits)

theorem suspended_worker_invisible_witness:
  "fst (run ref_exec (bindp (remove_worker_from_type_members V1 ''w'')
     (\<lambda>_. check_agent_type_online V1 ''a'' True)) empty_server) = Inr (False, [])"
  using suspended_worker_invisible [OF ref.redis_axioms empty_routing, where V = V1 and w = "''w''"
      and a = "''a''" and active = True]
  by (auto split: prod.splits)

end
