(* ===== verification/Registry_Exec.thy ===== *)
theory Registry_Exec
  imports Registry_Lease Protocol
begin

text \<open>
  \<open>core/registry.py\<close>, the execution half: the record of an execution in its
  session's hash, the operations that move its status, the per-worker statistics
  and snapshots each of them updates incrementally, and the readers.

  An execution is the dictionary the code stores as JSON.  \<open>get_execution\<close> raises
  \<open>TypeError\<close> for stored JSON that is no object, where Python fails at the first use.
\<close>

type_synonym execution = jdict

definition EXEC_FIELD_PREFIX :: string where "EXEC_FIELD_PREFIX = ''exec:''"

definition MSG_MAP_PREFIX :: string where "MSG_MAP_PREFIX = ''msg_map:''"

text \<open>\<open>execution["k"]\<close> as text.\<close>

definition field_str :: "execution \<Rightarrow> string \<Rightarrow> string prog" where
  "field_str e k = (case map_of e k of None \<Rightarrow> Raise (KeyError k) | Some v \<Rightarrow> Ret (py_str v))"

text \<open>\<open>x == 0\<close>.\<close>

fun py_zero :: "json \<Rightarrow> bool" where
  "py_zero (JInt n) = (n = 0)"
| "py_zero (JBool b) = (\<not> b)"
| "py_zero (JFloat w) = (w = 0 \<or> w = 0x8000000000000000)"
| "py_zero _ = False"

definition timeline_entry :: "string \<Rightarrow> int \<Rightarrow> json" where
  "timeline_entry status now = JObj [(''status'', JStr status), (''timestamp'', JInt now)]"

text \<open>\<open>timeline = current.get("timeline", []); timeline.append(...)\<close>.\<close>

definition append_timeline :: "string \<Rightarrow> int \<Rightarrow> execution \<Rightarrow> execution" where
  "append_timeline status now e =
     dset ''timeline'' (JList ((case dget e ''timeline'' (JList []) of JList l \<Rightarrow> l | _ \<Rightarrow> [])
       @ [timeline_entry status now])) e"

text \<open>The pipeline that writes a record, with and without the message map.\<close>

definition save_record :: "schema \<Rightarrow> string \<Rightarrow> string \<Rightarrow> execution \<Rightarrow> unit prog" where
  "save_record V session_id execution_id e = exec_cmd (Pipe
     [HSet (session_registry V session_id) (EXEC_FIELD_PREFIX @ execution_id) (Doc (JObj e)),
      Expire (session_registry V session_id) DEFAULT_SESSION_TTL])"

definition save_new_record :: "schema \<Rightarrow> string \<Rightarrow> string \<Rightarrow> string \<Rightarrow> execution \<Rightarrow> unit prog" where
  "save_new_record V session_id execution_id message_id e = exec_cmd (Pipe
     [HSet (session_registry V session_id) (EXEC_FIELD_PREFIX @ execution_id) (Doc (JObj e)),
      HSet (session_registry V session_id) (MSG_MAP_PREFIX @ message_id) (Txt execution_id),
      Expire (session_registry V session_id) DEFAULT_SESSION_TTL])"

definition initialized :: "int \<Rightarrow> execution \<Rightarrow> execution" where
  "initialized now execution =
     (let e1 = dset ''updated_at'' (JInt now) (dset ''created_at'' (JInt now) execution);
          e2 = dsetdefault ''finished_at'' (JInt 0) (dsetdefault ''started_at'' (JInt 0) e1)
      in if dhas e2 ''timeline'' then e2
         else dset ''timeline'' (JList [JObj [(''status'', dget e2 ''status'' (JStr ''QUEUED'')),
                (''timestamp'', JInt now)]]) e2)"

definition initialize_execution :: "schema \<Rightarrow> execution \<Rightarrow> execution prog" where
  "initialize_execution V execution =
     bindp now_ms (\<lambda>now.
     let e = initialized now execution in
     bindp (field_str e ''execution_id'') (\<lambda>execution_id.
     bindp (field_str e ''message_id'') (\<lambda>message_id.
     bindp (field_str e ''session_id'') (\<lambda>session_id.
     bindp (save_new_record V session_id execution_id message_id e) (\<lambda>_. Ret e)))))"

section \<open>Reading\<close>

definition get_execution :: "schema \<Rightarrow> string \<Rightarrow> string \<Rightarrow> execution option prog" where
  "get_execution V execution_id session_id =
     (if session_id = [] then Ret None
      else bindp (call (HGet (session_registry V session_id) (EXEC_FIELD_PREFIX @ execution_id)) r_text) (\<lambda>data.
        case data of
          None \<Rightarrow> Ret None
        | Some (Txt s) \<Rightarrow> if s = [] then Ret None else Raise (ExecutionDataError execution_id)
        | Some (Doc (JObj e)) \<Rightarrow> Ret (Some e)
        | Some (Doc _) \<Rightarrow> Raise (TypeError ''execution record is not an object'')))"

definition get_execution_by_message_id :: "schema \<Rightarrow> string \<Rightarrow> string \<Rightarrow> execution option prog" where
  "get_execution_by_message_id V message_id session_id =
     (if session_id = [] then Ret None
      else bindp (call (HGet (session_registry V session_id) (MSG_MAP_PREFIX @ message_id)) r_text) (\<lambda>found.
        case found of
          None \<Rightarrow> Ret None
        | Some t \<Rightarrow> if rtext_str t = [] then Ret None
            else get_execution V (rtext_str t) session_id))"

definition get_all_session_executions :: "schema \<Rightarrow> string \<Rightarrow> json list prog" where
  "get_all_session_executions V session_id =
     bindp (call (HGetAll (session_registry V session_id)) r_pairs) (\<lambda>all_data.
     Ret (List.map_filter (\<lambda>(f, v). if starts_with EXEC_FIELD_PREFIX f then loads v else None) all_data))"

section \<open>Worker statistics\<close>

definition build_worker_execution_snapshot :: "execution \<Rightarrow> jdict" where
  "build_worker_execution_snapshot e =
     (let s = (\<lambda>k. (k, dget e k (JStr []))); n = (\<lambda>k. (k, JInt (py_int (dget e k (JInt 0)))));
          b = (\<lambda>k. (k, JBool (truthy (dget e k (JBool False))))) in
      [s ''execution_id'', s ''message_id'', s ''session_id'', s ''trace_id'', s ''worker_id'',
       s ''source_agent_type'', s ''target_agent_type'', s ''stream_name'', s ''redis_message_id'',
       s ''status'', n ''created_at'', n ''started_at'', n ''finished_at'', n ''updated_at'',
       s ''parent_message_id'', b ''cancel_requested'', s ''cancel_reason'', s ''route_policy'',
       s ''route_status'', s ''selected_agent_type'', s ''availability_error_code'',
       s ''availability_error'', s ''error_type'', s ''error_message'', s ''error_code'',
       s ''failed_stage'', b ''retryable'', (''agent_configs_version'', dget e ''agent_configs_version'' (JInt 0)),
       s ''agent_configs_snapshot_key'', (''agent_config_audit'', dget0 e ''agent_config_audit'')])"

definition status_count_field :: "string \<Rightarrow> string" where
  "status_count_field status = map lower_char status @ ''_count''"

text \<open>The commands of the pipeline, in order: counters, history, active index, expiries.\<close>

definition stats_counters :: "schema \<Rightarrow> execution \<Rightarrow> execution \<Rightarrow> int \<Rightarrow> cmd list" where
  "stats_counters V old new now =
     (let worker_id = py_text (dget0 new ''worker_id'');
          old_worker_id = py_text (dget0 old ''worker_id'');
          old_status = py_text (dget0 old ''status'');
          new_status = py_text (dget0 new ''status'');
          first_seen = (old_worker_id \<noteq> worker_id);
          old_active = (old_worker_id = worker_id \<and> \<not> is_terminal_state old_status);
          new_active = (\<not> is_terminal_state new_status);
          status_key = worker_status V worker_id in
      (if first_seen then [HIncrBy status_key ''total_count'' 1] else []) @
      (if first_seen \<or> old_status \<noteq> new_status then
         (if old_status \<noteq> [] \<and> old_worker_id = worker_id
          then [HIncrBy status_key (status_count_field old_status) (-1)] else []) @
         (if new_status \<noteq> [] then [HIncrBy status_key (status_count_field new_status) 1] else [])
       else []) @
      (if \<not> old_active \<and> new_active then [HIncrBy status_key ''active_count'' 1]
       else if old_active \<and> \<not> new_active then [HIncrBy status_key ''active_count'' (-1)]
       else []) @
      [HSet status_key ''last_updated_at'' (Doc (JInt now))] @
      (if new_status = ''RUNNING''
       then [HSet status_key ''last_started_at'' (Doc (JInt (py_int (dget new ''started_at'' (JInt 0)))))] else []) @
      (if is_terminal_state new_status
       then [HSet status_key ''last_finished_at'' (Doc (JInt (py_int (dget new ''finished_at'' (JInt 0)))))] else []))"

definition stats_active :: "schema \<Rightarrow> string \<Rightarrow> string \<Rightarrow> bool \<Rightarrow> rtext \<Rightarrow> int \<Rightarrow> cmd list" where
  "stats_active V worker_id execution_id new_active snapshot now =
     (if new_active
      then [ZAdd (worker_active_execution_index V worker_id) execution_id now,
            HSet (worker_active_snapshots V worker_id) execution_id snapshot]
      else [ZRem (worker_active_execution_index V worker_id) execution_id,
            HDel (worker_active_snapshots V worker_id) execution_id])"

definition stats_expire :: "schema \<Rightarrow> string \<Rightarrow> cmd list" where
  "stats_expire V worker_id = map (\<lambda>k. Expire k DEFAULT_SESSION_TTL)
     [worker_status V worker_id, worker_executions V worker_id,
      worker_active_execution_index V worker_id, worker_active_snapshots V worker_id,
      worker_history_snapshots V worker_id]"

definition stats_cmds :: "schema \<Rightarrow> execution \<Rightarrow> execution \<Rightarrow> int \<Rightarrow> cmd list" where
  "stats_cmds V old new now =
     (let worker_id = py_text (dget0 new ''worker_id'');
          execution_id = py_str (dget0 new ''execution_id'');
          snapshot = Doc (JObj (build_worker_execution_snapshot new)) in
      stats_counters V old new now @
      [ZAdd (worker_executions V worker_id) execution_id now,
       HSet (worker_history_snapshots V worker_id) execution_id snapshot] @
      stats_active V worker_id execution_id
        (\<not> is_terminal_state (py_text (dget0 new ''status''))) snapshot now @
      stats_expire V worker_id)"

text \<open>\<open>None\<close> for the old execution is the empty dictionary.\<close>

definition update_worker_execution_stats :: "schema \<Rightarrow> execution \<Rightarrow> execution \<Rightarrow> int \<Rightarrow> unit prog" where
  "update_worker_execution_stats V old new now =
     (if py_text (dget0 new ''worker_id'') = [] then Ret ()
      else bindp (field_str new ''execution_id'') (\<lambda>_. exec_cmd (Pipe (stats_cmds V old new now))))"

section \<open>Moving an execution\<close>

text \<open>The skeleton of the updates: read, change, write, update the statistics.\<close>

definition change_execution ::
  "schema \<Rightarrow> string \<Rightarrow> string \<Rightarrow> (execution \<Rightarrow> int \<Rightarrow> execution) \<Rightarrow> (execution \<Rightarrow> unit prog) \<Rightarrow> unit prog" where
  "change_execution V execution_id session_id change after =
     bindp (get_execution V execution_id session_id) (\<lambda>current.
     case current of
       None \<Rightarrow> Ret ()
     | Some old \<Rightarrow> bindp now_ms (\<lambda>now. let e = change old now in
         bindp (save_record V session_id execution_id e) (\<lambda>_.
         bindp (update_worker_execution_stats V old e now) (\<lambda>_. after e))))"

definition status_change :: "string \<Rightarrow> jdict \<Rightarrow> execution \<Rightarrow> int \<Rightarrow> execution" where
  "status_change status kwargs old now =
     (let e1 = dset ''updated_at'' (JInt now) (dset ''status'' (JStr status) old);
          e2 = (if status = ''RUNNING'' \<and> py_zero (dget e1 ''started_at'' (JInt 0))
                then dset ''started_at'' (JInt now) e1 else e1)
      in append_timeline status now (dupdate e2 kwargs))"

definition update_execution_status :: "schema \<Rightarrow> string \<Rightarrow> string \<Rightarrow> string \<Rightarrow> jdict \<Rightarrow> unit prog" where
  "update_execution_status V execution_id session_id status kwargs =
     change_execution V execution_id session_id (status_change status kwargs) (\<lambda>_. Ret ())"

definition update_execution_status_by_message :: "schema \<Rightarrow> string \<Rightarrow> string \<Rightarrow> string \<Rightarrow> unit prog" where
  "update_execution_status_by_message V message_id session_id status =
     bindp (get_execution_by_message_id V message_id session_id) (\<lambda>found.
     case found of
       None \<Rightarrow> Ret ()
     | Some e \<Rightarrow> if e = [] then Ret () else bindp (field_str e ''execution_id'') (\<lambda>execution_id.
         update_execution_status V execution_id session_id status []))"

definition fields_change :: "jdict \<Rightarrow> execution \<Rightarrow> int \<Rightarrow> execution" where
  "fields_change kwargs old now = dset ''updated_at'' (JInt now) (dupdate old kwargs)"

definition update_execution_fields :: "schema \<Rightarrow> string \<Rightarrow> string \<Rightarrow> jdict \<Rightarrow> unit prog" where
  "update_execution_fields V execution_id session_id kwargs =
     change_execution V execution_id session_id (fields_change kwargs) (\<lambda>_. Ret ())"

definition cancelling_change :: "string \<Rightarrow> execution \<Rightarrow> int \<Rightarrow> execution" where
  "cancelling_change reason old now = append_timeline ''CANCELLING'' now
     (dset ''updated_at'' (JInt now) (dset ''cancel_reason'' (JStr reason)
       (dset ''cancel_requested'' (JBool True) (dset ''status'' (JStr ''CANCELLING'') old))))"

definition mark_execution_cancelling :: "schema \<Rightarrow> string \<Rightarrow> string \<Rightarrow> string \<Rightarrow> unit prog" where
  "mark_execution_cancelling V execution_id session_id reason =
     change_execution V execution_id session_id (cancelling_change reason) (\<lambda>_. Ret ())"

definition cancel_requested_change :: "string \<Rightarrow> execution \<Rightarrow> int \<Rightarrow> execution" where
  "cancel_requested_change reason old now = dset ''updated_at'' (JInt now)
     ((if reason \<noteq> [] then dset ''cancel_reason'' (JStr reason) else id)
       (dset ''cancel_requested'' (JBool True) old))"

definition mark_cancel_requested :: "schema \<Rightarrow> string \<Rightarrow> string \<Rightarrow> string \<Rightarrow> unit prog" where
  "mark_cancel_requested V execution_id session_id reason =
     change_execution V execution_id session_id (cancel_requested_change reason) (\<lambda>_. Ret ())"

definition finished_change :: "string \<Rightarrow> jdict \<Rightarrow> execution \<Rightarrow> int \<Rightarrow> execution" where
  "finished_change status completion old now =
     (let e1 = dset ''status'' (JStr status) old;
          e2 = (if is_terminal_state status then dset ''finished_at'' (JInt now) e1 else e1)
      in append_timeline status now (dupdate (dset ''updated_at'' (JInt now) e2) completion))"

text \<open>
  What follows for a terminal status: drop the configs snapshot, and record how that
  went whatever happened; a cancellation that arrives there is recorded and passes.
\<close>

definition cleanup_fields :: "string \<Rightarrow> int \<Rightarrow> string \<Rightarrow> execution \<Rightarrow> execution" where
  "cleanup_fields status cleaned_at error e =
     dset ''agent_configs_snapshot_cleanup_error'' (JStr error)
      (dset ''agent_configs_snapshot_cleaned_at'' (JInt cleaned_at)
       (dset ''agent_configs_snapshot_cleanup_status'' (JStr status) e))"

definition delete_agent_configs_snapshot :: "schema \<Rightarrow> string \<Rightarrow> unit prog" where
  "delete_agent_configs_snapshot V snapshot_key = exec_cmd (Del (agent_configs_snapshot V snapshot_key))"

fun exn_text :: "exn \<Rightarrow> string" where
  "exn_text (ValueError m) = m" | "exn_text (TypeError m) = m" | "exn_text (KeyError m) = CHR 0x27 # m @ [CHR 0x27]"
| "exn_text (LookupError m) = m" | "exn_text (AttributeError m) = m"
| "exn_text (RuntimeError m) = m" | "exn_text (FrameworkError m) = m" | "exn_text (UnsupportedCommandError m) = m"
| "exn_text (ExecutionDataError m) = m" | "exn_text (RedisError m) = m" | "exn_text (TimeoutError m) = m"
| "exn_text (CancelledError m) = m"
| "exn_text Diverges = []"

definition snapshot_cleanup :: "schema \<Rightarrow> string \<Rightarrow> string \<Rightarrow> string \<Rightarrow> execution \<Rightarrow> unit prog" where
  "snapshot_cleanup V execution_id session_id snapshot_key e =
     bindp (catch (bindp (delete_agent_configs_snapshot V snapshot_key) (\<lambda>_.
            bindp now_ms (\<lambda>t. Ret (cleanup_fields ''deleted'' t [] e, None))))
         (\<lambda>err. case err of CancelledError m \<Rightarrow> Ret (e, Some err)
                  | _ \<Rightarrow> Ret (cleanup_fields ''delete_failed'' 0 (exn_text err) e, None))) (\<lambda>(e', pending).
     bindp now_ms (\<lambda>t.
     bindp (save_record V session_id execution_id (dset ''updated_at'' (JInt t) e')) (\<lambda>_.
     case pending of None \<Rightarrow> Ret () | Some err \<Rightarrow> Raise err)))"

definition mark_execution_finished :: "schema \<Rightarrow> string \<Rightarrow> string \<Rightarrow> string \<Rightarrow> jdict \<Rightarrow> unit prog" where
  "mark_execution_finished V execution_id session_id status completion =
     change_execution V execution_id session_id (finished_change status completion) (\<lambda>e.
       if truthy (dget e ''agent_configs_snapshot_key'' (JStr [])) \<and> is_terminal_state status
       then snapshot_cleanup V execution_id session_id (py_str (dget0 e ''agent_configs_snapshot_key'')) e
       else Ret ())"

definition save_defaults :: "int \<Rightarrow> execution \<Rightarrow> execution" where
  "save_defaults now execution =
     (let unset = (\<lambda>k d. \<not> dhas d k \<or> py_zero (dget0 d k));
          e1 = (if unset ''created_at'' execution then dset ''created_at'' (JInt now) execution else execution);
          e2 = (if unset ''updated_at'' e1 then dset ''updated_at'' (JInt now) e1 else e1)
      in if dhas e2 ''timeline'' then e2
         else dset ''timeline'' (JList [JObj [(''status'', dget e2 ''status'' (JStr ''RUNNING'')),
                (''timestamp'', JInt now)]]) e2)"

definition save_execution :: "schema \<Rightarrow> execution \<Rightarrow> execution prog" where
  "save_execution V execution =
     bindp now_ms (\<lambda>now.
     let e = save_defaults now execution in
     bindp (field_str e ''execution_id'') (\<lambda>execution_id.
     bindp (field_str e ''message_id'') (\<lambda>message_id.
     bindp (field_str e ''session_id'') (\<lambda>session_id.
     bindp (get_execution V execution_id session_id) (\<lambda>old.
     bindp (save_new_record V session_id execution_id message_id e) (\<lambda>_.
     bindp (update_worker_execution_stats V (case old of None \<Rightarrow> [] | Some d \<Rightarrow> d) e now) (\<lambda>_. Ret e)))))))"

record route_record =
  rr_execution_id :: string
  rr_message_id :: string
  rr_session_id :: string
  rr_trace_id :: string
  rr_parent_message_id :: string
  rr_source_agent_type :: string
  rr_target_agent_type :: string
  rr_route_policy :: string
  rr_route_status :: string
  rr_stream_name :: string
  rr_selected_agent_type :: string
  rr_error_code :: string
  rr_error :: string

definition record_failed_route_decision :: "schema \<Rightarrow> route_record \<Rightarrow> unit prog" where
  "record_failed_route_decision V r =
     try_exc (bindp (initialize_execution V
       [(''execution_id'', JStr (rr_execution_id r)), (''message_id'', JStr (rr_message_id r)),
        (''session_id'', JStr (rr_session_id r)), (''trace_id'', JStr (rr_trace_id r)),
        (''parent_message_id'', JStr (rr_parent_message_id r)),
        (''source_agent_type'', JStr (rr_source_agent_type r)),
        (''target_agent_type'', JStr (rr_target_agent_type r)),
        (''stream_name'', JStr (rr_stream_name r)), (''status'', JStr ''FAILED''),
        (''route_policy'', JStr (rr_route_policy r)), (''route_status'', JStr (rr_route_status r)),
        (''selected_agent_type'', JStr (rr_selected_agent_type r)),
        (''availability_error_code'', JStr (rr_error_code r)),
        (''availability_error'', JStr (rr_error r)), (''error_code'', JStr (rr_error_code r)),
        (''error_message'', JStr (rr_error r)), (''failed_stage'', JStr ''availability'')])
       (\<lambda>_. Ret ())) (\<lambda>_. Ret ())"

section \<open>Summaries\<close>

text \<open>Snapshots in the order of the ids; unreadable ones are skipped.\<close>

definition keep_snapshot :: "bool \<Rightarrow> rtext option \<Rightarrow> jdict option" where
  "keep_snapshot include_terminal raw =
     (case raw of
        Some (Doc (JObj d)) \<Rightarrow>
          if \<not> include_terminal \<and> is_terminal_state (py_text (dget0 d ''status'')) then None else Some d
      | _ \<Rightarrow> None)"

definition get_worker_snapshots :: "string \<Rightarrow> string list \<Rightarrow> bool \<Rightarrow> jdict list prog" where
  "get_worker_snapshots snapshots_key execution_ids include_terminal =
     (if execution_ids = [] then Ret []
      else bindp (call (HMGet snapshots_key execution_ids) r_texts) (\<lambda>raw.
        Ret (List.map_filter (keep_snapshot include_terminal) raw)))"

definition get_worker_executions :: "schema \<Rightarrow> string \<Rightarrow> bool \<Rightarrow> int \<Rightarrow> jdict list prog" where
  "get_worker_executions V worker_id include_terminal limit =
     (if limit \<le> 0 then Ret []
      else bindp (call (ZRevRange (worker_executions V worker_id) (nat limit)) r_members) (\<lambda>ids.
        get_worker_snapshots (worker_history_snapshots V worker_id) ids include_terminal))"

definition get_int_hash_value :: "(string \<times> rtext) list \<Rightarrow> string \<Rightarrow> int" where
  "get_int_hash_value data key = (case map_of data key of Some (Doc (JInt n)) \<Rightarrow> n | _ \<Rightarrow> 0)"

record worker_summary =
  sm_worker_id :: string
  sm_online :: bool
  sm_agent_types :: "string list"
  sm_last_seen :: int
  sm_ip_address :: string
  sm_counts :: "(string \<times> int) list"
  sm_last_updated_at :: int
  sm_last_started_at :: int
  sm_last_finished_at :: int
  sm_status_counts :: "(string \<times> int) list"
  sm_active_executions :: "jdict list"
  sm_recent_executions :: "jdict list"

definition summary_counts :: "(string \<times> rtext) list \<Rightarrow> (string \<times> int) list" where
  "summary_counts raw = map (\<lambda>k. (k, get_int_hash_value raw (k @ ''_count'')))
     [''total'', ''active'', ''queued'', ''running'', ''waiting_agent'', ''waiting_user'',
      ''cancelling'', ''completed'', ''failed'', ''cancelled'']"

definition summary_status_counts :: "(string \<times> rtext) list \<Rightarrow> (string \<times> int) list" where
  "summary_status_counts raw = filter (\<lambda>p. snd p \<noteq> 0)
     (map (\<lambda>s. (s, get_int_hash_value raw (status_count_field s)))
       [''QUEUED'', ''RUNNING'', ''WAITING_AGENT'', ''WAITING_USER'', ''CANCELLING'',
        ''COMPLETED'', ''FAILED'', ''CANCELLED''])"

definition get_worker_execution_summary ::
  "schema \<Rightarrow> string \<Rightarrow> int \<Rightarrow> int \<Rightarrow> (string \<times> worker_info) list option \<Rightarrow> worker_summary prog" where
  "get_worker_execution_summary V worker_id active_limit history_limit given =
     bindp (case given of Some ws \<Rightarrow> Ret ws | None \<Rightarrow> get_all_workers V) (\<lambda>workers.
     bindp (call (HGetAll (worker_status V worker_id)) r_pairs) (\<lambda>raw_counts.
     bindp (if active_limit > 0
            then bindp (call (ZRevRange (worker_active_execution_index V worker_id) (nat active_limit)) r_members)
              (\<lambda>ids. get_worker_snapshots (worker_active_snapshots V worker_id) ids True)
            else Ret []) (\<lambda>active.
     bindp (get_worker_executions V worker_id True history_limit) (\<lambda>recent.
     Ret (let info = map_of workers worker_id in
       \<lparr>sm_worker_id = worker_id, sm_online = (info \<noteq> None),
        sm_agent_types = (case info of None \<Rightarrow> [] | Some i \<Rightarrow> sort (wi_agent_types i)),
        sm_last_seen = (case info of None \<Rightarrow> 0 | Some i \<Rightarrow> wi_last_seen i),
        sm_ip_address = (case info of None \<Rightarrow> [] | Some i \<Rightarrow> wi_ip_address i),
        sm_counts = summary_counts raw_counts,
        sm_last_updated_at = get_int_hash_value raw_counts ''last_updated_at'',
        sm_last_started_at = get_int_hash_value raw_counts ''last_started_at'',
        sm_last_finished_at = get_int_hash_value raw_counts ''last_finished_at'',
        sm_status_counts = summary_status_counts raw_counts,
        sm_active_executions = active, sm_recent_executions = recent\<rparr>)))))"

section \<open>The statistics of a worker\<close>

text \<open>What a list of commands adds to one hash field, and which hash a command writes.\<close>

fun incr :: "string \<Rightarrow> string \<Rightarrow> cmd \<Rightarrow> int" where
  "incr k f (HIncrBy k' f' n) = (if k' = k \<and> f' = f then n else 0)"
| "incr k f _ = 0"

fun overwrites :: "string \<Rightarrow> string \<Rightarrow> cmd \<Rightarrow> bool" where
  "overwrites k f (HSet k' f' v) = (k' = k \<and> f' = f)"
| "overwrites k f (HDel k' f') = (k' = k \<and> f' = f)"
| "overwrites k f (Del k') = True"
| "overwrites k f (Pipe cs) = True"
| "overwrites k f _ = False"

fun hash_of :: "cmd \<Rightarrow> string option" where
  "hash_of (HSet k f v) = Some k"
| "hash_of (HDel k f) = Some k"
| "hash_of (HIncrBy k f n) = Some k"
| "hash_of _ = None"

fun zset_of :: "cmd \<Rightarrow> string option" where
  "zset_of (ZAdd k m n) = Some k"
| "zset_of (ZRem k m) = Some k"
| "zset_of (ZRemRangeByScore k a b) = Some k"
| "zset_of _ = None"

fun wide :: "cmd \<Rightarrow> bool" where
  "wide (Del k) = True"
| "wide (Pipe cs) = True"
| "wide _ = False"

lemma fold_incr:
  "\<forall>c \<in> set cs. \<not> overwrites k f c \<Longrightarrow>
     hash_int (hs (fold apply_cmd cs K) k f) =
       map_option (\<lambda>m. m + sum_list (map (incr k f) cs)) (hash_int (hs K k f))"
proof (induction cs arbitrary: K)
  case Nil
  then show ?case by (simp add: option.map_ident)
next
  case (Cons c cs)
  have "hash_int (hs (apply_cmd c K) k f) = map_option (\<lambda>m. m + incr k f c) (hash_int (hs K k f))"
    using Cons.prems
    by (cases c) (auto simp: option.map_ident hash_int_def split: option.splits)
  with Cons show ?case
    by (simp add: option.map_comp o_def add.assoc)
qed

lemma hash_step: "hash_of c \<noteq> Some k \<Longrightarrow> \<not> wide c \<Longrightarrow> hs (apply_cmd c K) k = hs K k"
  by (cases c) (auto split: option.splits)

lemma fold_hash:
  "\<forall>c \<in> set cs. hash_of c \<noteq> Some k \<and> \<not> wide c \<Longrightarrow> hs (fold apply_cmd cs K) k = hs K k"
  by (induction cs arbitrary: K) (simp_all add: hash_step)

lemma zset_step: "zset_of c \<noteq> Some k \<Longrightarrow> \<not> wide c \<Longrightarrow> zs (apply_cmd c K) k = zs K k"
  by (cases c) (auto split: option.splits)

lemma fold_zset:
  "\<forall>c \<in> set cs. zset_of c \<noteq> Some k \<and> \<not> wide c \<Longrightarrow> zs (fold apply_cmd cs K) k = zs K k"
  by (induction cs arbitrary: K) (simp_all add: zset_step)

text \<open>The recorded status of each execution a worker has seen, and how many satisfy \<open>P\<close>.\<close>

definition tracked :: "schema \<Rightarrow> kspace \<Rightarrow> string \<Rightarrow> string \<Rightarrow> string option" where
  "tracked V K w e = (case hs K (worker_history_snapshots V w) e of
     Some (Doc (JObj d)) \<Rightarrow> Some (py_text (dget0 d ''status'')) | _ \<Rightarrow> None)"

definition number_of :: "(string \<Rightarrow> bool) \<Rightarrow> (string \<Rightarrow> string option) \<Rightarrow> int" where
  "number_of P m = int (card {e. \<exists>s. m e = Some s \<and> P s})"

lemma number_of_upd:
  assumes "finite (dom m)"
  shows "number_of P (m(e \<mapsto> s)) = number_of P m + (if P s then 1 else 0)
     - (case m e of None \<Rightarrow> 0 | Some s0 \<Rightarrow> if P s0 then 1 else 0)"
proof -
  let ?A = "{x. \<exists>s. m x = Some s \<and> P s}"
  have fin: "finite ?A" by (rule finite_subset [OF _ assms]) auto
  have "{x. \<exists>s'. (m(e \<mapsto> s)) x = Some s' \<and> P s'} = (if P s then insert e (?A - {e}) else ?A - {e})"
    by auto
  moreover have "int (card (?A - {e})) = int (card ?A) - (if e \<in> ?A then 1 else 0)"
  proof (cases "e \<in> ?A")
    case True
    then have "0 < card ?A" using fin by (auto simp: card_gt_0_iff)
    then show ?thesis using True by (simp add: card_Diff_singleton of_nat_diff)
  qed simp
  ultimately show ?thesis
    using fin by (auto simp: number_of_def card_insert_if split: option.splits)
qed

text \<open>Statuses whose counter is not one of the two aggregate counters.\<close>

definition plain_status :: "string \<Rightarrow> bool" where
  "plain_status s = (map lower_char s \<notin> {''total'', ''active''})"

text \<open>
  The statistics of a worker agree with its snapshots: the counters are the numbers
  of executions seen, active and in each status, and the active index and the active
  snapshots hold exactly the active executions.
\<close>

definition stats_ok :: "schema \<Rightarrow> kspace \<Rightarrow> string \<Rightarrow> bool" where
  "stats_ok V K w =
     (finite (dom (tracked V K w)) \<and>
      hash_int (hs K (worker_status V w) ''total_count'') = Some (number_of (\<lambda>_. True) (tracked V K w)) \<and>
      hash_int (hs K (worker_status V w) ''active_count'') =
        Some (number_of (\<lambda>s. \<not> is_terminal_state s) (tracked V K w)) \<and>
      (\<forall>e s. tracked V K w e = Some s \<longrightarrow> plain_status s) \<and>
      (\<forall>st. plain_status st \<and> st \<noteq> [] \<longrightarrow> hash_int (hs K (worker_status V w) (status_count_field st)) =
        Some (number_of (\<lambda>s. s \<noteq> [] \<and> map lower_char s = map lower_char st) (tracked V K w))) \<and>
      (\<forall>e. zs K (worker_active_execution_index V w) e \<noteq> None \<longleftrightarrow>
        (\<exists>s. tracked V K w e = Some s \<and> \<not> is_terminal_state s)) \<and>
      (\<forall>e. hs K (worker_active_snapshots V w) e \<noteq> None \<longleftrightarrow>
        (\<exists>s. tracked V K w e = Some s \<and> \<not> is_terminal_state s)))"

text \<open>What the caller knows as the old record agrees with what the worker has recorded.\<close>

definition old_matches :: "schema \<Rightarrow> kspace \<Rightarrow> string \<Rightarrow> string \<Rightarrow> execution \<Rightarrow> bool" where
  "old_matches V K w e old =
     (tracked V K w e = (if py_text (dget0 old ''worker_id'') = w
        then Some (py_text (dget0 old ''status'')) else None))"

lemma snapshot_status [simp]:
  "py_text (dget0 (build_worker_execution_snapshot e) ''status'') = py_text (dget0 e ''status'')"
  by (simp add: build_worker_execution_snapshot_def Let_def dget0_def dget_def split: option.splits)

lemma count_field_inj [simp]:
  "status_count_field s = status_count_field t \<longleftrightarrow> map lower_char s = map lower_char t"
  by (simp add: status_count_field_def)

lemma count_field_total [simp]: "(status_count_field s = ''total_count'') = (map lower_char s = ''total'')"
  "(status_count_field s = ''active_count'') = (map lower_char s = ''active'')"
  using append_same_eq [of "map lower_char s" "''_count''" "''total''"]
    append_same_eq [of "map lower_char s" "''_count''" "''active''"]
  by (simp_all add: status_count_field_def)

lemma count_field_last [simp]: "status_count_field s \<noteq> ''last_updated_at''"
  "status_count_field s \<noteq> ''last_started_at''" "status_count_field s \<noteq> ''last_finished_at''"
  unfolding status_count_field_def by (auto dest!: rev_eqD)

lemma stats_hash:
  assumes "w = py_text (dget0 new ''worker_id'')"
  shows "\<forall>c \<in> set (stats_counters V old new now). hash_of c = Some (worker_status V w) \<and> \<not> wide c \<and> zset_of c = None"
    and "\<forall>c \<in> set (stats_expire V w). hash_of c = None \<and> \<not> wide c \<and> zset_of c = None"
    and "\<forall>c \<in> set (stats_active V w e b snap now).
      hash_of c \<in> {None, Some (worker_active_snapshots V w)} \<and> \<not> wide c \<and>
      zset_of c \<in> {None, Some (worker_active_execution_index V w)}"
  using assms by (auto simp: stats_counters_def stats_expire_def stats_active_def Let_def)

lemma stats_history:
  assumes w: "w = py_text (dget0 new ''worker_id'')" and e: "e = py_str (dget0 new ''execution_id'')"
  shows "tracked V (fold apply_cmd (stats_cmds V old new now) K) w =
     (tracked V K w)(e \<mapsto> py_text (dget0 new ''status''))"
proof -
  let ?h = "worker_history_snapshots V w"
  have "hs (fold apply_cmd (stats_counters V old new now) K) ?h = hs K ?h" for K
    by (rule fold_hash) (use stats_hash(1) [OF w] in \<open>auto simp: key_simps\<close>)
  moreover have "hs (fold apply_cmd (stats_active V w e b snap now @ stats_expire V w) K) ?h = hs K ?h"
    for b snap K
    by (rule fold_hash) (use stats_hash(2,3) [OF w] in \<open>fastforce simp: key_simps\<close>)
  ultimately have "hs (fold apply_cmd (stats_cmds V old new now) K) ?h =
      (hs K ?h)(e \<mapsto> Doc (JObj (build_worker_execution_snapshot new)))"
    by (simp add: stats_cmds_def Let_def flip: w e)
  then show ?thesis by (auto simp: tracked_def fun_eq_iff)
qed

lemma stats_active_sets:
  assumes w: "w = py_text (dget0 new ''worker_id'')" and e: "e = py_str (dget0 new ''execution_id'')"
    and a: "a = (\<not> is_terminal_state (py_text (dget0 new ''status'')))"
  shows "zs (fold apply_cmd (stats_cmds V old new now) K) (worker_active_execution_index V w) =
      (zs K (worker_active_execution_index V w))(e := if a then Some now else None)"
    and "hs (fold apply_cmd (stats_cmds V old new now) K) (worker_active_snapshots V w) =
      (hs K (worker_active_snapshots V w))
        (e := if a then Some (Doc (JObj (build_worker_execution_snapshot new))) else None)"
proof -
  let ?i = "worker_active_execution_index V w" and ?s = "worker_active_snapshots V w"
  have z: "zs (fold apply_cmd (stats_counters V old new now) K) ?i = zs K ?i"
    "zs (fold apply_cmd (stats_expire V w) K) ?i = zs K ?i" for K
    by (rule fold_zset, use stats_hash(1,2) [OF w] in \<open>auto simp: key_simps\<close>)+
  have h: "hs (fold apply_cmd (stats_counters V old new now) K) ?s = hs K ?s"
    "hs (fold apply_cmd (stats_expire V w) K) ?s = hs K ?s" for K
    by (rule fold_hash, use stats_hash(1,2) [OF w] in \<open>auto simp: key_simps\<close>)+
  show "zs (fold apply_cmd (stats_cmds V old new now) K) ?i =
      (zs K ?i)(e := if a then Some now else None)"
    by (simp add: stats_cmds_def stats_active_def Let_def z key_simps a flip: w e)
  show "hs (fold apply_cmd (stats_cmds V old new now) K) ?s =
      (hs K ?s)(e := if a then Some (Doc (JObj (build_worker_execution_snapshot new))) else None)"
    by (simp add: stats_cmds_def stats_active_def Let_def h key_simps a flip: w e)
qed

lemma stats_field:
  assumes w: "w = py_text (dget0 new ''worker_id'')"
    and f: "f \<notin> {''last_updated_at'', ''last_started_at'', ''last_finished_at''}"
  shows "hash_int (hs (fold apply_cmd (stats_cmds V old new now) K) (worker_status V w) f) =
    map_option (\<lambda>m. m + sum_list (map (incr (worker_status V w) f) (stats_counters V old new now)))
      (hash_int (hs K (worker_status V w) f))"
proof -
  have "\<forall>c \<in> set (stats_cmds V old new now). \<not> overwrites (worker_status V w) f c"
    using f by (auto simp: stats_cmds_def stats_counters_def stats_active_def stats_expire_def Let_def
        key_simps split: if_splits)
  moreover have "sum_list (map (incr (worker_status V w) f) (stats_cmds V old new now)) =
      sum_list (map (incr (worker_status V w) f) (stats_counters V old new now))"
    by (simp add: stats_cmds_def stats_active_def stats_expire_def Let_def)
  ultimately show ?thesis by (simp add: fold_incr)
qed

lemma stats_preserved:
  assumes ok: "stats_ok V K w" and om: "old_matches V K w e old"
    and w: "w = py_text (dget0 new ''worker_id'')" and e: "e = py_str (dget0 new ''execution_id'')"
    and plain: "plain_status (py_text (dget0 new ''status''))"
  shows "stats_ok V (fold apply_cmd (stats_cmds V old new now) K) w"
proof -
  let ?K = "fold apply_cmd (stats_cmds V old new now) K" and ?t = "tracked V K w"
  let ?ow = "py_text (dget0 old ''worker_id'')" and ?os = "py_text (dget0 old ''status'')"
  let ?ns = "py_text (dget0 new ''status'')"
  have t: "tracked V ?K w = ?t(e \<mapsto> ?ns)"
    by (rule stats_history [OF w e])
  have fin: "finite (dom ?t)" and pl: "?ow = w \<Longrightarrow> plain_status ?os"
    using ok om by (auto simp: stats_ok_def old_matches_def)
  have te: "?t e = (if ?ow = w then Some ?os else None)"
    using om by (simp add: old_matches_def)
  note num = number_of_upd [OF fin, of _ e ?ns]
  have total: "hash_int (hs ?K (worker_status V w) ''total_count'') = Some (number_of (\<lambda>_. True) (tracked V ?K w))"
    using ok pl plain
    by (simp add: stats_field [OF w] stats_ok_def t num te)
      (auto simp: stats_counters_def Let_def plain_status_def simp flip: w)
  have active: "hash_int (hs ?K (worker_status V w) ''active_count'') =
      Some (number_of (\<lambda>s. \<not> is_terminal_state s) (tracked V ?K w))"
    using ok pl plain
    by (simp add: stats_field [OF w] stats_ok_def t num te)
      (auto simp: stats_counters_def Let_def plain_status_def simp flip: w)
  have status: "hash_int (hs ?K (worker_status V w) (status_count_field st)) =
      Some (number_of (\<lambda>s. s \<noteq> [] \<and> map lower_char s = map lower_char st) (tracked V ?K w))"
    if "plain_status st" and "st \<noteq> []" for st
  proof -
    let ?P = "\<lambda>s. s \<noteq> [] \<and> map lower_char s = map lower_char st"
    have "sum_list (map (incr (worker_status V w) (status_count_field st)) (stats_counters V old new now)) =
        (if ?P ?ns then 1 else 0) - (if ?ow = w \<and> ?P ?os then 1 else 0)"
      using that(1) by (cases "?ow = w"; cases "?os = ?ns")
        (simp_all add: stats_counters_def Let_def plain_status_def
          count_field_total [THEN trans [OF eq_commute]] flip: w)
    moreover have "hash_int (hs K (worker_status V w) (status_count_field st)) = Some (number_of ?P ?t)"
      using ok that unfolding stats_ok_def by blast
    moreover have "number_of ?P (tracked V ?K w) = number_of ?P ?t + (if ?P ?ns then 1 else 0)
        - (if ?ow = w \<and> ?P ?os then 1 else 0)"
      unfolding t num te by simp
    ultimately show ?thesis
      unfolding stats_field [OF w, of "status_count_field st", simplified] by simp
  qed
  have zsets: "zs ?K (worker_active_execution_index V w) x \<noteq> None \<longleftrightarrow>
      (\<exists>s. tracked V ?K w x = Some s \<and> \<not> is_terminal_state s)" for x
    using ok unfolding stats_active_sets(1) [OF w e refl] t stats_ok_def by simp
  have snaps: "hs ?K (worker_active_snapshots V w) x \<noteq> None \<longleftrightarrow>
      (\<exists>s. tracked V ?K w x = Some s \<and> \<not> is_terminal_state s)" for x
    using ok unfolding stats_active_sets(2) [OF w e refl] t stats_ok_def by simp
  have stat: "plain_status s" if "tracked V ?K w x = Some s" for x s
    using ok that plain unfolding t stats_ok_def by (auto split: if_splits)
  have "finite (dom (tracked V ?K w))"
    unfolding t using fin by simp
  then show ?thesis
    unfolding stats_ok_def using total active status zsets snaps stat by blast
qed

section \<open>Reading what was written\<close>

definition record_of :: "schema \<Rightarrow> kspace \<Rightarrow> string \<Rightarrow> string \<Rightarrow> exn + execution option" where
  "record_of V K session_id execution_id =
     (if session_id = [] then Inr None
      else case hs K (session_registry V session_id) (EXEC_FIELD_PREFIX @ execution_id) of
          None \<Rightarrow> Inr None
        | Some (Txt s) \<Rightarrow> if s = [] then Inr None else Inl (ExecutionDataError execution_id)
        | Some (Doc (JObj e)) \<Rightarrow> Inr (Some e)
        | Some (Doc _) \<Rightarrow> Inl (TypeError ''execution record is not an object''))"

definition record_by_message :: "schema \<Rightarrow> kspace \<Rightarrow> string \<Rightarrow> string \<Rightarrow> exn + execution option" where
  "record_by_message V K session_id message_id =
     (if session_id = [] then Inr None
      else case hs K (session_registry V session_id) (MSG_MAP_PREFIX @ message_id) of
          None \<Rightarrow> Inr None
        | Some t \<Rightarrow> if rtext_str t = [] then Inr None else record_of V K session_id (rtext_str t))"

lemma wp_get_execution [wp_simps]:
  "wp (get_execution V eid sid) Q K = Q (record_of V K sid eid) K"
  by (auto simp: get_execution_def record_of_def wp_simps split: option.splits rtext.splits json.splits)

lemma wp_get_execution_by_message_id [wp_simps]:
  "wp (get_execution_by_message_id V mid sid) Q K = Q (record_by_message V K sid mid) K"
  by (auto simp: get_execution_by_message_id_def record_by_message_def wp_simps split: option.splits)

lemma exec_msg_fields [simp]:
  "EXEC_FIELD_PREFIX @ a \<noteq> MSG_MAP_PREFIX @ b" "MSG_MAP_PREFIX @ b \<noteq> EXEC_FIELD_PREFIX @ a"
  by (simp_all add: EXEC_FIELD_PREFIX_def MSG_MAP_PREFIX_def)

lemma dget0_map_of: "map_of d k = Some v \<Longrightarrow> dget0 d k = v"
  by (simp add: dget0_def dget_def)

lemma initialized_keeps [simp]:
  "k \<notin> {''created_at'', ''updated_at'', ''started_at'', ''finished_at'', ''timeline''} \<Longrightarrow>
     map_of (initialized now e) k = map_of e k"
  by (simp add: initialized_def Let_def dsetdefault_def)

lemma initialized_fields [simp]:
  "dget0 (initialized now e) ''created_at'' = JInt now"
  "dget0 (initialized now e) ''updated_at'' = JInt now"
  "dhas (initialized now e) ''timeline''"
  by (simp_all add: initialized_def Let_def dsetdefault_def)

lemma initialize_wp:
  assumes "map_of e ''execution_id'' = Some (JStr eid)" and "map_of e ''message_id'' = Some (JStr mid)"
    and "map_of e ''session_id'' = Some (JStr sid)" and "eid \<noteq> []" and "sid \<noteq> []"
  shows "wp (initialize_execution V e) (\<lambda>o' K'. \<exists>now. o' = Inr (initialized now e) \<and>
     record_of V K' sid eid = Inr (Some (initialized now e)) \<and>
     record_by_message V K' sid mid = Inr (Some (initialized now e))) K"
  using assms
  by (auto simp: initialize_execution_def Let_def wp_simps field_str_def
      save_new_record_def record_of_def record_by_message_def)

section \<open>Executions and the statistics of their worker\<close>

definition exec_ok :: "schema \<Rightarrow> kspace \<Rightarrow> string \<Rightarrow> string \<Rightarrow> string \<Rightarrow> bool" where
  "exec_ok V K w sid eid =
     (w \<noteq> [] \<and> sid \<noteq> [] \<and> stats_ok V K w \<and>
      (\<exists>e. hs K (session_registry V sid) (EXEC_FIELD_PREFIX @ eid) = Some (Doc (JObj e)) \<and>
        py_text (dget0 e ''worker_id'') = w \<and> map_of e ''execution_id'' = Some (JStr eid) \<and>
        tracked V K w eid = Some (py_text (dget0 e ''status''))))"

lemma stats_cong:
  assumes "hs K' (worker_status V w) = hs K (worker_status V w)"
    and "hs K' (worker_history_snapshots V w) = hs K (worker_history_snapshots V w)"
    and "hs K' (worker_active_snapshots V w) = hs K (worker_active_snapshots V w)"
    and "zs K' (worker_active_execution_index V w) = zs K (worker_active_execution_index V w)"
  shows "tracked V K' w = tracked V K w" and "stats_ok V K' w = stats_ok V K w"
proof -
  show "tracked V K' w = tracked V K w" using assms(2) by (simp add: tracked_def fun_eq_iff)
  then show "stats_ok V K' w = stats_ok V K w" by (simp add: stats_ok_def assms)
qed

text \<open>A change that keeps the identity of an execution and gives it a plain status.\<close>

definition good_change :: "(execution \<Rightarrow> int \<Rightarrow> execution) \<Rightarrow> bool" where
  "good_change change = (\<forall>old now. plain_status (py_text (dget0 old ''status'')) \<longrightarrow>
     map_of (change old now) ''worker_id'' = map_of old ''worker_id'' \<and>
     map_of (change old now) ''execution_id'' = map_of old ''execution_id'' \<and>
     plain_status (py_text (dget0 (change old now) ''status'')))"

definition saved :: "schema \<Rightarrow> string \<Rightarrow> string \<Rightarrow> execution \<Rightarrow> kspace \<Rightarrow> kspace" where
  "saved V sid eid e K = fold apply_cmd
     [HSet (session_registry V sid) (EXEC_FIELD_PREFIX @ eid) (Doc (JObj e)),
      Expire (session_registry V sid) DEFAULT_SESSION_TTL] K"

lemma saved_hash:
  "hs (saved V sid eid e K) k = (if k = session_registry V sid
     then (hs K k)(EXEC_FIELD_PREFIX @ eid \<mapsto> Doc (JObj e)) else hs K k)"
  "zs (saved V sid eid e K) = zs K"
  by (simp_all add: saved_def)

lemma saved_stats [simp]:
  "tracked V (saved V sid eid e K) w = tracked V K w" "stats_ok V (saved V sid eid e K) w = stats_ok V K w"
  by (rule stats_cong, simp_all add: saved_hash key_simps)+

lemma stats_session:
  assumes "w = py_text (dget0 new ''worker_id'')"
  shows "hs (fold apply_cmd (stats_cmds V old new now) K) (session_registry V sid) = hs K (session_registry V sid)"
  by (rule fold_hash) (use stats_hash [OF assms] in
    \<open>fastforce simp: stats_cmds_def Let_def key_simps simp flip: assms\<close>)

lemma exec_change:
  fixes now :: int
  assumes ok: "exec_ok V K w sid eid" and good: "good_change change"
    and rec: "hs K (session_registry V sid) (EXEC_FIELD_PREFIX @ eid) = Some (Doc (JObj old))"
  defines "e \<equiv> change old now"
  defines "K' \<equiv> fold apply_cmd (stats_cmds V old e now) (saved V sid eid e K)"
  shows "exec_ok V K' w sid eid" and "py_text (dget0 e ''worker_id'') = w"
    and "map_of e ''execution_id'' = Some (JStr eid)"
    and "hs K' (session_registry V sid) (EXEC_FIELD_PREFIX @ eid) = Some (Doc (JObj e))"
    and "eid' \<noteq> eid \<Longrightarrow> exec_ok V K w sid' eid' \<Longrightarrow> exec_ok V K' w sid' eid'"
proof -
  have old: "py_text (dget0 old ''worker_id'') = w" "map_of old ''execution_id'' = Some (JStr eid)"
    "tracked V K w eid = Some (py_text (dget0 old ''status''))" "stats_ok V K w" "w \<noteq> []" "sid \<noteq> []"
    using ok rec by (auto simp: exec_ok_def)
  then have "plain_status (py_text (dget0 old ''status''))"
    unfolding stats_ok_def by blast
  then have ch: "map_of e ''worker_id'' = map_of old ''worker_id''"
    "map_of e ''execution_id'' = Some (JStr eid)" "plain_status (py_text (dget0 e ''status''))"
    using good old(2) unfolding good_change_def e_def by auto
  show w: "py_text (dget0 e ''worker_id'') = w" and i: "map_of e ''execution_id'' = Some (JStr eid)"
    using ch old(1) by (simp_all add: dget0_def dget_def)
  have ie: "eid = py_str (dget0 e ''execution_id'')"
    using i by (simp add: dget0_map_of)
  have st: "stats_ok V K' w"
    unfolding K'_def by (rule stats_preserved [OF _ _ w [symmetric] ie ch(3)])
      (use old in \<open>simp_all add: old_matches_def\<close>)
  have tr: "tracked V K' w = (tracked V K w)(eid \<mapsto> py_text (dget0 e ''status''))"
    unfolding K'_def by (simp add: stats_history [OF w [symmetric] ie])
  have h: "hs K' (session_registry V s) =
      (if s = sid then (hs K (session_registry V s))(EXEC_FIELD_PREFIX @ eid \<mapsto> Doc (JObj e))
       else hs K (session_registry V s))" for s
    unfolding K'_def by (simp add: stats_session [OF w [symmetric]] saved_hash key_simps)
  show "hs K' (session_registry V sid) (EXEC_FIELD_PREFIX @ eid) = Some (Doc (JObj e))"
    by (simp add: h)
  show "exec_ok V K' w sid eid"
    unfolding exec_ok_def using st tr h w i old(5,6) by simp
  show "exec_ok V K' w sid' eid'" if "eid' \<noteq> eid" and "exec_ok V K w sid' eid'"
    using that st tr h unfolding exec_ok_def by auto
qed

lemma change_execution_wp:
  assumes ok: "exec_ok V K w sid eid" and good: "good_change change"
    and "\<And>e K'. exec_ok V K' w sid eid \<Longrightarrow>
       hs K' (session_registry V sid) (EXEC_FIELD_PREFIX @ eid) = Some (Doc (JObj e)) \<Longrightarrow>
       (\<And>sid' eid'. eid' \<noteq> eid \<Longrightarrow> exec_ok V K w sid' eid' \<Longrightarrow> exec_ok V K' w sid' eid') \<Longrightarrow>
       wp (after e) Q K'"
  shows "wp (change_execution V eid sid change after) Q K"
proof -
  obtain old where rec: "hs K (session_registry V sid) (EXEC_FIELD_PREFIX @ eid) = Some (Doc (JObj old))"
    and ne: "sid \<noteq> []" "w \<noteq> []"
    using ok by (auto simp: exec_ok_def)
  then have "record_of V K sid eid = Inr (Some old)"
    by (simp add: record_of_def)
  then show ?thesis
    using exec_change(2,3) [OF ok good rec] ne
    by (auto simp: change_execution_def wp_simps Let_def save_record_def update_worker_execution_stats_def
        field_str_def simp flip: saved_def simp del: List.fold.simps
        intro!: assms(3) exec_change [OF ok good rec])
qed

subsection \<open>The operations on one execution, as one alphabet\<close>

datatype exec_op =
    SetStatus string jdict
  | SetFields jdict
  | Cancelling string
  | CancelRequested string
  | Finish string jdict

fun exec_prog :: "schema \<Rightarrow> string \<Rightarrow> string \<Rightarrow> exec_op \<Rightarrow> unit prog" where
  "exec_prog V sid eid (SetStatus st kw) = update_execution_status V eid sid st kw"
| "exec_prog V sid eid (SetFields kw) = update_execution_fields V eid sid kw"
| "exec_prog V sid eid (Cancelling reason) = mark_execution_cancelling V eid sid reason"
| "exec_prog V sid eid (CancelRequested reason) = mark_cancel_requested V eid sid reason"
| "exec_prog V sid eid (Finish st completion) = mark_execution_finished V eid sid st completion"

text \<open>The extra fields leave the identity and the status alone, as every caller's do.\<close>

definition extra_fields :: "jdict \<Rightarrow> bool" where
  "extra_fields kw = (fst ` set kw \<inter> {''worker_id'', ''execution_id'', ''status''} = {})"

fun op_ok :: "exec_op \<Rightarrow> bool" where
  "op_ok (SetStatus st kw) = (plain_status st \<and> extra_fields kw)"
| "op_ok (SetFields kw) = extra_fields kw"
| "op_ok (Cancelling reason) = True"
| "op_ok (CancelRequested reason) = True"
| "op_ok (Finish st completion) = (plain_status st \<and> extra_fields completion)"

lemma map_of_dupdate_other: "k \<notin> fst ` set e \<Longrightarrow> map_of (dupdate d e) k = map_of d k"
proof (induction e arbitrary: d)
  case (Cons p e)
  then show ?case by (cases p) simp
qed simp

lemma dupdate_extra [simp]:
  assumes "extra_fields kw"
  shows "map_of (dupdate d kw) ''worker_id'' = map_of d ''worker_id''"
    and "map_of (dupdate d kw) ''execution_id'' = map_of d ''execution_id''"
    and "map_of (dupdate d kw) ''status'' = map_of d ''status''"
  using assms by (auto simp: extra_fields_def intro: map_of_dupdate_other)

lemma dget0_cong: "map_of d k = map_of d' k \<Longrightarrow> dget0 d k = dget0 d' k"
  by (simp add: dget0_def dget_def)

lemma plain_cancelling [simp]: "plain_status ''CANCELLING''"
  by (simp add: plain_status_def lower_char_def)

lemma good_changes:
  "plain_status st \<Longrightarrow> extra_fields kw \<Longrightarrow> good_change (status_change st kw)"
  "extra_fields kw \<Longrightarrow> good_change (fields_change kw)"
  "good_change (cancelling_change reason)" "good_change (cancel_requested_change reason)"
  "plain_status st \<Longrightarrow> extra_fields kw \<Longrightarrow> good_change (finished_change st kw)"
proof -
  have st: "dget0 (append_timeline s n d) k = dget0 d k" if "k \<noteq> ''timeline''" for s n d k
    using that by (simp add: append_timeline_def)
  have mp: "map_of (append_timeline s n d) k = map_of d k" if "k \<noteq> ''timeline''" for s n d k
    using that by (simp add: append_timeline_def)
  have up: "dget0 (dupdate d kw) ''status'' = dget0 d ''status''" if "extra_fields kw" for d
    using that by (auto intro: dget0_cong)
  show "plain_status st \<Longrightarrow> extra_fields kw \<Longrightarrow> good_change (status_change st kw)"
    by (auto simp: good_change_def status_change_def Let_def st mp up)
  show "extra_fields kw \<Longrightarrow> good_change (fields_change kw)"
    by (simp add: good_change_def fields_change_def up)
  show "good_change (cancelling_change reason)"
    by (simp add: good_change_def cancelling_change_def st mp)
  show "good_change (cancel_requested_change reason)"
    by (simp add: good_change_def cancel_requested_change_def)
  show "plain_status st \<Longrightarrow> extra_fields kw \<Longrightarrow> good_change (finished_change st kw)"
    by (simp add: good_change_def finished_change_def Let_def st mp up)
qed

lemma resaved_ok:
  assumes "exec_ok V K w sid eid"
    and "hs K (session_registry V sid) (EXEC_FIELD_PREFIX @ eid) = Some (Doc (JObj e))"
    and "map_of e' ''worker_id'' = map_of e ''worker_id''" "map_of e' ''execution_id'' = map_of e ''execution_id''"
      "map_of e' ''status'' = map_of e ''status''"
  shows "exec_ok V (saved V sid eid e' K) w sid eid"
    and "eid' \<noteq> eid \<Longrightarrow> exec_ok V K w sid' eid' \<Longrightarrow> exec_ok V (saved V sid eid e' K) w sid' eid'"
proof -
  have "dget0 e' ''worker_id'' = dget0 e ''worker_id''" and "dget0 e' ''status'' = dget0 e ''status''"
    using assms(3,5) by (auto intro: dget0_cong)
  then show "exec_ok V (saved V sid eid e' K) w sid eid"
    using assms(1,2,4) by (simp add: exec_ok_def saved_hash)
  show "eid' \<noteq> eid \<Longrightarrow> exec_ok V K w sid' eid' \<Longrightarrow> exec_ok V (saved V sid eid e' K) w sid' eid'"
    by (auto simp: exec_ok_def saved_hash key_simps)
qed

lemma exec_ok_cong:
  assumes "hs K' (worker_status V w) = hs K (worker_status V w)"
    and "hs K' (worker_history_snapshots V w) = hs K (worker_history_snapshots V w)"
    and "hs K' (worker_active_snapshots V w) = hs K (worker_active_snapshots V w)"
    and "zs K' (worker_active_execution_index V w) = zs K (worker_active_execution_index V w)"
    and "hs K' (session_registry V sid) = hs K (session_registry V sid)"
  shows "exec_ok V K' w sid eid = exec_ok V K w sid eid"
  unfolding exec_ok_def stats_cong [OF assms(1-4)] assms(5) by (rule refl)

lemma del_config_exec [simp]:
  "exec_ok V (apply_cmd (Del (agent_configs_snapshot V key)) K) w sid eid = exec_ok V K w sid eid"
  by (rule exec_ok_cong) (simp_all add: key_simps)

lemma exec_op_wp:
  assumes "exec_ok V K w sid eid" and "op_ok op"
  shows "wp (exec_prog V sid eid op) (\<lambda>o' K'. o' = Inr () \<and> exec_ok V K' w sid eid \<and>
    (\<forall>sid' eid'. eid' \<noteq> eid \<longrightarrow> exec_ok V K w sid' eid' \<longrightarrow> exec_ok V K' w sid' eid')) K"
proof (cases op)
  case (Finish st completion)
  then have good: "good_change (finished_change st completion)"
    using assms(2) by (simp add: good_changes)
  show ?thesis
    unfolding Finish exec_prog.simps mark_execution_finished_def
  proof (rule change_execution_wp [OF assms(1) good])
    fix e K'
    assume ok: "exec_ok V K' w sid eid"
      and rec: "hs K' (session_registry V sid) (EXEC_FIELD_PREFIX @ eid) = Some (Doc (JObj e))"
      and oth: "\<And>sid' eid'. eid' \<noteq> eid \<Longrightarrow> exec_ok V K w sid' eid' \<Longrightarrow> exec_ok V K' w sid' eid'"
    let ?D = "\<lambda>k. apply_cmd (Del (agent_configs_snapshot V k)) K'"
    have "hs (?D k) (session_registry V sid) (EXEC_FIELD_PREFIX @ eid) = Some (Doc (JObj e))" for k
      using rec by (simp add: key_simps)
    then have "exec_ok V (saved V sid eid (dset ''updated_at'' (JInt t) (cleanup_fields a b c e)) (?D k)) w sid eid"
      and "eid' \<noteq> eid \<Longrightarrow> exec_ok V K w sid' eid' \<Longrightarrow>
        exec_ok V (saved V sid eid (dset ''updated_at'' (JInt t) (cleanup_fields a b c e)) (?D k)) w sid' eid'"
      for k t a b c sid' eid'
      using ok oth by (auto simp: cleanup_fields_def simp del: apply_cmd.simps
          intro!: resaved_ok [where e = e])
    then show "wp (if truthy (dget e ''agent_configs_snapshot_key'' (JStr [])) \<and> is_terminal_state st
         then snapshot_cleanup V eid sid (py_str (dget0 e ''agent_configs_snapshot_key'')) e else Ret ())
       (\<lambda>o' K''. o' = Inr () \<and> exec_ok V K'' w sid eid \<and>
         (\<forall>sid' eid'. eid' \<noteq> eid \<longrightarrow> exec_ok V K w sid' eid' \<longrightarrow> exec_ok V K'' w sid' eid')) K'"
      using ok oth by (auto simp: snapshot_cleanup_def wp_simps delete_agent_configs_snapshot_def
          save_record_def simp flip: saved_def simp del: apply_cmd.simps(2) List.fold.simps)
  qed
qed (use assms in \<open>auto simp: update_execution_status_def update_execution_fields_def
    mark_execution_cancelling_def mark_cancel_requested_def good_changes
    intro!: change_execution_wp\<close>)

text \<open>A script: operations on executions of one worker, in any order.\<close>

type_synonym exec_script = "(string \<times> string \<times> exec_op) list"

definition run_script :: "schema \<Rightarrow> exec_script \<Rightarrow> unit prog" where
  "run_script V = for_each (\<lambda>(sid, eid, op). exec_prog V sid eid op)"

definition script_ok :: "(string \<times> string) set \<Rightarrow> exec_script \<Rightarrow> bool" where
  "script_ok X script = (inj_on snd X \<and>
     list_all (\<lambda>(sid, eid, op). (sid, eid) \<in> X \<and> op_ok op) script)"

definition all_exec_ok :: "schema \<Rightarrow> kspace \<Rightarrow> string \<Rightarrow> (string \<times> string) set \<Rightarrow> bool" where
  "all_exec_ok V K w X = (\<forall>p \<in> X. exec_ok V K w (fst p) (snd p))"

lemma script_wp:
  "script_ok X script \<Longrightarrow> all_exec_ok V K w X \<Longrightarrow>
     wp (run_script V script) (\<lambda>o' K'. o' = Inr () \<and> all_exec_ok V K' w X) K"
  unfolding run_script_def
proof (induction script arbitrary: K)
  case (Cons q script)
  obtain sid eid op where q: "q = (sid, eid, op)" by (cases q)
  have X: "(sid, eid) \<in> X" "op_ok op" "script_ok X script" "inj_on snd X"
    using Cons.prems(1) by (auto simp: q script_ok_def)
  then have ok: "exec_ok V K w sid eid" using Cons.prems(2) by (force simp: all_exec_ok_def)
  show ?case
    unfolding for_each.simps wp_bindp q split_conv
  proof (rule wp_mono [OF exec_op_wp [OF ok X(2)]])
    fix o' and K' :: kspace
    assume a: "o' = Inr () \<and> exec_ok V K' w sid eid \<and>
      (\<forall>sid' eid'. eid' \<noteq> eid \<longrightarrow> exec_ok V K w sid' eid' \<longrightarrow> exec_ok V K' w sid' eid')"
    have "all_exec_ok V K' w X"
      unfolding all_exec_ok_def
    proof
      fix p assume p: "p \<in> X"
      show "exec_ok V K' w (fst p) (snd p)"
      proof (cases "snd p = eid")
        case True
        then have "p = (sid, eid)" using inj_onD [OF X(4), of p "(sid, eid)"] p X(1) by simp
        then show ?thesis using a by simp
      next
        case False
        then show ?thesis using a p Cons.prems(2) by (simp add: all_exec_ok_def)
      qed
    qed
    then show "case o' of
        Inl e \<Rightarrow> Inl e = Inr () \<and> all_exec_ok V K' w X
      | Inr a \<Rightarrow> wp (for_each (\<lambda>(sid, eid, op). exec_prog V sid eid op) script)
          (\<lambda>o' K'. o' = Inr () \<and> all_exec_ok V K' w X) K'"
      using a Cons.IH [OF X(3)] by simp
  qed
qed simp


subsection \<open>Starting and moving\<close>

lemma save_execution_wp:
  assumes ids: "map_of e ''execution_id'' = Some (JStr eid)" "map_of e ''message_id'' = Some (JStr mid)"
      "map_of e ''session_id'' = Some (JStr sid)" and ne: "eid \<noteq> []" "sid \<noteq> []" "w \<noteq> []"
    and w: "py_text (dget0 e ''worker_id'') = w" and plain: "plain_status (py_text (dget0 e ''status''))"
    and fresh: "record_of V K sid eid = Inr None" "tracked V K w eid = None" "stats_ok V K w"
  shows "wp (save_execution V e) (\<lambda>o' K'. \<exists>e'. o' = Inr e' \<and> exec_ok V K' w sid eid \<and>
     record_of V K' sid eid = Inr (Some e') \<and> record_by_message V K' sid mid = Inr (Some e') \<and>
     (\<forall>k. k \<notin> {''created_at'', ''updated_at'', ''timeline''} \<longrightarrow> map_of e' k = map_of e k)) K"
proof -
  let ?pick = "\<lambda>now. save_defaults now e"
  have keep: "map_of (?pick now) k = map_of e k"
    if "k \<notin> {''created_at'', ''updated_at'', ''timeline''}" for now k
    using that by (simp add: save_defaults_def Let_def)
  have pw: "py_text (dget0 (?pick now) ''worker_id'') = w" for now
    using w dget0_cong [OF keep, of "''worker_id''"] by simp
  have pe: "py_str (dget0 (?pick now) ''execution_id'') = eid" for now
    using keep [of "''execution_id''"] ids(1) by (simp add: dget0_map_of)
  have ps: "plain_status (py_text (dget0 (?pick now) ''status''))" for now
    using plain dget0_cong [OF keep, of "''status''"] by simp
  let ?K1 = "\<lambda>now. fold apply_cmd
     [HSet (session_registry V sid) (EXEC_FIELD_PREFIX @ eid) (Doc (JObj (?pick now))),
      HSet (session_registry V sid) (MSG_MAP_PREFIX @ mid) (Txt eid),
      Expire (session_registry V sid) DEFAULT_SESSION_TTL] K"
  let ?K2 = "\<lambda>now. fold apply_cmd (stats_cmds V [] (?pick now) now) (?K1 now)"
  have st1: "tracked V (?K1 now) w = tracked V K w" "stats_ok V (?K1 now) w = stats_ok V K w" for now
    by (rule stats_cong, simp_all add: key_simps)+
  have om: "old_matches V (?K1 now) w eid []" for now
    unfolding old_matches_def st1 using fresh(2) ne(3) by (simp add: dget0_def dget_def)
  have st2: "stats_ok V (?K2 now) w" for now
    using stats_preserved [OF _ om pw [symmetric] pe [symmetric] ps, of now now] st1 fresh(3) by simp
  have tr: "tracked V (?K2 now) w eid = Some (py_text (dget0 (?pick now) ''status''))" for now
    by (subst stats_history [OF pw [symmetric] pe [symmetric]]) simp
  have h: "hs (?K2 now) (session_registry V sid) = (hs K (session_registry V sid))
      (EXEC_FIELD_PREFIX @ eid \<mapsto> Doc (JObj (?pick now)), MSG_MAP_PREFIX @ mid \<mapsto> Txt eid)" for now
    by (subst stats_session [OF pw [symmetric]]) simp
  have "exec_ok V (?K2 now) w sid eid" and "record_of V (?K2 now) sid eid = Inr (Some (?pick now))"
    and "record_by_message V (?K2 now) sid mid = Inr (Some (?pick now))" for now
    using ne st2 tr h pw keep [of "''execution_id''"] ids(1)
    by (simp_all add: exec_ok_def record_of_def record_by_message_def)
  then show ?thesis
    using ids ne fresh(1) pw
    by (simp add: save_execution_def Let_def wp_simps keep field_str_def save_new_record_def
        update_worker_execution_stats_def del: List.fold.simps)
qed

text \<open>A worker that has seen nothing.\<close>

lemma stats_ok_fresh:
  "hs K (worker_status V w) = (\<lambda>_. None) \<Longrightarrow> hs K (worker_history_snapshots V w) = (\<lambda>_. None) \<Longrightarrow>
   hs K (worker_active_snapshots V w) = (\<lambda>_. None) \<Longrightarrow>
   zs K (worker_active_execution_index V w) = (\<lambda>_. None) \<Longrightarrow>
     stats_ok V K w \<and> tracked V K w = (\<lambda>_. None)"
  by (simp add: stats_ok_def tracked_def [abs_def] number_of_def hash_int_def dom_def)

text \<open>
  Saving an execution that is new to the session and to its worker makes it readable
  by its own id and by its message id, and starts its bookkeeping: from then on the
  worker's statistics count it.
\<close>

theorem save_execution_starts_tracking:
  assumes "redis exec view"
    and "map_of e ''execution_id'' = Some (JStr eid)" and "map_of e ''message_id'' = Some (JStr mid)"
    and "map_of e ''session_id'' = Some (JStr sid)" and "eid \<noteq> []" and "sid \<noteq> []" and "w \<noteq> []"
    and "py_text (dget0 e ''worker_id'') = w" and "plain_status (py_text (dget0 e ''status''))"
    and "record_of V (view s) sid eid = Inr None" and "tracked V (view s) w eid = None"
    and "stats_ok V (view s) w"
  shows "case run exec (save_execution V e) s of (res, u) \<Rightarrow> \<exists>e'. res = Inr e' \<and>
     exec_ok V (view u) w sid eid \<and> record_of V (view u) sid eid = Inr (Some e') \<and>
     record_by_message V (view u) sid mid = Inr (Some e') \<and>
     (\<forall>k. k \<notin> {''created_at'', ''updated_at'', ''timeline''} \<longrightarrow> map_of e' k = map_of e k)"
  by (rule redis.wp_run [OF assms(1) save_execution_wp [OF assms(2-12)]])

text \<open>
  A dispatched execution is found by its message id with exactly the fields it was
  given, plus the creation time and the first timeline entry.
\<close>

theorem initialized_execution_found:
  assumes "redis exec view"
    and "map_of e ''execution_id'' = Some (JStr eid)" and "map_of e ''message_id'' = Some (JStr mid)"
    and "map_of e ''session_id'' = Some (JStr sid)" and "eid \<noteq> []" and "sid \<noteq> []"
  shows "case run exec (initialize_execution V e) s of (res, u) \<Rightarrow> \<exists>e'. res = Inr e' \<and>
     record_of V (view u) sid eid = Inr (Some e') \<and> record_by_message V (view u) sid mid = Inr (Some e') \<and>
     dget0 e' ''created_at'' = dget0 e' ''updated_at'' \<and> dhas e' ''timeline'' \<and>
     (\<forall>k. k \<notin> {''created_at'', ''updated_at'', ''started_at'', ''finished_at'', ''timeline''} \<longrightarrow>
        map_of e' k = map_of e k)"
  using redis.wp_run [OF assms(1) initialize_wp [where V = V, OF assms(2-6)], where s = s]
  by (auto split: prod.splits)

text \<open>A resume picked up by another worker: the record moves, the first worker's data stay.\<close>

lemma moved_wp:
  assumes "exec_ok V K w sid eid" and "w' \<noteq> w" and "w' \<noteq> []"
  shows "wp (update_execution_status V eid sid ''RUNNING'' [(''worker_id'', JStr w')]) (\<lambda>o' K'.
     o' = Inr () \<and> hs K' (worker_status V w) = hs K (worker_status V w) \<and>
     zs K' (worker_active_execution_index V w) = zs K (worker_active_execution_index V w) \<and>
     (\<exists>e. record_of V K' sid eid = Inr (Some e) \<and> dget0 e ''worker_id'' = JStr w' \<and>
        dget0 e ''status'' = JStr ''RUNNING'')) K"
proof -
  obtain old where rec: "hs K (session_registry V sid) (EXEC_FIELD_PREFIX @ eid) = Some (Doc (JObj old))"
    and ne: "sid \<noteq> []" and i: "map_of old ''execution_id'' = Some (JStr eid)"
    using assms(1) by (auto simp: exec_ok_def)
  have r: "record_of V K sid eid = Inr (Some old)"
    using rec ne by (simp add: record_of_def)
  let ?e = "\<lambda>now. status_change ''RUNNING'' [(''worker_id'', JStr w')] old now"
  have e: "dget0 (?e now) ''worker_id'' = JStr w'" "dget0 (?e now) ''status'' = JStr ''RUNNING''"
    "map_of (?e now) ''execution_id'' = Some (JStr eid)" for now
    using i by (simp_all add: status_change_def Let_def append_timeline_def)
  have pw: "w' = py_text (dget0 (?e now) ''worker_id'')" for now
    by (simp add: e)
  let ?K = "\<lambda>now. fold apply_cmd (stats_cmds V old (?e now) now) (saved V sid eid (?e now) K)"
  have touched: "\<forall>c \<in> set (stats_cmds V old (?e now) now).
      hash_of c \<noteq> Some (worker_status V w) \<and> zset_of c \<noteq> Some (worker_active_execution_index V w) \<and> \<not> wide c"
    for now
    using stats_hash [OF pw] assms(2)
    by (fastforce simp: stats_cmds_def Let_def key_simps simp flip: pw)
  have "hs (?K now) (worker_status V w) = hs K (worker_status V w)"
    and "zs (?K now) (worker_active_execution_index V w) = zs K (worker_active_execution_index V w)" for now
    using touched by (simp_all add: fold_hash fold_zset saved_hash key_simps)
  moreover have "record_of V (?K now) sid eid = Inr (Some (?e now))" for now
    using ne by (simp add: record_of_def stats_session [OF pw] saved_hash)
  ultimately show ?thesis
    using e assms(3)
    by (auto simp: update_execution_status_def change_execution_def wp_simps Let_def r save_record_def
        update_worker_execution_stats_def field_str_def simp flip: saved_def simp del: List.fold.simps)
qed

text \<open>
  When a suspended execution is resumed by another worker, the runner's status
  update moves the record to that worker but leaves the first worker's counters and
  active index exactly as they were: the execution stays active there although its
  record is now another worker's.
\<close>

theorem resumed_elsewhere_stays_active:
  assumes "redis exec view" and "exec_ok V (view s) w sid eid" and "w' \<noteq> w" and "w' \<noteq> []"
    and "zs (view s) (worker_active_execution_index V w) eid \<noteq> None"
  shows "case run exec (update_execution_status V eid sid ''RUNNING'' [(''worker_id'', JStr w')]) s of
    (res, u) \<Rightarrow> res = Inr () \<and>
      (\<exists>e. record_of V (view u) sid eid = Inr (Some e) \<and> dget0 e ''worker_id'' = JStr w') \<and>
      zs (view u) (worker_active_execution_index V w) eid \<noteq> None \<and>
      hs (view u) (worker_status V w) ''active_count'' = hs (view s) (worker_status V w) ''active_count''"
  using redis.wp_run [OF assms(1) moved_wp [OF assms(2-4)]] assms(5)
  by (auto split: prod.splits)

section \<open>The properties at a concrete server\<close>

definition demo_execution :: execution where
  "demo_execution = [(''execution_id'', JStr ''e''), (''message_id'', JStr ''m''),
     (''session_id'', JStr ''s''), (''worker_id'', JStr ''w''), (''status'', JStr ''RUNNING'')]"

definition demo_server :: rserver where
  "demo_server = snd (run ref_exec (save_execution V1 demo_execution) empty_server)"

lemma plain_running [simp]: "plain_status ''RUNNING''"
  by (simp add: plain_status_def lower_char_def)

lemma empty_stats: "stats_ok V (rview empty_server) w \<and> tracked V (rview empty_server) w = (\<lambda>_. None)"
  by (rule stats_ok_fresh) (simp_all add: fun_eq_iff)

lemma empty_record: "record_of V (rview empty_server) sid eid = Inr None"
  by (simp add: record_of_def)

lemma demo_fields:
  "map_of demo_execution ''execution_id'' = Some (JStr ''e'')" "map_of demo_execution ''message_id'' = Some (JStr ''m'')"
  "map_of demo_execution ''session_id'' = Some (JStr ''s'')" "dget0 demo_execution ''worker_id'' = JStr ''w''"
  "dget0 demo_execution ''status'' = JStr ''RUNNING''"
  by (simp_all add: demo_execution_def dget0_def dget_def)

lemma demo_saved:
  "wp (save_execution V1 demo_execution) (\<lambda>o' K'. \<exists>e'. o' = Inr e' \<and> exec_ok V1 K' ''w'' ''s'' ''e'' \<and>
     record_of V1 K' ''s'' ''e'' = Inr (Some e') \<and> record_by_message V1 K' ''s'' ''m'' = Inr (Some e') \<and>
     (\<forall>k. k \<notin> {''created_at'', ''updated_at'', ''timeline''} \<longrightarrow> map_of e' k = map_of demo_execution k))
     (rview empty_server)"
  by (rule save_execution_wp) (simp_all add: demo_fields empty_record empty_stats)

lemma demo_ok: "exec_ok V1 (rview demo_server) ''w'' ''s'' ''e''"
  and demo_active: "zs (rview demo_server) (worker_active_execution_index V1 ''w'') ''e'' \<noteq> None"
proof -
  obtain e' where ok: "exec_ok V1 (rview demo_server) ''w'' ''s'' ''e''"
    and r: "record_of V1 (rview demo_server) ''s'' ''e'' = Inr (Some e')"
    and k: "map_of e' ''status'' = map_of demo_execution ''status''"
    using ref.wp_run [OF demo_saved, unfolded case_prod_beta, folded demo_server_def]
    by (elim exE conjE) (rule that, assumption+, simp)
  show "exec_ok V1 (rview demo_server) ''w'' ''s'' ''e''" by (rule ok)
  have "dget0 e' ''status'' = JStr ''RUNNING''"
    using k demo_fields(5) by (simp add: dget0_def dget_def)
  with ok r have "tracked V1 (rview demo_server) ''w'' ''e'' = Some ''RUNNING''"
    by (auto simp: exec_ok_def record_of_def)
  then show "zs (rview demo_server) (worker_active_execution_index V1 ''w'') ''e'' \<noteq> None"
    using ok unfolding exec_ok_def stats_ok_def by (simp add: is_terminal_state_def TERMINAL_STATES_def)
qed


theorem save_execution_starts_tracking_witness:
  "exec_ok V1 (rview (snd (run ref_exec (save_execution V1 demo_execution) empty_server))) ''w'' ''s'' ''e''"
proof -
  have "case run ref_exec (save_execution V1 demo_execution) empty_server of (res, u) \<Rightarrow> \<exists>e'. res = Inr e' \<and>
     exec_ok V1 (rview u) ''w'' ''s'' ''e'' \<and> record_of V1 (rview u) ''s'' ''e'' = Inr (Some e') \<and>
     record_by_message V1 (rview u) ''s'' ''m'' = Inr (Some e') \<and>
     (\<forall>k. k \<notin> {''created_at'', ''updated_at'', ''timeline''} \<longrightarrow> map_of e' k = map_of demo_execution k)"
    by (rule save_execution_starts_tracking [OF ref.redis_axioms])
      (simp_all add: demo_fields empty_record empty_stats)
  then show ?thesis unfolding case_prod_beta by blast
qed

theorem initialized_execution_found_witness:
  "\<exists>e'. fst (run ref_exec (initialize_execution V1 demo_execution) empty_server) = Inr e' \<and>
     map_of e' ''status'' = map_of demo_execution ''status''"
proof -
  have "case run ref_exec (initialize_execution V1 demo_execution) empty_server of (res, u) \<Rightarrow> \<exists>e'. res = Inr e' \<and>
     record_of V1 (rview u) ''s'' ''e'' = Inr (Some e') \<and> record_by_message V1 (rview u) ''s'' ''m'' = Inr (Some e') \<and>
     dget0 e' ''created_at'' = dget0 e' ''updated_at'' \<and> dhas e' ''timeline'' \<and>
     (\<forall>k. k \<notin> {''created_at'', ''updated_at'', ''started_at'', ''finished_at'', ''timeline''} \<longrightarrow>
        map_of e' k = map_of demo_execution k)"
    by (rule initialized_execution_found [OF ref.redis_axioms]) (simp_all add: demo_fields)
  then show ?thesis unfolding case_prod_beta
    by (elim exE conjE) (intro exI conjI, assumption, simp)
qed

theorem resumed_elsewhere_stays_active_witness:
  "zs (rview (snd (run ref_exec (update_execution_status V1 ''e'' ''s'' ''RUNNING''
     [(''worker_id'', JStr ''w2'')]) demo_server))) (worker_active_execution_index V1 ''w'') ''e'' \<noteq> None"
  using resumed_elsewhere_stays_active [OF ref.redis_axioms demo_ok _ _ demo_active, where w' = "''w2''"]
  by (auto split: prod.splits)

end
