(* ===== verification/Client_Cancel.thy ===== *)
theory Client_Cancel
  imports Registry_Exec
begin

text \<open>
  \<open>client/client.py\<close>: \<open>cancel_task\<close> and \<open>cancel_session\<close>.  The first rebuilds the tree of
  tasks from the session's records and walks it breadth first from the cancelled
  one.  The walk keeps no set of visited tasks, so it is a partial function: it ends
  exactly when no task it can reach is its own descendant.
\<close>

section \<open>The walk\<close>

definition as_exec :: "json \<Rightarrow> execution option" where
  "as_exec v = (case v of JObj d \<Rightarrow> Some d | _ \<Rightarrow> None)"

text \<open>The records as dictionaries; \<open>.get\<close> on anything else raises.\<close>

fun as_execs :: "json list \<Rightarrow> exn + execution list" where
  "as_execs [] = Inr []"
| "as_execs (v # vs) = (case as_exec v of
     None \<Rightarrow> Inl (AttributeError ''record has no attribute get'')
   | Some d \<Rightarrow> res_bind (as_execs vs) (\<lambda>ds. Inr (d # ds)))"

text \<open>\<open>children_map.get(m)\<close>: a record with an empty parent is in no list.\<close>

definition children_of :: "execution list \<Rightarrow> json \<Rightarrow> execution list" where
  "children_of all m = (if truthy m then filter (\<lambda>ex. dget ex ''parent_message_id'' (JStr []) = m) all else [])"

definition message_of :: "execution \<Rightarrow> json" where
  "message_of ex = dget ex ''message_id'' (JStr [])"

definition in_terminal_states :: "execution \<Rightarrow> bool" where
  "in_terminal_states ex = (dget ex ''status'' (JStr []) \<in> JStr ` {''COMPLETED'', ''FAILED'', ''CANCELLED''})"

text \<open>The loop over \<open>queue\<close>, \<open>to_cancel\<close>, \<open>terminal_ancestors\<close>; \<open>None\<close> is a loop that never ends.\<close>

partial_function (option) collect ::
  "execution list \<Rightarrow> execution list \<Rightarrow> execution list \<Rightarrow> execution list \<Rightarrow> (execution list \<times> execution list) option" where
  "collect all queue to_cancel ancestors =
     (case queue of
        [] \<Rightarrow> Some (to_cancel, ancestors)
      | current # rest \<Rightarrow>
          collect all (rest @ children_of all (message_of current))
            (if in_terminal_states current then to_cancel else to_cancel @ [current])
            (if in_terminal_states current then ancestors @ [current] else ancestors))"

section \<open>Cancelling\<close>

record cancel_response =
  cr_success :: bool
  cr_message_id :: string
  cr_execution_id :: json
  cr_worker_id :: json
  cr_status :: string
  cr_cancelled_count :: nat

definition CANCEL_MESSAGE_ID_PREFIX :: string where "CANCEL_MESSAGE_ID_PREFIX = ''msg-cancel-''"

text \<open>The control message that asks the worker of one task to stop it.\<close>

definition cancel_message :: "string \<Rightarrow> string \<Rightarrow> execution \<Rightarrow> string \<Rightarrow> string \<Rightarrow> string \<Rightarrow> string \<Rightarrow> string \<Rightarrow> exn + command" where
  "cancel_message fresh session_id node trace_id reason requested_by cancel_mode worker_id = new_cancel
     \<lparr>can_header = \<lparr>mh_message_id = CANCEL_MESSAGE_ID_PREFIX @ take 8 fresh, mh_session_id = session_id,
        mh_trace_id = trace_id, mh_source_agent_type = [],
        mh_target_agent_type = py_str (dget node ''target_agent_type'' (JStr [])),
        mh_parent_message_id = py_str (message_of node), mh_task_group_id = [], mh_user_code = [],
        mh_user_name = [], mh_metadata = [], mh_trace_parent_span_id = [],
        mh_langfuse_parent_observation_id = []\<rparr>,
      can_target_message_id = py_str (message_of node),
      can_target_execution_id = py_str (dget node ''execution_id'' (JStr [])),
      can_target_worker_id = worker_id, can_reason = reason, can_requested_by = requested_by,
      can_cancel_mode = cancel_mode\<rparr>"

definition exec_id_of :: "execution \<Rightarrow> string" where
  "exec_id_of ex = py_str (dget ex ''execution_id'' (JStr []))"

text \<open>\<open>fallback\<close>: the trace id taken when the task has none.\<close>

definition cancel_node ::
  "schema \<Rightarrow> string \<Rightarrow> string \<Rightarrow> string \<Rightarrow> string \<Rightarrow> json \<Rightarrow> execution \<Rightarrow> unit prog" where
  "cancel_node V session_id reason requested_by cancel_mode fallback node =
     bindp (mark_execution_cancelling V (exec_id_of node) session_id reason) (\<lambda>_.
     let worker_id = dget node ''worker_id'' (JStr []) in
     if \<not> truthy worker_id then Ret ()
     else bindp (if truthy (dget0 node ''trace_id'') then Ret (py_str (dget0 node ''trace_id''))
                 else if truthy fallback then Ret (py_str fallback) else uuid_hex) (\<lambda>trace_id.
       bindp uuid_hex (\<lambda>fresh.
       bindp (lift_res (cancel_message fresh session_id node trace_id reason requested_by cancel_mode
                (py_str worker_id))) (\<lambda>command.
       exec_cmd (XAdd (worker_ctrl_stream V (py_str worker_id)) (to_redis_payload command))))))"

definition task_response :: "bool \<Rightarrow> string \<Rightarrow> execution \<Rightarrow> string \<Rightarrow> nat \<Rightarrow> cancel_response" where
  "task_response ok message_id e status n =
     \<lparr>cr_success = ok, cr_message_id = message_id, cr_execution_id = dget e ''execution_id'' (JStr []),
      cr_worker_id = dget e ''worker_id'' (JStr []), cr_status = status, cr_cancelled_count = n\<rparr>"

definition cancel_task :: "schema \<Rightarrow> string \<Rightarrow> string \<Rightarrow> string \<Rightarrow> string \<Rightarrow> string \<Rightarrow> cancel_response prog" where
  "cancel_task V message_id session_id reason requested_by cancel_mode =
     bindp (get_execution_by_message_id V message_id session_id) (\<lambda>found.
     case found of
       None \<Rightarrow> Ret (task_response False message_id [] ''NOT_FOUND'' 0)
     | Some execution \<Rightarrow>
        if execution = [] then Ret (task_response False message_id [] ''NOT_FOUND'' 0)
        else if dget0 execution ''session_id'' \<noteq> JStr session_id
        then Ret (task_response False message_id execution ''NOT_FOUND'' 0)
        else
          bindp (get_all_session_executions V session_id) (\<lambda>records.
          bindp (lift_res (as_execs records)) (\<lambda>all.
          case collect all [execution] [] [] of
            None \<Rightarrow> Raise Diverges
          | Some (to_cancel, ancestors) \<Rightarrow>
              bindp (for_each (\<lambda>a. mark_cancel_requested V (exec_id_of a) session_id reason) ancestors) (\<lambda>_.
              if to_cancel = [] then Ret (task_response False message_id execution ''ALREADY_FINISHED'' 0)
              else bindp (for_each (cancel_node V session_id reason requested_by cancel_mode
                     (dget0 execution ''trace_id'')) to_cancel) (\<lambda>_.
                Ret (task_response True message_id execution ''CANCEL_REQUESTED'' (length to_cancel)))))))"

record session_response =
  sr_success :: bool
  sr_session_id :: string
  sr_status :: string
  sr_cancelled_count :: nat
  sr_already_finished_count :: nat

definition cancel_session :: "schema \<Rightarrow> string \<Rightarrow> string \<Rightarrow> string \<Rightarrow> string \<Rightarrow> session_response prog" where
  "cancel_session V session_id reason requested_by cancel_mode =
     bindp (get_all_session_executions V session_id) (\<lambda>records.
     bindp (lift_res (as_execs records)) (\<lambda>all.
     if all = [] then Ret \<lparr>sr_success = False, sr_session_id = session_id, sr_status = ''NOT_FOUND'',
        sr_cancelled_count = 0, sr_already_finished_count = 0\<rparr>
     else let to_cancel = filter (\<lambda>n. \<not> in_terminal_states n) all;
              finished = filter in_terminal_states all in
       bindp (for_each (\<lambda>a. mark_cancel_requested V (exec_id_of a) session_id reason) finished) (\<lambda>_.
       if to_cancel = [] then Ret \<lparr>sr_success = False, sr_session_id = session_id,
          sr_status = ''ALREADY_FINISHED'', sr_cancelled_count = 0,
          sr_already_finished_count = length finished\<rparr>
       else bindp (for_each (cancel_node V session_id reason requested_by cancel_mode JNull) to_cancel) (\<lambda>_.
         Ret \<lparr>sr_success = True, sr_session_id = session_id, sr_status = ''CANCEL_REQUESTED'',
           sr_cancelled_count = length to_cancel, sr_already_finished_count = length finished\<rparr>))))"

section \<open>When the walk ends, and what it collects\<close>

text \<open>\<open>child_of all y x\<close>: task \<open>y\<close> names task \<open>x\<close> as its parent.\<close>

definition child_of :: "execution list \<Rightarrow> execution \<Rightarrow> execution \<Rightarrow> bool" where
  "child_of all y x = (y \<in> set (children_of all (message_of x)))"

text \<open>Tasks below which every chain of children ends.\<close>

definition well_founded :: "execution list \<Rightarrow> execution \<Rightarrow> bool" where
  "well_founded all = Wellfounded.accp (child_of all)"

text \<open>The number of nodes of the tree below a task, a shared task counted at each place.\<close>

inductive tree_size :: "execution list \<Rightarrow> execution \<Rightarrow> nat \<Rightarrow> bool" for all where
  "list_all2 (tree_size all) (children_of all (message_of x)) ns \<Longrightarrow> tree_size all x (Suc (sum_list ns))"

lemma tree_size_exists: "well_founded all x \<Longrightarrow> \<exists>n. tree_size all x n"
  unfolding well_founded_def
proof (induction rule: accp_induct_rule)
  case (1 x)
  then have "\<forall>y \<in> set (children_of all (message_of x)). \<exists>n. tree_size all y n"
    by (simp add: child_of_def)
  then obtain f where "\<forall>y \<in> set (children_of all (message_of x)). tree_size all y (f y)"
    by (blast dest: bchoice)
  then have "list_all2 (tree_size all) (children_of all (message_of x)) (map f (children_of all (message_of x)))"
    by (simp add: list_all2_conv_all_nth)
  then show ?case by (blast intro: tree_size.intros)
qed

inductive_cases tree_sizeE: "tree_size all x n"

lemma collect_terminates_sized:
  "list_all2 (tree_size all) queue ns \<Longrightarrow> \<exists>r. collect all queue to_cancel ancestors = Some r"
proof (induction "sum_list ns" arbitrary: queue ns to_cancel ancestors rule: less_induct)
  case less
  show ?case
  proof (cases queue)
    case Nil
    then show ?thesis by (simp add: collect.simps)
  next
    case (Cons x rest)
    then obtain n ns' where ns: "ns = n # ns'" "tree_size all x n" "list_all2 (tree_size all) rest ns'"
      using less.prems by (auto simp: list_all2_Cons1)
    from ns(2) obtain ms where m: "n = Suc (sum_list ms)"
      "list_all2 (tree_size all) (children_of all (message_of x)) ms"
      by (rule tree_sizeE)
    have "list_all2 (tree_size all) (rest @ children_of all (message_of x)) (ns' @ ms)"
      using ns(3) m(2) by (rule list_all2_appendI)
    moreover have "sum_list (ns' @ ms) < sum_list ns"
      by (simp add: ns(1) m(1))
    ultimately have "\<exists>r. collect all (rest @ children_of all (message_of x)) tc an = Some r" for tc an
      by (intro less.hyps)
    then show ?thesis
      by (subst collect.simps) (simp only: Cons list.case)
  qed
qed

text \<open>\<open>below all x y\<close>: task \<open>y\<close> is \<open>x\<close> or one of its descendants.\<close>

definition below :: "execution list \<Rightarrow> execution \<Rightarrow> execution \<Rightarrow> bool" where
  "below all = (\<lambda>x y. child_of all y x)\<^sup>*\<^sup>*"

lemma below_step: "below all x y \<longleftrightarrow> y = x \<or> (\<exists>z \<in> set (children_of all (message_of x)). below all z y)"
  unfolding below_def child_of_def by (metis (no_types, lifting) converse_rtranclpE converse_rtranclp_into_rtranclp rtranclp.rtrancl_refl)

text \<open>What a finished walk says of its start and of what it collected.\<close>

definition walked ::
  "execution list \<Rightarrow> execution list \<Rightarrow> execution list \<Rightarrow> execution list \<Rightarrow> execution list \<times> execution list \<Rightarrow> bool" where
  "walked all queue to_cancel ancestors r =
     ((\<forall>x \<in> set queue. well_founded all x) \<and>
      (\<exists>v. r = (to_cancel @ filter (\<lambda>x. \<not> in_terminal_states x) v, ancestors @ filter in_terminal_states v) \<and>
         set v = {y. \<exists>x \<in> set queue. below all x y}))"

lemma walked_step:
  assumes "walked all (rest @ children_of all (message_of x))
      (if in_terminal_states x then to_cancel else to_cancel @ [x])
      (if in_terminal_states x then ancestors @ [x] else ancestors) r"
  shows "walked all (x # rest) to_cancel ancestors r"
proof -
  let ?ch = "children_of all (message_of x)"
  obtain v where wf: "\<forall>y \<in> set (rest @ ?ch). well_founded all y"
    and v: "r = ((if in_terminal_states x then to_cancel else to_cancel @ [x]) @
        filter (\<lambda>x. \<not> in_terminal_states x) v,
        (if in_terminal_states x then ancestors @ [x] else ancestors) @ filter in_terminal_states v)"
    and sv: "set v = {y. \<exists>z \<in> set (rest @ ?ch). below all z y}"
    using assms unfolding walked_def by blast
  have "well_founded all x"
    unfolding well_founded_def by (rule accpI) (use wf in \<open>simp add: child_of_def well_founded_def\<close>)
  then have "\<forall>y \<in> set (x # rest). well_founded all y"
    using wf by simp
  moreover have "set (x # v) = {y. \<exists>z \<in> set (x # rest). below all z y}"
    unfolding set_simps(2) sv using below_step [of all x] by auto
  moreover have "r = (to_cancel @ filter (\<lambda>x. \<not> in_terminal_states x) (x # v),
      ancestors @ filter in_terminal_states (x # v))"
    by (simp add: v)
  ultimately show ?thesis unfolding walked_def by blast
qed

lemma collect_sound:
  assumes "collect all queue to_cancel ancestors = Some r"
  shows "walked all queue to_cancel ancestors r"
proof (rule collect.raw_induct [OF _ assms])
  fix walk all queue to_cancel ancestors r
  assume IH: "\<And>all queue to_cancel ancestors r.
      walk all queue to_cancel ancestors = Some r \<Longrightarrow> walked all queue to_cancel ancestors r"
    and eq: "(case queue of [] \<Rightarrow> Some (to_cancel, ancestors)
      | current # rest \<Rightarrow> walk all (rest @ children_of all (message_of current))
          (if in_terminal_states current then to_cancel else to_cancel @ [current])
          (if in_terminal_states current then ancestors @ [current] else ancestors)) = Some r"
  show "walked all queue to_cancel ancestors r"
  proof (cases queue)
    case Nil
    then show ?thesis using eq by (simp add: walked_def)
  next
    case (Cons x rest)
    then have "walk all (rest @ children_of all (message_of x))
        (if in_terminal_states x then to_cancel else to_cancel @ [x])
        (if in_terminal_states x then ancestors @ [x] else ancestors) = Some r"
      using eq by (simp only: list.case)
    then show ?thesis unfolding Cons by (rule walked_step [OF IH])
  qed
qed

lemma collect_some_iff: "(\<exists>r. collect all [x] [] [] = Some r) \<longleftrightarrow> well_founded all x"
proof
  assume "well_founded all x"
  then obtain n where "tree_size all x n" using tree_size_exists by blast
  then show "\<exists>r. collect all [x] [] [] = Some r"
    using collect_terminates_sized [of all "[x]" "[n]"] by simp
qed (auto dest!: collect_sound simp: walked_def)

text \<open>
  C36: the walk of \<open>cancel_task\<close> ends exactly when no infinite chain of children starts at
  the cancelled task, and then it has visited the task and all its descendants and
  nothing else: the unfinished ones are the ones to cancel, the finished ones the
  ones only to be flagged.
\<close>

theorem cancel_walk_ends_iff:
  "(\<exists>r. collect all [x] [] [] = Some r) = well_founded all x \<and>
   (\<forall>to_cancel ancestors. collect all [x] [] [] = Some (to_cancel, ancestors) \<longrightarrow>
     set to_cancel = {y. below all x y \<and> \<not> in_terminal_states y} \<and>
     set ancestors = {y. below all x y \<and> in_terminal_states y})"
  using collect_sound [of all "[x]" "[]" "[]"] unfolding collect_some_iff [symmetric] walked_def
  by auto

definition demo_parent :: execution where
  "demo_parent = [(''message_id'', JStr ''m1''), (''status'', JStr ''COMPLETED'')]"
definition demo_child :: execution where
  "demo_child = [(''message_id'', JStr ''m2''), (''parent_message_id'', JStr ''m1''), (''status'', JStr ''RUNNING'')]"

theorem cancel_walk_ends_iff_witness:
  "well_founded [demo_parent, demo_child] demo_parent \<and>
   {y. below [demo_parent, demo_child] demo_parent y \<and> \<not> in_terminal_states y} = {demo_child} \<and>
   {y. below [demo_parent, demo_child] demo_parent y \<and> in_terminal_states y} = {demo_parent}"
proof -
  have run: "collect [demo_parent, demo_child] [demo_parent] [] [] = Some ([demo_child], [demo_parent])"
    by (simp add: collect.simps demo_parent_def demo_child_def children_of_def message_of_def in_terminal_states_def dget_def)
  show ?thesis
    using cancel_walk_ends_iff [of "[demo_parent, demo_child]" demo_parent] run by auto
qed

lemma own_child_not_well_founded:
  assumes "child_of all x x"
  shows "\<not> well_founded all x"
proof
  assume "well_founded all x"
  then show False
    unfolding well_founded_def using assms by (induction rule: accp_induct_rule) blast
qed

lemma as_execs_map: "(\<forall>v \<in> set vs. as_exec v \<noteq> None) \<Longrightarrow> as_execs vs = Inr (map (the \<circ> as_exec) vs)"
  by (induction vs) auto

lemma the_as_exec: "as_exec v \<noteq> None \<Longrightarrow> (e = the (as_exec v)) = (v = JObj e)"
  by (auto simp: as_exec_def split: json.splits)

text \<open>The session's records are objects, as every writer of the repository stores them.\<close>

definition records_are_objects :: "schema \<Rightarrow> kspace \<Rightarrow> string \<Rightarrow> bool" where
  "records_are_objects V K sid = (\<forall>f v. hs K (session_registry V sid) f = Some (Doc v) \<longrightarrow>
     starts_with EXEC_FIELD_PREFIX f \<longrightarrow> as_exec v \<noteq> None)"

definition session_records :: "schema \<Rightarrow> kspace \<Rightarrow> string \<Rightarrow> execution set" where
  "session_records V K sid = {e. \<exists>f. starts_with EXEC_FIELD_PREFIX f \<and>
     hs K (session_registry V sid) f = Some (Doc (JObj e))}"

lemma set_map_filter_iff: "v \<in> set (List.map_filter g l) \<longleftrightarrow> (\<exists>x \<in> set l. g x = Some v)"
  by (induction l) (auto simp: List.map_filter_simps split: option.splits)

lemma loads_doc: "loads t = Some v \<longleftrightarrow> t = Doc v"
  by (cases t) auto

lemma session_executions_wp:
  assumes "records_are_objects V K sid"
  shows "wp (bindp (get_all_session_executions V sid) (\<lambda>r. lift_res (as_execs r)))
    (\<lambda>o' K'. K' = K \<and> (\<exists>all. o' = Inr all \<and> set all = session_records V K sid)) K"
proof -
  have "\<exists>all. as_execs (List.map_filter (\<lambda>(f, v). if starts_with EXEC_FIELD_PREFIX f then loads v else None) l) = Inr all \<and>
      set all = session_records V K sid"
    if l: "distinct (map fst l)" "map_of l = hs K (session_registry V sid)" for l
  proof -
    let ?g = "\<lambda>(f, v). if starts_with EXEC_FIELD_PREFIX f then loads v else None"
    have mem: "(f, v) \<in> set l \<longleftrightarrow> hs K (session_registry V sid) f = Some v" for f v
      using map_of_eq_Some_iff [OF l(1)] l(2) by metis
    have vals: "v \<in> set (List.map_filter ?g l) \<longleftrightarrow>
        (\<exists>f. starts_with EXEC_FIELD_PREFIX f \<and> hs K (session_registry V sid) f = Some (Doc v))" for v
    proof -
      have "v \<in> set (List.map_filter ?g l) \<longleftrightarrow> (\<exists>f t. (f, t) \<in> set l \<and> ?g (f, t) = Some v)"
        unfolding set_map_filter_iff by (simp only: Bex_def split_paired_Ex)
      then show ?thesis unfolding mem by (auto simp: loads_doc split: if_splits)
    qed
    then have "\<forall>v \<in> set (List.map_filter ?g l). as_exec v \<noteq> None"
      using assms by (auto simp: records_are_objects_def)
    moreover have "set (map (the \<circ> as_exec) (List.map_filter ?g l)) = session_records V K sid"
    proof (rule set_eqI)
      fix e
      have "e \<in> set (map (the \<circ> as_exec) (List.map_filter ?g l)) \<longleftrightarrow>
          (\<exists>f v. starts_with EXEC_FIELD_PREFIX f \<and> hs K (session_registry V sid) f = Some (Doc v) \<and>
             e = the (as_exec v))"
        unfolding set_map image_iff Bex_def vals by auto
      also have "\<dots> \<longleftrightarrow> (\<exists>f v. starts_with EXEC_FIELD_PREFIX f \<and>
             hs K (session_registry V sid) f = Some (Doc v) \<and> v = JObj e)"
        using assms unfolding records_are_objects_def
        by (intro ex_cong1 conj_cong refl) (use the_as_exec in blast)
      finally show "e \<in> set (map (the \<circ> as_exec) (List.map_filter ?g l)) \<longleftrightarrow> e \<in> session_records V K sid"
        by (simp add: session_records_def)
    qed
    ultimately show ?thesis by (simp add: as_execs_map)
  qed
  then show ?thesis
    by (auto simp: get_all_session_executions_def wp_simps lift_res_def split: sum.splits) (metis sum.distinct(1) sum.inject(2))+
qed

lemma own_parent_collect:
  assumes "e \<in> set all" and "truthy (message_of e)"
    and "dget e ''parent_message_id'' (JStr []) = message_of e"
  shows "collect all [e] [] [] = None"
proof -
  have "child_of all e e" using assms by (simp add: child_of_def children_of_def)
  then have "\<not> (\<exists>r. collect all [e] [] [] = Some r)"
    unfolding collect_some_iff by (rule own_child_not_well_founded)
  then show ?thesis by (cases "collect all [e] [] []") auto
qed

lemma cancel_own_parent_wp:
  assumes rec: "record_by_message V K sid mid = Inr (Some e)" and ses: "dget0 e ''session_id'' = JStr sid"
    and mem: "e \<in> session_records V K sid" and ok: "records_are_objects V K sid"
    and own: "truthy (message_of e)" "dget e ''parent_message_id'' (JStr []) = message_of e"
  shows "wp (cancel_task V mid sid reason requested_by mode) (\<lambda>o' K'. o' = Inl Diverges \<and> K' = K) K"
proof -
  have "e \<noteq> []" using own by (auto simp: message_of_def dget_def)
  have rest: "wp (bindp (get_all_session_executions V sid) (\<lambda>r. bindp (lift_res (as_execs r)) F))
      (\<lambda>o' K'. o' = Inl Diverges \<and> K' = K) K"
    if F: "\<And>all. e \<in> set all \<Longrightarrow> F all = Raise Diverges" for F :: "execution list \<Rightarrow> cancel_response prog"
    unfolding bindp_assoc [symmetric] wp_bindp [of "bindp _ _"]
    by (rule wp_mono [OF session_executions_wp [OF ok]]) (use mem F in auto)
  show ?thesis
    unfolding cancel_task_def wp_bindp [of "get_execution_by_message_id V mid sid"]
      wp_get_execution_by_message_id rec sum.case option.case
    using \<open>e \<noteq> []\<close> ses own_parent_collect [OF _ own] by (auto intro!: rest)
qed

text \<open>
  Cancelling a task whose record names itself as its parent never returns: the walk
  goes round for ever, before anything is marked or sent.
\<close>

theorem cancel_task_own_parent_hangs:
  assumes "redis exec view" and "record_by_message V (view s) sid mid = Inr (Some e)"
    and "dget0 e ''session_id'' = JStr sid" and "e \<in> session_records V (view s) sid"
    and "records_are_objects V (view s) sid"
    and "truthy (message_of e)" and "dget e ''parent_message_id'' (JStr []) = message_of e"
  shows "fst (run exec (cancel_task V mid sid reason requested_by mode) s) = Inl Diverges"
  using redis.wp_run [OF assms(1) cancel_own_parent_wp
      [where reason = reason and requested_by = requested_by and mode = mode, OF assms(2-7)]] by (auto split: prod.splits)

section \<open>The property at a concrete server\<close>

definition loop_execution :: execution where
  "loop_execution = [(''execution_id'', JStr ''e''), (''message_id'', JStr ''m''),
     (''parent_message_id'', JStr ''m''), (''session_id'', JStr ''s''), (''status'', JStr ''RUNNING'')]"

definition loop_server :: rserver where
  "loop_server = empty_server\<lparr>l_hs := [(session_registry V1 ''s'',
     [(EXEC_FIELD_PREFIX @ ''e'', Doc (JObj loop_execution)), (MSG_MAP_PREFIX @ ''m'', Txt ''e'')])]\<rparr>"

theorem cancel_task_own_parent_hangs_witness:
  "fst (run ref_exec (cancel_task V1 ''m'' ''s'' [] ''client'' ''graceful'') loop_server) = Inl Diverges"
proof -
  have h: "hs (rview loop_server) (session_registry V1 ''s'') =
      map_of [(EXEC_FIELD_PREFIX @ ''e'', Doc (JObj loop_execution)), (MSG_MAP_PREFIX @ ''m'', Txt ''e'')]"
    by (simp add: loop_server_def empty_server_def rview_def look_def)
  have f: "dget0 loop_execution ''session_id'' = JStr ''s''" "message_of loop_execution = JStr ''m''"
    "dget loop_execution ''parent_message_id'' (JStr []) = JStr ''m''"
    by (simp_all add: loop_execution_def message_of_def dget0_def dget_def)
  show ?thesis
  proof (rule cancel_task_own_parent_hangs [OF ref.redis_axioms, where e = loop_execution])
    show "record_by_message V1 (rview loop_server) ''s'' ''m'' = Inr (Some loop_execution)"
      by (simp add: record_by_message_def record_of_def h)
    show "loop_execution \<in> session_records V1 (rview loop_server) ''s''"
      unfolding session_records_def h by (auto intro: exI [of _ "EXEC_FIELD_PREFIX @ ''e''"])
    show "records_are_objects V1 (rview loop_server) ''s''"
      unfolding records_are_objects_def h by (auto simp: as_exec_def)
  qed (simp_all add: f)
qed

end
