(* ===== verification/Wait_Sweeper.thy ===== *)
theory Wait_Sweeper
  imports Wait_Reply Client_Cancel
begin

text \<open>
  \<open>core/wait_sweeper.py\<close>: the background pass that resolves suspended callers whose
  reply will never arrive.  The object is the record \<open>sweeper\<close>; one pass
  (\<open>sweep_once\<close>) claims each shard's lock, prunes entries that are too old to matter
  and triages the due ones against the execution records and the worker leases.
  Scores and times are integer milliseconds; the monotonic clock is read in
  milliseconds.
\<close>

section \<open>Environment and text\<close>

type_synonym environ = "string \<Rightarrow> string option"

definition env_text :: "environ \<Rightarrow> string \<Rightarrow> string" where
  "env_text env name = strip (case env name of None \<Rightarrow> [] | Some v \<Rightarrow> v)"

definition env_int :: "environ \<Rightarrow> string \<Rightarrow> int \<Rightarrow> int" where
  "env_int env name dflt =
     (if env_text env name = [] then dflt
      else case parse_int (env_text env name) of None \<Rightarrow> dflt | Some n \<Rightarrow> n)"

definition env_bool :: "environ \<Rightarrow> string \<Rightarrow> bool \<Rightarrow> bool" where
  "env_bool env name dflt =
     (let val = map lower_char (env_text env name) in
      if val \<in> {''1'', ''true'', ''yes'', ''on'', ''enabled''} then True
      else if val \<in> {''0'', ''false'', ''no'', ''off'', ''disabled''} then False
      else dflt)"

text \<open>\<open>_int\<close>: 0 for anything unusable; fractions and exponents are not modelled.\<close>

fun sw_int :: "json \<Rightarrow> int" where
  "sw_int (JInt n) = n"
| "sw_int (JStr s) = (case parse_int s of None \<Rightarrow> 0 | Some n \<Rightarrow> n)"
| "sw_int _ = 0"

definition base_status :: "json \<Rightarrow> string" where
  "base_status v = strip (takeWhile (\<lambda>c. c \<noteq> CHR '':'') (py_text v))"

definition SUSPENDED_STATES :: "string set" where
  "SUSPENDED_STATES = {''WAITING_AGENT'', ''WAITING_USER''}"

section \<open>The sweeper\<close>

record sweeper =
  sw_worker_id :: string
  sw_interval_seconds :: int
  sw_enabled :: bool
  sw_prune_enabled :: bool
  sw_prune_interval_seconds :: int
  sw_renew_max_multiple :: int
  sw_cancel_on_timeout :: bool
  sw_lock_ttl_seconds :: int
  sw_shard_cursor :: nat
  sw_last_prune :: "int option"

definition stable_offset :: "string \<Rightarrow> nat" where
  "stable_offset worker_id = nat (fnv1a32 worker_id mod int WAIT_INDEX_SHARDS)"

definition WAIT_SWEEP_INTERVAL_SECONDS :: int where "WAIT_SWEEP_INTERVAL_SECONDS = 30"

definition WAIT_SWEEP_LOCK_TTL_SECONDS :: int where "WAIT_SWEEP_LOCK_TTL_SECONDS = 60"

definition WAIT_PRUNE_INTERVAL_SECONDS :: int where "WAIT_PRUNE_INTERVAL_SECONDS = 3600"

definition WAIT_RENEW_MAX_MULTIPLE :: int where "WAIT_RENEW_MAX_MULTIPLE = 3"

definition opt :: "'a option \<Rightarrow> 'a \<Rightarrow> 'a" where
  "opt given dflt = (case given of None \<Rightarrow> dflt | Some x \<Rightarrow> x)"

text \<open>The constructor: explicit arguments win over the environment.\<close>

definition new_sweeper ::
  "environ \<Rightarrow> string \<Rightarrow> int option \<Rightarrow> bool option \<Rightarrow> int option \<Rightarrow> bool option \<Rightarrow> bool option \<Rightarrow> int option \<Rightarrow> sweeper" where
  "new_sweeper env worker_id interval enabled multiple cancel_on_timeout prune_enabled prune_interval =
     (let interval_seconds = opt interval
            (env_int env ''BY_FRAMEWORK_WAIT_SWEEP_INTERVAL_SECONDS'' WAIT_SWEEP_INTERVAL_SECONDS) in
      \<lparr>sw_worker_id = worker_id, sw_interval_seconds = interval_seconds,
       sw_enabled = opt enabled (env_bool env ''BY_FRAMEWORK_WAIT_SWEEPER_ENABLED'' False),
       sw_prune_enabled = opt prune_enabled (env_bool env ''BY_FRAMEWORK_WAIT_PRUNE_ENABLED'' True),
       sw_prune_interval_seconds = max 1 (opt prune_interval
          (env_int env ''BY_FRAMEWORK_WAIT_PRUNE_INTERVAL_SECONDS'' WAIT_PRUNE_INTERVAL_SECONDS)),
       sw_renew_max_multiple = max 1 (opt multiple
          (env_int env ''BY_FRAMEWORK_WAIT_RENEW_MAX_MULTIPLE'' WAIT_RENEW_MAX_MULTIPLE)),
       sw_cancel_on_timeout = opt cancel_on_timeout
          (env_bool env ''BY_FRAMEWORK_WAIT_CANCEL_ON_TIMEOUT'' True),
       sw_lock_ttl_seconds = max (interval_seconds * 3) WAIT_SWEEP_LOCK_TTL_SECONDS,
       sw_shard_cursor = stable_offset worker_id, sw_last_prune = None\<rparr>)"

definition loop_interval_seconds :: "sweeper \<Rightarrow> int" where
  "loop_interval_seconds sw = (if sw_enabled sw then sw_interval_seconds sw else sw_prune_interval_seconds sw)"

record due_entry =
  du_index_key :: string
  du_member :: string
  du_deadline_ms :: int
  du_entry :: wait_member

section \<open>Deadlines\<close>

definition extend_deadline :: "schema \<Rightarrow> due_entry \<Rightarrow> unit prog" where
  "extend_deadline V due =
     bindp (try_exc (exec_cmd (Set
         (wait_renew_origin V (wm_session_id (du_entry due)) (member_digest (du_member due)))
         (Doc (JInt (du_deadline_ms due))) (Some WAIT_RENEW_ORIGIN_TTL_SECONDS) True)) (\<lambda>_. Ret ())) (\<lambda>_.
     bindp now_ms (\<lambda>now.
     exec_cmd (ZAdd (du_index_key due) (du_member due) (now + WAIT_RENEW_INCREMENT_MS))))"

definition renewal_origin_ms :: "schema \<Rightarrow> due_entry \<Rightarrow> int prog" where
  "renewal_origin_ms V due =
     bindp (try_exc (get (wait_renew_origin V (wm_session_id (du_entry due)) (member_digest (du_member due))))
       (\<lambda>_. Ret None)) (\<lambda>stored.
     let n = (case stored of Some (Doc v) \<Rightarrow> sw_int v | Some (Txt s) \<Rightarrow> sw_int (JStr s) | None \<Rightarrow> 0)
     in Ret (if n \<noteq> 0 then n else du_deadline_ms due))"

definition ceiling_of :: "sweeper \<Rightarrow> int \<Rightarrow> int \<Rightarrow> int" where
  "ceiling_of sw origin_ms registered_ms =
     (let span = origin_ms - registered_ms;
          timeout_ms = (if registered_ms \<le> 0 \<or> span \<le> 0 then DEFAULT_REPLY_TIMEOUT_MS else span);
          grace_ms = max (timeout_ms * (sw_renew_max_multiple sw - 1)) WAIT_RENEW_INCREMENT_MS
      in origin_ms + grace_ms)"

definition renewal_ceiling_ms :: "schema \<Rightarrow> sweeper \<Rightarrow> due_entry \<Rightarrow> execution \<Rightarrow> int prog" where
  "renewal_ceiling_ms V sw due child =
     bindp (renewal_origin_ms V due) (\<lambda>origin_ms.
     Ret (ceiling_of sw origin_ms (sw_int (dget0 child ''created_at''))))"

section \<open>Replies\<close>

text \<open>\<open>dict(x or {})\<close>.\<close>

definition dict_or_empty :: "json \<Rightarrow> jdict prog" where
  "dict_or_empty v = (if truthy v then lift_res (as_dict v) else Ret [])"

definition emit_reply ::
  "schema \<Rightarrow> sweeper \<Rightarrow> due_entry \<Rightarrow> execution \<Rightarrow> execution \<Rightarrow> string \<Rightarrow> json \<Rightarrow> json \<Rightarrow> jdict \<Rightarrow> string \<Rightarrow> jdict \<Rightarrow> bool prog" where
  "emit_reply V sw due caller child status content reply_data extra_payload error_code metadata =
     (let entry = du_entry due;
          caller_agent_type = str_or (py_text (dget0 child ''source_agent_type''))
            (py_text (dget0 caller ''target_agent_type'')) in
      if caller_agent_type = [] then bindp (extend_deadline V due) (\<lambda>_. Ret False)
      else bindp (stand_in_reply
         \<lparr>si_session_id = wm_session_id entry, si_caller_message_id = wm_parent_message_id entry,
          si_caller_agent_type = caller_agent_type, si_child_message_id = wm_child_message_id entry,
          si_child_agent_type = py_text (dget0 child ''target_agent_type''),
          si_task_group_id = wm_task_group_id entry,
          si_trace_id = str_or (py_text (dget0 child ''trace_id'')) (py_text (dget0 caller ''trace_id'')),
          si_status = status, si_content = content, si_reply_data = reply_data,
          si_extra_payload = extra_payload,
          si_metadata = dset ''sweeper_worker_id'' (JStr (sw_worker_id sw)) metadata,
          si_error_code = error_code, si_synthesized_by = SYNTHESIZED_BY_SWEEPER,
          si_user_code = [], si_user_name = []\<rparr>) (\<lambda>command.
        bindp (exec_cmd (XAdd (ctrl_stream V caller_agent_type) (to_redis_payload command))) (\<lambda>_.
        bindp (extend_deadline V due) (\<lambda>_. Ret True))))"

definition synthesize_failure ::
  "schema \<Rightarrow> sweeper \<Rightarrow> due_entry \<Rightarrow> execution \<Rightarrow> execution \<Rightarrow> string \<Rightarrow> string \<Rightarrow> string \<Rightarrow> string \<Rightarrow> string prog" where
  "synthesize_failure V sw due caller child error_code message outcome status =
     bindp (dict_or_empty (dget0 child ''metadata'')) (\<lambda>metadata.
     bindp (emit_reply V sw due caller child status (JStr [])
        (failure_reply_data message error_code (wm_child_message_id (du_entry due))) [] error_code metadata)
       (\<lambda>emitted. Ret (if emitted then outcome else ''unroutable'')))"

definition load_stored_result :: "schema \<Rightarrow> string \<Rightarrow> jdict option prog" where
  "load_stored_result V child_message_id =
     bindp (call (HGet (task_group_results V (single_call_task_group_id child_message_id)) child_message_id) r_text)
       (\<lambda>raw. Ret (case raw of Some (Doc (JObj d)) \<Rightarrow> Some d | _ \<Rightarrow> None))"

definition recover_finished_child ::
  "schema \<Rightarrow> sweeper \<Rightarrow> due_entry \<Rightarrow> execution \<Rightarrow> execution \<Rightarrow> string prog" where
  "recover_finished_child V sw due caller child =
     (let cid = wm_child_message_id (du_entry due); child_status = base_status (dget0 child ''status'') in
      bindp (load_stored_result V cid) (\<lambda>stored.
      case stored of
        None \<Rightarrow> synthesize_failure V sw due caller child ''REPLY_LOST_RECOVERED''
          (''Sub-task '' @ cid @ '' finished with '' @ child_status @
             '' but neither its reply nor its stored result is available'')
          ''recovered'' (if child_status \<in> {''FAILED'', ''CANCELLED''} then child_status else ''FAILED'')
      | Some r \<Rightarrow>
          bindp (dict_or_empty (dget0 r ''extra_payload'')) (\<lambda>extra.
          bindp (dict_or_empty (dget0 r ''metadata'')) (\<lambda>metadata.
          bindp (emit_reply V sw due caller child
             (str_or (py_text (dget0 r ''status'')) child_status) (py_or (dget0 r ''content'') (JStr []))
             (dget0 r ''reply_data'') extra ''REPLY_LOST_RECOVERED'' metadata) (\<lambda>_.
          Ret ''recovered'')))))"

definition cancel_timed_out_child :: "schema \<Rightarrow> sweeper \<Rightarrow> due_entry \<Rightarrow> execution \<Rightarrow> bool prog" where
  "cancel_timed_out_child V sw due child =
     (if \<not> sw_cancel_on_timeout sw then Ret False
      else if truthy (dget0 child ''cancel_requested'') then Ret False
      else try_exc
        (bindp (cancel_task V (wm_child_message_id (du_entry due)) (wm_session_id (du_entry due))
            ''CHILD_TIMEOUT: no reply before deadline'' (''wait_sweeper:'' @ sw_worker_id sw) ''graceful'')
          (\<lambda>response. Ret (cr_success response)))
        (\<lambda>_. Ret False))"

section \<open>Triage\<close>

definition timeout_message :: "sweeper \<Rightarrow> string \<Rightarrow> string \<Rightarrow> string \<Rightarrow> string" where
  "timeout_message sw cid child_status wid =
     ''Sub-task '' @ cid @ '' is still '' @ child_status @ '' on live worker '' @ wid @
     '' but produced no reply within '' @ show_int (sw_renew_max_multiple sw) @ ''x its reply timeout''"

definition triage_child :: "schema \<Rightarrow> sweeper \<Rightarrow> due_entry \<Rightarrow> execution \<Rightarrow> string prog" where
  "triage_child V sw due caller =
     (let entry = du_entry due; cid = wm_child_message_id entry in
      bindp (get_execution_by_message_id V cid (wm_session_id entry)) (\<lambda>found.
      case found of
        None \<Rightarrow> synthesize_failure V sw due caller [] ''CHILD_NEVER_STARTED''
          (''No execution was ever recorded for sub-task '' @ cid) ''never_started'' ''FAILED''
      | Some child \<Rightarrow>
        (let child_status = base_status (dget0 child ''status''); wid = py_text (dget0 child ''worker_id'') in
         if is_terminal_state child_status then recover_finished_child V sw due caller child
         else if child_status \<in> SUSPENDED_STATES
         then bindp (extend_deadline V due) (\<lambda>_. Ret ''child_waiting'')
         else if wid = [] then synthesize_failure V sw due caller child ''CHILD_NEVER_STARTED''
           (''Sub-task '' @ cid @ '' was never picked up by a worker (status='' @ child_status @ '')'')
           ''never_started'' ''FAILED''
         else bindp (check_worker_online V wid) (\<lambda>online.
           if online then
             bindp (renewal_ceiling_ms V sw due child) (\<lambda>limit_ms.
             bindp now_ms (\<lambda>now.
             if now < limit_ms then bindp (extend_deadline V due) (\<lambda>_. Ret ''child_alive'')
             else bindp (synthesize_failure V sw due caller child ''CHILD_TIMEOUT''
                 (timeout_message sw cid child_status wid)
                 ''timed_out'' ''FAILED'') (\<lambda>outcome.
               bindp (cancel_timed_out_child V sw due child) (\<lambda>_. Ret outcome))))
           else synthesize_failure V sw due caller child ''CHILD_WORKER_LOST''
             (''Worker '' @ wid @ '' running sub-task '' @ cid @ '' is no longer alive (status='' @ child_status @ '')'')
             ''worker_lost'' ''FAILED''))))"

definition resolve_unsuspended_caller :: "schema \<Rightarrow> due_entry \<Rightarrow> execution \<Rightarrow> string prog" where
  "resolve_unsuspended_caller V due caller =
     (let wid = py_text (dget0 caller ''worker_id'') in
      bindp (if wid \<noteq> [] then check_worker_online V wid else Ret True) (\<lambda>alive.
      if \<not> alive then bindp (exec_cmd (ZRem (du_index_key due) (du_member due))) (\<lambda>_. Ret ''caller_lost'')
      else bindp (extend_deadline V due) (\<lambda>_. Ret ''caller_not_suspended'')))"

definition group_blocks_compensation :: "schema \<Rightarrow> due_entry \<Rightarrow> string option prog" where
  "group_blocks_compensation V due =
     (let entry = du_entry due; gid = wm_task_group_id entry;
          drop = (\<lambda>why. bindp (exec_cmd (ZRem (du_index_key due) (du_member due))) (\<lambda>_. Ret (Some why))) in
      bindp (call (HGet (task_group V gid) ''total'') r_text) (\<lambda>total.
      if total = None then drop ''group_gone''
      else bindp (call (HGet (task_group V gid) ''aborted'') r_text) (\<lambda>aborted.
        if (case aborted of None \<Rightarrow> False | Some t \<Rightarrow> rtext_str t \<noteq> []) then drop ''group_aborted''
        else bindp (call (HGet (task_group_results V gid) (wm_child_message_id entry)) r_text) (\<lambda>recorded.
          if recorded \<noteq> None then drop ''group_already_joined'' else Ret None))))"

definition resolve_entry :: "schema \<Rightarrow> sweeper \<Rightarrow> string \<Rightarrow> string \<Rightarrow> int \<Rightarrow> string prog" where
  "resolve_entry V sw index_key member deadline_ms =
     (let drop = (\<lambda>why. bindp (exec_cmd (ZRem index_key member)) (\<lambda>_. Ret why)) in
      case decode_member member of
        Inl _ \<Rightarrow> drop ''malformed''
      | Inr entry \<Rightarrow>
        (let due = \<lparr>du_index_key = index_key, du_member = member, du_deadline_ms = deadline_ms, du_entry = entry\<rparr> in
         bindp (get_execution_by_message_id V (wm_parent_message_id entry) (wm_session_id entry)) (\<lambda>found.
         case found of
           None \<Rightarrow> drop ''caller_missing''
         | Some caller \<Rightarrow>
           (let caller_status = base_status (dget0 caller ''status'') in
            if is_terminal_state caller_status then drop ''caller_terminal''
            else if caller_status \<notin> SUSPENDED_STATES then resolve_unsuspended_caller V due caller
            else if wm_child_message_id entry = [] then Ret ''ask_user_skipped''
            else bindp (if wm_task_group_id entry \<noteq> [] then group_blocks_compensation V due else Ret None) (\<lambda>blocked.
              case blocked of Some why \<Rightarrow> Ret why | None \<Rightarrow> triage_child V sw due caller)))))"

section \<open>One pass\<close>

type_synonym outcomes = "(string \<times> int) list"

definition bump :: "string \<Rightarrow> int \<Rightarrow> outcomes \<Rightarrow> outcomes" where
  "bump o' n d = AList.update o' ((case map_of d o' of None \<Rightarrow> 0 | Some m \<Rightarrow> m) + n) d"

definition merge_outcomes :: "outcomes \<Rightarrow> outcomes \<Rightarrow> outcomes" where
  "merge_outcomes d e = fold (\<lambda>(o', n). bump o' n) e d"

definition resolve_due_entries :: "schema \<Rightarrow> sweeper \<Rightarrow> int \<Rightarrow> outcomes prog" where
  "resolve_due_entries V sw shard =
     bindp now_ms (\<lambda>now.
     bindp (call (ZRangeByScore (wait_index V shard) 0 now WAIT_SWEEP_BATCH_LIMIT) r_scored) (\<lambda>due.
     fold_prog (\<lambda>(member, score) outcomes.
       bindp (try_exc (resolve_entry V sw (wait_index V shard) member score) (\<lambda>_. Ret ''error''))
         (\<lambda>outcome. Ret (bump outcome 1 outcomes))) due []))"

definition prune_shard :: "schema \<Rightarrow> int \<Rightarrow> int prog" where
  "prune_shard V shard =
     bindp now_ms (\<lambda>now.
     call (ZRemRangeByScore (wait_index V shard) 0 (now - WAIT_PRUNE_AFTER_SECONDS * 1000)) r_int)"

text \<open>What \<open>_sweep_shard\<close> does while it holds the lock.\<close>

definition under_lock :: "schema \<Rightarrow> sweeper \<Rightarrow> int \<Rightarrow> bool \<Rightarrow> outcomes prog" where
  "under_lock V sw shard pruning = try_exc
     (bindp (if pruning then prune_shard V shard else Ret 0) (\<lambda>pruned.
      let o1 = (if pruned \<noteq> 0 then [(''pruned'', pruned)] else []) in
      if sw_enabled sw then
        try_exc (bindp (resolve_due_entries V sw shard) (\<lambda>o2. Ret (merge_outcomes o1 o2)))
          (\<lambda>_. Ret (bump ''error'' 1 o1))
      else Ret o1))
     (\<lambda>_. Ret [(''error'', 1)])"

definition sweep_shard :: "schema \<Rightarrow> sweeper \<Rightarrow> int \<Rightarrow> bool \<Rightarrow> outcomes prog" where
  "sweep_shard V sw shard pruning =
     (if \<not> pruning \<and> \<not> sw_enabled sw then Ret []
      else bindp uuid_hex (\<lambda>token.
        bindp (try_exc (acquire_scoped_lock (wait_sweep_lock V shard) token (sw_lock_ttl_seconds sw))
          (\<lambda>_. Ret False)) (\<lambda>claimed.
        if \<not> claimed then Ret []
        else finally_do (under_lock V sw shard pruning)
          (try_exc (bindp (release_scoped_lock (wait_sweep_lock V shard) token) (\<lambda>_. Ret ())) (\<lambda>_. Ret ())))))"

definition prune_is_due :: "sweeper \<Rightarrow> (bool \<times> sweeper) prog" where
  "prune_is_due sw =
     (if \<not> sw_prune_enabled sw then Ret (False, sw)
      else bindp (call Monotonic r_int) (\<lambda>now.
        case sw_last_prune sw of
          Some before \<Rightarrow> if now - before < sw_prune_interval_seconds sw * 1000 then Ret (False, sw)
                       else Ret (True, sw\<lparr>sw_last_prune := Some now\<rparr>)
        | None \<Rightarrow> Ret (True, sw\<lparr>sw_last_prune := Some now\<rparr>)))"

definition sweep_once :: "schema \<Rightarrow> sweeper \<Rightarrow> (outcomes \<times> sweeper) prog" where
  "sweep_once V sw =
     bindp (prune_is_due sw) (\<lambda>(pruning, sw1).
     bindp (fold_prog (\<lambda>offset outcomes.
         bindp (sweep_shard V sw1 (int ((sw_shard_cursor sw1 + offset) mod WAIT_INDEX_SHARDS)) pruning)
           (\<lambda>o'. Ret (merge_outcomes outcomes o')))
       [0..<WAIT_INDEX_SHARDS] []) (\<lambda>outcomes.
     Ret (outcomes, sw1\<lparr>sw_shard_cursor := (sw_shard_cursor sw1 + 1) mod WAIT_INDEX_SHARDS\<rparr>)))"

end
