(* ===== verification/Sweeper_Properties.thy ===== *)
theory Sweeper_Properties
  imports Wait_Sweeper
begin

text \<open>
  What the background sweeper guarantees: which data a pass can change at all, that a
  pass fails soft, what becomes of one entry, that the reply it sends passes the gate
  and claims exactly the wait it stands for, that renewals cannot move the ceiling, and
  what pruning removes.
\<close>

section \<open>What a pass may write\<close>

text \<open>
  Commands that leave the gathered results of every fan-out, the consumed markers
  and the shard locks as they are.
\<close>

definition outside :: "schema \<Rightarrow> cmd \<Rightarrow> bool" where
  "outside V c = (\<forall>K.
     (\<forall>g. hs (apply_cmd c K) (task_group_results V g) = hs K (task_group_results V g)) \<and>
     (\<forall>n. kv (apply_cmd c K) (wait_sweep_lock V n) = kv K (wait_sweep_lock V n)) \<and>
     (\<forall>sid m. kv (apply_cmd c K) (consumed_marker_key V sid m) = kv K (consumed_marker_key V sid m)))"

lemma outside_Pipe: "\<forall>c \<in> set cs. outside V c \<Longrightarrow> outside V (Pipe cs)"
proof (induction cs)
  case (Cons c cs)
  then have "outside V (Pipe cs)" and "outside V c" by auto
  then show ?case by (simp add: outside_def)
qed (simp add: outside_def)

lemma aggregate_keys:
  "wait_sweep_lock V n \<noteq> session_registry V a" "wait_sweep_lock V n \<noteq> worker_status V a"
  "wait_sweep_lock V n \<noteq> worker_executions V a" "wait_sweep_lock V n \<noteq> worker_active_execution_index V a"
  "wait_sweep_lock V n \<noteq> worker_active_snapshots V a" "wait_sweep_lock V n \<noteq> worker_history_snapshots V a"
  "wait_consumed V s (member_digest m) \<noteq> session_registry V a" "wait_consumed V s (member_digest m) \<noteq> worker_status V a"
  "wait_consumed V s (member_digest m) \<noteq> worker_executions V a" "wait_consumed V s (member_digest m) \<noteq> worker_active_execution_index V a"
  "wait_consumed V s (member_digest m) \<noteq> worker_active_snapshots V a" "wait_consumed V s (member_digest m) \<noteq> worker_history_snapshots V a"
  using render_inj [of "KSweepLock n" "KSession a" V] render_inj [of "KSweepLock n" "KStatus a" V]
    render_inj [of "KSweepLock n" "KExecs a" V] render_inj [of "KSweepLock n" "KActiveIndex a" V]
    render_inj [of "KSweepLock n" "KActiveSnaps a" V] render_inj [of "KSweepLock n" "KHistorySnaps a" V]
    render_inj [of "KConsumed s (member_digest m)" "KSession a" V] render_inj [of "KConsumed s (member_digest m)" "KStatus a" V]
    render_inj [of "KConsumed s (member_digest m)" "KExecs a" V] render_inj [of "KConsumed s (member_digest m)" "KActiveIndex a" V]
    render_inj [of "KConsumed s (member_digest m)" "KActiveSnaps a" V] render_inj [of "KConsumed s (member_digest m)" "KHistorySnaps a" V]
  by simp_all

lemma outside_simps [simp]:
  "outside V (Get k)" "outside V (HGet k f)" "outside V (HGetAll k)" "outside V (ZRem k m)"
  "outside V (ZAdd k m n)" "outside V (XAdd k v)" "outside V Now" "outside V Uuid" "outside V Monotonic"
  "outside V (ZRangeByScore k a b l)" "outside V (ZRemRangeByScore k a b)"
  "outside V (Set (wait_renew_origin V sid (member_digest m)) v ttl nx)"
  "outside V (HSet (session_registry V sid) f v)" "outside V (Expire (session_registry V sid) n)"
  by (auto simp: outside_def key_simps aggregate_keys consumed_marker_key_def split: option.splits)

text \<open>The kinds of commands the statistics pipeline holds.\<close>

definition stats_shape :: "schema \<Rightarrow> string \<Rightarrow> cmd \<Rightarrow> bool" where
  "stats_shape V w c =
     ((\<exists>f n. c = HIncrBy (worker_status V w) f n) \<or> (\<exists>f v. c = HSet (worker_status V w) f v) \<or>
      (\<exists>e n. c = ZAdd (worker_executions V w) e n) \<or> (\<exists>f v. c = HSet (worker_history_snapshots V w) f v) \<or>
      (\<exists>e n. c = ZAdd (worker_active_execution_index V w) e n) \<or> (\<exists>e. c = ZRem (worker_active_execution_index V w) e) \<or>
      (\<exists>f v. c = HSet (worker_active_snapshots V w) f v) \<or> (\<exists>f. c = HDel (worker_active_snapshots V w) f) \<or>
      (\<exists>n. c \<in> {Expire (worker_status V w) n, Expire (worker_executions V w) n,
        Expire (worker_active_execution_index V w) n, Expire (worker_active_snapshots V w) n,
        Expire (worker_history_snapshots V w) n}))"

lemma stats_cmds_shape: "c \<in> set (stats_cmds V old new now) \<Longrightarrow> stats_shape V (py_text (dget0 new ''worker_id'')) c"
  by (auto simp: stats_cmds_def stats_counters_def stats_active_def stats_expire_def Let_def stats_shape_def
      split: if_splits)

lemma outside_stats [simp]: "outside V (Pipe (stats_cmds V old new now))"
proof (rule outside_Pipe, intro ballI)
  fix c
  assume "c \<in> set (stats_cmds V old new now)"
  from stats_cmds_shape [OF this] show "outside V c"
    unfolding stats_shape_def
    by (elim disjE exE)
      (auto simp: outside_def consumed_marker_key_def key_simps aggregate_keys split: option.splits)
qed

text \<open>
  The interface between the sweeper's code and a claim on what it may change: a claim
  \<open>P\<close> on commands that holds for the kinds of commands the triage issues holds for all
  it issues, on every path and whatever the server replies.
\<close>

locale cancel_commands =
  fixes V :: schema and P :: "cmd \<Rightarrow> bool"
  assumes reads: "P (Get k)" "P (HGet k f)" "P (HGetAll k)" "P Now" "P Uuid"
    and cancel: "P (XAdd (worker_ctrl_stream V w) v)"
    and rewrite: "P (Pipe [HSet (session_registry V sid) f v, Expire (session_registry V sid) n])"
    and stats: "P (Pipe (stats_cmds V old new now))"
begin

lemmas kinds = reads cancel rewrite stats

lemma execution: "only P (get_execution V e s)"
  by (auto simp: get_execution_def kinds intro!: only_bindp split: option.splits rtext.splits json.splits)

lemma by_message: "only P (get_execution_by_message_id V m s)"
  by (auto simp: get_execution_by_message_id_def kinds intro!: only_bindp execution split: option.splits)

lemma change: "(\<And>e. only P (after e)) \<Longrightarrow> only P (change_execution V e s f after)"
  by (auto simp: change_execution_def save_record_def update_worker_execution_stats_def field_str_def Let_def kinds
      intro!: only_bindp execution split: option.splits)

lemma cancel_node: "only P (cancel_node V sid r by' mode fb node)"
  by (auto simp: cancel_node_def mark_execution_cancelling_def Let_def kinds intro!: only_bindp change)

lemma cancel_task: "only P (cancel_task V m s r by' mode)"
  by (auto simp: cancel_task_def get_all_session_executions_def mark_cancel_requested_def Let_def kinds
      intro!: only_bindp only_for_each by_message change cancel_node split: option.splits)

lemma timed_out: "only P (cancel_timed_out_child V sw due child)"
  by (auto simp: cancel_timed_out_child_def kinds intro!: only_bindp only_try_exc cancel_task)

end

locale triage_commands = cancel_commands +
  assumes index: "P (ZAdd k m n)"
    and origin: "P (Set (wait_renew_origin V sid (member_digest m)) v ttl nx)"
    and reply: "P (XAdd (ctrl_stream V a) v)"
begin

lemmas all_kinds = kinds index origin reply

lemma extend: "only P (extend_deadline V due)"
  by (auto simp: extend_deadline_def all_kinds intro!: only_bindp only_try_exc)

lemma stand_in: "only P (stand_in_reply a)"
  by (auto simp: stand_in_reply_def all_kinds intro!: only_bindp split: sum.splits)

lemma emit: "only P (emit_reply V sw due caller child st ct rd ep ec md)"
  by (auto simp: emit_reply_def Let_def all_kinds intro!: only_bindp extend stand_in)

lemma dict: "only P (dict_or_empty v)"
  by (simp add: dict_or_empty_def)

lemma synthesize: "only P (synthesize_failure V sw due caller child ec m oc st)"
  by (auto simp: synthesize_failure_def intro!: only_bindp emit dict)

lemma recover: "only P (recover_finished_child V sw due caller child)"
  by (auto simp: recover_finished_child_def load_stored_result_def Let_def all_kinds
      intro!: only_bindp synthesize emit dict split: option.splits)

lemma online: "only P (check_worker_online V w)"
  by (auto simp: check_worker_online_def all_kinds intro!: only_bindp split: option.splits)

lemma ceiling: "only P (renewal_ceiling_ms V sw due child)"
  by (auto simp: renewal_ceiling_ms_def renewal_origin_ms_def Let_def all_kinds intro!: only_bindp only_try_exc)

lemma triage: "only P (triage_child V sw due caller)"
  unfolding triage_child_def Let_def
  by (intro only_bindp by_message)
    (auto simp: all_kinds intro!: only_bindp synthesize recover extend online ceiling timed_out split: option.splits)

end

text \<open>Reading the records and the leases is all of it that the earlier steps of an entry do.\<close>

lemma worker_stream_other: "worker_ctrl_stream V w \<noteq> ctrl_stream V a"
  by (cases V) (simp_all add: worker_ctrl_stream_def ctrl_stream_def versioned_def)

interpretation outside: triage_commands V "outside V" for V
  by unfold_locales (auto intro!: outside_Pipe)

lemma resolve_outside: "only (outside V) (resolve_entry V sw k m d)"
  by (auto simp: resolve_entry_def resolve_unsuspended_caller_def group_blocks_compensation_def Let_def
      intro!: only_bindp outside.by_message outside.online outside.extend outside.triage
      split: option.splits sum.splits)

definition untouched :: "schema \<Rightarrow> kspace \<Rightarrow> kspace \<Rightarrow> bool" where
  "untouched V K K' = ((\<forall>g. hs K' (task_group_results V g) = hs K (task_group_results V g)) \<and>
     (\<forall>n. kv K' (wait_sweep_lock V n) = kv K (wait_sweep_lock V n)) \<and>
     (\<forall>sid m. kv K' (consumed_marker_key V sid m) = kv K (consumed_marker_key V sid m)))"

lemma untouched_wp: "only (outside V) p \<Longrightarrow> wp p (\<lambda>o' K'. untouched V K K') K"
  by (rule wp_only [where P = "outside V"]) (auto simp: outside_def untouched_def)

lemma only_resolve_due: "only (outside V) (resolve_due_entries V sw shard)"
  by (auto simp: resolve_due_entries_def intro!: only_bindp only_fold_prog only_try_exc resolve_outside)

lemma only_under_lock: "only (outside V) (under_lock V sw shard pruning)"
  by (auto simp: under_lock_def prune_shard_def Let_def intro!: only_bindp only_try_exc only_resolve_due)

definition unjoined :: "schema \<Rightarrow> kspace \<Rightarrow> kspace \<Rightarrow> bool" where
  "unjoined V K K' = ((\<forall>g. hs K' (task_group_results V g) = hs K (task_group_results V g)) \<and>
     (\<forall>sid m. kv K' (consumed_marker_key V sid m) = kv K (consumed_marker_key V sid m)))"

definition joins_nothing :: "schema \<Rightarrow> cmd \<Rightarrow> bool" where
  "joins_nothing V c = (\<forall>K. unjoined V K (apply_cmd c K))"

lemma outside_joins: "outside V c \<Longrightarrow> joins_nothing V c"
  by (simp add: outside_def joins_nothing_def unjoined_def)

lemma lock_joins [simp]:
  "joins_nothing V (Set (wait_sweep_lock V n) v ttl nx)" "joins_nothing V (Eval (wait_sweep_lock V n) l)"
  "joins_nothing V Uuid" "joins_nothing V Monotonic"
  by (simp_all add: joins_nothing_def unjoined_def consumed_marker_key_def key_simps)

lemma only_sweep_once: "only (joins_nothing V) (sweep_once V sw)"
proof -
  have "only (joins_nothing V) (under_lock V sw shard pruning)" for sw shard pruning
    using only_under_lock outside_joins by (rule only_mono)
  then show ?thesis
    by (auto simp: sweep_once_def prune_is_due_def sweep_shard_def finally_do_def acquire_scoped_lock_def
        release_scoped_lock_def intro!: only_bindp only_fold_prog only_catch only_try_exc split: option.splits sum.splits)
qed

text \<open>
  A pass of the sweeper, whatever it finds, neither records a sub-task's result in
  the results of a fan-out nor writes a consumed marker: what it sends reaches the
  caller only through the gate and the join of a worker.
\<close>

theorem sweep_joins_nothing:
  assumes "redis exec view"
  shows "unjoined V (view s) (view (snd (run exec (sweep_once V sw) s)))"
  using only_sweep_once
proof (rule only_run [where R = "\<lambda>s t. unjoined V (view s) (view t)"])
  show "unjoined V (view s) (view (snd (exec c s)))" if "joins_nothing V c" for c s
    using that by (simp add: redis.exec_view [OF assms] joins_nothing_def)
qed (simp_all add: unjoined_def)

section \<open>Fail soft\<close>

text \<open>
  \<open>calm p\<close>: when the clock and the source of fresh identifiers answer, the program
  raises nothing but a cancellation, whatever the server does.
\<close>

primrec calm :: "'a prog \<Rightarrow> bool" where
  "calm (Ret a) = True"
| "calm (Raise e) = (e = Diverges \<or> (\<exists>m. e = CancelledError m))"
| "calm (Do c k) = (\<forall>r. (c \<in> {Uuid, Monotonic} \<longrightarrow> (\<forall>e. r \<noteq> RFail e)) \<longrightarrow> calm (k r))"

lemma calm_bindp [intro]: "calm p \<Longrightarrow> (\<And>a. calm (f a)) \<Longrightarrow> calm (bindp p f)"
  by (induction p) auto

lemma calm_try [intro]: "(\<And>e. calm (h e)) \<Longrightarrow> calm (try_exc p h)"
  unfolding try_exc_def by (induction p) (auto split: exn.splits)

lemma calm_call [simp]: "calm (call Uuid f)" "calm (call Monotonic f)"
  by (auto simp: call_def split: reply.splits)

lemma calm_fold [intro]: "(\<And>x a. calm (f x a)) \<Longrightarrow> calm (fold_prog f xs a)"
  by (induction xs arbitrary: a) auto

lemma calm_finally: "calm p \<Longrightarrow> calm q \<Longrightarrow> calm (finally_do p q)"
  unfolding finally_do_def
  by (induction p) (auto intro!: calm_bindp)

lemma calm_run:
  assumes "calm p" and "\<And>c s e. c \<in> {Uuid, Monotonic} \<Longrightarrow> fst (X c s) \<noteq> RFail e"
  shows "case fst (run X p s) of Inr a \<Rightarrow> True | Inl e \<Rightarrow> e = Diverges \<or> (\<exists>m. e = CancelledError m)"
  using assms(1) by (induction p arbitrary: s) (use assms(2) in auto)

lemma sweep_calm: "calm (sweep_once V sw)"
  by (auto simp: sweep_once_def prune_is_due_def sweep_shard_def uuid_hex_def under_lock_def
      intro!: calm_bindp calm_fold calm_try calm_finally split: option.splits)

text \<open>
  A pass is fail soft: whatever the server does, failing on every command included,
  a pass raises nothing but a cancellation; the only other way not to return is that
  the walk of a cancellation it triggers never ends.
\<close>

theorem sweep_fails_soft:
  assumes "\<And>c s e. c \<in> {Uuid, Monotonic} \<Longrightarrow> fst (X c s) \<noteq> RFail e"
  shows "case fst (run X (sweep_once V sw) s) of
     Inr a \<Rightarrow> True | Inl e \<Rightarrow> e = Diverges \<or> (\<exists>m. e = CancelledError m)"
  using sweep_calm assms by (rule calm_run)

section \<open>The lock of a shard\<close>

lemma wp_uuid_ne: "wp uuid_hex (\<lambda>o' K'. K' = K \<and> (\<exists>t. t \<noteq> [] \<and> o' = Inr t)) K"
  by (auto simp: uuid_hex_def wp_simps)

lemma sweep_shard_lock_wp:
  assumes "kv K (wait_sweep_lock V shard) = None"
  shows "wp (sweep_shard V sw shard pruning)
    (\<lambda>o' K'. o' = Inl Diverges \<or> kv K' (wait_sweep_lock V shard) = None) K"
proof -
  let ?lock = "wait_sweep_lock V shard"
  have rel: "wp (try_exc (bindp (release_scoped_lock ?lock t) (\<lambda>_. Ret ())) (\<lambda>_. Ret ()))
      (\<lambda>u K''. case u of Inl e \<Rightarrow> (Inl e :: exn + outcomes) = Inl Diverges \<or> kv K'' ?lock = None
        | Inr _ \<Rightarrow> o' = Inl Diverges \<or> kv K'' ?lock = None) K'"
    if "t \<noteq> []" and "owner (kv K' ?lock) = Some t" for t K' and o' :: "exn + outcomes"
    using that by (simp add: wp_try_exc wp_bindp release_scoped_lock_def scoped.release)
  have main: "wp (finally_do (under_lock V sw shard pr)
        (try_exc (bindp (release_scoped_lock ?lock t) (\<lambda>_. Ret ())) (\<lambda>_. Ret ())))
      (\<lambda>o' K'. o' = Inl Diverges \<or> kv K' ?lock = None)
      (K\<lparr>kv := (kv K)(?lock \<mapsto> (scoped_lock_value t, Some ttl))\<rparr>)" if "t \<noteq> []" for t ttl pr
    unfolding wp_finally_do
  proof (rule wp_mono [OF untouched_wp [OF only_under_lock]])
    fix o' :: "exn + outcomes" and K'
    assume "untouched V (K\<lparr>kv := (kv K)(?lock \<mapsto> (scoped_lock_value t, Some ttl))\<rparr>) K'"
    then have "owner (kv K' ?lock) = Some t" by (simp add: untouched_def)
    with \<open>t \<noteq> []\<close> show "if o' = Inl Diverges then o' = Inl Diverges \<or> kv K' ?lock = None
       else wp (try_exc (bindp (release_scoped_lock ?lock t) (\<lambda>_. Ret ())) (\<lambda>_. Ret ()))
        (\<lambda>u K''. case u of Inl e \<Rightarrow> (Inl e :: exn + outcomes) = Inl Diverges \<or> kv K'' ?lock = None
          | Inr _ \<Rightarrow> o' = Inl Diverges \<or> kv K'' ?lock = None) K'"
      using rel [of t K' o'] by simp
  qed
  show ?thesis
  proof (cases "\<not> pruning \<and> \<not> sw_enabled sw")
    case True
    then show ?thesis using assms by (simp add: sweep_shard_def)
  next
    case False
    then show ?thesis
      unfolding sweep_shard_def if_not_P [OF False] wp_bindp [of uuid_hex]
      by (intro wp_mono [OF wp_uuid_ne])
        (auto simp: wp_bindp wp_try_exc acquire_scoped_lock_def scoped.acquire assms intro!: main)
  qed
qed

text \<open>
  A shard whose lock was free is unlocked again after its sweep, however that ends:
  normally, with an error of the server, or cancelled; only a sweep that never ends
  keeps it until its time to live is over.
\<close>

theorem sweep_releases_its_lock:
  assumes "redis exec view" and "kv (view s) (wait_sweep_lock V shard) = None"
  shows "case run exec (sweep_shard V sw shard pruning) s of (res, u) \<Rightarrow>
     res = Inl Diverges \<or> kv (view u) (wait_sweep_lock V shard) = None"
  by (rule redis.wp_run [OF assms(1) sweep_shard_lock_wp [OF assms(2)]])


section \<open>One entry\<close>

text \<open>The gathering of a fan-out still misses this sub-task, and is not aborted.\<close>

definition group_open :: "schema \<Rightarrow> kspace \<Rightarrow> string \<Rightarrow> string \<Rightarrow> bool" where
  "group_open V K gid cid =
     (hs K (task_group V gid) ''total'' \<noteq> None \<and>
      (case hs K (task_group V gid) ''aborted'' of None \<Rightarrow> True | Some t \<Rightarrow> rtext_str t = []) \<and>
      hs K (task_group_results V gid) cid = None)"

text \<open>A suspended caller awaits the reply of this sub-task.\<close>

definition awaits :: "schema \<Rightarrow> kspace \<Rightarrow> string \<Rightarrow> bool" where
  "awaits V K member = (case decode_member member of Inl _ \<Rightarrow> False | Inr e \<Rightarrow>
     (case record_by_message V K (wm_session_id e) (wm_parent_message_id e) of
        Inr (Some caller) \<Rightarrow> base_status (dget0 caller ''status'') \<in> SUSPENDED_STATES \<and>
          wm_child_message_id e \<noteq> [] \<and>
          (wm_task_group_id e \<noteq> [] \<longrightarrow> group_open V K (wm_task_group_id e) (wm_child_message_id e))
      | _ \<Rightarrow> False))"

lemma suspended_not_terminal: "s \<in> SUSPENDED_STATES \<Longrightarrow> \<not> is_terminal_state s"
  by (auto simp: SUSPENDED_STATES_def is_terminal_state_def TERMINAL_STATES_def)

lemma group_blocks_wp:
  "wp (group_blocks_compensation V due) Q K =
     (if group_open V K (wm_task_group_id (du_entry due)) (wm_child_message_id (du_entry due))
      then Q (Inr None) K
      else Q (Inr (Some (
        if hs K (task_group V (wm_task_group_id (du_entry due))) ''total'' = None then ''group_gone''
        else if (case hs K (task_group V (wm_task_group_id (du_entry due))) ''aborted'' of
                   None \<Rightarrow> False | Some t \<Rightarrow> rtext_str t \<noteq> []) then ''group_aborted''
        else ''group_already_joined''))) (apply_cmd (ZRem (du_index_key due) (du_member due)) K))"
  by (auto simp: group_blocks_compensation_def Let_def wp_simps group_open_def split: option.splits)

text \<open>An awaited entry goes to the triage of its sub-task, with the data unchanged.\<close>

lemma resolve_awaited_wp:
  assumes "awaits V K m" and "decode_member m = Inr e"
    and "record_by_message V K (wm_session_id e) (wm_parent_message_id e) = Inr (Some caller)"
  shows "wp (resolve_entry V sw k m d) Q K =
    wp (triage_child V sw \<lparr>du_index_key = k, du_member = m, du_deadline_ms = d, du_entry = e\<rparr> caller) Q K"
proof -
  have s: "base_status (dget0 caller ''status'') \<in> SUSPENDED_STATES"
    and c: "wm_child_message_id e \<noteq> []"
    and g: "wm_task_group_id e \<noteq> [] \<Longrightarrow> group_open V K (wm_task_group_id e) (wm_child_message_id e)"
    using assms by (auto simp: awaits_def)
  show ?thesis
    using s c g assms(2,3) suspended_not_terminal [OF s]
    by (simp add: resolve_entry_def Let_def wp_bindp wp_get_execution_by_message_id group_blocks_wp)
qed

definition keeps_entry :: "string \<Rightarrow> string \<Rightarrow> cmd \<Rightarrow> bool" where
  "keeps_entry k m c = (\<forall>K. zs K k m \<noteq> None \<longrightarrow> zs (apply_cmd c K) k m \<noteq> None)"

lemma keeps_entry_Pipe: "\<forall>c \<in> set cs. keeps_entry k m c \<Longrightarrow> keeps_entry k m (Pipe cs)"
proof (induction cs)
  case (Cons c cs)
  then have "keeps_entry k m (Pipe cs)" and "keeps_entry k m c" by auto
  then show ?case by (simp add: keeps_entry_def)
qed (simp add: keeps_entry_def)

lemma keeps_entry_simps [simp]:
  "keeps_entry k m (Get x)" "keeps_entry k m (HGet x f)" "keeps_entry k m (HGetAll x)"
  "keeps_entry k m (ZAdd x y n)" "keeps_entry k m (XAdd x v)" "keeps_entry k m Now" "keeps_entry k m Uuid"
  "keeps_entry k m (Set x v ttl nx)" "keeps_entry k m (HSet x f v)" "keeps_entry k m (Expire x n)"
  "keeps_entry k m (HDel x f)" "keeps_entry k m (HIncrBy x f n)"
  by (auto simp: keeps_entry_def split: option.splits)

lemma keeps_entry_index [simp]:
  "keeps_entry (wait_index V n) m (ZRem (worker_active_execution_index V w) e)"
  by (simp add: keeps_entry_def key_simps)

lemma keeps_entry_stats [simp]: "keeps_entry (wait_index V n) m (Pipe (stats_cmds V old new now))"
proof (rule keeps_entry_Pipe, intro ballI)
  fix c
  assume "c \<in> set (stats_cmds V old new now)"
  from stats_cmds_shape [OF this] show "keeps_entry (wait_index V n) m c"
    unfolding stats_shape_def by (elim disjE exE) auto
qed

interpretation kept: triage_commands V "keeps_entry (wait_index V n) m" for V n m
  by unfold_locales (auto intro!: keeps_entry_Pipe)

lemma awaitedE:
  assumes "awaits V K m"
  obtains e caller where "decode_member m = Inr e"
    and "record_by_message V K (wm_session_id e) (wm_parent_message_id e) = Inr (Some caller)"
  using assms by (auto simp: awaits_def split: sum.splits option.splits)

lemma awaited_kept_wp:
  assumes "awaits V K m" and "zs K (wait_index V n) m \<noteq> None"
  shows "wp (resolve_entry V sw (wait_index V n) m d) (\<lambda>o' K'. zs K' (wait_index V n) m \<noteq> None) K"
proof -
  obtain e caller where e: "decode_member m = Inr e"
    "record_by_message V K (wm_session_id e) (wm_parent_message_id e) = Inr (Some caller)"
    using assms(1) by (rule awaitedE)
  show ?thesis
    unfolding resolve_awaited_wp [OF assms(1) e]
    by (rule wp_only [OF kept.triage [where n = n and m = m]]) (use assms(2) in \<open>auto simp: keeps_entry_def\<close>)
qed


lemma unawaited_wp:
  assumes "\<not> awaits V K m"
  shows "wp (resolve_entry V sw k m d) (\<lambda>o' K'. strm K' = strm K) K"
proof -
  have "only quiet (resolve_unsuspended_caller V due caller)" for due caller
    by (auto simp: resolve_unsuspended_caller_def check_worker_online_def extend_deadline_def Let_def
        intro!: only_bindp only_try_exc split: option.splits)
  then have "wp (resolve_unsuspended_caller V due caller) (\<lambda>o' K'. strm K' = strm K) K" for due caller
    by (rule wp_only) (auto simp: quiet_def)
  then show ?thesis
    using assms
    by (auto simp: resolve_entry_def Let_def awaits_def wp_simps group_blocks_wp split: sum.splits option.splits)
qed

text \<open>
  The sweeper sends nothing on any stream unless a suspended caller awaits the reply
  of that very sub-task: a malformed entry, a missing, finished or running caller, a
  wait for a user and an already gathered or aborted fan-out are answered by no message.
\<close>

theorem unawaited_entry_is_silent:
  assumes "redis exec view" and "\<not> awaits V (view s) m"
  shows "strm (view (snd (run exec (resolve_entry V sw k m d) s))) = strm (view s)"
  using redis.wp_run [OF assms(1) unawaited_wp [where sw = sw and k = k and d = d, OF assms(2)]] by (auto split: prod.splits)


section \<open>The failure reply\<close>

text \<open>What the triage makes of the record of a sub-task that can send no reply itself.\<close>

definition dead_child :: "schema \<Rightarrow> kspace \<Rightarrow> execution option \<Rightarrow> (string \<times> string) option" where
  "dead_child V K found = (case found of
       None \<Rightarrow> Some (''CHILD_NEVER_STARTED'', ''never_started'')
     | Some child \<Rightarrow>
         if is_terminal_state (base_status (dget0 child ''status'')) \<or>
            base_status (dget0 child ''status'') \<in> SUSPENDED_STATES then None
         else if py_text (dget0 child ''worker_id'') = [] then Some (''CHILD_NEVER_STARTED'', ''never_started'')
         else if worker_online V K (py_text (dget0 child ''worker_id'')) then None
         else Some (''CHILD_WORKER_LOST'', ''worker_lost''))"

definition caller_type :: "execution option \<Rightarrow> execution \<Rightarrow> string" where
  "caller_type found caller = str_or (case found of None \<Rightarrow> [] | Some child \<Rightarrow> py_text (dget0 child ''source_agent_type''))
     (py_text (dget0 caller ''target_agent_type''))"

definition metadata_ok :: "execution option \<Rightarrow> bool" where
  "metadata_ok found = (case found of None \<Rightarrow> True | Some child \<Rightarrow>
     (\<exists>d. dget0 child ''metadata'' = JObj d) \<or> \<not> truthy (dget0 child ''metadata''))"

definition extended :: "schema \<Rightarrow> due_entry \<Rightarrow> int \<Rightarrow> kspace \<Rightarrow> kspace" where
  "extended V due now K =
     apply_cmd (ZAdd (du_index_key due) (du_member due) (now + WAIT_RENEW_INCREMENT_MS))
      (apply_cmd (Set (wait_renew_origin V (wm_session_id (du_entry due)) (member_digest (du_member due)))
        (Doc (JInt (du_deadline_ms due))) (Some WAIT_RENEW_ORIGIN_TTL_SECONDS) True) K)"

lemma wp_extend_deadline: "wp (extend_deadline V due) Q K = (\<forall>now. Q (Inr ()) (extended V due now K))"
  unfolding extend_deadline_def extended_def
  by (simp only: wp_bindp wp_try_exc wp_exec_cmd plain_write.simps simp_thms sum.case wp.simps wp_simps)

text \<open>The message a stand-in reply is.\<close>

definition stands_in ::
  "due_entry \<Rightarrow> string \<Rightarrow> string \<Rightarrow> string \<Rightarrow> command \<Rightarrow> bool" where
  "stands_in due agent_type status error_code c =
     (constructed c \<and> cls_of c = ResumeCls \<and> command_status c = status \<and>
      mh_message_id (command_header c) = wm_parent_message_id (du_entry due) \<and>
      mh_session_id (command_header c) = wm_session_id (du_entry due) \<and>
      mh_target_agent_type (command_header c) = agent_type \<and>
      dget0 (mh_metadata (command_header c)) ''liveness_error_code'' = JStr error_code \<and>
      member_from_resume (command_header c) =
        encode_member (wm_session_id (du_entry due)) (wm_parent_message_id (du_entry due))
          (wm_child_message_id (du_entry due)) (wm_task_group_id (du_entry due)))"

definition sent :: "schema \<Rightarrow> string \<Rightarrow> command \<Rightarrow> kspace \<Rightarrow> kspace" where
  "sent V agent_type c K = apply_cmd (XAdd (ctrl_stream V agent_type) (to_redis_payload c)) K"

lemma wp_exec_xadd: "wp (exec_cmd (XAdd k v)) Q K = Q (Inr ()) (apply_cmd (XAdd k v) K)"
  by (rule wp_exec_cmd) simp

lemma emit_reply_wp:
  assumes "str_or (py_text (dget0 child ''source_agent_type'')) (py_text (dget0 caller ''target_agent_type'')) = at"
    and "at \<noteq> []" and "status \<noteq> []"
  shows "wp (emit_reply V sw due caller child status ct rd ep ec md)
    (\<lambda>o' K'. o' = Inr True \<and> (\<exists>c now. stands_in due at status ec c \<and> K' = extended V due now (sent V at c K))) K"
proof -
  let ?a = "\<lambda>tr. \<lparr>si_session_id = wm_session_id (du_entry due), si_caller_message_id = wm_parent_message_id (du_entry due),
          si_caller_agent_type = at, si_child_message_id = wm_child_message_id (du_entry due),
          si_child_agent_type = py_text (dget0 child ''target_agent_type''),
          si_task_group_id = wm_task_group_id (du_entry due), si_trace_id = tr,
          si_status = status, si_content = ct, si_reply_data = rd, si_extra_payload = ep,
          si_metadata = dset ''sweeper_worker_id'' (JStr (sw_worker_id sw)) md,
          si_error_code = ec, si_synthesized_by = SYNTHESIZED_BY_SWEEPER, si_user_code = [], si_user_name = []\<rparr>"
  have "wp (stand_in_reply (?a tr)) (\<lambda>o' K'. K' = K \<and> (\<exists>c. o' = Inr c \<and> stands_in due at status ec c)) K" for tr
    using assms(3)
    by (auto simp: stand_in_reply_def wp_simps new_resume_def stands_in_def command_header_def command_status_def
        stand_in_member uuid_hex_def) (simp_all add: stand_in_header_def)
  then show ?thesis
    unfolding emit_reply_def Let_def assms(1) if_not_P [OF assms(2)] wp_bindp [of "stand_in_reply _"]
  proof (rule wp_mono)
    fix o' K'
    assume "K' = K \<and> (\<exists>c. o' = Inr c \<and> stands_in due at status ec c)"
    then obtain c where "K' = K" "o' = Inr c" "stands_in due at status ec c" by blast
    then show "case o' of Inl e \<Rightarrow> Inl e = Inr True \<and>
          (\<exists>c now. stands_in due at status ec c \<and> K' = extended V due now (sent V at c K))
      | Inr a \<Rightarrow> wp (bindp (exec_cmd (XAdd (ctrl_stream V at) (to_redis_payload a)))
            (\<lambda>_. bindp (extend_deadline V due) (\<lambda>_. Ret True)))
          (\<lambda>o' K'. o' = Inr True \<and> (\<exists>c now. stands_in due at status ec c \<and> K' = extended V due now (sent V at c K))) K'"
      by (simp only: sum.case wp_bindp wp_exec_xadd wp_extend_deadline wp.simps simp_thms sent_def) blast
  qed
qed

lemma synthesize_wp:
  assumes "str_or (py_text (dget0 child ''source_agent_type'')) (py_text (dget0 caller ''target_agent_type'')) = at"
    and "at \<noteq> []" and "status \<noteq> []" and "metadata_ok (Some child)"
  shows "wp (synthesize_failure V sw due caller child ec msg oc status)
    (\<lambda>o' K'. o' = Inr oc \<and> (\<exists>c now. stands_in due at status ec c \<and> K' = extended V due now (sent V at c K))) K"
proof -
  have "wp (dict_or_empty (dget0 child ''metadata'')) (\<lambda>o' K'. (\<exists>md. o' = Inr md) \<and> K' = K) K"
    using assms(4) by (auto simp: dict_or_empty_def metadata_ok_def lift_res_def)
  then show ?thesis
    unfolding synthesize_failure_def wp_bindp
    by (rule wp_mono) (auto simp: wp_bindp intro!: wp_mono [OF emit_reply_wp [OF assms(1-3)]], blast)
qed

lemma dead_child_wp:
  assumes dead: "dead_child V K found = Some (code, oc)"
    and found: "record_by_message V K (wm_session_id (du_entry due)) (wm_child_message_id (du_entry due)) = Inr found"
    and at: "caller_type found caller = at" "at \<noteq> []" and md: "metadata_ok found"
  shows "wp (triage_child V sw due caller)
    (\<lambda>o' K'. o' = Inr oc \<and> (\<exists>c now. stands_in due at ''FAILED'' code c \<and> K' = extended V due now (sent V at c K))) K"
proof -
  have syn: "wp (synthesize_failure V sw due caller child ec msg oc ''FAILED'')
      (\<lambda>o' K'. o' = Inr oc \<and> (\<exists>c now. stands_in due at ''FAILED'' ec c \<and> K' = extended V due now (sent V at c K))) K"
    if "child = (case found of None \<Rightarrow> [] | Some d \<Rightarrow> d)" for child ec msg oc
    using that at md
    by (intro synthesize_wp) (auto simp: caller_type_def metadata_ok_def dget0_def dget_def split: option.splits)
  show ?thesis
  proof (cases found)
    case None
    then show ?thesis
      using dead syn found by (simp add: triage_child_def Let_def wp_bindp wp_get_execution_by_message_id dead_child_def)
  next
    case (Some child)
    then show ?thesis
      using dead syn found
      by (auto simp: triage_child_def Let_def wp_bindp wp_get_execution_by_message_id wp_check_worker_online
          dead_child_def split: if_splits)
  qed
qed

text \<open>The gate on a stand-in reply claims the wait it stands for, as long as that is registered.\<close>

lemma gate_claims_stand_in:
  assumes "stands_in due at status code c" and "wm_session_id (du_entry due) = sess"
    and "m = encode_member sess (wm_parent_message_id (du_entry due)) (wm_child_message_id (du_entry due))
       (wm_task_group_id (du_entry due))"
    and "waiting V K sess m"
  shows "gate_result V K (mh_session_id (command_header c)) (candidate_members (command_header c)) =
     \<lparr>gd_allow = True, gd_reason = ALLOW_CLAIMED, gd_member = m\<rparr>"
proof -
  obtain rest where "candidate_members (command_header c) = member_from_resume (command_header c) # rest"
    using candidate_first by blast
  then show ?thesis using assms by (simp add: stands_in_def)
qed

lemma dead_then_gate_wp:
  assumes m: "m = encode_member sess parent cid gid" and k: "k = wait_index_key V sess"
    and aw: "awaits V K m"
    and caller: "record_by_message V K sess parent = Inr (Some caller)"
    and found: "record_by_message V K sess cid = Inr found"
    and dead: "dead_child V K found = Some (code, oc)"
    and at: "caller_type found caller = at" "at \<noteq> []" and md: "metadata_ok found"
  shows "wp (resolve_entry V sw k m d) (\<lambda>o' K'. o' = Inr oc \<and>
     (\<exists>c. stands_in \<lparr>du_index_key = k, du_member = m, du_deadline_ms = d,
            du_entry = \<lparr>wm_session_id = sess, wm_parent_message_id = parent, wm_child_message_id = cid,
              wm_task_group_id = gid\<rparr>\<rparr> at ''FAILED'' code c \<and>
        strm K' = (strm K)(ctrl_stream V at := strm K (ctrl_stream V at) @ [to_redis_payload c]) \<and>
        gate_result V K' (mh_session_id (command_header c)) (candidate_members (command_header c)) =
          \<lparr>gd_allow = True, gd_reason = ALLOW_CLAIMED, gd_member = m\<rparr>)) K"
proof -
  let ?e = "\<lparr>wm_session_id = sess, wm_parent_message_id = parent, wm_child_message_id = cid, wm_task_group_id = gid\<rparr>"
  let ?due = "\<lparr>du_index_key = k, du_member = m, du_deadline_ms = d, du_entry = ?e\<rparr>"
  have e: "decode_member m = Inr ?e" by (simp add: m decode_encode)
  have "wp (triage_child V sw ?due caller) (\<lambda>o' K'. o' = Inr oc \<and>
      (\<exists>c now. stands_in ?due at ''FAILED'' code c \<and> K' = extended V ?due now (sent V at c K))) K"
    using found by (intro dead_child_wp [OF dead _ at md]) simp
  then have "wp (resolve_entry V sw k m d) (\<lambda>o' K'. o' = Inr oc \<and>
      (\<exists>c now. stands_in ?due at ''FAILED'' code c \<and> K' = extended V ?due now (sent V at c K))) K"
    using caller by (subst resolve_awaited_wp [OF aw e]) simp_all
  moreover have "strm (extended V ?due now (sent V at c K)) =
        (strm K)(ctrl_stream V at := strm K (ctrl_stream V at) @ [to_redis_payload c])"
    and "waiting V (extended V ?due now (sent V at c K)) sess m" for now c
    by (simp_all add: extended_def sent_def waiting_def k)
  ultimately show ?thesis
    using gate_claims_stand_in [of ?due at "''FAILED''" code _ sess m V] m
    by (elim wp_mono) (simp, blast)
qed

text \<open>
  C4: a sub-task that was never recorded, never picked up, or whose worker is gone is
  reported to its suspended caller: exactly one failed reply with the reason is sent to
  the caller's stream, and the gate, on that reply, claims exactly the wait it stands
  for.
\<close>

theorem dead_child_is_reported:
  assumes "redis exec view" and "m = encode_member sess parent cid gid" and "k = wait_index_key V sess"
    and "awaits V (view s) m"
    and "record_by_message V (view s) sess parent = Inr (Some caller)"
    and "record_by_message V (view s) sess cid = Inr found"
    and "dead_child V (view s) found = Some (code, oc)"
    and "caller_type found caller = at" "at \<noteq> []" and "metadata_ok found"
  shows "case run exec (resolve_entry V sw k m d) s of (res, u) \<Rightarrow> res = Inr oc \<and>
     (\<exists>c. command_status c = ''FAILED'' \<and> dget0 (mh_metadata (command_header c)) ''liveness_error_code'' = JStr code \<and>
        strm (view u) = (strm (view s))(ctrl_stream V at := strm (view s) (ctrl_stream V at) @ [to_redis_payload c]) \<and>
        fst (run exec (consume_wait_entry V (command_header c)) u) =
          Inr \<lparr>gd_allow = True, gd_reason = ALLOW_CLAIMED, gd_member = m\<rparr>)"
proof -
  obtain res u where r: "run exec (resolve_entry V sw k m d) s = (res, u)"
    by (cases "run exec (resolve_entry V sw k m d) s")
  have gate: "fst (run exec (consume_wait_entry V h) u) =
      Inr (gate_result V (view u) (mh_session_id h) (candidate_members h))" for h
    using redis.wp_run [OF assms(1) gate_wp_refl [where V = V and h = h], where s = u] by (auto split: prod.splits)
  from redis.wp_run [OF assms(1) dead_then_gate_wp [where sw = sw and d = d, OF assms(2-10)]] show ?thesis
    by (auto simp: r gate stands_in_def)
qed

section \<open>The properties at a concrete server\<close>

definition waiting_caller :: execution where
  "waiting_caller = [(''execution_id'', JStr ''e''), (''message_id'', JStr ''caller''), (''session_id'', JStr ''s''),
     (''status'', JStr ''WAITING_AGENT''), (''target_agent_type'', JStr ''planner'')]"

definition lost_member :: string where "lost_member = encode_member ''s'' ''caller'' ''child'' []"

definition lost_server :: rserver where
  "lost_server = empty_server\<lparr>
     l_hs := [(session_registry V1 ''s'',
        [(EXEC_FIELD_PREFIX @ ''e'', Doc (JObj waiting_caller)), (MSG_MAP_PREFIX @ ''caller'', Txt ''e'')])],
     l_zs := [(wait_index_key V1 ''s'', [(lost_member, 5)])]\<rparr>"

definition demo_sweeper :: sweeper where
  "demo_sweeper = new_sweeper (\<lambda>_. None) ''w'' None (Some True) None None None None"

lemma lost_hash: "hs (rview lost_server) (session_registry V1 ''s'') =
    map_of [(EXEC_FIELD_PREFIX @ ''e'', Doc (JObj waiting_caller)), (MSG_MAP_PREFIX @ ''caller'', Txt ''e'')]"
  by (simp add: lost_server_def empty_server_def rview_def look_def)

lemma lost_records:
  "record_by_message V1 (rview lost_server) ''s'' ''caller'' = Inr (Some waiting_caller)"
  "record_by_message V1 (rview lost_server) ''s'' ''child'' = Inr None"
  by (simp_all add: record_by_message_def record_of_def lost_hash MSG_MAP_PREFIX_def EXEC_FIELD_PREFIX_def)

lemma waiting_status: "base_status (dget0 waiting_caller ''status'') = ''WAITING_AGENT''"
  by (simp add: waiting_caller_def dget0_def dget_def base_status_def strip_def is_space_def)

lemma lost_awaits: "awaits V1 (rview lost_server) lost_member"
  using waiting_status lost_records(1)
  by (simp add: awaits_def lost_member_def decode_encode SUSPENDED_STATES_def)

lemma lost_entry: "zs (rview lost_server) (wait_index V1 (wait_index_shard ''s'')) lost_member \<noteq> None"
  by (simp add: lost_server_def rview_def look_def wait_index_key_def)

theorem dead_child_is_reported_witness:
  "\<exists>c. snd (run ref_exec (resolve_entry V1 demo_sweeper (wait_index_key V1 ''s'') lost_member 5) lost_server) = c \<and>
     strm (rview c) (ctrl_stream V1 ''planner'') \<noteq> []"
  using dead_child_is_reported [OF ref.redis_axioms, where V = V1 and s = lost_server and sess = "''s''"
      and parent = "''caller''" and cid = "''child''" and gid = "[]" and sw = demo_sweeper and d = 5
      and code = "''CHILD_NEVER_STARTED''" and oc = "''never_started''" and caller = waiting_caller
      and found = None and at = "''planner''", OF lost_member_def refl lost_awaits lost_records]
  by (auto simp: dead_child_def caller_type_def metadata_ok_def str_or_def waiting_caller_def dget0_def dget_def
      split: prod.splits)


theorem unawaited_entry_is_silent_witness:
  "strm (rview (snd (run ref_exec (resolve_entry V1 demo_sweeper ''k'' lost_member 5) empty_server))) = (\<lambda>_. [])"
proof -
  have "\<not> awaits V1 (rview empty_server) lost_member"
    by (simp add: awaits_def lost_member_def decode_encode record_by_message_def)
  from unawaited_entry_is_silent [where sw = demo_sweeper and k = "''k''" and d = 5, OF ref.redis_axioms this]
  show ?thesis by (simp add: fun_eq_iff) (simp add: empty_server_def rview_def look_def)
qed

theorem sweep_releases_its_lock_witness:
  "case run ref_exec (sweep_shard V1 demo_sweeper 3 True) empty_server of (res, u) \<Rightarrow>
     res = Inl Diverges \<or> kv (rview u) (wait_sweep_lock V1 3) = None"
  by (rule sweep_releases_its_lock [OF ref.redis_axioms]) simp

theorem sweep_joins_nothing_witness:
  "unjoined V1 (rview lost_server) (rview (snd (run ref_exec (sweep_once V1 demo_sweeper) lost_server)))"
  by (rule sweep_joins_nothing [OF ref.redis_axioms])

theorem sweep_fails_soft_witness:
  "case fst (run ref_exec (sweep_once V1 demo_sweeper) lost_server) of
     Inr a \<Rightarrow> True | Inl e \<Rightarrow> e = Diverges \<or> (\<exists>m. e = CancelledError m)"
  by (rule sweep_fails_soft) (auto simp: ref_exec_def)

end
