(* ===== verification/Sweeper_Deadlines.thy ===== *)
theory Sweeper_Deadlines
  imports Sweeper_Properties
begin

text \<open>
  The deadlines of the wait index: renewals keep the origin the ceiling is computed
  from, a live sub-task is renewed below its ceiling and given up at it, and pruning
  removes what is older than its horizon and nothing else.
\<close>

section \<open>The origin of a renewal\<close>

definition renew_key :: "schema \<Rightarrow> due_entry \<Rightarrow> string" where
  "renew_key V due = wait_renew_origin V (wm_session_id (du_entry due)) (member_digest (du_member due))"

definition stored_origin :: "schema \<Rightarrow> kspace \<Rightarrow> due_entry \<Rightarrow> int" where
  "stored_origin V K due = (case map_option fst (kv K (renew_key V due)) of
     Some (Doc v) \<Rightarrow> sw_int v | Some (Txt t) \<Rightarrow> sw_int (JStr t) | None \<Rightarrow> 0)"

definition origin_of :: "schema \<Rightarrow> kspace \<Rightarrow> due_entry \<Rightarrow> int" where
  "origin_of V K due = (if stored_origin V K due \<noteq> 0 then stored_origin V K due else du_deadline_ms due)"

lemma wp_renewal_origin: "wp (renewal_origin_ms V due) Q K = Q (Inr (origin_of V K due)) K"
  by (auto simp: renewal_origin_ms_def wp_simps origin_of_def stored_origin_def renew_key_def Let_def
      split: option.splits)

lemma wp_renewal_ceiling:
  "wp (renewal_ceiling_ms V sw due child) Q K =
     Q (Inr (ceiling_of sw (origin_of V K due) (sw_int (dget0 child ''created_at'')))) K"
  by (simp add: renewal_ceiling_ms_def wp_bindp wp_renewal_origin)

text \<open>The origin is absent, or a number.\<close>

definition origin_usable :: "schema \<Rightarrow> kspace \<Rightarrow> due_entry \<Rightarrow> bool" where
  "origin_usable V K due = (kv K (renew_key V due) = None \<or> stored_origin V K due \<noteq> 0)"

definition same_wait :: "due_entry \<Rightarrow> due_entry \<Rightarrow> bool" where
  "same_wait a b = (du_entry a = du_entry b \<and> du_member a = du_member b)"

lemma stored_extended:
  assumes "same_wait due due'" and "origin_usable V K due" and "du_deadline_ms due \<noteq> 0"
  shows "stored_origin V (extended V due now K) due' = origin_of V K due"
  using assms
  by (auto simp: stored_origin_def extended_def same_wait_def origin_of_def
      origin_usable_def renew_key_def split: option.splits)

lemma origin_ne: "origin_usable V K due \<Longrightarrow> du_deadline_ms due \<noteq> 0 \<Longrightarrow> origin_of V K due \<noteq> 0"
  by (simp add: origin_of_def)

lemma later_renewals:
  assumes "\<forall>d \<in> set dues. same_wait d due'" and "stored_origin V K due' = t" and "t \<noteq> 0"
  shows "wp (for_each (extend_deadline V) dues) (\<lambda>o' K'. o' = Inr () \<and> stored_origin V K' due' = t) K"
  using assms
proof (induction dues arbitrary: K)
  case (Cons d ds)
  have s: "same_wait d due'" using Cons.prems by simp
  have st: "stored_origin V K d = t"
    using Cons.prems by (simp add: stored_origin_def renew_key_def same_wait_def)
  have "stored_origin V (extended V d now K) due' = t" for now
    using st \<open>t \<noteq> 0\<close> s
    by (auto simp: stored_origin_def extended_def same_wait_def renew_key_def split: option.splits)
  then have "wp (for_each (extend_deadline V) ds) (\<lambda>o' K'. o' = Inr () \<and> stored_origin V K' due' = t)
      (extended V d now K)" for now
    using Cons.prems by (intro Cons.IH) auto
  then show ?case by (simp add: wp_bindp wp_extend_deadline)
qed simp

lemma renewals_wp:
  assumes "\<forall>d \<in> set (due # dues). same_wait d due'" and "origin_usable V K due" and "du_deadline_ms due \<noteq> 0"
  shows "wp (bindp (for_each (extend_deadline V) (due # dues)) (\<lambda>_. renewal_ceiling_ms V sw due' child))
    (\<lambda>o' K'. o' = Inr (ceiling_of sw (origin_of V K due) (sw_int (dget0 child ''created_at'')))) K"
proof -
  have "stored_origin V (extended V due now K) due' = origin_of V K due" for now
    using assms by (intro stored_extended) auto
  then have 1: "wp (for_each (extend_deadline V) dues)
      (\<lambda>o' K'. o' = Inr () \<and> stored_origin V K' due' = origin_of V K due) (extended V due now K)" for now
    using assms origin_ne by (intro later_renewals) auto
  have 2: "wp (renewal_ceiling_ms V sw due' child)
      (\<lambda>o' K'. o' = Inr (ceiling_of sw (origin_of V K due) (sw_int (dget0 child ''created_at'')))) K'"
    if "stored_origin V K' due' = origin_of V K due" for K'
    using that origin_ne [OF assms(2,3)]
    by (simp add: wp_renewal_ceiling origin_of_def [of V K' due'])
  have "wp (for_each (extend_deadline V) dues) (\<lambda>o' K'. case o' of
        Inl e \<Rightarrow> (Inl e :: exn + int) = Inr (ceiling_of sw (origin_of V K due) (sw_int (dget0 child ''created_at'')))
      | Inr _ \<Rightarrow> wp (renewal_ceiling_ms V sw due' child)
          (\<lambda>o' K'. o' = Inr (ceiling_of sw (origin_of V K due) (sw_int (dget0 child ''created_at'')))) K')
      (extended V due now K)" for now
    by (rule wp_mono [OF 1]) (use 2 in auto)
  then show ?thesis
    by (simp only: for_each.simps bindp_assoc wp_bindp wp_extend_deadline sum.case) blast
qed

text \<open>
  Renewals do not move the ceiling: however many times, and with whatever later
  deadlines, a wait is renewed, the ceiling computed afterwards is the one of its first
  deadline.
\<close>

theorem renewals_keep_ceiling:
  assumes "redis exec view" and "\<forall>d \<in> set (due # dues). same_wait d due'"
    and "origin_usable V (view s) due" and "du_deadline_ms due \<noteq> 0"
  shows "fst (run exec (bindp (for_each (extend_deadline V) (due # dues)) (\<lambda>_. renewal_ceiling_ms V sw due' child)) s)
    = Inr (ceiling_of sw (origin_of V (view s) due) (sw_int (dget0 child ''created_at'')))"
  using redis.wp_run [OF assms(1) renewals_wp [where sw = sw and child = child, OF assms(2-4)]]
  by (auto split: prod.splits)

text \<open>The ceiling is at least one increment after the origin, and grows with the multiple.\<close>

lemma ceiling_after_origin: "origin + WAIT_RENEW_INCREMENT_MS \<le> ceiling_of sw origin registered"
  by (simp add: ceiling_of_def Let_def)

section \<open>At the ceiling\<close>

definition live_child :: "schema \<Rightarrow> kspace \<Rightarrow> execution \<Rightarrow> bool" where
  "live_child V K child =
     (\<not> is_terminal_state (base_status (dget0 child ''status'')) \<and>
      base_status (dget0 child ''status'') \<notin> SUSPENDED_STATES \<and>
      py_text (dget0 child ''worker_id'') \<noteq> [] \<and> worker_online V K (py_text (dget0 child ''worker_id'')))"

definition give_up :: "schema \<Rightarrow> sweeper \<Rightarrow> due_entry \<Rightarrow> execution \<Rightarrow> execution \<Rightarrow> string prog" where
  "give_up V sw due caller child =
     bindp (synthesize_failure V sw due caller child ''CHILD_TIMEOUT''
       (timeout_message sw (wm_child_message_id (du_entry due)) (base_status (dget0 child ''status''))
         (py_text (dget0 child ''worker_id''))) ''timed_out'' ''FAILED'') (\<lambda>outcome.
     bindp (cancel_timed_out_child V sw due child) (\<lambda>_. Ret outcome))"

lemma triage_live:
  assumes "redis exec view" and live: "live_child V (view s) child"
    and found: "record_by_message V (view s) (wm_session_id (du_entry due)) (wm_child_message_id (du_entry due))
       = Inr (Some child)"
  obtains u where "view u = view s" and "run exec (triage_child V sw due caller) s =
    (if r_int (fst (exec Now u)) < ceiling_of sw (origin_of V (view s) due) (sw_int (dget0 child ''created_at''))
     then run exec (bindp (extend_deadline V due) (\<lambda>_. Ret ''child_alive'')) (snd (exec Now u))
     else run exec (give_up V sw due caller child) (snd (exec Now u)))"
proof -
  let ?wid = "py_text (dget0 child ''worker_id'')"
  let ?lim = "ceiling_of sw (origin_of V (view s) due) (sw_int (dget0 child ''created_at''))"
  obtain a s1 where r1: "run exec (get_execution_by_message_id V (wm_child_message_id (du_entry due))
      (wm_session_id (du_entry due))) s = (a, s1)" by fastforce
  have v1: "a = Inr (Some child)" "view s1 = view s"
    using redis.wp_run [OF assms(1), of "get_execution_by_message_id V (wm_child_message_id (du_entry due))
      (wm_session_id (du_entry due))" "\<lambda>o' K'. o' = Inr (Some child) \<and> K' = view s" s]
    by (simp_all add: wp_get_execution_by_message_id found r1)
  obtain b s2 where r2: "run exec (check_worker_online V ?wid) s1 = (b, s2)" by fastforce
  have v2: "b = Inr True" "view s2 = view s"
    using redis.wp_run [OF assms(1), of "check_worker_online V ?wid" "\<lambda>o' K'. o' = Inr True \<and> K' = view s" s1] live
    by (simp_all add: wp_check_worker_online r2 v1 live_child_def)
  obtain c s3 where r3: "run exec (renewal_ceiling_ms V sw due child) s2 = (c, s3)" by fastforce
  have v3: "c = Inr ?lim" "view s3 = view s"
    using redis.wp_run [OF assms(1), of "renewal_ceiling_ms V sw due child" "\<lambda>o' K'. o' = Inr ?lim \<and> K' = view s" s2]
    by (simp_all add: wp_renewal_ceiling r3 v2 origin_of_def stored_origin_def)
  show ?thesis
    using live
    by (intro that [OF v3(2)])
      (simp add: triage_child_def Let_def run_bindp r1 r2 r3 v1 v2 v3 live_child_def redis.run_now_ms [OF assms(1)]
        give_up_def)
qed

definition leaves_stream :: "string \<Rightarrow> cmd \<Rightarrow> bool" where
  "leaves_stream k c = (\<forall>K. strm (apply_cmd c K) k = strm K k)"

lemma leaves_stats: "leaves_stream k (Pipe (stats_cmds V old new now))"
proof -
  have "strm (fold apply_cmd cs K) k = strm K k" if "\<forall>c \<in> set cs. stats_shape V w c" for cs w K
    using that by (induction cs arbitrary: K) (auto simp: stats_shape_def split: option.splits)
  then show ?thesis
    unfolding leaves_stream_def apply_cmd.simps using stats_cmds_shape by blast
qed

interpretation caller_stream: cancel_commands V "leaves_stream (ctrl_stream V at)" for V at
  by unfold_locales (simp_all add: leaves_stats, auto simp: leaves_stream_def worker_stream_other [symmetric])

lemma calm_wp: "calm p \<Longrightarrow> wp p (\<lambda>o' K'. case o' of Inr _ \<Rightarrow> True | Inl e \<Rightarrow> e = Diverges \<or> (\<exists>m. e = CancelledError m)) K"
  by (induction p arbitrary: K) auto

lemma cancel_timed_out_calm: "calm (cancel_timed_out_child V sw due child)"
  by (auto simp: cancel_timed_out_child_def intro!: calm_try)

lemma cancel_timed_out_wp:
  "wp (cancel_timed_out_child V sw due child) (\<lambda>o' K'.
     (case o' of Inr _ \<Rightarrow> True | Inl e \<Rightarrow> e = Diverges \<or> (\<exists>m. e = CancelledError m)) \<and>
     strm K' (ctrl_stream V at) = strm K (ctrl_stream V at)) K"
proof (rule wp_conj [OF calm_wp [OF cancel_timed_out_calm]])
  show "wp (cancel_timed_out_child V sw due child)
      (\<lambda>o' K'. strm K' (ctrl_stream V at) = strm K (ctrl_stream V at)) K"
    by (rule wp_only [OF caller_stream.timed_out [where at = at], where R = "\<lambda>K K'.
        strm K' (ctrl_stream V at) = strm K (ctrl_stream V at)"]) (simp_all add: leaves_stream_def)
qed

text \<open>The outcome of giving a sub-task up, and the reply to its caller.\<close>

definition given_up :: "schema \<Rightarrow> due_entry \<Rightarrow> string \<Rightarrow> kspace \<Rightarrow> exn + string \<Rightarrow> kspace \<Rightarrow> bool" where
  "given_up V due at K o' K' =
     ((case o' of Inr r \<Rightarrow> r = ''timed_out'' | Inl e \<Rightarrow> e = Diverges \<or> (\<exists>m. e = CancelledError m)) \<and>
      (\<exists>c. stands_in due at ''FAILED'' ''CHILD_TIMEOUT'' c \<and>
        strm K' (ctrl_stream V at) = strm K (ctrl_stream V at) @ [to_redis_payload c]))"

lemma give_up_wp:
  assumes "caller_type (Some child) caller = at" "at \<noteq> []" and "metadata_ok (Some child)"
  shows "wp (give_up V sw due caller child) (given_up V due at K) K"
proof -
  have "str_or (py_text (dget0 child ''source_agent_type'')) (py_text (dget0 caller ''target_agent_type'')) = at"
    using assms(1) by (simp add: caller_type_def)
  note syn = synthesize_wp [OF this assms(2) _ assms(3)]
  have "wp (bindp (cancel_timed_out_child V sw due child) (\<lambda>_. Ret ''timed_out'')) (given_up V due at K)
      (extended V due now (sent V at c K))" if "stands_in due at ''FAILED'' ''CHILD_TIMEOUT'' c" for c now
    unfolding wp_bindp
    by (rule wp_mono [OF cancel_timed_out_wp [where at = at]])
      (use that in \<open>auto simp: given_up_def extended_def sent_def split: sum.splits\<close>)
  then show ?thesis
    unfolding give_up_def wp_bindp [of "synthesize_failure V sw due caller child ec msg oc st" for ec msg oc st]
    by (intro wp_mono [OF syn]) auto
qed


section \<open>Pruning, and the shards of a pass\<close>

lemma range_removed: "(\<lambda>m. if in_range K k lo hi m then None else zs K k m) =
    (\<lambda>m. case zs K k m of None \<Rightarrow> None | Some t \<Rightarrow> if lo \<le> t \<and> t \<le> hi then None else Some t)"
  by (auto simp: in_range_def fun_eq_iff split: option.splits)

lemma prune_wp:
  "wp (prune_shard V shard) (\<lambda>o' K'. \<exists>now. K' = K\<lparr>zs := (zs K)(wait_index V shard := (\<lambda>m.
     case zs K (wait_index V shard) m of None \<Rightarrow> None
     | Some t \<Rightarrow> if 0 \<le> t \<and> t \<le> now - WAIT_PRUNE_AFTER_SECONDS * 1000 then None else Some t))\<rparr> \<and>
     o' = Inr (int (card {m. in_range K (wait_index V shard) 0 (now - WAIT_PRUNE_AFTER_SECONDS * 1000) m}))) K"
  by (auto simp: prune_shard_def wp_simps range_removed)

text \<open>
  Pruning a shard takes out exactly the entries whose deadline passed more than the
  horizon ago, which is a day longer than a session lives, returns their number and
  changes nothing else: no deadline that is due less than a session's life ago is lost.
\<close>

theorem prune_takes_only_the_old:
  assumes "redis exec view"
  shows "case run exec (prune_shard V shard) s of (res, u) \<Rightarrow> \<exists>now.
     view u = (view s)\<lparr>zs := (zs (view s))(wait_index V shard := (\<lambda>m.
       case zs (view s) (wait_index V shard) m of None \<Rightarrow> None
       | Some t \<Rightarrow> if 0 \<le> t \<and> t \<le> now - (DEFAULT_SESSION_TTL + 86400) * 1000 then None else Some t))\<rparr> \<and>
     res = Inr (int (card {m. in_range (view s) (wait_index V shard) 0 (now - (DEFAULT_SESSION_TTL + 86400) * 1000) m}))"
  by (rule redis.wp_run [OF assms prune_wp, unfolded WAIT_PRUNE_AFTER_SECONDS_def])

text \<open>The shards in the order a pass visits them.\<close>

definition visited :: "sweeper \<Rightarrow> int list" where
  "visited sw = map (\<lambda>offset. int ((sw_shard_cursor sw + offset) mod WAIT_INDEX_SHARDS)) [0..<WAIT_INDEX_SHARDS]"

lemma mod_shift_inj: "inj_on (\<lambda>o'. (c + o') mod WAIT_INDEX_SHARDS) {0..<WAIT_INDEX_SHARDS}"
proof (rule inj_onI)
  fix a b
  assume ab: "a \<in> {0..<WAIT_INDEX_SHARDS}" "b \<in> {0..<WAIT_INDEX_SHARDS}"
    and "(c + a) mod WAIT_INDEX_SHARDS = (c + b) mod WAIT_INDEX_SHARDS"
  then obtain p q where "c + a + WAIT_INDEX_SHARDS * p = c + b + WAIT_INDEX_SHARDS * q"
    unfolding nat_mod_eq_iff by blast
  then have "a + WAIT_INDEX_SHARDS * p = b + WAIT_INDEX_SHARDS * q" by simp
  then have "a mod WAIT_INDEX_SHARDS = b mod WAIT_INDEX_SHARDS" unfolding nat_mod_eq_iff by blast
  with ab show "a = b" by simp
qed

lemma visited_all: "distinct (visited sw)" "set (visited sw) = int ` {0..<WAIT_INDEX_SHARDS}"
proof -
  let ?f = "\<lambda>o'. (sw_shard_cursor sw + o') mod WAIT_INDEX_SHARDS"
  have i: "inj_on ?f {0..<WAIT_INDEX_SHARDS}" by (rule mod_shift_inj)
  have "WAIT_INDEX_SHARDS > 0" by (simp add: WAIT_INDEX_SHARDS_def)
  then have "?f ` {0..<WAIT_INDEX_SHARDS} \<subseteq> {0..<WAIT_INDEX_SHARDS}" by auto
  then have s: "?f ` {0..<WAIT_INDEX_SHARDS} = {0..<WAIT_INDEX_SHARDS}"
    using i by (simp add: endo_inj_surj)
  have v: "visited sw = map (int \<circ> ?f) [0..<WAIT_INDEX_SHARDS]" by (simp add: visited_def o_def)
  have "inj_on (int \<circ> ?f) {0..<WAIT_INDEX_SHARDS}"
    by (rule comp_inj_on [OF i]) simp
  then show "distinct (visited sw)" by (simp add: v distinct_map)
  show "set (visited sw) = int ` {0..<WAIT_INDEX_SHARDS}"
    unfolding v by (simp only: set_map image_comp [symmetric] set_upt s)
qed

lemma shard_visited: "wait_index_shard sid \<in> set (visited sw)"
proof -
  have "nat (wait_index_shard sid) < WAIT_INDEX_SHARDS" and "int (nat (wait_index_shard sid)) = wait_index_shard sid"
    using shard_range [of sid] by (auto simp: WAIT_INDEX_SHARDS_def)
  then show ?thesis unfolding visited_all(2) by (metis atLeast0LessThan imageI lessThan_iff)
qed

lemma fold_prog_map: "fold_prog (\<lambda>x. F (g x)) xs a = fold_prog F (map g xs) a"
  by (induction xs arbitrary: a) (auto intro: arg_cong [where f = "bindp _"] ext)

text \<open>
  A pass sweeps every shard of the index exactly once, whatever its cursor, the one
  of every session among them, and then moves the cursor on by one: with the cursor
  below the number of shards it stays there.
\<close>

theorem pass_visits_every_shard:
  "sweep_once V sw = bindp (prune_is_due sw) (\<lambda>(pruning, sw1).
     bindp (fold_prog (\<lambda>shard outcomes. bindp (sweep_shard V sw1 shard pruning)
         (\<lambda>o'. Ret (merge_outcomes outcomes o'))) (visited sw1) []) (\<lambda>outcomes.
     Ret (outcomes, sw1\<lparr>sw_shard_cursor := (sw_shard_cursor sw1 + 1) mod WAIT_INDEX_SHARDS\<rparr>))) \<and>
   distinct (visited sw) \<and> set (visited sw) = int ` {0..<WAIT_INDEX_SHARDS} \<and>
   wait_index_shard sid \<in> set (visited sw)"
  unfolding visited_def fold_prog_map [symmetric]
  using visited_all shard_visited by (simp add: sweep_once_def visited_def)

section \<open>The properties at a concrete server\<close>

text \<open>The reference server at a fixed time.\<close>

definition ref_at :: "int \<Rightarrow> cmd \<Rightarrow> rserver \<Rightarrow> reply \<times> rserver" where
  "ref_at t c s = (if c = Now then (RInt t, s) else ref_exec c s)"

interpretation ref_at: redis "ref_at t" rview for t
  by unfold_locales (auto simp: ref_at_def ref.exec_view ref.exec_reply)

definition running_child :: execution where
  "running_child = [(''status'', JStr ''RUNNING''), (''worker_id'', JStr ''w''), (''created_at'', JInt 0),
     (''source_agent_type'', JStr ''planner'')]"

definition running_due :: due_entry where
  "running_due = \<lparr>du_index_key = ''k'', du_member = lost_member, du_deadline_ms = 5,
     du_entry = \<lparr>wm_session_id = ''s'', wm_parent_message_id = ''caller'', wm_child_message_id = ''child'',
       wm_task_group_id = []\<rparr>\<rparr>"

definition running_server :: rserver where
  "running_server = empty_server\<lparr>
     l_kv := [(worker_online_lease V1 ''w'', (Txt ''1'', Some 30))],
     l_hs := [(session_registry V1 ''s'',
        [(EXEC_FIELD_PREFIX @ ''c'', Doc (JObj running_child)), (MSG_MAP_PREFIX @ ''child'', Txt ''c'')])]\<rparr>"

lemma running_hash: "hs (rview running_server) (session_registry V1 ''s'') =
    map_of [(EXEC_FIELD_PREFIX @ ''c'', Doc (JObj running_child)), (MSG_MAP_PREFIX @ ''child'', Txt ''c'')]"
  by (simp add: running_server_def empty_server_def rview_def look_def)

lemma running_record: "record_by_message V1 (rview running_server) ''s'' ''child'' = Inr (Some running_child)"
  by (simp add: record_by_message_def record_of_def running_hash MSG_MAP_PREFIX_def EXEC_FIELD_PREFIX_def)

lemma running_fields: "py_text (dget0 running_child ''worker_id'') = ''w''"
  "base_status (dget0 running_child ''status'') = ''RUNNING''"
  by (simp_all add: running_child_def dget0_def dget_def base_status_def strip_def is_space_def)

lemma running_live: "live_child V1 (rview running_server) running_child"
proof -
  have "kv (rview running_server) (worker_online_lease V1 ''w'') = Some (Txt ''1'', Some 30)"
    by (simp add: running_server_def empty_server_def rview_def)
  then show ?thesis
    unfolding live_child_def running_fields
    by (simp add: worker_online_def presence_online_def decode_worker_presence_def is_terminal_state_def
        TERMINAL_STATES_def SUSPENDED_STATES_def)
qed


theorem renewals_keep_ceiling_witness:
  "\<exists>n. fst (run ref_exec (bindp (for_each (extend_deadline V1) [running_due, running_due])
     (\<lambda>_. renewal_ceiling_ms V1 demo_sweeper running_due running_child)) running_server) = Inr n"
proof -
  have "origin_usable V1 (rview running_server) running_due"
    by (simp add: origin_usable_def running_server_def rview_def empty_server_def renew_key_def key_simps)
  then show ?thesis
    using renewals_keep_ceiling [OF ref.redis_axioms, of running_due "[running_due]" running_due V1 running_server
        demo_sweeper running_child]
    by (simp add: same_wait_def running_due_def del: for_each.simps)
qed

theorem prune_takes_only_the_old_witness:
  "\<exists>n. fst (run ref_exec (prune_shard V1 3) lost_server) = Inr n"
  using prune_takes_only_the_old [OF ref.redis_axioms, where V = V1 and shard = 3 and s = lost_server] by (auto split: prod.splits)

end
