(* ===== verification/Availability.thy ===== *)
theory Availability
  imports Registry_Exec Protocol
begin

text \<open>
  \<open>core/availability.py\<close>, \<open>core/delivery_gate.py\<close> and \<open>core/wakeup_controller.py\<close>: whether a
  command can be delivered now, is queued until a worker wakes up, goes to a configured
  substitute or is rejected; the gate that releases queued deliveries; and the
  controller that answers wakeup requests.  The provider that starts workers is not
  part of the repository: it is a parameter.
\<close>

section \<open>Intents, requests and decisions\<close>

record intent =
  in_execution_id :: string
  in_message_id :: string
  in_session_id :: string
  in_trace_id :: string
  in_source :: string
  in_target_agent_type :: string
  in_user_code :: string
  in_region :: string
  in_priority :: int
  in_policy :: string
  in_timeout_ms :: int
  in_command_payload :: jdict
  in_metadata :: jdict

record wakeup_request =
  wr_execution_id :: string
  wr_target_agent_type :: string
  wr_session_id :: string
  wr_trace_id :: string
  wr_message_id :: string
  wr_source :: string
  wr_policy :: string
  wr_timeout_ms :: int
  wr_user_code :: string
  wr_region :: string
  wr_priority :: int
  wr_metadata :: jdict
  wr_command_payload :: jdict

text \<open>\<open>{"data": json.dumps(asdict(self))}\<close>.\<close>

definition wakeup_payload :: "wakeup_request \<Rightarrow> rtext" where
  "wakeup_payload r = Doc (JObj
     [(''execution_id'', JStr (wr_execution_id r)), (''target_agent_type'', JStr (wr_target_agent_type r)),
      (''session_id'', JStr (wr_session_id r)), (''trace_id'', JStr (wr_trace_id r)),
      (''message_id'', JStr (wr_message_id r)), (''source'', JStr (wr_source r)),
      (''policy'', JStr (wr_policy r)), (''timeout_ms'', JInt (wr_timeout_ms r)),
      (''user_code'', JStr (wr_user_code r)), (''region'', JStr (wr_region r)),
      (''priority'', JInt (wr_priority r)), (''metadata'', JObj (wr_metadata r)),
      (''command_payload'', JObj (wr_command_payload r))])"

text \<open>\<open>str(data.get(k, ""))\<close>, and \<open>str(data.get("user_code") or data.get("tenant_id", ""))\<close>.\<close>

definition str_field :: "jdict \<Rightarrow> string \<Rightarrow> string" where
  "str_field d k = py_str (dget d k (JStr []))"

definition user_code_field :: "jdict \<Rightarrow> string" where
  "user_code_field d = py_str (py_or (dget0 d ''user_code'') (dget d ''tenant_id'' (JStr [])))"

definition wakeup_from_dict :: "jdict \<Rightarrow> exn + wakeup_request" where
  "wakeup_from_dict d =
     res_bind (to_int (dget d ''timeout_ms'' (JInt 30000))) (\<lambda>timeout.
     res_bind (to_int (dget d ''priority'' (JInt 0))) (\<lambda>priority.
     res_bind (get_dict d ''metadata'') (\<lambda>metadata.
     res_bind (get_dict d ''command_payload'') (\<lambda>payload.
     Inr \<lparr>wr_execution_id = str_field d ''execution_id'', wr_target_agent_type = str_field d ''target_agent_type'',
          wr_session_id = str_field d ''session_id'', wr_trace_id = str_field d ''trace_id'',
          wr_message_id = str_field d ''message_id'', wr_source = str_field d ''source'',
          wr_policy = py_str (dget d ''policy'' (JStr ''FAIL_FAST'')), wr_timeout_ms = timeout,
          wr_user_code = user_code_field d, wr_region = str_field d ''region'', wr_priority = priority,
          wr_metadata = metadata, wr_command_payload = payload\<rparr>))))"

record pending_delivery =
  pd_execution_id :: string
  pd_message_id :: string
  pd_session_id :: string
  pd_trace_id :: string
  pd_target_agent_type :: string
  pd_delivery_stream :: string
  pd_command_payload :: jdict
  pd_user_code :: string
  pd_region :: string
  pd_priority :: int
  pd_metadata :: jdict

definition pending_payload :: "pending_delivery \<Rightarrow> rtext" where
  "pending_payload p = Doc (JObj
     [(''execution_id'', JStr (pd_execution_id p)), (''message_id'', JStr (pd_message_id p)),
      (''session_id'', JStr (pd_session_id p)), (''trace_id'', JStr (pd_trace_id p)),
      (''target_agent_type'', JStr (pd_target_agent_type p)), (''delivery_stream'', JStr (pd_delivery_stream p)),
      (''command_payload'', JObj (pd_command_payload p)), (''user_code'', JStr (pd_user_code p)),
      (''region'', JStr (pd_region p)), (''priority'', JInt (pd_priority p)), (''metadata'', JObj (pd_metadata p))])"

definition pending_from_dict :: "jdict \<Rightarrow> exn + pending_delivery" where
  "pending_from_dict d =
     res_bind (get_dict d ''command_payload'') (\<lambda>payload.
     res_bind (to_int (dget d ''priority'' (JInt 0))) (\<lambda>priority.
     res_bind (get_dict d ''metadata'') (\<lambda>metadata.
     Inr \<lparr>pd_execution_id = str_field d ''execution_id'', pd_message_id = str_field d ''message_id'',
          pd_session_id = str_field d ''session_id'', pd_trace_id = str_field d ''trace_id'',
          pd_target_agent_type = str_field d ''target_agent_type'',
          pd_delivery_stream = str_field d ''delivery_stream'', pd_command_payload = payload,
          pd_user_code = user_code_field d, pd_region = str_field d ''region'', pd_priority = priority,
          pd_metadata = metadata\<rparr>)))"

record wakeup_decision =
  wd_execution_id :: string
  wd_target_agent_type :: string
  wd_status :: string
  wd_selected_agent_type :: string
  wd_worker_ids :: "json list"
  wd_region :: string
  wd_retry_after_ms :: json
  wd_reason :: string

definition decision_payload :: "wakeup_decision \<Rightarrow> rtext" where
  "decision_payload w = Doc (JObj
     [(''execution_id'', JStr (wd_execution_id w)), (''target_agent_type'', JStr (wd_target_agent_type w)),
      (''status'', JStr (wd_status w)), (''selected_agent_type'', JStr (wd_selected_agent_type w)),
      (''worker_ids'', JList (wd_worker_ids w)), (''region'', JStr (wd_region w)),
      (''retry_after_ms'', wd_retry_after_ms w), (''reason'', JStr (wd_reason w))])"

text \<open>\<open>list(x)\<close> of a JSON value.\<close>

fun to_list :: "json \<Rightarrow> exn + json list" where
  "to_list (JList l) = Inr l"
| "to_list (JStr s) = Inr (map (\<lambda>c. JStr [c]) s)"
| "to_list (JObj d) = Inr (map (JStr \<circ> fst) d)"
| "to_list v = Inl (TypeError ''object is not iterable'')"

definition decision_from_dict :: "jdict \<Rightarrow> exn + wakeup_decision" where
  "decision_from_dict d =
     res_bind (to_list (dget d ''worker_ids'' (JList []))) (\<lambda>ids.
     Inr \<lparr>wd_execution_id = str_field d ''execution_id'', wd_target_agent_type = str_field d ''target_agent_type'',
          wd_status = py_str (dget d ''status'' (JStr ''FAILED'')),
          wd_selected_agent_type = str_field d ''selected_agent_type'', wd_worker_ids = ids,
          wd_region = str_field d ''region'', wd_retry_after_ms = dget0 d ''retry_after_ms'',
          wd_reason = str_field d ''reason''\<rparr>)"

record availability =
  av_status :: string
  av_stream_name :: string
  av_target_worker_id :: string
  av_error :: string
  av_error_code :: string
  av_selected_agent_type :: string
  av_execution_id :: string

definition available :: "string \<Rightarrow> string \<Rightarrow> string \<Rightarrow> string \<Rightarrow> availability" where
  "available status stream selected execution_id =
     \<lparr>av_status = status, av_stream_name = stream, av_target_worker_id = [], av_error = [], av_error_code = [],
      av_selected_agent_type = selected, av_execution_id = execution_id\<rparr>"

definition rejected :: "string \<Rightarrow> string \<Rightarrow> string \<Rightarrow> availability" where
  "rejected error code execution_id =
     \<lparr>av_status = ''REJECT'', av_stream_name = [], av_target_worker_id = [], av_error = error,
      av_error_code = code, av_selected_agent_type = [], av_execution_id = execution_id\<rparr>"

text \<open>A text between single quotes.\<close>

definition quoted :: "string \<Rightarrow> string" where
  "quoted s = CHR 0x27 # s @ [CHR 0x27]"

section \<open>Reading a stream\<close>

text \<open>
  \<open>xread\<close> with \<open>BLOCK\<close>: with 0 the server answers only once there is an entry, so a
  reply without entries stands for a call that never returns.
\<close>

definition xread :: "string \<Rightarrow> string \<Rightarrow> nat \<Rightarrow> int \<Rightarrow> (string \<times> rtext option) list prog" where
  "xread key last_id count block = bindp (call (XRead key last_id count) r_entries) (\<lambda>entries.
     if entries = [] \<and> block = 0 then Raise Diverges else Ret entries)"

text \<open>\<open>json.loads\<close> of the \<open>data\<close> field, read as a dictionary.\<close>

definition decode_data :: "(jdict \<Rightarrow> exn + 'a) \<Rightarrow> rtext option \<Rightarrow> exn + 'a option" where
  "decode_data from_dict data = (case data of
       None \<Rightarrow> Inr None
     | Some (Txt s) \<Rightarrow> Inl (ValueError ''invalid JSON'')
     | Some (Doc v) \<Rightarrow> res_bind (res_bind (as_dict v) from_dict) (\<lambda>x. Inr (Some x)))"

section \<open>The router\<close>

definition read_json_key :: "string \<Rightarrow> jdict option prog" where
  "read_json_key key = bindp (get key) (\<lambda>raw.
     Ret (case raw of Some (Doc (JObj d)) \<Rightarrow> Some d | _ \<Rightarrow> None))"

definition has_online_agent_type :: "schema \<Rightarrow> string \<Rightarrow> bool prog" where
  "has_online_agent_type V agent_type = bindp (check_agent_type_online V agent_type True) (\<lambda>r. Ret (fst r))"

definition circuit_rejection :: "intent \<Rightarrow> jdict option \<Rightarrow> availability option" where
  "circuit_rejection i circuit = (case circuit of
       None \<Rightarrow> None
     | Some c \<Rightarrow> if c \<noteq> [] \<and> map upper_char (str_field c ''state'') = ''OPEN''
         then Some (rejected (py_str (py_or (dget0 c ''reason'') (JStr ''agent circuit is open'')))
           ''AGENT_CIRCUIT_OPEN'' (in_execution_id i)) else None)"

definition quota_rejection :: "intent \<Rightarrow> jdict option \<Rightarrow> availability option" where
  "quota_rejection i quota = (case quota of
       None \<Rightarrow> None
     | Some q \<Rightarrow> if dget0 q ''available'' = JBool False
         then Some (rejected (py_str (py_or (dget0 q ''reason'') (JStr ''tenant quota exceeded'')))
           ''TENANT_QUOTA_EXCEEDED'' (in_execution_id i)) else None)"

definition check_control_plane_policy :: "schema \<Rightarrow> intent \<Rightarrow> availability option prog" where
  "check_control_plane_policy V i =
     bindp (read_json_key (control_plane_agent_circuit V (in_target_agent_type i))) (\<lambda>circuit.
     case circuit_rejection i circuit of
       Some r \<Rightarrow> Ret (Some r)
     | None \<Rightarrow> if in_user_code i = [] then Ret None
         else bindp (read_json_key (control_plane_user_quota V (in_user_code i))) (\<lambda>quota.
           Ret (quota_rejection i quota)))"

text \<open>The substitute the control plane configures for an agent type, or the empty string.\<close>

definition fallback_type :: "jdict option \<Rightarrow> string" where
  "fallback_type fallback = (case fallback of
       None \<Rightarrow> []
     | Some f \<Rightarrow> py_text (py_or (dget0 f ''selected_agent_type'')
         (py_or (dget0 f ''agent_type'') (dget0 f ''target_agent_type''))))"

definition resolve_configured_fallback :: "schema \<Rightarrow> intent \<Rightarrow> availability option prog" where
  "resolve_configured_fallback V i =
     bindp (read_json_key (control_plane_agent_fallback V (in_target_agent_type i))) (\<lambda>fallback.
     if fallback_type fallback = [] then Ret None
     else bindp (has_online_agent_type V (fallback_type fallback)) (\<lambda>online.
       Ret (if online then Some (available ''FALLBACK_TO_OTHER_AGENT_TYPE''
              (ctrl_stream V (fallback_type fallback)) (fallback_type fallback) (in_execution_id i)) else None)))"

definition wakeup_of :: "intent \<Rightarrow> wakeup_request" where
  "wakeup_of i =
     \<lparr>wr_execution_id = in_execution_id i, wr_target_agent_type = in_target_agent_type i,
      wr_session_id = in_session_id i, wr_trace_id = in_trace_id i, wr_message_id = in_message_id i,
      wr_source = in_source i, wr_policy = in_policy i, wr_timeout_ms = in_timeout_ms i,
      wr_user_code = in_user_code i, wr_region = in_region i, wr_priority = in_priority i,
      wr_metadata = in_metadata i, wr_command_payload = in_command_payload i\<rparr>"

definition pending_of :: "schema \<Rightarrow> intent \<Rightarrow> pending_delivery" where
  "pending_of V i =
     \<lparr>pd_execution_id = in_execution_id i, pd_message_id = in_message_id i, pd_session_id = in_session_id i,
      pd_trace_id = in_trace_id i, pd_target_agent_type = in_target_agent_type i,
      pd_delivery_stream = ctrl_stream V (in_target_agent_type i), pd_command_payload = in_command_payload i,
      pd_user_code = in_user_code i, pd_region = in_region i, pd_priority = in_priority i,
      pd_metadata = in_metadata i\<rparr>"

definition queue_pending :: "schema \<Rightarrow> intent \<Rightarrow> availability prog" where
  "queue_pending V i =
     bindp (exec_cmd (XAdd (control_plane_delivery_pending_stream V) (pending_payload (pending_of V i)))) (\<lambda>_.
     Ret (available ''QUEUE_PENDING'' (control_plane_delivery_pending_stream V) [] (in_execution_id i)))"

definition wake_and_queue :: "schema \<Rightarrow> intent \<Rightarrow> availability prog" where
  "wake_and_queue V i =
     bindp (exec_cmd (XAdd (control_plane_wakeup_stream V) (wakeup_payload (wakeup_of i)))) (\<lambda>_. queue_pending V i)"

definition unavailable :: "intent \<Rightarrow> availability" where
  "unavailable i = rejected (''No online worker found for agent_type '' @ quoted (in_target_agent_type i))
     ''AGENT_TYPE_UNAVAILABLE'' (in_execution_id i)"

text \<open>The entries of one reply: the last id read, and the decision that ends the wait.\<close>

fun scan_decisions :: "string \<Rightarrow> string \<Rightarrow> (string \<times> rtext option) list \<Rightarrow> exn + string \<times> wakeup_decision option" where
  "scan_decisions execution_id last_id [] = Inr (last_id, None)"
| "scan_decisions execution_id last_id ((entry_id, data) # rest) =
     res_bind (decode_data decision_from_dict data) (\<lambda>d. case d of
       None \<Rightarrow> scan_decisions execution_id entry_id rest
     | Some w \<Rightarrow>
         if wd_execution_id w \<noteq> [] \<and> wd_execution_id w \<noteq> execution_id
         then scan_decisions execution_id entry_id rest
         else if wd_status w \<in> {''STARTING'', ''QUEUED''} then Inr (entry_id, None)
         else Inr (entry_id, Some w))"

text \<open>The loop, with at most \<open>n\<close> rounds; running out of rounds stands for not returning.\<close>

primrec wait_decision :: "nat \<Rightarrow> schema \<Rightarrow> intent \<Rightarrow> int \<Rightarrow> string \<Rightarrow> wakeup_decision option prog" where
  "wait_decision 0 V i deadline last_id = Raise Diverges"
| "wait_decision (Suc n) V i deadline last_id =
     bindp (call Monotonic r_int) (\<lambda>now.
     if deadline - now \<le> 0 then Ret None
     else bindp (xread (control_plane_wakeup_result_stream V (in_execution_id i)) last_id 1 (deadline - now)) (\<lambda>entries.
       if entries = [] then Ret None
       else bindp (lift_res (scan_decisions (in_execution_id i) last_id entries)) (\<lambda>(last_id', found).
         case found of Some w \<Rightarrow> Ret (Some w) | None \<Rightarrow> wait_decision n V i deadline last_id')))"

definition wait_for_wakeup_decision :: "nat \<Rightarrow> schema \<Rightarrow> intent \<Rightarrow> wakeup_decision option prog" where
  "wait_for_wakeup_decision n V i =
     bindp (call Monotonic r_int) (\<lambda>now. wait_decision n V i (now + max (in_timeout_ms i) 0) ''0-0'')"

definition wake_and_wait :: "nat \<Rightarrow> schema \<Rightarrow> intent \<Rightarrow> availability prog" where
  "wake_and_wait n V i =
     bindp (exec_cmd (XAdd (control_plane_wakeup_stream V) (wakeup_payload (wakeup_of i)))) (\<lambda>_.
     bindp (wait_for_wakeup_decision n V i) (\<lambda>decision.
     case decision of
       None \<Rightarrow> Ret (rejected (''Timed out waiting for worker wakeup for agent_type '' @ quoted (in_target_agent_type i))
         ''AGENT_TYPE_UNAVAILABLE'' (in_execution_id i))
     | Some w \<Rightarrow>
         if wd_status w = ''READY'' then
           bindp (has_online_agent_type V (in_target_agent_type i)) (\<lambda>online.
           Ret (if online then available ''WAIT_AND_DELIVER'' (ctrl_stream V (in_target_agent_type i)) [] (in_execution_id i)
                else unavailable i))
         else if wd_status w = ''FALLBACK'' then
           Ret (available ''FALLBACK_TO_OTHER_AGENT_TYPE''
             (if wd_selected_agent_type w \<noteq> [] then ctrl_stream V (wd_selected_agent_type w) else [])
             (wd_selected_agent_type w) (in_execution_id i))
         else Ret (rejected (if wd_reason w \<noteq> [] then wd_reason w
             else ''Wakeup rejected for agent_type '' @ quoted (in_target_agent_type i))
           ''AGENT_TYPE_UNAVAILABLE'' (in_execution_id i))))"

definition prepare_delivery :: "nat \<Rightarrow> schema \<Rightarrow> intent \<Rightarrow> availability prog" where
  "prepare_delivery n V i =
     bindp (check_control_plane_policy V i) (\<lambda>policy_rejection.
     case policy_rejection of
       Some r \<Rightarrow> Ret r
     | None \<Rightarrow>
         if in_policy i = ''SEND_ANYWAY''
         then Ret (available ''DELIVER_NOW'' (ctrl_stream V (in_target_agent_type i)) [] (in_execution_id i))
         else bindp (has_online_agent_type V (in_target_agent_type i)) (\<lambda>online.
           if online
           then Ret (available ''DELIVER_NOW'' (ctrl_stream V (in_target_agent_type i)) [] (in_execution_id i))
           else bindp (resolve_configured_fallback V i) (\<lambda>fallback.
             case fallback of
               Some r \<Rightarrow> Ret r
             | None \<Rightarrow>
                 if in_policy i = ''FAIL_FAST'' then Ret (unavailable i)
                 else if in_policy i = ''WAKE_AND_WAIT'' then wake_and_wait n V i
                 else if in_policy i = ''WAKE_AND_QUEUE'' then wake_and_queue V i
                 else if in_policy i = ''QUEUE_ONLY'' then queue_pending V i
                 else Ret (rejected (''Unsupported offline route policy '' @ quoted (in_policy i))
                   ''AGENT_TYPE_UNAVAILABLE'' (in_execution_id i)))))"

section \<open>Releasing queued deliveries\<close>

fun decode_pendings :: "string \<Rightarrow> (string \<times> rtext option) list \<Rightarrow> exn + pending_delivery list" where
  "decode_pendings execution_id [] = Inr []"
| "decode_pendings execution_id ((entry_id, data) # rest) =
     res_bind (decode_data pending_from_dict data) (\<lambda>p.
     res_bind (decode_pendings execution_id rest) (\<lambda>ps.
     Inr (case p of None \<Rightarrow> ps | Some q \<Rightarrow> if pd_execution_id q = execution_id then q # ps else ps)))"

definition dispatch_ready :: "schema \<Rightarrow> string \<Rightarrow> string \<Rightarrow> nat \<Rightarrow> nat prog" where
  "dispatch_ready V execution_id last_id count =
     bindp (xread (control_plane_delivery_pending_stream V) last_id count 0) (\<lambda>entries.
     bindp (lift_res (decode_pendings execution_id entries)) (\<lambda>pending.
     bindp (for_each (\<lambda>p. exec_cmd (XAdd (pd_delivery_stream p) (Doc (JObj (pd_command_payload p)))))
       (sort_key (\<lambda>p. - pd_priority p) pending)) (\<lambda>_. Ret (length pending))))"

section \<open>The wakeup controller\<close>

record controller =
  wc_dedupe_ttl_seconds :: int
  wc_max_attempts :: nat

definition new_controller :: "int \<Rightarrow> int \<Rightarrow> controller" where
  "new_controller ttl attempts = \<lparr>wc_dedupe_ttl_seconds = ttl, wc_max_attempts = nat (max 1 attempts)\<rparr>"

definition claim_wakeup :: "schema \<Rightarrow> controller \<Rightarrow> wakeup_request \<Rightarrow> bool prog" where
  "claim_wakeup V c r = call (Set
     (control_plane_wakeup_dedupe V (wr_target_agent_type r)
        (if wr_user_code r \<noteq> [] then wr_user_code r else ''_'') (if wr_region r \<noteq> [] then wr_region r else ''_''))
     (Txt (wr_execution_id r)) (Some (wc_dedupe_ttl_seconds c)) True) r_bool"

text \<open>What the provider returns: a decision, or a dictionary.\<close>

type_synonym provider = "wakeup_request \<Rightarrow> (wakeup_decision + jdict) prog"

definition normalize_decision :: "wakeup_decision + jdict \<Rightarrow> wakeup_request \<Rightarrow> exn + wakeup_decision" where
  "normalize_decision raw r = (case raw of
       Inl w \<Rightarrow> Inr (w\<lparr>wd_execution_id := str_or (wd_execution_id w) (wr_execution_id r),
         wd_target_agent_type := str_or (wd_target_agent_type w) (wr_target_agent_type r)\<rparr>)
     | Inr d \<Rightarrow> decision_from_dict (dsetdefault ''target_agent_type'' (JStr (wr_target_agent_type r))
         (dsetdefault ''execution_id'' (JStr (wr_execution_id r)) d)))"

definition plain_decision :: "wakeup_request \<Rightarrow> string \<Rightarrow> string \<Rightarrow> wakeup_decision" where
  "plain_decision r status reason =
     \<lparr>wd_execution_id = wr_execution_id r, wd_target_agent_type = wr_target_agent_type r, wd_status = status,
      wd_selected_agent_type = [], wd_worker_ids = [], wd_region = [], wd_retry_after_ms = JNull, wd_reason = reason\<rparr>"

primrec call_provider :: "provider \<Rightarrow> wakeup_request \<Rightarrow> nat \<Rightarrow> string \<Rightarrow> wakeup_decision prog" where
  "call_provider provider r 0 last_error = Ret (plain_decision r ''FAILED'' last_error)"
| "call_provider provider r (Suc n) last_error =
     bindp (try_exc (bindp (provider r) (\<lambda>raw. Ret (Inr raw))) (\<lambda>e. Ret (Inl (exn_text e)))) (\<lambda>res. case res of
       Inl err \<Rightarrow> call_provider provider r n err
     | Inr raw \<Rightarrow> lift_res (normalize_decision raw r))"

definition handle_request :: "schema \<Rightarrow> controller \<Rightarrow> provider \<Rightarrow> wakeup_request \<Rightarrow> wakeup_decision prog" where
  "handle_request V c provider r =
     bindp (claim_wakeup V c r) (\<lambda>claimed.
     if \<not> claimed then Ret (plain_decision r ''QUEUED'' ''wakeup already in progress'')
     else call_provider provider r (wc_max_attempts c) [])"

definition run_once :: "schema \<Rightarrow> controller \<Rightarrow> provider \<Rightarrow> string \<Rightarrow> int \<Rightarrow> string prog" where
  "run_once V c provider last_id block_ms =
     bindp (xread (control_plane_wakeup_stream V) last_id 1 block_ms) (\<lambda>entries.
     case entries of
       [] \<Rightarrow> Ret last_id
     | (entry_id, data) # rest \<Rightarrow>
         bindp (lift_res (decode_data wakeup_from_dict data)) (\<lambda>request. case request of
           None \<Rightarrow> Ret entry_id
         | Some r \<Rightarrow>
             bindp (handle_request V c provider r) (\<lambda>decision.
             bindp (exec_cmd (XAdd (control_plane_wakeup_result_stream V (wr_execution_id r)) (decision_payload decision))) (\<lambda>_.
             bindp (if wd_status decision = ''FAILED''
                    then exec_cmd (XAdd (control_plane_deadletter_stream V) (decision_payload decision)) else Ret ()) (\<lambda>_.
             Ret entry_id)))))"

section \<open>Where a command goes\<close>

definition type_online :: "schema \<Rightarrow> kspace \<Rightarrow> string \<Rightarrow> bool" where
  "type_online V K agent_type = (\<exists>w \<in> ss K (agent_type_members V agent_type). worker_online V K w)"

text \<open>A step that reads, and its result.\<close>

lemma wp_seq_read:
  "wp p (\<lambda>o' K'. K' = K \<and> o' = Inr a) K \<Longrightarrow> wp (f a) Q K \<Longrightarrow> wp (bindp p f) Q K"
  unfolding wp_bindp by (erule wp_mono) auto

lemma wp_seq_option:
  assumes "wp p (\<lambda>o' K'. K' = K \<and> (\<exists>r. o' = Inr r \<and> (case r of None \<Rightarrow> True | Some a \<Rightarrow> P a))) K"
    and "\<And>a. P a \<Longrightarrow> Q (Inr a) K" and "wp q Q K"
  shows "wp (bindp p (\<lambda>r. case r of None \<Rightarrow> q | Some a \<Rightarrow> Ret a)) Q K"
  unfolding wp_bindp by (rule wp_mono [OF assms(1)]) (use assms(2,3) in \<open>auto split: option.splits\<close>)

lemma has_online_wp: "wp (has_online_agent_type V t) (\<lambda>o' K'. K' = K \<and> o' = Inr (type_online V K t)) K"
  unfolding has_online_agent_type_def wp_bindp
  by (rule wp_mono [OF check_agent_type_online_wp]) (auto simp: type_online_def simp flip: set_empty)

lemma wp_read_json [wp_simps]:
  "wp (read_json_key k) Q K = Q (Inr (case map_option fst (kv K k) of Some (Doc (JObj d)) \<Rightarrow> Some d | _ \<Rightarrow> None)) K"
  by (simp add: read_json_key_def wp_simps)

lemma wp_monotonic: "wp (call Monotonic r_int) Q K = (\<forall>n. Q (Inr n) K)"
  by (auto simp: wp_call)

text \<open>What an answer of the router guarantees.\<close>

definition route_ok :: "schema \<Rightarrow> kspace \<Rightarrow> intent \<Rightarrow> availability \<Rightarrow> bool" where
  "route_ok V K i a =
     (av_execution_id a = in_execution_id i \<and>
      (av_status a \<in> {''DELIVER_NOW'', ''WAIT_AND_DELIVER''} \<longrightarrow>
         av_stream_name a = ctrl_stream V (in_target_agent_type i) \<and>
         (in_policy i = ''SEND_ANYWAY'' \<or> type_online V K (in_target_agent_type i))) \<and>
      (av_status a = ''REJECT'' \<longrightarrow> av_stream_name a = [] \<and> av_error_code a \<noteq> []))"

lemma route_ok_rejected [simp]: "code \<noteq> [] \<Longrightarrow> route_ok V K i (rejected e code (in_execution_id i))"
  by (simp add: route_ok_def rejected_def)

lemma policy_wp: "wp (check_control_plane_policy V i)
    (\<lambda>o' K'. K' = K \<and> (\<exists>r. o' = Inr r \<and> (case r of None \<Rightarrow> True | Some a \<Rightarrow> route_ok V K i a))) K"
  by (auto simp: check_control_plane_policy_def wp_simps circuit_rejection_def quota_rejection_def
      split: option.splits)

lemma fallback_wp: "wp (resolve_configured_fallback V i)
    (\<lambda>o' K'. K' = K \<and> (\<exists>r. o' = Inr r \<and> (case r of None \<Rightarrow> True | Some a \<Rightarrow> route_ok V K i a \<and>
       av_stream_name a = ctrl_stream V (av_selected_agent_type a) \<and> type_online V K (av_selected_agent_type a)))) K"
  by (auto simp: resolve_configured_fallback_def wp_read_json wp_bindp [of "read_json_key _"] available_def route_ok_def
      intro!: wp_seq_read [OF has_online_wp])

lemma wait_decision_wp: "wp (wait_decision n V i deadline last_id) (\<lambda>o' K'. K' = K) K"
  by (induction n arbitrary: last_id)
    (auto simp: wp_simps xread_def wp_lift_res split: sum.splits option.splits)

lemma type_online_xadd [simp]: "type_online V (K\<lparr>strm := x\<rparr>) t = type_online V K t"
  by (simp add: type_online_def worker_online_def)

lemma wake_and_wait_wp: "wp (wake_and_wait n V i) (\<lambda>o' K'. case o' of Inl e \<Rightarrow> True | Inr a \<Rightarrow> route_ok V K i a) K"
proof -
  have "wp (bindp (wait_for_wakeup_decision n V i) f) Q K'"
    if "\<And>d. wp (f d) Q K'" and "\<And>e. Q (Inl e) K'" for f Q K'
  proof -
    have "wp (wait_for_wakeup_decision n V i) (\<lambda>o' K1. K1 = K') K'"
      by (simp add: wait_for_wakeup_decision_def wp_bindp wp_monotonic wait_decision_wp)
    then show ?thesis
      unfolding wp_bindp by (rule wp_mono) (use that in \<open>auto split: sum.splits\<close>)
  qed
  note w = this
  have r: "wp (bindp (has_online_agent_type V t) (\<lambda>online. Ret (if online
        then available ''WAIT_AND_DELIVER'' (ctrl_stream V (in_target_agent_type i)) [] (in_execution_id i) else unavailable i)))
      (\<lambda>o' K'. case o' of Inl e \<Rightarrow> True | Inr a \<Rightarrow> route_ok V K i a) (K\<lparr>strm := x\<rparr>)" if "t = in_target_agent_type i" for t x
    by (rule wp_seq_read [OF has_online_wp]) (simp add: that route_ok_def available_def unavailable_def rejected_def)
  show ?thesis
    unfolding wake_and_wait_def
    by (simp add: wp_bindp [of "exec_cmd _"] wp_exec_cmd, rule w)
      (auto simp: r route_ok_def available_def rejected_def split: option.splits)
qed

lemma prepare_delivery_wp:
  "wp (prepare_delivery n V i) (\<lambda>o' K'. case o' of Inl e \<Rightarrow> True | Inr a \<Rightarrow> route_ok V K i a) K"
proof -
  have direct: "route_ok V K i (available ''DELIVER_NOW'' (ctrl_stream V (in_target_agent_type i)) [] (in_execution_id i))"
    if "in_policy i = ''SEND_ANYWAY'' \<or> type_online V K (in_target_agent_type i)"
    using that by (simp add: route_ok_def available_def)
  have q: "wp (queue_pending V i) (\<lambda>o' K'. case o' of Inl e \<Rightarrow> True | Inr a \<Rightarrow> route_ok V K i a) K1"
    "wp (wake_and_queue V i) (\<lambda>o' K'. case o' of Inl e \<Rightarrow> True | Inr a \<Rightarrow> route_ok V K i a) K1" for K1
    by (simp_all add: queue_pending_def wake_and_queue_def wp_simps route_ok_def available_def)
  show ?thesis
    unfolding prepare_delivery_def
    by (rule wp_seq_option [OF policy_wp])
      (auto simp: direct q wake_and_wait_wp unavailable_def
        intro!: wp_seq_read [OF has_online_wp] wp_seq_option [OF fallback_wp])
qed

text \<open>
  C37: the router offers immediate delivery only on the control stream of the requested
  agent type and, unless the policy is to send anyway, only while a worker that is
  routed for that type holds a live lease; a rejection carries an error code and no
  stream.
\<close>

theorem routes_only_to_online:
  assumes "redis exec view"
  shows "case fst (run exec (prepare_delivery n V i) s) of
     Inl e \<Rightarrow> True | Inr a \<Rightarrow> route_ok V (view s) i a"
  using redis.wp_run [OF assms prepare_delivery_wp [where n = n and V = V and i = i], where s = s] by (auto split: prod.splits)

section \<open>What is queued and what is released\<close>

lemma pending_roundtrip: "decode_data pending_from_dict (Some (pending_payload p)) = Inr (Some p)"
  by (simp add: decode_data_def pending_payload_def pending_from_dict_def get_dict_def dget_def dget0_def
      str_field_def user_code_field_def py_or_def)

lemma decode_pendings_filter:
  "map snd l = map (Some \<circ> pending_payload) ps \<Longrightarrow>
     decode_pendings eid l = Inr (filter (\<lambda>p. pd_execution_id p = eid) ps)"
proof (induction ps arbitrary: l)
  case (Cons p ps)
  then obtain x l' where l: "l = (x, Some (pending_payload p)) # l'" "map snd l' = map (Some \<circ> pending_payload) ps"
    by (cases l) auto
  then show ?case
    using Cons.IH [OF l(2)] by (simp add: pending_roundtrip)
qed simp

lemma wp_xread_start:
  assumes "\<And>l. map snd l = map Some (take n (strm K k)) \<Longrightarrow> l \<noteq> [] \<or> block \<noteq> 0 \<Longrightarrow> Q (Inr l) K"
    and "take n (strm K k) = [] \<Longrightarrow> block = 0 \<Longrightarrow> Q (Inl Diverges) K"
  shows "wp (xread k ''0-0'' n block) Q K"
  using assms by (auto simp: xread_def wp_simps)

text \<open>The deliveries of one execution, the most urgent first.\<close>

definition released :: "string \<Rightarrow> pending_delivery list \<Rightarrow> pending_delivery list" where
  "released eid ps = sort_key (\<lambda>p. - pd_priority p) (filter (\<lambda>p. pd_execution_id p = eid) ps)"

definition deliver :: "pending_delivery list \<Rightarrow> kspace \<Rightarrow> kspace" where
  "deliver ps = fold (\<lambda>p. apply_cmd (XAdd (pd_delivery_stream p) (Doc (JObj (pd_command_payload p))))) ps"

lemma dispatch_ready_wp:
  assumes "strm K (control_plane_delivery_pending_stream V) = map pending_payload ps"
  shows "wp (dispatch_ready V eid ''0-0'' count)
    (\<lambda>o' K'. if take count ps = [] then o' = Inl Diverges \<and> K' = K
       else o' = Inr (length (released eid (take count ps))) \<and> K' = deliver (released eid (take count ps)) K) K"
  unfolding dispatch_ready_def wp_bindp [of "xread _ _ _ _"]
proof (rule wp_xread_start)
  fix l :: "(string \<times> rtext option) list"
  assume l: "map snd l = map Some (take count (strm K (control_plane_delivery_pending_stream V)))"
    and ne: "l \<noteq> [] \<or> (0::int) \<noteq> 0"
  have d: "decode_pendings eid l = Inr (filter (\<lambda>p. pd_execution_id p = eid) (take count ps))"
    using l by (intro decode_pendings_filter) (simp add: assms take_map)
  have "length l = length (take count ps)"
    using arg_cong [OF l, of length] by (simp add: assms)
  then have "take count ps \<noteq> []" using ne by force
  then show "case Inr l of Inl e \<Rightarrow> if take count ps = [] then (Inl e :: exn + nat) = Inl Diverges \<and> K = K
         else (Inl e :: exn + nat) = Inr (length (released eid (take count ps))) \<and> K = deliver (released eid (take count ps)) K
     | Inr entries \<Rightarrow> wp (bindp (lift_res (decode_pendings eid entries)) (\<lambda>pending.
         bindp (for_each (\<lambda>p. exec_cmd (XAdd (pd_delivery_stream p) (Doc (JObj (pd_command_payload p)))))
           (sort_key (\<lambda>p. - pd_priority p) pending)) (\<lambda>_. Ret (length pending))))
       (\<lambda>o' K'. if take count ps = [] then o' = Inl Diverges \<and> K' = K
         else o' = Inr (length (released eid (take count ps))) \<and> K' = deliver (released eid (take count ps)) K) K"
    by (simp add: d wp_bindp wp_lift_res wp_for_each_cmd deliver_def released_def)
qed (simp add: assms)

lemma ctrl_not_pending [simp]:
  "ctrl_stream V t \<noteq> control_plane_delivery_pending_stream V" "control_plane_delivery_pending_stream V \<noteq> ctrl_stream V t"
  by (cases V; simp add: ctrl_stream_def control_plane_delivery_pending_stream_def versioned_def)+

lemma pending_of_simps [simp]:
  "pd_execution_id (pending_of V i) = in_execution_id i"
  "pd_delivery_stream (pending_of V i) = ctrl_stream V (in_target_agent_type i)"
  "pd_command_payload (pending_of V i) = in_command_payload i"
  by (simp_all add: pending_of_def)

lemma queue_release_wp:
  assumes "strm K (control_plane_delivery_pending_stream V) = map pending_payload others"
    and "\<forall>p \<in> set others. pd_execution_id p \<noteq> in_execution_id i"
  shows "wp (bindp (queue_pending V i) (\<lambda>_. dispatch_ready V (in_execution_id i) ''0-0'' count))
    (\<lambda>o' K'.
       (length others < count \<longrightarrow> o' = Inr 1 \<and> strm K' (ctrl_stream V (in_target_agent_type i)) =
          strm K (ctrl_stream V (in_target_agent_type i)) @ [Doc (JObj (in_command_payload i))]) \<and>
       (0 < count \<and> count \<le> length others \<longrightarrow> o' = Inr 0 \<and> strm K' (ctrl_stream V (in_target_agent_type i)) =
          strm K (ctrl_stream V (in_target_agent_type i)))) K"
proof -
  let ?K = "apply_cmd (XAdd (control_plane_delivery_pending_stream V) (pending_payload (pending_of V i))) K"
  let ?ps = "others @ [pending_of V i]"
  have s: "strm ?K (control_plane_delivery_pending_stream V) = map pending_payload ?ps" by (simp add: assms(1))
  have none: "filter (\<lambda>p. pd_execution_id p = in_execution_id i) (take n others) = []" for n
    using assms(2) by (auto simp: filter_empty_conv dest: in_set_takeD)
  have full: "released (in_execution_id i) (others @ [pending_of V i]) = [pending_of V i]"
    using none [of "length others"] by (simp add: released_def)
  have window: "released (in_execution_id i) (take count others) = []"
    using none by (simp add: released_def)
  have "wp (dispatch_ready V (in_execution_id i) ''0-0'' count) (\<lambda>o' K'.
       (length others < count \<longrightarrow> o' = Inr 1 \<and> strm K' (ctrl_stream V (in_target_agent_type i)) =
          strm K (ctrl_stream V (in_target_agent_type i)) @ [Doc (JObj (in_command_payload i))]) \<and>
       (0 < count \<and> count \<le> length others \<longrightarrow> o' = Inr 0 \<and> strm K' (ctrl_stream V (in_target_agent_type i)) =
          strm K (ctrl_stream V (in_target_agent_type i)))) ?K"
    by (rule wp_mono [OF dispatch_ready_wp [OF s]])
      (auto simp: full window deliver_def split: if_splits)
  then show ?thesis by (simp add: wp_bindp queue_pending_def wp_exec_cmd)
qed

text \<open>
  A delivery that is queued is released, once and to the control stream of its agent
  type, by the gate's next pass, provided fewer than \<open>count\<close> deliveries of other
  executions stand before it; behind a full window of \<open>count\<close> others the gate releases
  nothing, and as nothing ever leaves the queue no later pass from its start will.
\<close>

theorem queued_delivery_released:
  assumes "redis exec view" and "strm (view s) (control_plane_delivery_pending_stream V) = map pending_payload others"
    and "\<forall>p \<in> set others. pd_execution_id p \<noteq> in_execution_id i"
  shows "case run exec (bindp (queue_pending V i) (\<lambda>_. dispatch_ready V (in_execution_id i) ''0-0'' count)) s of (res, u) \<Rightarrow>
     (length others < count \<longrightarrow> res = Inr 1 \<and> strm (view u) (ctrl_stream V (in_target_agent_type i)) =
        strm (view s) (ctrl_stream V (in_target_agent_type i)) @ [Doc (JObj (in_command_payload i))]) \<and>
     (0 < count \<and> count \<le> length others \<longrightarrow> res = Inr 0 \<and> strm (view u) (ctrl_stream V (in_target_agent_type i)) =
        strm (view s) (ctrl_stream V (in_target_agent_type i)))"
  by (rule redis.wp_run [OF assms(1) queue_release_wp [OF assms(2,3)]])

text \<open>With nothing queued the gate never returns: its read blocks without a limit.\<close>

lemma dispatch_ready_empty_hangs:
  assumes "redis exec view" and "strm (view s) (control_plane_delivery_pending_stream V) = []"
  shows "fst (run exec (dispatch_ready V eid ''0-0'' count) s) = Inl Diverges"
proof -
  have "strm (view s) (control_plane_delivery_pending_stream V) = map pending_payload []" using assms(2) by simp
  from redis.wp_run [OF assms(1) dispatch_ready_wp [where eid = eid and count = count, OF this]] show ?thesis
    by (auto split: prod.splits)
qed

section \<open>The wait for a decision ends\<close>

text \<open>A clock that advances by a millisecond or more whenever the server is asked.\<close>

lemma decode_decision_ne: "decode_data decision_from_dict data \<noteq> Inl Diverges"
proof -
  have "to_list v \<noteq> Inl Diverges" for v by (cases v) auto
  then have "decision_from_dict d \<noteq> Inl Diverges" for d
    unfolding decision_from_dict_def by (cases "to_list (dget d ''worker_ids'' (JList []))") auto
  moreover have "as_dict v \<noteq> Inl Diverges" for v by (cases v) auto
  ultimately have "res_bind (as_dict v) decision_from_dict \<noteq> Inl Diverges" for v
    by (cases "as_dict v") auto
  then have "res_bind (res_bind (as_dict v) decision_from_dict) (\<lambda>x. Inr (Some x)) \<noteq> Inl Diverges" for v
    by (cases "res_bind (as_dict v) decision_from_dict") auto
  then show ?thesis by (simp add: decode_data_def split: option.splits rtext.splits)
qed

lemma scan_ne: "scan_decisions eid last_id l \<noteq> Inl Diverges"
proof (induction l arbitrary: last_id)
  case (Cons p l)
  obtain x data where p: "p = (x, data)" by (cases p)
  show ?case
    using decode_decision_ne [of data] Cons
    by (cases "decode_data decision_from_dict data") (auto simp: p split: option.splits)
qed simp

lemma wait_decision_ends:
  assumes "\<And>s. fst (X Monotonic s) = RInt (clk s)" and tick: "\<And>c s. clk s + 1 \<le> clk (snd (X c s))"
    and "max 0 (deadline - clk s) < int n"
  shows "fst (run X (wait_decision n V i deadline last_id) s) \<noteq> Inl Diverges"
  using assms(3)
proof (induction n arbitrary: s last_id)
  case (Suc n)
  let ?k = "control_plane_wakeup_result_stream V (in_execution_id i)"
  let ?s1 = "snd (X Monotonic s)"
  let ?s2 = "snd (X (XRead ?k last_id 1) ?s1)"
  have IH: "fst (run X (wait_decision n V i deadline l) ?s2) \<noteq> Inl Diverges" if "0 < deadline - clk s" for l
    using that Suc.prems tick [of s Monotonic] tick [of ?s1 "XRead ?k last_id 1"] by (intro Suc.IH) linarith
  have "scan_decisions (in_execution_id i) last_id l \<noteq> Inl Diverges" for l by (rule scan_ne)
  with IH show ?case
    by (auto simp: call_def assms(1) xread_def run_bindp lift_res_def not_le
        split: reply.splits sum.splits prod.splits option.splits)
qed simp

text \<open>
  Waiting for a wakeup decision ends: on a clock that advances by at least a
  millisecond per request, any number of rounds above the timeout in milliseconds is
  enough, whatever the server answers.
\<close>

theorem wakeup_wait_ends:
  assumes "\<And>s. fst (X Monotonic s) = RInt (clk s)" and "\<And>c s. clk s + 1 \<le> clk (snd (X c s))"
    and "max 0 (in_timeout_ms i) < int n"
  shows "fst (run X (wait_for_wakeup_decision n V i) s) \<noteq> Inl Diverges"
proof -
  have "max 0 (clk s + max (in_timeout_ms i) 0 - clk (snd (X Monotonic s))) < int n"
    using assms(2) [of s Monotonic] assms(3) by linarith
  then have "fst (run X (wait_decision n V i (clk s + max (in_timeout_ms i) 0) ''0-0'') (snd (X Monotonic s))) \<noteq> Inl Diverges"
    by (rule wait_decision_ends [where X = X and clk = clk, OF assms(1,2)])
  then show ?thesis
    by (simp add: wait_for_wakeup_decision_def call_def assms(1))
qed

section \<open>One wakeup at a time\<close>

lemma claimed_twice:
  "wp (bindp (claim_wakeup V c r) (\<lambda>_. handle_request V c provider r'))
     (\<lambda>o' K'. o' = Inr (plain_decision r' ''QUEUED'' ''wakeup already in progress'')) K"
  if "control_plane_wakeup_dedupe V (wr_target_agent_type r)
        (if wr_user_code r \<noteq> [] then wr_user_code r else ''_'') (if wr_region r \<noteq> [] then wr_region r else ''_'') =
      control_plane_wakeup_dedupe V (wr_target_agent_type r')
        (if wr_user_code r' \<noteq> [] then wr_user_code r' else ''_'') (if wr_region r' \<noteq> [] then wr_region r' else ''_'')"
  using that by (auto simp: claim_wakeup_def handle_request_def wp_simps)

text \<open>
  While a wakeup for an agent type, user and region is in progress, a second request
  for the same three is answered as queued and the provider is not called; as the key
  joins the three with colons, so is one for a different agent type whose name the
  user code completes.
\<close>

theorem wakeup_in_progress_is_queued:
  assumes "redis exec view"
    and "wr_target_agent_type r @ '':'' @ wr_user_code r @ '':'' @ wr_region r =
       wr_target_agent_type r' @ '':'' @ wr_user_code r' @ '':'' @ wr_region r'"
    and "wr_user_code r \<noteq> []" "wr_region r \<noteq> []" "wr_user_code r' \<noteq> []" "wr_region r' \<noteq> []"
  shows "fst (run exec (bindp (claim_wakeup V c r) (\<lambda>_. handle_request V c provider r')) s) =
    Inr (plain_decision r' ''QUEUED'' ''wakeup already in progress'')"
proof -
  have "control_plane_wakeup_dedupe V (wr_target_agent_type r) (wr_user_code r) (wr_region r) =
      control_plane_wakeup_dedupe V (wr_target_agent_type r') (wr_user_code r') (wr_region r')"
    using assms(2) by (cases V) (simp_all add: control_plane_wakeup_dedupe_def versioned_def)
  then have "wp (bindp (claim_wakeup V c r) (\<lambda>_. handle_request V c provider r'))
     (\<lambda>o' K'. o' = Inr (plain_decision r' ''QUEUED'' ''wakeup already in progress'')) (view s)"
    using assms(3-6) by (intro claimed_twice) simp
  from redis.wp_run [OF assms(1) this] show ?thesis by (auto split: prod.splits)
qed

section \<open>The properties at a concrete server\<close>

definition demo_intent :: intent where
  "demo_intent = \<lparr>in_execution_id = ''e'', in_message_id = ''m'', in_session_id = ''s'', in_trace_id = ''t'',
     in_source = ''planner'', in_target_agent_type = ''coder'', in_user_code = [], in_region = [], in_priority = 0,
     in_policy = ''QUEUE_ONLY'', in_timeout_ms = 5, in_command_payload = [(''k'', JInt 1)], in_metadata = []\<rparr>"

theorem routes_only_to_online_witness:
  "case fst (run ref_exec (prepare_delivery 3 V1 demo_intent) empty_server) of
     Inl e \<Rightarrow> True | Inr a \<Rightarrow> route_ok V1 (rview empty_server) demo_intent a"
  by (rule routes_only_to_online [OF ref.redis_axioms])

theorem queued_delivery_released_witness:
  "\<exists>u. run ref_exec (bindp (queue_pending V1 demo_intent) (\<lambda>_. dispatch_ready V1 ''e'' ''0-0'' 100)) empty_server = (Inr 1, u) \<and>
     strm (rview u) (ctrl_stream V1 ''coder'') = [Doc (JObj [(''k'', JInt 1)])]"
proof -
  have e: "strm (rview empty_server) k = []" for k by (simp add: empty_server_def rview_def look_def)
  show ?thesis
    using queued_delivery_released [OF ref.redis_axioms, where s = empty_server and V = V1 and i = demo_intent
        and others = "[]" and count = 100] e
    by (cases "run ref_exec (bindp (queue_pending V1 demo_intent) (\<lambda>_. dispatch_ready V1 ''e'' ''0-0'' 100)) empty_server")
      (simp add: demo_intent_def)
qed

definition ticking :: "cmd \<Rightarrow> int \<Rightarrow> reply \<times> int" where
  "ticking c s = (if c = Monotonic then RInt s else ROk, s + 1)"

theorem wakeup_wait_ends_witness:
  "fst (run ticking (wait_for_wakeup_decision 6 V1 demo_intent) 0) \<noteq> Inl Diverges"
  by (rule wakeup_wait_ends [where clk = id]) (simp_all add: ticking_def demo_intent_def)

theorem wakeup_in_progress_is_queued_witness:
  "\<exists>r r'. wr_target_agent_type r \<noteq> wr_target_agent_type r' \<and>
     fst (run ref_exec (bindp (claim_wakeup V1 (new_controller 30 1) r)
       (\<lambda>_. handle_request V1 (new_controller 30 1) (\<lambda>_. Raise (RuntimeError [])) r')) empty_server) =
     Inr (plain_decision r' ''QUEUED'' ''wakeup already in progress'')"
proof -
  let ?r = "(wakeup_of demo_intent)\<lparr>wr_target_agent_type := ''a'', wr_user_code := ''b:c'', wr_region := ''d''\<rparr>"
  let ?r' = "(wakeup_of demo_intent)\<lparr>wr_target_agent_type := ''a:b'', wr_user_code := ''c'', wr_region := ''d''\<rparr>"
  have "fst (run ref_exec (bindp (claim_wakeup V1 (new_controller 30 1) ?r)
       (\<lambda>_. handle_request V1 (new_controller 30 1) (\<lambda>_. Raise (RuntimeError [])) ?r')) empty_server) =
     Inr (plain_decision ?r' ''QUEUED'' ''wakeup already in progress'')"
    by (rule wakeup_in_progress_is_queued [OF ref.redis_axioms]) simp_all
  moreover have "wr_target_agent_type ?r \<noteq> wr_target_agent_type ?r'" by simp
  ultimately show ?thesis by blast
qed

end
