(* ===== verification/Coroutine.thy ===== *)
theory Coroutine
  imports Redis
begin

text \<open>
  Coroutines that also change an object: a method of an object of type \<open>'c\<close> takes the
  object and, when it ends, leaves its result or exception together with the object as
  it then is, so that what a raising method has already changed stays changed.
\<close>

type_synonym ('c, 'a) act = "'c \<Rightarrow> ((exn + 'a) \<times> 'c) prog"

definition a_ret :: "'a \<Rightarrow> ('c, 'a) act" where
  "a_ret a c = Ret (Inr a, c)"

definition a_raise :: "exn \<Rightarrow> ('c, 'a) act" where
  "a_raise e c = Ret (Inl e, c)"

definition a_bind :: "('c, 'a) act \<Rightarrow> ('a \<Rightarrow> ('c, 'b) act) \<Rightarrow> ('c, 'b) act" where
  "a_bind m f c = bindp (m c) (\<lambda>(r, c'). case r of Inl e \<Rightarrow> Ret (Inl e, c') | Inr a \<Rightarrow> f a c')"

text \<open>The outcome of a program as a value; a loop that never ends stays one.\<close>

definition attempt :: "'a prog \<Rightarrow> (exn + 'a) prog" where
  "attempt p = catch (bindp p (\<lambda>a. Ret (Inr a))) (\<lambda>e. Ret (Inl e))"

definition a_lift :: "'a prog \<Rightarrow> ('c, 'a) act" where
  "a_lift p c = bindp (attempt p) (\<lambda>r. Ret (r, c))"

definition a_get :: "('c \<Rightarrow> 'a) \<Rightarrow> ('c, 'a) act" where
  "a_get f c = Ret (Inr (f c), c)"

definition a_set :: "('c \<Rightarrow> 'c) \<Rightarrow> ('c, unit) act" where
  "a_set f c = Ret (Inr (), f c)"

text \<open>\<open>except Exception as e\<close>, and \<open>except BaseException as e\<close>.\<close>

definition a_except :: "('c, 'a) act \<Rightarrow> (exn \<Rightarrow> ('c, 'a) act) \<Rightarrow> ('c, 'a) act" where
  "a_except m h c = bindp (m c) (\<lambda>(r, c'). case r of
     Inl e \<Rightarrow> (case e of CancelledError t \<Rightarrow> Ret (Inl e, c') | _ \<Rightarrow> h e c') | Inr a \<Rightarrow> Ret (Inr a, c'))"

definition a_catch :: "('c, 'a) act \<Rightarrow> (exn \<Rightarrow> ('c, 'a) act) \<Rightarrow> ('c, 'a) act" where
  "a_catch m h c = bindp (m c) (\<lambda>(r, c'). case r of Inl e \<Rightarrow> h e c' | Inr a \<Rightarrow> Ret (Inr a, c'))"

text \<open>\<open>try: m finally: q\<close>.\<close>

definition a_finally :: "('c, 'a) act \<Rightarrow> ('c, unit) act \<Rightarrow> ('c, 'a) act" where
  "a_finally m q c = bindp (m c) (\<lambda>(r, c'). bindp (q c') (\<lambda>(u, c''). case u of
     Inl e \<Rightarrow> Ret (Inl e, c'') | Inr _ \<Rightarrow> Ret (r, c'')))"

primrec a_for :: "('x \<Rightarrow> ('c, 'a) act) \<Rightarrow> 'x list \<Rightarrow> ('c, 'a list) act" where
  "a_for f [] = a_ret []"
| "a_for f (x # xs) = a_bind (f x) (\<lambda>a. a_bind (a_for f xs) (\<lambda>as. a_ret (a # as)))"

definition a_seq :: "('c, unit) act \<Rightarrow> ('c, 'a) act \<Rightarrow> ('c, 'a) act" where
  "a_seq m n = a_bind m (\<lambda>_. n)"

text \<open>\<open>if b: m\<close>.\<close>

definition a_when :: "bool \<Rightarrow> ('c, unit) act \<Rightarrow> ('c, unit) act" where
  "a_when b m = (if b then m else a_ret ())"

text \<open>A step that depends on the object as it is.\<close>

definition a_with :: "('c \<Rightarrow> ('c, 'a) act) \<Rightarrow> ('c, 'a) act" where
  "a_with f c = f c c"

text \<open>A method of an object held in a field.\<close>

definition a_zoom :: "('c \<Rightarrow> 'd) \<Rightarrow> ('d \<Rightarrow> 'c \<Rightarrow> 'c) \<Rightarrow> ('d, 'a) act \<Rightarrow> ('c, 'a) act" where
  "a_zoom field put m c = bindp (m (field c)) (\<lambda>(r, d). Ret (r, put d c))"

section \<open>Weakest preconditions\<close>

definition awp :: "('c, 'a) act \<Rightarrow> (exn + 'a \<Rightarrow> 'c \<Rightarrow> kspace \<Rightarrow> bool) \<Rightarrow> (kspace \<Rightarrow> bool) \<Rightarrow> 'c \<Rightarrow> kspace \<Rightarrow> bool" where
  "awp m Q D c K = wp (m c) (\<lambda>o' K'. case o' of Inr (r, c') \<Rightarrow> Q r c' K' | Inl e \<Rightarrow> D K') K"

named_theorems awp_simps "weakest preconditions of methods"

lemma wp_attempt: "wp (attempt p) Q K =
    wp p (\<lambda>o' K'. if o' = Inl Diverges then Q (Inl Diverges) K' else Q (Inr o') K') K"
  by (induction p arbitrary: K) (auto simp: attempt_def)

lemma awp_basic [awp_simps]:
  "awp (a_ret a) P D c K = P (Inr a) c K"
  "awp (a_raise e) Q D c K = Q (Inl e) c K"
  "awp (a_get f) R D c K = R (Inr (f c)) c K"
  "awp (a_set g) S D c K = S (Inr ()) (g c) K"
  by (simp_all add: awp_def a_ret_def a_raise_def a_get_def a_set_def)

lemma awp_bind [awp_simps]:
  "awp (a_bind m f) Q D c K = awp m (\<lambda>r c' K'. case r of Inl e \<Rightarrow> Q (Inl e) c' K' | Inr a \<Rightarrow> awp (f a) Q D c' K') D c K"
  unfolding awp_def a_bind_def wp_bindp
  by (intro arg_cong [where f = "\<lambda>R. wp (m c) R K"] ext) (auto split: sum.splits prod.splits)

lemma awp_lift [awp_simps]:
  "awp (a_lift p) Q D c K = wp p (\<lambda>o' K'. if o' = Inl Diverges then D K' else Q o' c K') K"
  unfolding awp_def a_lift_def wp_bindp wp_attempt
  by (intro arg_cong [where f = "\<lambda>R. wp p R K"] ext) (auto split: sum.splits)

lemma awp_except [awp_simps]:
  "awp (a_except m h) Q D c K = awp m (\<lambda>r c' K'. case r of
     Inl e \<Rightarrow> (case e of CancelledError t \<Rightarrow> Q (Inl e) c' K' | _ \<Rightarrow> awp (h e) Q D c' K') | Inr a \<Rightarrow> Q (Inr a) c' K') D c K"
  unfolding awp_def a_except_def wp_bindp
  by (intro arg_cong [where f = "\<lambda>R. wp (m c) R K"] ext) (auto split: sum.splits prod.splits exn.splits)

lemma awp_catch [awp_simps]:
  "awp (a_catch m h) Q D c K = awp m (\<lambda>r c' K'. case r of Inl e \<Rightarrow> awp (h e) Q D c' K' | Inr a \<Rightarrow> Q (Inr a) c' K') D c K"
  unfolding awp_def a_catch_def wp_bindp
  by (intro arg_cong [where f = "\<lambda>R. wp (m c) R K"] ext) (auto split: sum.splits prod.splits)

lemma awp_finally [awp_simps]:
  "awp (a_finally m q) Q D c K = awp m (\<lambda>r c' K'. awp q (\<lambda>u c'' K''. case u of
     Inl e \<Rightarrow> Q (Inl e) c'' K'' | Inr _ \<Rightarrow> Q r c'' K'') D c' K') D c K"
proof -
  have inner: "wp (bindp (q c') (\<lambda>(u, c''). case u of Inl e \<Rightarrow> Ret (Inl e, c'') | Inr _ \<Rightarrow> Ret (r, c'')))
      (\<lambda>o' K'. case o' of Inr (r, c') \<Rightarrow> Q r c' K' | Inl e \<Rightarrow> D K') K'
    = wp (q c') (\<lambda>o' K'. case o' of Inr (u, c'') \<Rightarrow> (case u of Inl e \<Rightarrow> Q (Inl e) c'' K' | Inr _ \<Rightarrow> Q r c'' K')
        | Inl e \<Rightarrow> D K') K'" for r c' K'
    unfolding wp_bindp
    by (intro arg_cong [where f = "\<lambda>R. wp (q c') R K'"] ext) (auto split: sum.splits prod.splits)
  show ?thesis
    unfolding awp_def a_finally_def wp_bindp
    by (intro arg_cong [where f = "\<lambda>R. wp (m c) R K"] ext)
      (auto simp: inner [unfolded wp_bindp] wp_bindp split: sum.splits prod.splits)
qed

lemma awp_seq [awp_simps]:
  "awp (a_seq m n) Q D c K = awp m (\<lambda>r c' K'. case r of Inl e \<Rightarrow> Q (Inl e) c' K' | Inr _ \<Rightarrow> awp n Q D c' K') D c K"
  by (simp add: a_seq_def awp_bind)

lemma awp_with [awp_simps]: "awp (a_with f) Q D c K = awp (f c) Q D c K"
  by (simp add: awp_def a_with_def)

lemma awp_when [awp_simps]: "awp (a_when b m) Q D c K = (if b then awp m Q D c K else Q (Inr ()) c K)"
  by (simp add: a_when_def awp_basic)

lemma awp_zoom [awp_simps]:
  "awp (a_zoom field put m) Q D c K = awp m (\<lambda>r d K'. Q r (put d c) K') D (field c) K"
  unfolding awp_def a_zoom_def wp_bindp
  by (intro arg_cong [where f = "\<lambda>R. wp (m (field c)) R K"] ext) (auto split: sum.splits prod.splits)

lemma awp_mono:
  "awp m Q D c K \<Longrightarrow> (\<And>r c' K'. Q r c' K' \<Longrightarrow> R r c' K') \<Longrightarrow> (\<And>K'. D K' \<Longrightarrow> E K') \<Longrightarrow> awp m R E c K"
  unfolding awp_def by (erule wp_mono) (auto split: sum.splits)

lemma awp_if [awp_simps]: "awp (if b then m else n) Q D c K = (if b then awp m Q D c K else awp n Q D c K)"
  by simp

lemma only_attempt [simp]: "only P (attempt p) = only P p"
  by (induction p) (auto simp: attempt_def)

lemma only_bindp_ret [simp]: "only P (bindp q (\<lambda>r. Ret (g r))) = only P q"
  by (induction q) auto

section \<open>Whatever the server replies\<close>

text \<open>\<open>outs R p\<close>: on any server at all, \<open>p\<close> ends in an outcome in \<open>R\<close>.\<close>

primrec outs :: "(exn + 'a \<Rightarrow> bool) \<Rightarrow> 'a prog \<Rightarrow> bool" where
  "outs R (Ret a) = R (Inr a)"
| "outs R (Raise e) = R (Inl e)"
| "outs R (Do c k) = (\<forall>r. outs R (k r))"

lemma outs_run: "outs R p \<Longrightarrow> R (fst (run X p s))"
  by (induction p arbitrary: s) auto

lemma outs_mono: "outs R p \<Longrightarrow> (\<And>o'. R o' \<Longrightarrow> S o') \<Longrightarrow> outs S p"
  by (induction p) auto

lemma outs_True [simp]: "outs (\<lambda>_. True) p"
  by (induction p) auto

lemma outs_conj: "outs R p \<Longrightarrow> outs S p \<Longrightarrow> outs (\<lambda>o'. R o' \<and> S o') p"
  by (induction p) auto

lemma outs_bindp: "outs R (bindp p f) = outs (\<lambda>o'. case o' of Inl e \<Rightarrow> R (Inl e) | Inr a \<Rightarrow> outs R (f a)) p"
  by (induction p) auto

lemma outs_catch: "outs R (catch p h) =
    outs (\<lambda>o'. case o' of Inl e \<Rightarrow> if e = Diverges then R (Inl e) else outs R (h e) | Inr a \<Rightarrow> R (Inr a)) p"
  by (induction p) auto

definition aouts :: "(exn + 'a \<Rightarrow> 'c \<Rightarrow> bool) \<Rightarrow> ('c, 'a) act \<Rightarrow> 'c \<Rightarrow> bool" where
  "aouts Q m c = outs (\<lambda>o'. case o' of Inl e \<Rightarrow> e = Diverges | Inr (r, c') \<Rightarrow> Q r c') (m c)"

named_theorems aouts_simps "what a method can end in on any server"

lemma aouts_basic [aouts_simps]:
  "aouts P (a_ret a) c = P (Inr a) c"
  "aouts Q (a_raise e) c = Q (Inl e) c"
  "aouts R (a_get f) c = R (Inr (f c)) c"
  "aouts S (a_set g) c = S (Inr ()) (g c)"
  by (simp_all add: aouts_def a_ret_def a_raise_def a_get_def a_set_def)

lemma aouts_bind [aouts_simps]:
  "aouts Q (a_bind m f) c = aouts (\<lambda>r c'. case r of Inl e \<Rightarrow> Q (Inl e) c' | Inr a \<Rightarrow> aouts Q (f a) c') m c"
  unfolding aouts_def a_bind_def outs_bindp
  by (intro arg_cong [where f = "\<lambda>R. outs R (m c)"] ext) (auto split: sum.splits prod.splits)

lemma aouts_except [aouts_simps]:
  "aouts Q (a_except m h) c = aouts (\<lambda>r c'. case r of
     Inl e \<Rightarrow> (case e of CancelledError t \<Rightarrow> Q (Inl e) c' | _ \<Rightarrow> aouts Q (h e) c') | Inr a \<Rightarrow> Q (Inr a) c') m c"
  unfolding aouts_def a_except_def outs_bindp
  by (intro arg_cong [where f = "\<lambda>R. outs R (m c)"] ext) (auto split: sum.splits prod.splits exn.splits)

lemma aouts_catch [aouts_simps]:
  "aouts Q (a_catch m h) c = aouts (\<lambda>r c'. case r of Inl e \<Rightarrow> aouts Q (h e) c' | Inr a \<Rightarrow> Q (Inr a) c') m c"
  unfolding aouts_def a_catch_def outs_bindp
  by (intro arg_cong [where f = "\<lambda>R. outs R (m c)"] ext) (auto split: sum.splits prod.splits)

lemma aouts_finally [aouts_simps]:
  "aouts Q (a_finally m q) c = aouts (\<lambda>r c'. aouts (\<lambda>u c''. case u of
     Inl e \<Rightarrow> Q (Inl e) c'' | Inr _ \<Rightarrow> Q r c'') q c') m c"
proof -
  have inner: "outs (\<lambda>o'. case o' of Inl e \<Rightarrow> e = Diverges | Inr (r, c') \<Rightarrow> Q r c')
      (bindp (q c') (\<lambda>(u, c''). case u of Inl e \<Rightarrow> Ret (Inl e, c'') | Inr _ \<Rightarrow> Ret (r, c'')))
    = outs (\<lambda>o'. case o' of Inl e \<Rightarrow> e = Diverges
        | Inr (u, c'') \<Rightarrow> (case u of Inl e \<Rightarrow> Q (Inl e) c'' | Inr _ \<Rightarrow> Q r c'')) (q c')" for r c'
    unfolding outs_bindp
    by (intro arg_cong [where f = "\<lambda>R. outs R (q c')"] ext) (auto split: sum.splits prod.splits)
  show ?thesis
    unfolding aouts_def a_finally_def outs_bindp [of _ "m c"]
    by (intro arg_cong [where f = "\<lambda>R. outs R (m c)"] ext) (auto simp: inner split: sum.splits prod.splits)
qed

lemma aouts_seq [aouts_simps]:
  "aouts Q (a_seq m n) c = aouts (\<lambda>r c'. case r of Inl e \<Rightarrow> Q (Inl e) c' | Inr _ \<Rightarrow> aouts Q n c') m c"
  by (simp add: a_seq_def aouts_bind)

lemma aouts_with [aouts_simps]: "aouts Q (a_with f) c = aouts Q (f c) c"
  by (simp add: aouts_def a_with_def)

lemma aouts_when [aouts_simps]: "aouts Q (a_when b m) c = (if b then aouts Q m c else Q (Inr ()) c)"
  by (simp add: a_when_def aouts_basic)

lemma aouts_zoom [aouts_simps]:
  "aouts Q (a_zoom field put m) c = aouts (\<lambda>r d. Q r (put d c)) m (field c)"
  unfolding aouts_def a_zoom_def outs_bindp
  by (intro arg_cong [where f = "\<lambda>R. outs R (m (field c))"] ext) (auto split: sum.splits prod.splits)

lemma aouts_lift [aouts_simps]:
  "aouts Q (a_lift p) c = outs (\<lambda>o'. o' = Inl Diverges \<or> Q o' c) p"
proof -
  have "outs R (attempt p) = outs (\<lambda>o'. if o' = Inl Diverges then R (Inl Diverges) else R (Inr o')) p" for R
    by (induction p) (auto simp: attempt_def)
  then show ?thesis
    unfolding aouts_def a_lift_def outs_bindp
    by simp (intro arg_cong [where f = "\<lambda>R. outs R p"] ext, auto split: sum.splits)
qed

lemma aouts_if [aouts_simps]: "aouts Q (if b then m else n) c = (if b then aouts Q m c else aouts Q n c)"
  by simp

lemma aouts_mono: "aouts Q m c \<Longrightarrow> (\<And>r c'. Q r c' \<Longrightarrow> R r c') \<Longrightarrow> aouts R m c"
  unfolding aouts_def by (erule outs_mono) (auto split: sum.splits prod.splits)

text \<open>An invariant of the object that every round keeps, and no round raises.\<close>

lemma aouts_for:
  assumes "\<And>x c. x \<in> set xs \<Longrightarrow> I c \<Longrightarrow> aouts (\<lambda>r c'. I c' \<and> E r) (f x) c" and "I c"
    and "\<And>e. E (Inl e) \<Longrightarrow> F e"
  shows "aouts (\<lambda>r c'. I c' \<and> (case r of Inl e \<Rightarrow> F e | Inr _ \<Rightarrow> True)) (a_for f xs) c"
  using assms(1,2)
proof (induction xs arbitrary: c)
  case (Cons x xs)
  show ?case
    unfolding a_for.simps aouts_bind
  proof (rule aouts_mono [OF Cons.prems(1) [OF _ Cons.prems(2)]])
    fix r c' assume r: "I c' \<and> E r"
    show "case r of Inl e \<Rightarrow> I c' \<and> (case Inl e of Inl e \<Rightarrow> F e | Inr _ \<Rightarrow> True)
      | Inr a \<Rightarrow> aouts (\<lambda>r c'. case r of Inl e \<Rightarrow> I c' \<and> (case Inl e of Inl e \<Rightarrow> F e | Inr _ \<Rightarrow> True)
          | Inr as \<Rightarrow> aouts (\<lambda>r c'. I c' \<and> (case r of Inl e \<Rightarrow> F e | Inr _ \<Rightarrow> True)) (a_ret (a # as)) c')
          (a_for f xs) c'"
    proof (cases r)
      case (Inr a)
      have "aouts (\<lambda>r c'. I c' \<and> (case r of Inl e \<Rightarrow> F e | Inr _ \<Rightarrow> True)) (a_for f xs) c'"
        by (rule Cons.IH) (use Cons.prems r in auto)
      then show ?thesis
        unfolding Inr sum.case by (rule aouts_mono) (auto simp: aouts_basic split: sum.splits)
    qed (use r assms(3) in auto)
  qed simp
qed (simp add: aouts_simps)

lemma aouts_run:
  "aouts Q m c \<Longrightarrow> (case fst (run X (m c) s) of Inl e \<Rightarrow> e = Diverges | Inr (r, c') \<Rightarrow> Q r c')"
  unfolding aouts_def by (drule outs_run [where X = X and s = s]) (auto split: sum.splits)

section \<open>On one server\<close>

lemma run_a_bind:
  "run X (a_bind m f c) s = (case run X (m c) s of
     (Inl e, t) \<Rightarrow> (Inl e, t) | (Inr (r, c'), t) \<Rightarrow> (case r of Inl e \<Rightarrow> (Inr (Inl e, c'), t) | Inr a \<Rightarrow> run X (f a c') t))"
  by (auto simp: a_bind_def run_bindp split: sum.splits prod.splits)

text \<open>\<open>arun X m Q c s\<close>: on the server \<open>X\<close> from \<open>s\<close>, \<open>m\<close> ends, in a result, object and server in \<open>Q\<close>.\<close>

definition arun ::
  "(cmd \<Rightarrow> 's \<Rightarrow> reply \<times> 's) \<Rightarrow> ('c, 'a) act \<Rightarrow> (exn + 'a \<Rightarrow> 'c \<Rightarrow> 's \<Rightarrow> bool) \<Rightarrow> 'c \<Rightarrow> 's \<Rightarrow> bool" where
  "arun X m Q c s = (case run X (m c) s of (Inl e, t) \<Rightarrow> False | (Inr (r, c'), t) \<Rightarrow> Q r c' t)"

named_theorems arun_simps "what a method ends in on one server"

lemma arun_basic [arun_simps]:
  "arun X (a_ret a) P c s = P (Inr a) c s"
  "arun X (a_raise e) Q c s = Q (Inl e) c s"
  "arun X (a_get f) R c s = R (Inr (f c)) c s"
  "arun X (a_set g) S c s = S (Inr ()) (g c) s"
  by (simp_all add: arun_def a_ret_def a_raise_def a_get_def a_set_def)

lemma arun_bind [arun_simps]:
  "arun X (a_bind m f) Q c s =
     arun X m (\<lambda>r c' t. case r of Inl e \<Rightarrow> Q (Inl e) c' t | Inr a \<Rightarrow> arun X (f a) Q c' t) c s"
  by (auto simp: arun_def run_a_bind split: prod.splits sum.splits)

lemma arun_seq [arun_simps]:
  "arun X (a_seq m n) Q c s =
     arun X m (\<lambda>r c' t. case r of Inl e \<Rightarrow> Q (Inl e) c' t | Inr _ \<Rightarrow> arun X n Q c' t) c s"
  by (simp add: a_seq_def arun_bind)

lemma arun_lift [arun_simps]:
  "arun X (a_lift p) Q c s = (case run X p s of (r, t) \<Rightarrow> r \<noteq> Inl Diverges \<and> Q r c t)"
  by (auto simp: arun_def a_lift_def attempt_def run_bindp run_catch split: prod.splits sum.splits)

lemma arun_catch [arun_simps]:
  "arun X (a_catch m h) Q c s = arun X m (\<lambda>r c' t. case r of Inl e \<Rightarrow> arun X (h e) Q c' t | Inr a \<Rightarrow> Q (Inr a) c' t) c s"
  by (auto simp: arun_def a_catch_def run_bindp split: prod.splits sum.splits)

lemma arun_with [arun_simps]: "arun X (a_with f) Q c s = arun X (f c) Q c s"
  by (simp add: arun_def a_with_def)

lemma arun_zoom [arun_simps]: "arun X (a_zoom field put m) Q c s = arun X m (\<lambda>r d. Q r (put d c)) (field c) s"
  by (auto simp: arun_def a_zoom_def run_bindp split: prod.splits sum.splits)

lemma arun_mono: "arun X m Q c s \<Longrightarrow> (\<And>r c' t. Q r c' t \<Longrightarrow> R r c' t) \<Longrightarrow> arun X m R c s"
  by (auto simp: arun_def split: prod.splits sum.splits)

section \<open>Invariants of the object\<close>

text \<open>
  \<open>keeps I P E m\<close>: from an object in \<open>I\<close>, on any server, \<open>m\<close> issues only commands in \<open>P\<close>,
  leaves the object in \<open>I\<close> however it ends, and what it returns is in \<open>E\<close>.
\<close>

definition keeps :: "('c \<Rightarrow> bool) \<Rightarrow> (cmd \<Rightarrow> bool) \<Rightarrow> ('a \<Rightarrow> bool) \<Rightarrow> ('c, 'a) act \<Rightarrow> bool" where
  "keeps I P E m = (\<forall>c. I c \<longrightarrow> only P (m c) \<and> aouts (\<lambda>r c'. I c' \<and> (\<forall>a. r = Inr a \<longrightarrow> E a)) m c)"

named_theorems keeps_intros "methods that keep an invariant"

lemma only_True [simp]: "only (\<lambda>_. True) p"
  by (induction p) auto

lemma keepsD: "keeps I P E m \<Longrightarrow> I c \<Longrightarrow> aouts (\<lambda>r c'. I c' \<and> (\<forall>a. r = Inr a \<longrightarrow> E a)) m c"
  by (simp add: keeps_def)

lemma keeps_only: "keeps I P E m \<Longrightarrow> I c \<Longrightarrow> only P (m c)"
  by (simp add: keeps_def)

lemma keepsI:
  "(\<And>c. I c \<Longrightarrow> only P (m c)) \<Longrightarrow> (\<And>c. I c \<Longrightarrow> aouts (\<lambda>r c'. I c' \<and> (\<forall>a. r = Inr a \<longrightarrow> E a)) m c) \<Longrightarrow> keeps I P E m"
  by (simp add: keeps_def)

lemma only_bindp_outs:
  "only P p \<Longrightarrow> outs R p \<Longrightarrow> (\<And>a. R (Inr a) \<Longrightarrow> only P (f a)) \<Longrightarrow> only P (bindp p f)"
  by (induction p) auto

lemma keeps_step:
  assumes "keeps I P F m" and "\<And>c' a. I c' \<Longrightarrow> F a \<Longrightarrow> only P (g (Inr a, c'))" and "\<And>c' e. I c' \<Longrightarrow> only P (g (Inl e, c'))"
    and "I c"
  shows "only P (bindp (m c) g)"
  using keepsD [OF assms(1,4)] unfolding aouts_def
  by (rule only_bindp_outs [OF keeps_only [OF assms(1,4)]]) (use assms(2,3) in \<open>auto split: prod.splits; metis old.sum.exhaust\<close>)

lemma keeps_basic [keeps_intros]:
  "E1 a \<Longrightarrow> keeps I1 P1 E1 (a_ret a)"
  "keeps I2 P2 E2 (a_raise e)"
  "(\<And>c. I3 c \<Longrightarrow> E3 (f c)) \<Longrightarrow> keeps I3 P3 E3 (a_get f)"
  "(\<And>c. I4 c \<Longrightarrow> I4 (g c)) \<Longrightarrow> E4 () \<Longrightarrow> keeps I4 P4 E4 (a_set g)"
  by (simp_all add: keeps_def aouts_simps) (simp_all add: a_ret_def a_raise_def a_get_def a_set_def)

lemma keeps_lift [keeps_intros]: "only P p \<Longrightarrow> (\<And>a. E a) \<Longrightarrow> keeps I P E (a_lift p)"
  by (auto simp: keeps_def aouts_simps a_lift_def intro!: outs_mono [OF outs_True])

lemma keeps_bind:
  assumes "keeps I P F m" and "\<And>a. F a \<Longrightarrow> keeps I P E (f a)"
  shows "keeps I P E (a_bind m f)"
proof (rule keepsI)
  fix c assume "I c"
  show "only P (a_bind m f c)"
    unfolding a_bind_def
    by (rule keeps_step [OF assms(1) _ _ \<open>I c\<close>]) (auto dest: assms(2) keeps_only)
  show "aouts (\<lambda>r c'. I c' \<and> (\<forall>a. r = Inr a \<longrightarrow> E a)) (a_bind m f) c"
    unfolding aouts_bind
    by (rule aouts_mono [OF keepsD [OF assms(1) \<open>I c\<close>]])
      (use assms(2) in \<open>auto split: sum.splits dest: keepsD\<close>)
qed

lemma keeps_bind_any [keeps_intros]:
  "keeps I P (\<lambda>_. True) m \<Longrightarrow> (\<And>a. keeps I P E (f a)) \<Longrightarrow> keeps I P E (a_bind m f)"
  by (rule keeps_bind)

lemma keeps_seq [keeps_intros]: "keeps I P (\<lambda>_. True) m \<Longrightarrow> keeps I P E n \<Longrightarrow> keeps I P E (a_seq m n)"
  unfolding a_seq_def by (rule keeps_bind)

lemma keeps_when [keeps_intros]: "(b \<Longrightarrow> keeps I P E m) \<Longrightarrow> E () \<Longrightarrow> keeps I P E (a_when b m)"
  by (auto simp: a_when_def intro: keeps_intros)

lemma keeps_with [keeps_intros]: "(\<And>c. I c \<Longrightarrow> keeps I P E (f c)) \<Longrightarrow> keeps I P E (a_with f)"
  by (simp add: keeps_def aouts_with) (simp add: a_with_def)

lemma keeps_if [keeps_intros]:
  "(b \<Longrightarrow> keeps I P E m) \<Longrightarrow> (\<not> b \<Longrightarrow> keeps I P E n) \<Longrightarrow> keeps I P E (if b then m else n)"
  by simp

lemma keeps_except [keeps_intros]:
  assumes "keeps I P E m" and "\<And>e. keeps I P E (h e)"
  shows "keeps I P E (a_except m h)"
proof (rule keepsI)
  fix c assume "I c"
  show "only P (a_except m h c)"
    unfolding a_except_def
    by (rule keeps_step [OF assms(1) _ _ \<open>I c\<close>]) (auto split: exn.splits intro: keeps_only [OF assms(2)])
  show "aouts (\<lambda>r c'. I c' \<and> (\<forall>a. r = Inr a \<longrightarrow> E a)) (a_except m h) c"
    unfolding aouts_except
    by (rule aouts_mono [OF keepsD [OF assms(1) \<open>I c\<close>]])
      (use assms(2) in \<open>auto split: sum.splits exn.splits dest: keepsD\<close>)
qed

lemma keeps_catch [keeps_intros]:
  assumes "keeps I P E m" and "\<And>e. keeps I P E (h e)"
  shows "keeps I P E (a_catch m h)"
proof (rule keepsI)
  fix c assume "I c"
  show "only P (a_catch m h c)"
    unfolding a_catch_def
    by (rule keeps_step [OF assms(1) _ _ \<open>I c\<close>]) (auto intro: keeps_only [OF assms(2)])
  show "aouts (\<lambda>r c'. I c' \<and> (\<forall>a. r = Inr a \<longrightarrow> E a)) (a_catch m h) c"
    unfolding aouts_catch
    by (rule aouts_mono [OF keepsD [OF assms(1) \<open>I c\<close>]])
      (use assms(2) in \<open>auto split: sum.splits dest: keepsD\<close>)
qed

lemma keeps_finally [keeps_intros]:
  assumes "keeps I P E m" and "keeps I P (\<lambda>_. True) q"
  shows "keeps I P E (a_finally m q)"
proof (rule keepsI)
  fix c assume "I c"
  show "only P (a_finally m q c)"
    unfolding a_finally_def
    by (rule keeps_step [OF assms(1) _ _ \<open>I c\<close>])
      (auto intro!: only_bindp keeps_only [OF assms(2)] split: sum.splits)
  show "aouts (\<lambda>r c'. I c' \<and> (\<forall>a. r = Inr a \<longrightarrow> E a)) (a_finally m q) c"
    unfolding aouts_finally
    by (rule aouts_mono [OF keepsD [OF assms(1) \<open>I c\<close>]], rule aouts_mono [OF keepsD [OF assms(2)]])
      (auto split: sum.splits)
qed

lemma keeps_zoom:
  assumes "keeps J P E m" and "\<And>c. I c \<Longrightarrow> J (field c)" and "\<And>c d. I c \<Longrightarrow> J d \<Longrightarrow> I (put d c)"
  shows "keeps I P E (a_zoom field put m)"
proof (rule keepsI)
  fix c assume c: "I c"
  show "only P (a_zoom field put m c)"
    using keeps_only [OF assms(1) assms(2) [OF c]] by (auto simp: a_zoom_def intro!: only_bindp)
  show "aouts (\<lambda>r c'. I c' \<and> (\<forall>a. r = Inr a \<longrightarrow> E a)) (a_zoom field put m) c"
    unfolding aouts_zoom by (rule aouts_mono [OF keepsD [OF assms(1) assms(2) [OF c]]]) (use assms(3) c in auto)
qed

lemma keeps_for [keeps_intros]:
  assumes "\<And>x. x \<in> set xs \<Longrightarrow> keeps I P (\<lambda>_. True) (f x)" and "\<And>as. E as"
  shows "keeps I P E (a_for f xs)"
proof -
  have "keeps I P (\<lambda>_. True) (a_for f xs)"
    using assms(1) by (induction xs) (auto intro!: keeps_intros)
  then show ?thesis using assms(2) by (simp add: keeps_def)
qed

lemma keeps_weaken:
  assumes "keeps I P E m" and "\<And>a. E a \<Longrightarrow> F a" and "\<And>c. P c \<Longrightarrow> Q c"
  shows "keeps I Q F m"
proof (rule keepsI)
  fix c assume c: "I c"
  show "only Q (m c)" by (rule only_mono [OF keeps_only [OF assms(1) c] assms(3)])
  show "aouts (\<lambda>r c'. I c' \<and> (\<forall>a. r = Inr a \<longrightarrow> F a)) m c"
    by (rule aouts_mono [OF keepsD [OF assms(1) c]]) (use assms(2) in auto)
qed

text \<open>After a step that keeps an invariant, the rest starts from it.\<close>

lemma aouts_after:
  assumes "keeps I P E m" and "I c" and "\<And>a c'. I c' \<Longrightarrow> E a \<Longrightarrow> aouts Q (f a) c'" and "\<And>e c'. I c' \<Longrightarrow> Q (Inl e) c'"
  shows "aouts Q (a_bind m f) c"
  unfolding aouts_bind
  by (rule aouts_mono [OF keepsD [OF assms(1,2)]]) (use assms(3,4) in \<open>auto split: sum.splits\<close>)

lemma aouts_after_seq:
  assumes "keeps I P (\<lambda>_. True) m" and "I c" and "\<And>c'. I c' \<Longrightarrow> aouts Q n c'" and "\<And>e c'. I c' \<Longrightarrow> Q (Inl e) c'"
  shows "aouts Q (a_seq m n) c"
  unfolding a_seq_def by (rule aouts_after [OF assms(1,2)]) (use assms(3,4) in auto)

lemma keeps_run:
  assumes "keeps I P E m" and "I c"
  shows "case fst (run X (m c) s) of Inl e \<Rightarrow> e = Diverges | Inr (r, c') \<Rightarrow> I c' \<and> (\<forall>a. r = Inr a \<longrightarrow> E a)"
  by (rule aouts_run [OF keepsD [OF assms]])

section \<open>What holds at every step\<close>

text \<open>
  \<open>always I p K\<close>: on a server that behaves as documented \<open>I\<close> holds between any two
  commands of \<open>p\<close>, before the first and after the last; \<open>stages\<close> are the states a run
  goes through.
\<close>

primrec always :: "(kspace \<Rightarrow> bool) \<Rightarrow> 'a prog \<Rightarrow> kspace \<Rightarrow> bool" where
  "always I (Ret a) K = I K"
| "always I (Raise e) K = I K"
| "always I (Do c k) K = (I K \<and> (\<forall>r. reply_ok c K r \<longrightarrow> always I (k r) (apply_cmd c K)))"

primrec stages :: "(cmd \<Rightarrow> 's \<Rightarrow> reply \<times> 's) \<Rightarrow> 'a prog \<Rightarrow> 's \<Rightarrow> 's list" where
  "stages X (Ret a) s = [s]"
| "stages X (Raise e) s = [s]"
| "stages X (Do c k) s = s # stages X (k (fst (X c s))) (snd (X c s))"

context redis begin

lemma always_stages: "always I p (view s) \<Longrightarrow> t \<in> set (stages exec p s) \<Longrightarrow> I (view t)"
proof (induction p arbitrary: s)
  case (Do c k)
  have "always I (k (fst (exec c s))) (view (snd (exec c s)))"
    using Do.prems(1) exec_reply [of c s] exec_view [of c s] by simp
  then show ?case using Do.IH [OF rangeI] Do.prems by auto
qed auto

end

lemma always_now: "always I p K \<Longrightarrow> I K"
  by (cases p) auto

lemma always_mono: "always I p K \<Longrightarrow> (\<And>K. I K \<Longrightarrow> J K) \<Longrightarrow> always J p K"
  by (induction p arbitrary: K) auto

lemma always_bindp:
  "always I (bindp p f) K = (always I p K \<and> wp p (\<lambda>o' K'. case o' of Inl e \<Rightarrow> True | Inr a \<Rightarrow> always I (f a) K') K)"
  by (induction p arbitrary: K) (auto dest: always_now)

lemma always_catch: "always I (catch p h) K = (always I p K \<and>
    wp p (\<lambda>o' K'. case o' of Inl e \<Rightarrow> e \<noteq> Diverges \<longrightarrow> always I (h e) K' | Inr _ \<Rightarrow> True) K)"
  by (induction p arbitrary: K) (auto dest: always_now)

lemma always_try_exc: "always I (try_exc p h) K = (always I p K \<and>
    wp p (\<lambda>o' K'. case o' of Inl e \<Rightarrow> (case e of CancelledError m \<Rightarrow> True | Diverges \<Rightarrow> True | _ \<Rightarrow> always I (h e) K')
      | Inr _ \<Rightarrow> True) K)"
proof -
  have "wp p (\<lambda>o' K'. case o' of Inl e \<Rightarrow> e \<noteq> Diverges \<longrightarrow> always I (case e of CancelledError m \<Rightarrow> Raise e | _ \<Rightarrow> h e) K'
        | Inr _ \<Rightarrow> True) K =
      wp p (\<lambda>o' K'. case o' of Inl e \<Rightarrow> (case e of CancelledError m \<Rightarrow> True | Diverges \<Rightarrow> True | _ \<Rightarrow> always I (h e) K')
        | Inr _ \<Rightarrow> True) K" if "always I p K"
    using that by (induction p arbitrary: K) (auto split: exn.splits)
  then show ?thesis by (auto simp: try_exc_def always_catch)
qed

lemma always_call: "always I (call c f) K = (I K \<and> (\<forall>r. reply_ok c K r \<longrightarrow> I (apply_cmd c K)))"
proof -
  have "always I (case r of RFail e \<Rightarrow> Raise (raised e) | _ \<Rightarrow> Ret (f r)) K' = I K'" for r K'
    by (cases r) auto
  then show ?thesis by (simp add: call_def)
qed

lemma always_exec_cmd: "plain_write c \<Longrightarrow> always I (exec_cmd c) K = (I K \<and> I (apply_cmd c K))"
proof -
  assume "plain_write c"
  then have "\<not> wp (exec_cmd c) (\<lambda>_ _. False) K" by (simp add: wp_exec_cmd)
  then have "\<exists>r. reply_ok c K r" by (auto simp: exec_cmd_def wp_call)
  then show ?thesis by (auto simp: exec_cmd_def always_call)
qed

lemma always_now_ms: "always I now_ms K = I K"
  by (auto simp: now_ms_def always_call)

lemmas always_simps = always_bindp always_try_exc always_exec_cmd always_now_ms

lemma always_attempt: "always I (attempt p) K = always I p K"
  by (induction p arbitrary: K) (auto simp: attempt_def)

lemma always_only:
  assumes "only P p" and "\<And>c K. P c \<Longrightarrow> I K \<Longrightarrow> I (apply_cmd c K)" and "I K"
  shows "always I p K"
  using assms(1,3) by (induction p arbitrary: K) (auto intro: assms(2))

definition aalways :: "(kspace \<Rightarrow> bool) \<Rightarrow> ('c, 'a) act \<Rightarrow> 'c \<Rightarrow> kspace \<Rightarrow> bool" where
  "aalways I m c K = always I (m c) K"

lemma aalways_now: "aalways I m c K \<Longrightarrow> I K"
  by (simp add: aalways_def always_now)

lemma aalways_mono: "aalways I m c K \<Longrightarrow> (\<And>K. I K \<Longrightarrow> J K) \<Longrightarrow> aalways J m c K"
  unfolding aalways_def by (rule always_mono)

named_theorems aalways_simps "what holds at every step of a method"

lemma aalways_basic [aalways_simps]:
  "aalways I (a_ret a) c K = I K" "aalways I (a_raise e) c K = I K"
  "aalways I (a_get f) c K = I K" "aalways I (a_set g) c K = I K"
  by (simp_all add: aalways_def a_ret_def a_raise_def a_get_def a_set_def)

lemma aalways_lift [aalways_simps]: "aalways I (a_lift p) c K = always I p K"
proof -
  have "wp (attempt p) (\<lambda>o' K'. case o' of Inl e \<Rightarrow> True | Inr a \<Rightarrow> I K') K" if "always I p K"
    using that unfolding wp_attempt by (induction p arbitrary: K) auto
  then show ?thesis by (auto simp: aalways_def a_lift_def always_bindp always_attempt cong: sum.case_cong)
qed

lemma always_after: "always I p K \<Longrightarrow> wp p (\<lambda>o' K'. I K') K"
  by (induction p arbitrary: K) auto

lemma aalways_step:
  assumes "\<And>r c' K'. I K' \<Longrightarrow> always I (g (r, c')) K' = (J r c' K' \<and> I K')"
  shows "always I (bindp (m c) g) K = (aalways I m c K \<and> awp m (\<lambda>r c' K'. J r c' K') (\<lambda>_. True) c K)"
proof -
  have "wp (m c) (\<lambda>o' K'. case o' of Inl e \<Rightarrow> True | Inr a \<Rightarrow> always I (g a) K') K =
      wp (m c) (\<lambda>o' K'. case o' of Inr (r, c') \<Rightarrow> J r c' K' | Inl e \<Rightarrow> True) K" if "always I (m c) K"
  proof
    assume "wp (m c) (\<lambda>o' K'. case o' of Inl e \<Rightarrow> True | Inr a \<Rightarrow> always I (g a) K') K"
    then show "wp (m c) (\<lambda>o' K'. case o' of Inr (r, c') \<Rightarrow> J r c' K' | Inl e \<Rightarrow> True) K"
      by (rule wp_mono [OF wp_conj [OF _ always_after [OF that]]]) (auto simp: assms split: sum.splits)
  next
    assume "wp (m c) (\<lambda>o' K'. case o' of Inr (r, c') \<Rightarrow> J r c' K' | Inl e \<Rightarrow> True) K"
    then show "wp (m c) (\<lambda>o' K'. case o' of Inl e \<Rightarrow> True | Inr a \<Rightarrow> always I (g a) K') K"
      by (rule wp_mono [OF wp_conj [OF _ always_after [OF that]]]) (auto simp: assms split: sum.splits)
  qed
  then show ?thesis by (auto simp: always_bindp aalways_def awp_def)
qed

lemma aalways_bind [aalways_simps]:
  "aalways I (a_bind m f) c K = (aalways I m c K \<and>
     awp m (\<lambda>r c' K'. case r of Inl e \<Rightarrow> True | Inr a \<Rightarrow> aalways I (f a) c' K') (\<lambda>_. True) c K)"
  unfolding aalways_def [of I "a_bind m f"] a_bind_def
  by (rule aalways_step) (auto simp: aalways_def split: sum.splits dest: always_now)

lemma aalways_seq [aalways_simps]:
  "aalways I (a_seq m n) c K = (aalways I m c K \<and>
     awp m (\<lambda>r c' K'. case r of Inl e \<Rightarrow> True | Inr a \<Rightarrow> aalways I n c' K') (\<lambda>_. True) c K)"
  by (simp add: a_seq_def aalways_bind)

lemma aalways_with [aalways_simps]: "aalways I (a_with f) c K = aalways I (f c) c K"
  by (simp add: aalways_def a_with_def)

lemma aalways_when [aalways_simps]: "aalways I (a_when b m) c K = (if b then aalways I m c K else I K)"
  by (simp add: a_when_def aalways_basic)

lemma aalways_if [aalways_simps]: "aalways I (if b then m else n) c K = (if b then aalways I m c K else aalways I n c K)"
  by simp

lemma aalways_only:
  assumes "keeps J P E m" and "J c" and "\<And>c K. P c \<Longrightarrow> I K \<Longrightarrow> I (apply_cmd c K)" and "I K"
  shows "aalways I m c K"
  unfolding aalways_def by (rule always_only [OF keeps_only [OF assms(1,2)]]) (use assms(3,4) in auto)

text \<open>A method that issues only commands that keep \<open>R\<close>, and keeps \<open>I\<close> on any server.\<close>

lemma awp_frame:
  assumes "keeps I P E m" and "I c" and "\<And>c K. P c \<Longrightarrow> R K \<Longrightarrow> R (apply_cmd c K)" and "R K"
  shows "awp m (\<lambda>r c' K'. R K' \<and> I c' \<and> (\<forall>a. r = Inr a \<longrightarrow> E a)) (\<lambda>_. True) c K"
proof -
  have outs_wp: "outs S p \<Longrightarrow> wp p (\<lambda>o' K'. S o') K" for S :: "exn + 'x \<Rightarrow> bool" and p :: "'x prog" and K
    by (induction p arbitrary: K) auto
  have 1: "wp (m c) (\<lambda>o' K'. R K') K"
    by (intro always_after always_only [OF keeps_only [OF assms(1,2)]]) (use assms(3,4) in auto)
  have 2: "wp (m c) (\<lambda>o' K'. case o' of Inl e \<Rightarrow> e = Diverges
      | Inr (r, c') \<Rightarrow> I c' \<and> (\<forall>a. r = Inr a \<longrightarrow> E a)) K"
    using keepsD [OF assms(1,2)] unfolding aouts_def by (rule outs_wp)
  show ?thesis
    unfolding awp_def by (rule wp_mono [OF wp_conj [OF 1 2]]) (auto split: sum.splits prod.splits)
qed

text \<open>A first part that stays in \<open>S\<close>, after which the rest starts from \<open>S\<close>.\<close>

lemma aalways_after:
  assumes "keeps I P E m" and "I c" and "\<And>cmd K. P cmd \<Longrightarrow> S K \<Longrightarrow> S (apply_cmd cmd K)" and "S K"
    and "\<And>K. S K \<Longrightarrow> R K" and "\<And>a c' K'. I c' \<Longrightarrow> E a \<Longrightarrow> S K' \<Longrightarrow> aalways R (f a) c' K'"
  shows "aalways R (a_bind m f) c K"
proof -
  have "aalways S m c K" by (rule aalways_only [OF assms(1-4)])
  then have "aalways R m c K"
    unfolding aalways_def by (rule always_mono) (rule assms(5))
  moreover have "awp m (\<lambda>r c' K'. case r of Inl e \<Rightarrow> True | Inr a \<Rightarrow> aalways R (f a) c' K') (\<lambda>_. True) c K"
    by (rule awp_mono [OF awp_frame [OF assms(1-4)]]) (use assms(6) in \<open>auto split: sum.splits\<close>)
  ultimately show ?thesis by (simp add: aalways_bind)
qed

lemma aalways_after_seq:
  assumes "keeps I P (\<lambda>_. True) m" and "I c" and "\<And>cmd K. P cmd \<Longrightarrow> S K \<Longrightarrow> S (apply_cmd cmd K)" and "S K"
    and "\<And>K. S K \<Longrightarrow> R K" and "\<And>c' K'. I c' \<Longrightarrow> S K' \<Longrightarrow> aalways R n c' K'"
  shows "aalways R (a_seq m n) c K"
  unfolding a_seq_def by (rule aalways_after [where S = S, OF assms(1-5)]) (use assms(6) in auto)

end
