(* ===== verification/Trace_Span.thy ===== *)
theory Trace_Span
  imports Coroutine Redis_Keys
begin

text \<open>
  \<open>trace/span_recorder.py\<close>: what a span may reveal, its JSON form, the exporter that
  keeps spans in Redis and the recorder that samples, counts and forwards them.  The
  sampling by hash is a parameter (it computes with floats), and so are exporters
  other than the one for Redis.
\<close>

section \<open>Sanitizing\<close>

definition SENSITIVE_KEY_PARTS :: "string list" where
  "SENSITIVE_KEY_PARTS = [''api_key'', ''apikey'', ''authorization'', ''auth_token'', ''credential'',
     ''password'', ''secret'', ''token'']"

text \<open>\<open>m in s\<close> on strings.\<close>

fun occurs_in :: "string \<Rightarrow> string \<Rightarrow> bool" where
  "occurs_in m [] = (m = [])"
| "occurs_in m (c # cs) = (take (length m) (c # cs) = m \<or> occurs_in m cs)"

definition contains_sensitive_marker :: "string \<Rightarrow> bool" where
  "contains_sensitive_marker s = (\<exists>m \<in> set SENSITIVE_KEY_PARTS. occurs_in m (map lower_char s))"

definition is_sensitive_key :: "string \<Rightarrow> bool" where
  "is_sensitive_key k = contains_sensitive_marker (map (\<lambda>c. if c = CHR ''-'' then CHR ''_'' else c) k)"

definition REDACTED :: json where "REDACTED = JStr ''[REDACTED]''"

definition truncated :: "nat \<Rightarrow> string \<Rightarrow> string" where
  "truncated n s = (if n < length s then take n s @ ''...[TRUNCATED]'' else s)"

lemma size_in_take [termination_simp]: "x \<in> set (take n l) \<Longrightarrow> size x < Suc (size_list size l)"
  by (metis in_set_takeD le_imp_less_Suc order_refl size_list_estimation')

lemma size_pair_in_take [termination_simp]:
  "(a, b) \<in> set (take n d) \<Longrightarrow> size b < Suc (size_list (\<lambda>x. Suc (size (snd x))) d)"
  using size_list_estimation' [of "(a, b)" d "size b" "\<lambda>x. Suc (size (snd x))"] in_set_takeD [of "(a, b)" n d]
  by simp

fun sanitize_value :: "nat \<Rightarrow> string \<Rightarrow> json \<Rightarrow> json" where
  "sanitize_value n key (JObj d) = (if is_sensitive_key key then REDACTED
     else JObj (map (\<lambda>(k, v). (k, sanitize_value n k v)) d))"
| "sanitize_value n key (JList l) = (if is_sensitive_key key then REDACTED
     else JList (map (sanitize_value n key) (take 50 l)))"
| "sanitize_value n key (JStr s) = (if is_sensitive_key key \<or> contains_sensitive_marker s then REDACTED
     else JStr (truncated n s))"
| "sanitize_value n key v = (if is_sensitive_key key then REDACTED else v)"

definition DEFAULT_METADATA_VALUE_MAX_LENGTH :: nat where "DEFAULT_METADATA_VALUE_MAX_LENGTH = 256"

fun sanitize_io_value :: "bool \<Rightarrow> nat \<Rightarrow> json \<Rightarrow> json" where
  "sanitize_io_value True n v = REDACTED"
| "sanitize_io_value False n (JStr s) = JStr (truncated n s)"
| "sanitize_io_value False n (JObj d) = JObj (map (\<lambda>(k, v). (k, sanitize_io_value False n v)) (take 50 d))"
| "sanitize_io_value False n (JList l) = JList (map (sanitize_io_value False n) (take 50 l))"
| "sanitize_io_value False n v = v"

text \<open>What a value may still show: short texts without a marker, under harmless keys.\<close>

fun discreet :: "nat \<Rightarrow> json \<Rightarrow> bool" where
  "discreet n (JStr s) = (\<not> contains_sensitive_marker s \<and> length s \<le> n + 14)"
| "discreet n (JList l) = (length l \<le> 50 \<and> (\<forall>v \<in> set l. discreet n v))"
| "discreet n (JObj d) = (\<forall>(k, v) \<in> set d. (is_sensitive_key k \<longrightarrow> v = REDACTED) \<and> discreet n v)"
| "discreet n v = True"

lemma occurs_in_take: "occurs_in m (take n s) \<Longrightarrow> occurs_in m s"
proof (induction s arbitrary: n)
  case (Cons c s)
  show ?case
  proof (cases n)
    case (Suc n')
    have "take (length m) (take n (c # s)) = m \<Longrightarrow> take (length m) (c # s) = m"
      by (metis le_cases length_take min_def take_all take_take)
    then show ?thesis using Cons Suc by auto
  qed (use Cons in \<open>cases m; auto\<close>)
qed simp

text \<open>A text that crosses a character it does not contain does not occur.\<close>

lemma occurs_in_across: "x \<notin> set m \<Longrightarrow> m \<noteq> [] \<Longrightarrow> occurs_in m (s @ x # t) \<Longrightarrow> occurs_in m s \<or> occurs_in m t"
proof (induction s)
  case Nil
  then show ?case by (cases m) auto
next
  case (Cons c s)
  have "take (length m) ((c # s) @ x # t) = m \<Longrightarrow> take (length m) (c # s) = m"
  proof (cases "length m \<le> length (c # s)")
    case False
    assume "take (length m) ((c # s) @ x # t) = m"
    moreover have "x \<in> set (take (length m) ((c # s) @ x # t))"
      using False by (auto simp: take_Cons' not_le)
    ultimately show ?thesis using Cons.prems(1) by auto
  next
    case True
    then have "take (length m) ((c # s) @ x # t) = take (length m) (c # s)" by (simp only: take_append) simp
    then show "take (length m) ((c # s) @ x # t) = m \<Longrightarrow> take (length m) (c # s) = m" by simp
  qed
  then show ?case using Cons by auto
qed

lemma truncated_harmless:
  assumes "\<not> contains_sensitive_marker s"
  shows "\<not> contains_sensitive_marker (truncated n s)"
proof -
  have t: "\<not> occurs_in m (map lower_char (take n s @ ''...[TRUNCATED]''))"
    if m: "m \<in> set SENSITIVE_KEY_PARTS" for m
  proof
    assume "occurs_in m (map lower_char (take n s @ ''...[TRUNCATED]''))"
    moreover have "map lower_char ''...[TRUNCATED]'' = CHR ''.'' # ''..[truncated]''" by code_simp
    ultimately have "occurs_in m (map lower_char (take n s) @ CHR ''.'' # ''..[truncated]'')"
      by (simp only: map_append)
    moreover have "CHR ''.'' \<notin> set m" "m \<noteq> []"
      using m by (auto simp: SENSITIVE_KEY_PARTS_def)
    ultimately have "occurs_in m (map lower_char (take n s)) \<or> occurs_in m ''..[truncated]''"
      using occurs_in_across by blast
    moreover have "\<not> occurs_in m ''..[truncated]''"
      using m by (auto simp: SENSITIVE_KEY_PARTS_def)
    moreover have "\<not> occurs_in m (map lower_char (take n s))"
      using assms m occurs_in_take [of m n "map lower_char s"]
      by (auto simp: contains_sensitive_marker_def take_map)
    ultimately show False by blast
  qed
  then show ?thesis
    using assms unfolding truncated_def contains_sensitive_marker_def by auto
qed

lemma discreet_redacted [simp]: "discreet n REDACTED"
proof -
  have "\<not> contains_sensitive_marker ''[REDACTED]''" by code_simp
  then show ?thesis by (simp add: REDACTED_def)
qed

lemma sanitized_sensitive: "is_sensitive_key k \<Longrightarrow> sanitize_value n k v = REDACTED"
  by (cases v) auto

text \<open>
  C34: nothing secret leaves through a span's metadata: in what the sanitizer returns, at
  every depth, no text contains a marker of a credential, in upper or lower case, the
  value under a key that names one is blanked, and texts and lists are of bounded length.
  Cutting a text off does not create a marker.
\<close>

theorem sanitized_is_discreet: "discreet n (sanitize_value n key v)"
proof (induction n key v rule: sanitize_value.induct)
  case (1 n key d)
  then show ?case by (fastforce simp: sanitized_sensitive)
next
  case (3 n key s)
  then show ?case by (auto simp: truncated_harmless) (simp add: truncated_def)
qed auto

section \<open>Spans\<close>

record trace_span =
  sp_trace_id :: string
  sp_span_id :: string
  sp_parent_span_id :: string
  sp_operation :: string
  sp_component :: string
  sp_start_ts :: int
  sp_end_ts :: int
  sp_status :: string
  sp_name :: string
  sp_kind :: string
  sp_source :: string
  sp_input :: json
  sp_output :: json
  sp_tokens :: jdict
  sp_cost :: jdict
  sp_session_id :: string
  sp_execution_id :: string
  sp_message_id :: string
  sp_parent_message_id :: string
  sp_worker_id :: string
  sp_source_agent_type :: string
  sp_target_agent_type :: string
  sp_error_type :: string
  sp_error_message :: string
  sp_error_code :: string
  sp_failed_stage :: string
  sp_retryable :: bool
  sp_route_policy :: string
  sp_route_status :: string
  sp_queue_wait_ms :: int
  sp_chunk_count :: int
  sp_event_type :: string
  sp_metadata :: jdict

text \<open>The defaults of the optional fields.\<close>

definition plain_span :: "string \<Rightarrow> string \<Rightarrow> string \<Rightarrow> string \<Rightarrow> string \<Rightarrow> int \<Rightarrow> int \<Rightarrow> string \<Rightarrow> trace_span" where
  "plain_span trace_id span_id parent_span_id operation component start_ts end_ts status =
     \<lparr>sp_trace_id = trace_id, sp_span_id = span_id, sp_parent_span_id = parent_span_id, sp_operation = operation,
      sp_component = component, sp_start_ts = start_ts, sp_end_ts = end_ts, sp_status = status, sp_name = [],
      sp_kind = [], sp_source = ''redis'', sp_input = JNull, sp_output = JNull, sp_tokens = [], sp_cost = [],
      sp_session_id = [], sp_execution_id = [], sp_message_id = [], sp_parent_message_id = [], sp_worker_id = [],
      sp_source_agent_type = [], sp_target_agent_type = [], sp_error_type = [], sp_error_message = [],
      sp_error_code = [], sp_failed_stage = [], sp_retryable = False, sp_route_policy = [], sp_route_status = [],
      sp_queue_wait_ms = 0, sp_chunk_count = 0, sp_event_type = [], sp_metadata = []\<rparr>"

definition asdict :: "trace_span \<Rightarrow> jdict" where
  "asdict p =
     [(''trace_id'', JStr (sp_trace_id p)), (''span_id'', JStr (sp_span_id p)),
      (''parent_span_id'', JStr (sp_parent_span_id p)), (''operation'', JStr (sp_operation p)),
      (''component'', JStr (sp_component p)), (''start_ts'', JInt (sp_start_ts p)), (''end_ts'', JInt (sp_end_ts p)),
      (''status'', JStr (sp_status p)), (''name'', JStr (sp_name p)), (''kind'', JStr (sp_kind p)),
      (''source'', JStr (sp_source p)), (''input'', sp_input p), (''output'', sp_output p),
      (''tokens'', JObj (sp_tokens p)), (''cost'', JObj (sp_cost p)), (''session_id'', JStr (sp_session_id p)),
      (''execution_id'', JStr (sp_execution_id p)), (''message_id'', JStr (sp_message_id p)),
      (''parent_message_id'', JStr (sp_parent_message_id p)), (''worker_id'', JStr (sp_worker_id p)),
      (''source_agent_type'', JStr (sp_source_agent_type p)), (''target_agent_type'', JStr (sp_target_agent_type p)),
      (''error_type'', JStr (sp_error_type p)), (''error_message'', JStr (sp_error_message p)),
      (''error_code'', JStr (sp_error_code p)), (''failed_stage'', JStr (sp_failed_stage p)),
      (''retryable'', JBool (sp_retryable p)), (''route_policy'', JStr (sp_route_policy p)),
      (''route_status'', JStr (sp_route_status p)), (''queue_wait_ms'', JInt (sp_queue_wait_ms p)),
      (''chunk_count'', JInt (sp_chunk_count p)), (''event_type'', JStr (sp_event_type p)),
      (''metadata'', JObj (sp_metadata p))]"

definition to_payload :: "trace_span \<Rightarrow> jdict" where
  "to_payload p =
     (let payload = dset ''start_ts'' (JInt (sp_start_ts p)) (asdict p);
          payload = dset ''end_ts'' (JInt (max (sp_start_ts p) (sp_end_ts p))) payload;
          payload = dset ''duration_ms'' (JInt (max 0 (max (sp_start_ts p) (sp_end_ts p) - sp_start_ts p))) payload;
          payload = dset ''name'' (JStr (str_or (sp_name p) (sp_operation p))) payload;
          payload = (if sp_error_message p \<noteq> []
             then dset ''error_message'' (sanitize_value DEFAULT_METADATA_VALUE_MAX_LENGTH ''error_message''
               (JStr (sp_error_message p))) payload else payload);
          payload = (if sp_metadata p \<noteq> []
             then dset ''metadata'' (sanitize_value DEFAULT_METADATA_VALUE_MAX_LENGTH ''metadata''
               (JObj (sp_metadata p))) payload else payload)
      in filter (\<lambda>(k, v). v \<noteq> JStr [] \<and> v \<noteq> JNull) payload)"

section \<open>The Redis exporter\<close>

text \<open>\<open>_read_hash_int\<close>: an unreadable value counts as 0; an error of the server passes.\<close>

definition read_hash_int :: "string \<Rightarrow> string \<Rightarrow> int prog" where
  "read_hash_int name field = call (HGet name field) (\<lambda>r. case r_text r of
       Some (Doc (JInt n)) \<Rightarrow> n
     | Some (Txt s) \<Rightarrow> (case parse_int s of Some n \<Rightarrow> n | None \<Rightarrow> 0)
     | _ \<Rightarrow> 0)"

text \<open>\<open>min\<close> of the positive ones; without any, \<open>min\<close> raises.\<close>

definition trace_start :: "int \<Rightarrow> int \<Rightarrow> exn + int" where
  "trace_start existing start =
     (if existing = 0 \<and> start = 0 then Inr 0
      else if 0 < existing \<and> 0 < start then Inr (min existing start)
      else if 0 < existing then Inr existing
      else if 0 < start then Inr start
      else Inl (ValueError ''min() arg is an empty sequence''))"

definition write_trace_index :: "int \<Rightarrow> string \<Rightarrow> string \<Rightarrow> int \<Rightarrow> unit prog" where
  "write_trace_index ttl index_key trace_id score =
     try_exc (bindp (exec_cmd (ZAdd index_key trace_id score)) (\<lambda>_. exec_cmd (Expire index_key ttl)))
       (\<lambda>_. Ret ())"

definition meta_cmds :: "string \<Rightarrow> jdict \<Rightarrow> int \<Rightarrow> int \<Rightarrow> cmd list" where
  "meta_cmds meta_key payload start updated_at =
     (let txt = (\<lambda>k. Txt (py_str (dget payload k (JStr []))));
          dispatch = (take 15 (py_str (dget payload ''operation'' (JStr []))) = ''client.dispatch'')
      in [HSet meta_key ''trace_id'' (txt ''trace_id''), HSet meta_key ''session_id'' (txt ''session_id''),
          HSet meta_key ''status'' (txt ''status'')]
         @ (if truthy (dget0 payload ''name'') \<and> dispatch then [HSet meta_key ''name'' (txt ''name'')] else [])
         @ (if truthy (dget0 payload ''target_agent_type'') \<and> dispatch
            then [HSet meta_key ''root_agent_type'' (txt ''target_agent_type'')] else [])
         @ (if truthy (dget0 payload ''message_id'') \<and> dispatch
            then [HSet meta_key ''root_message_id'' (txt ''message_id'')] else [])
         @ [HSet meta_key ''start_ts'' (Doc (JInt start)), HSet meta_key ''updated_at'' (Doc (JInt updated_at))])"

definition export_span :: "schema \<Rightarrow> int \<Rightarrow> trace_span \<Rightarrow> unit prog" where
  "export_span V ttl span =
     (let payload = to_payload span; trace_id = py_str (dget payload ''trace_id'' (JStr []));
          start_ts = py_int (dget payload ''start_ts'' (JInt 0));
          end_ts = (let n = py_int (dget payload ''end_ts'' (JInt start_ts)) in if n \<noteq> 0 then n else start_ts);
          index = (\<lambda>field key. if truthy (dget0 payload field)
             then write_trace_index ttl (key (py_str (dget0 payload field))) trace_id start_ts else Ret ())
      in if \<not> dhas payload ''trace_id'' then Raise (KeyError ''trace_id'')
         else bindp (read_hash_int (trace_meta V trace_id) ''start_ts'') (\<lambda>existing_start_ts.
         bindp (read_hash_int (trace_meta V trace_id) ''updated_at'') (\<lambda>existing_updated_at.
         bindp (lift_res (trace_start existing_start_ts start_ts)) (\<lambda>start.
         bindp (exec_cmd (Pipe (meta_cmds (trace_meta V trace_id) payload start (max existing_updated_at end_ts)
            @ [RPush (trace_spans V trace_id) (Doc (JObj payload)), Expire (trace_meta V trace_id) ttl,
               Expire (trace_spans V trace_id) ttl]))) (\<lambda>_.
         bindp (index ''session_id'' (trace_index_session V)) (\<lambda>_.
         bindp (index ''worker_id'' (trace_index_worker V)) (\<lambda>_.
         index ''target_agent_type'' (trace_index_agent V))))))))"

section \<open>The recorder\<close>

text \<open>
  The recorder of a process: its exporters by name, the hash decision for sampling, the
  limits, the number of spans kept per trace, and the process's diagnostics.
\<close>

record recorder =
  rec_exporters :: "(string \<times> (trace_span \<Rightarrow> unit prog)) list"
  rec_sampled_out :: "string \<Rightarrow> bool"
  rec_max_spans :: int
  rec_tracking_max :: nat
  rec_spans_by_trace :: "(string \<times> int) list"
  rec_dropped :: "(string \<times> int) list"
  rec_failures :: "(string \<times> int) list"

definition new_recorder :: "schema \<Rightarrow> (string \<Rightarrow> bool) \<Rightarrow> int \<Rightarrow> int \<Rightarrow> recorder" where
  "new_recorder V sampled_out max_spans ttl =
     \<lparr>rec_exporters = [(''RedisSpanExporter'', export_span V (max 1 (if ttl = 0 then 900 else ttl)))],
      rec_sampled_out = sampled_out, rec_max_spans = max_spans, rec_tracking_max = nat (min 10000 (max_spans * 20)),
      rec_spans_by_trace = [], rec_dropped = [], rec_failures = []\<rparr>"

definition count_of :: "(string \<times> int) list \<Rightarrow> string \<Rightarrow> int" where
  "count_of l k = (case map_of l k of None \<Rightarrow> 0 | Some n \<Rightarrow> n)"

definition counted :: "string \<Rightarrow> (string \<times> int) list \<Rightarrow> (string \<times> int) list" where
  "counted k l = AList.update k (count_of l k + 1) l"

text \<open>\<open>_should_record\<close>: the reason of a drop, or the empty string, and the new counts.\<close>

definition should_record :: "recorder \<Rightarrow> trace_span \<Rightarrow> string \<times> recorder" where
  "should_record r span =
     (if rec_exporters r = [] then (''disabled'', r)
      else if rec_sampled_out r (sp_trace_id span) then (''sampled'', r)
      else let current_count = count_of (rec_spans_by_trace r) (sp_trace_id span) in
        if rec_max_spans r \<le> current_count then (''trace_span_limit'', r)
        else let kept = (if rec_tracking_max r \<le> length (rec_spans_by_trace r)
                         then drop (length (rec_spans_by_trace r) div 2) (rec_spans_by_trace r)
                         else rec_spans_by_trace r)
          in ([], r\<lparr>rec_spans_by_trace := AList.update (sp_trace_id span) (current_count + 1) kept\<rparr>))"

definition record_span :: "trace_span \<Rightarrow> (recorder, unit) act" where
  "record_span span r = (case should_record r span of (drop_reason, r') \<Rightarrow>
     if drop_reason \<noteq> [] then Ret (Inr (), r'\<lparr>rec_dropped := counted drop_reason (rec_dropped r')\<rparr>)
     else a_bind (a_for (\<lambda>(name, export).
         a_except (a_lift (export span)) (\<lambda>_. a_set (\<lambda>q. q\<lparr>rec_failures := counted name (rec_failures q)\<rparr>)))
       (rec_exporters r')) (\<lambda>_. a_ret ()) r')"

section \<open>The recorder's bounds\<close>

definition recorder_ok :: "recorder \<Rightarrow> bool" where
  "recorder_ok r = (2 \<le> rec_tracking_max r \<and> length (rec_spans_by_trace r) \<le> rec_tracking_max r \<and>
     distinct (map fst (rec_spans_by_trace r)) \<and>
     (\<forall>n \<in> snd ` set (rec_spans_by_trace r). 1 \<le> n \<and> n \<le> rec_max_spans r))"

lemma length_update: "length (AList.update k v l) \<le> Suc (length l)"
  by (induction l) auto

lemma snd_set_update: "snd ` set (AList.update k v l) \<subseteq> insert v (snd ` set l)"
  by (induction l) auto

lemma count_of_ok: "\<forall>n \<in> snd ` set l. 1 \<le> n \<Longrightarrow> 0 \<le> count_of l k"
  by (force simp: count_of_def dest: map_of_SomeD split: option.splits)

lemma should_record_ok:
  assumes "recorder_ok r"
  shows "recorder_ok (snd (should_record r span))"
proof -
  let ?l = "rec_spans_by_trace r" and ?c = "count_of (rec_spans_by_trace r) (sp_trace_id span)"
  have "recorder_ok (r\<lparr>rec_spans_by_trace := AList.update (sp_trace_id span) (?c + 1) kept\<rparr>)"
    if "set kept \<subseteq> set ?l" "length kept < rec_tracking_max r" "distinct (map fst kept)" "?c < rec_max_spans r" for kept
  proof -
    have "snd ` set (AList.update (sp_trace_id span) (?c + 1) kept) \<subseteq> insert (?c + 1) (snd ` set ?l)"
      using snd_set_update [of "sp_trace_id span" "?c + 1" kept] that(1) by blast
    moreover have "0 \<le> ?c" using assms by (intro count_of_ok) (auto simp: recorder_ok_def)
    moreover have "\<forall>n \<in> snd ` set ?l. 1 \<le> n \<and> n \<le> rec_max_spans r" using assms by (simp add: recorder_ok_def)
    ultimately have "\<forall>n \<in> snd ` set (AList.update (sp_trace_id span) (?c + 1) kept). 1 \<le> n \<and> n \<le> rec_max_spans r"
      using that(4) by (smt (verit, best) insertE subsetD)
    moreover have "length (AList.update (sp_trace_id span) (?c + 1) kept) \<le> rec_tracking_max r"
      using length_update [of "sp_trace_id span" "?c + 1" kept] that(2) by linarith
    ultimately show ?thesis
      using assms that(3) by (simp add: recorder_ok_def distinct_update del: ball_simps)
  qed
  note bump = this
  show ?thesis
  proof (cases "rec_exporters r = [] \<or> rec_sampled_out r (sp_trace_id span) \<or> rec_max_spans r \<le> ?c")
    case True
    then show ?thesis using assms by (auto simp: should_record_def Let_def)
  next
    case False
    let ?kept = "if rec_tracking_max r \<le> length ?l then drop (length ?l div 2) ?l else ?l"
    have "snd (should_record r span) = r\<lparr>rec_spans_by_trace := AList.update (sp_trace_id span) (?c + 1) ?kept\<rparr>"
      using False by (simp add: should_record_def Let_def)
    moreover have "set ?kept \<subseteq> set ?l" by (auto dest: in_set_dropD)
    moreover have "length ?kept < rec_tracking_max r" "distinct (map fst ?kept)"
      using assms by (auto simp: recorder_ok_def drop_map [symmetric])
    ultimately show ?thesis using bump [of ?kept] False by simp
  qed
qed

lemma recorder_ok_simps [simp]:
  "recorder_ok (r\<lparr>rec_dropped := d\<rparr>) = recorder_ok r" "recorder_ok (r\<lparr>rec_failures := f\<rparr>) = recorder_ok r"
  by (simp_all add: recorder_ok_def)

lemma record_span_aouts:
  "aouts (\<lambda>res r'. (recorder_ok r \<longrightarrow> recorder_ok r') \<and> (res = Inr () \<or> (\<exists>m. res = Inl (CancelledError m))))
     (record_span span) r"
proof -
  obtain why r' where s: "should_record r span = (why, r')" by fastforce
  then have ok: "recorder_ok r \<longrightarrow> recorder_ok r'" using should_record_ok [of r span] by simp
  let ?I = "\<lambda>q. recorder_ok r \<longrightarrow> recorder_ok q"
  let ?E = "\<lambda>res. case res of Inl e \<Rightarrow> \<exists>m. e = CancelledError m | Inr _ \<Rightarrow> True"
  show ?thesis
  proof (cases "why = []")
    case True
    let ?step = "\<lambda>(name, export). a_except (a_lift (export span))
        (\<lambda>_. a_set (\<lambda>q. q\<lparr>rec_failures := counted name (rec_failures q)\<rparr>))"
    have step: "aouts (\<lambda>res q. ?I q \<and> ?E res) (?step x) c" if "?I c" for x c
      using that by (cases x) (auto simp: aouts_simps split: sum.splits exn.splits intro!: outs_mono [OF outs_True])
    have "aouts (\<lambda>res q. ?I q \<and> (case res of Inl e \<Rightarrow> \<exists>m. e = CancelledError m | Inr _ \<Rightarrow> True))
        (a_for ?step (rec_exporters r')) r'"
      by (rule aouts_for [where I = ?I and F = "\<lambda>e. \<exists>m. e = CancelledError m" and E = ?E])
        (rule step, assumption, rule ok, simp)
    then have "aouts (\<lambda>res q. ?I q \<and> (res = Inr () \<or> (\<exists>m. res = Inl (CancelledError m))))
        (a_bind (a_for ?step (rec_exporters r')) (\<lambda>_. a_ret ())) r'"
      unfolding aouts_simps by (rule aouts_mono) (auto simp: aouts_simps split: sum.splits)
    with True s show ?thesis by (simp add: aouts_def record_span_def)
  qed (use ok s in \<open>simp add: aouts_def record_span_def\<close>)
qed

text \<open>
  Recording a span never disturbs the task that is traced and stays within its
  limits: on any server and with any exporters, failing ones included, it raises nothing
  but a cancellation, and afterwards no trace counts more than its maximum of spans and
  the table of counts is within its bound; the eviction of old traces keeps room for one
  more.
\<close>

theorem recording_is_harmless:
  assumes "recorder_ok r"
  shows "case fst (run X (record_span span r) s) of
     Inl e \<Rightarrow> e = Diverges
   | Inr (res, r') \<Rightarrow> (res = Inr () \<or> (\<exists>m. res = Inl (CancelledError m))) \<and> recorder_ok r'"
  using aouts_run [OF record_span_aouts [of r span], where X = X and s = s] assms
  by (auto split: sum.splits)

lemma new_recorder_ok: "1 \<le> max_spans \<Longrightarrow> recorder_ok (new_recorder V sampled_out max_spans ttl)"
  by (simp add: recorder_ok_def new_recorder_def)

theorem recording_is_harmless_witness:
  "case fst (run ref_exec (record_span (plain_span ''t'' ''s'' [] ''op'' ''c'' 1 2 ''COMPLETED'')
      (new_recorder V1 (\<lambda>_. False) 1 60)) empty_server) of
     Inl e \<Rightarrow> e = Diverges | Inr (res, r') \<Rightarrow> recorder_ok r'"
  using recording_is_harmless [OF new_recorder_ok [of 1 V1 "\<lambda>_. False" 60],
      where X = ref_exec and s = empty_server and span = "plain_span ''t'' ''s'' [] ''op'' ''c'' 1 2 ''COMPLETED''"]
  by (simp split: sum.splits prod.splits)

text \<open>A recorder without exporters records nothing.\<close>

lemma record_off:
  assumes "rec_exporters r = []"
  shows "\<exists>q. rec_exporters q = [] \<and> record_span span r = Ret (Inr (), q)"
  using assms by (auto simp: record_span_def should_record_def)

section \<open>What tracing touches\<close>

text \<open>The commands on the keys of traces.\<close>

definition trace_key :: "schema \<Rightarrow> string \<Rightarrow> bool" where
  "trace_key V k = (k \<in> range (trace_meta V) \<union> range (trace_spans V) \<union> range (trace_index_session V) \<union>
     range (trace_index_worker V) \<union> range (trace_index_agent V))"

lemma trace_key_simps [simp]:
  "trace_key V (trace_meta V x)" "trace_key V (trace_spans V x)" "trace_key V (trace_index_session V x)"
  "trace_key V (trace_index_worker V x)" "trace_key V (trace_index_agent V x)"
  by (simp_all add: trace_key_def)

lemma meta_cmds_form: "c \<in> set (meta_cmds k payload start upd) \<Longrightarrow> \<exists>f v. c = HSet k f v"
  unfolding meta_cmds_def Let_def by (auto split: if_splits)

fun trace_cmd :: "schema \<Rightarrow> cmd \<Rightarrow> bool" where
  "trace_cmd V (HGet k f) = trace_key V k"
| "trace_cmd V (HSet k f v) = trace_key V k"
| "trace_cmd V (RPush k v) = trace_key V k"
| "trace_cmd V (Expire k n) = trace_key V k"
| "trace_cmd V (ZAdd k m n) = trace_key V k"
| "trace_cmd V (Pipe cs) = (\<forall>c \<in> set cs. trace_cmd V c)"
| "trace_cmd V _ = False"

lemma read_hash_int_only [simp]: "only P (read_hash_int k f) = P (HGet k f)"
  by (simp add: read_hash_int_def)

lemma write_trace_index_only:
  "P (ZAdd k t n) \<Longrightarrow> P (Expire k ttl) \<Longrightarrow> only P (write_trace_index ttl k t n)"
  unfolding write_trace_index_def by (intro only_try_exc only_bindp) simp_all

lemma export_span_only: "only (trace_cmd V) (export_span V ttl span)"
  unfolding export_span_def Let_def
  by (auto dest!: meta_cmds_form intro!: only_bindp write_trace_index_only)

text \<open>A recorder whose exporters issue only commands in \<open>P\<close>.\<close>

definition exporters_in :: "(cmd \<Rightarrow> bool) \<Rightarrow> recorder \<Rightarrow> bool" where
  "exporters_in P r = (\<forall>(name, export) \<in> set (rec_exporters r). \<forall>span. only P (export span))"

lemma should_record_exporters: "rec_exporters (snd (should_record r span)) = rec_exporters r"
  by (auto simp: should_record_def Let_def)

lemma record_span_keeps: "keeps (exporters_in P) P (\<lambda>_. True) (record_span span)"
proof (rule keepsI)
  fix r assume r: "exporters_in P r"
  let ?m = "a_bind (a_for (\<lambda>(name, export). a_except (a_lift (export span))
      (\<lambda>_. a_set (\<lambda>q. q\<lparr>rec_failures := counted name (rec_failures q)\<rparr>))) (rec_exporters r)) (\<lambda>_. a_ret ())"
  obtain why r' where s: "should_record r span = (why, r')" by fastforce
  then have e: "rec_exporters r' = rec_exporters r" using should_record_exporters [of r span] by simp
  have m: "keeps (exporters_in P) P (\<lambda>_. True) ?m"
    using r by (intro keeps_intros TrueI) (auto simp: exporters_in_def split: prod.splits intro!: keeps_intros)
  show "only P (record_span span r)"
    using keeps_only [OF m, of r'] r e by (auto simp: record_span_def s exporters_in_def)
  show "aouts (\<lambda>res r'. exporters_in P r' \<and> (\<forall>a. res = Inr a \<longrightarrow> True)) (record_span span) r"
    using keepsD [OF m, of r'] r e by (auto simp: aouts_def record_span_def s exporters_in_def)
qed

text \<open>Data outside the keys of traces.\<close>

definition untraced :: "schema \<Rightarrow> kspace \<Rightarrow> kspace \<Rightarrow> bool" where
  "untraced V K K' = (ss K' = ss K \<and> acked K' = acked K \<and> (\<forall>k. \<not> trace_key V k \<longrightarrow>
     kv K' k = kv K k \<and> hs K' k = hs K k \<and> zs K' k = zs K k \<and> strm K' k = strm K k))"

lemma untraced_refl [simp]: "untraced V K K"
  by (simp add: untraced_def)

lemma untraced_trans: "untraced V K L \<Longrightarrow> untraced V L M \<Longrightarrow> untraced V K M"
  by (auto simp: untraced_def)

lemma trace_cmd_frame: "trace_cmd V c \<Longrightarrow> untraced V K (apply_cmd c K)"
proof (induction c arbitrary: K)
  case (Pipe cs)
  then show ?case
  proof (induction cs arbitrary: K)
    case (Cons c cs)
    have "untraced V K (apply_cmd c K)" using Cons by simp
    moreover have "untraced V (apply_cmd c K) (apply_cmd (Pipe cs) (apply_cmd c K))"
      by (rule Cons.IH) (use Cons.prems in auto)
    ultimately show ?case using untraced_trans by fastforce
  qed simp
qed (auto simp: untraced_def)

text \<open>Recording through the Redis exporter leaves everything else as it was.\<close>

lemma new_recorder_in: "exporters_in (trace_cmd V) (new_recorder V sampled_out max_spans ttl)"
  by (simp add: exporters_in_def new_recorder_def export_span_only)

lemma record_span_wp:
  assumes "exporters_in (trace_cmd V) r"
  shows "wp (record_span span r) (\<lambda>o' K'. untraced V K K') K"
  by (rule wp_only [OF keeps_only [OF record_span_keeps assms]])
    (auto intro: trace_cmd_frame untraced_trans)

end
