(* ===== verification/Agent_Context.thy ===== *)
theory Agent_Context
  imports Wait_Reply Trace_Span Availability
begin

text \<open>
  \<open>AgentContext\<close> of \<open>worker/context.py\<close>: the object a running agent works through.  Here
  are its state, what it emits, the waits it registers and the question it asks a user;
  \<open>Agent_Dispatch\<close> has the calls to other agents.  What a plugin's hook does, the
  history back end, the hash behind the span ids and the tracing libraries' current
  spans are parameters (\<open>services\<close>).  The pair of ids that Python keeps in a context
  variable is kept in the object: one coroutine runs a context.
\<close>

section \<open>The state of a context\<close>

record agent_context =
  ac_session_id :: string
  ac_trace_id :: string
  ac_current_agent_id :: string
  ac_execution_id :: string
  ac_worker_id :: string
  ac_message_id :: string
  ac_parent_message_id :: string
  ac_user_code :: string
  ac_user_name :: string
  ac_current_command :: "command option"
  ac_cancel_requested :: bool
  ac_cancel_reason :: string
  ac_is_sub_agent :: bool
  ac_emitter :: emitter
  ac_content_codec :: "(pyobj \<Rightarrow> exn + json) option"
  ac_span_recorder :: recorder
  ac_chunk_count :: nat
  ac_response_buffer :: "string list"
  ac_is_history_saved :: bool
  ac_is_stream_finished :: bool
  ac_permission_transferred :: bool
  ac_is_suspended :: bool
  ac_suspended_state :: string
  ac_pending_group_replies :: "command list"
  ac_trace_parent_observation_id :: string
  ac_phoenix_span_id :: int
  ac_langfuse_observation_id :: string

text \<open>
  The hooks of one plugin around an outgoing call and around a reply; they may change
  the context and the command, run programs on the server, and raise.
\<close>

record hooks =
  hk_task_start :: "(agent_context, unit) act"
  hk_task_complete :: "pyobj \<Rightarrow> (agent_context, unit) act"
  hk_task_error :: "exn \<Rightarrow> (agent_context, unit) act"
  hk_call_start :: "(agent_context \<times> command, unit) act"
  hk_call_complete :: "string \<Rightarrow> (agent_context \<times> command, unit) act"
  hk_call_error :: "exn \<Rightarrow> (agent_context \<times> command, unit) act"
  hk_return_start :: "command \<Rightarrow> (agent_context \<times> command, unit) act"
  hk_return_complete :: "command \<Rightarrow> (agent_context \<times> command, unit) act"
  hk_return_error :: "command \<Rightarrow> exn \<Rightarrow> (agent_context \<times> command, unit) act"

text \<open>
  \<open>sv_rounds\<close> bounds the rounds of the wait for a wakeup (\<open>Availability.wait_decision\<close>).
\<close>

record services =
  sv_schema :: schema
  sv_plugins :: "hooks list"
  sv_save_message :: "string \<Rightarrow> json \<Rightarrow> jdict \<Rightarrow> unit prog"
  sv_hash64 :: "string \<Rightarrow> int"
  sv_otel_span_id :: int
  sv_langfuse_observation_id :: string
  sv_rounds :: nat

text \<open>
  \<open>PluginRegistry.on_...\<close>: the hooks of the active plugins in order, each under
  \<open>_execute_hook\<close>, which logs an exception (its timeout included) and goes on.
\<close>

definition run_hooks :: "(hooks \<Rightarrow> ('c, unit) act) \<Rightarrow> hooks list \<Rightarrow> ('c, unit) act" where
  "run_hooks hook plugins = a_bind (a_for (\<lambda>h. a_except (hook h) (\<lambda>_. a_ret ())) plugins) (\<lambda>_. a_ret ())"

text \<open>A method of the context that also works on a command.\<close>

definition with_command :: "('c \<times> 'm, unit) act \<Rightarrow> 'm \<Rightarrow> ('c, 'm) act" where
  "with_command m x c = bindp (m (c, x)) (\<lambda>(r, c', x'). Ret (case r of Inl e \<Rightarrow> Inl e | Inr _ \<Rightarrow> Inr x', c'))"

section \<open>Emitting\<close>

definition is_resume :: "command \<Rightarrow> bool" where
  "is_resume c = (cls_of c = ResumeCls)"

definition flush_to_history :: "services \<Rightarrow> (agent_context, unit) act" where
  "flush_to_history sv = a_with (\<lambda>c.
     if ac_is_history_saved c \<or> ac_response_buffer c = [] then a_ret ()
     else a_seq (a_lift (sv_save_message sv ''assistant'' (JStr (concat (ac_response_buffer c)))
            [(''trace_id'', JStr (ac_trace_id c)), (''agent_id'', JStr (ac_current_agent_id c)),
             (''parent_message_id'', JStr (ac_parent_message_id c))]))
          (a_set (\<lambda>d. d\<lparr>ac_is_history_saved := True\<rparr>)))"

text \<open>\<open>permission held by caller\<close>: called by another agent, and not as the answer to a call.\<close>

definition has_source_agent :: "agent_context \<Rightarrow> bool" where
  "has_source_agent c = (case ac_current_command c of None \<Rightarrow> False
     | Some cmd \<Rightarrow> mh_source_agent_type (command_header cmd) \<noteq> [] \<and> \<not> is_resume cmd)"

definition chunk_event_type :: "agent_context \<Rightarrow> string option \<Rightarrow> string" where
  "chunk_event_type c event_type = (if ac_is_sub_agent c then ''reasoningLogDelta''
     else case event_type of None \<Rightarrow> ''answerDelta'' | Some t \<Rightarrow> t)"

definition buffered :: "json \<Rightarrow> agent_context \<Rightarrow> agent_context" where
  "buffered content c = (case content of
     JStr s \<Rightarrow> if s \<noteq> [] then c\<lparr>ac_response_buffer := ac_response_buffer c @ [s]\<rparr> else c | _ \<Rightarrow> c)"

definition send_chunk ::
  "services \<Rightarrow> chunk_event \<Rightarrow> string \<Rightarrow> string \<Rightarrow> string \<Rightarrow> string \<Rightarrow> json \<Rightarrow> json \<Rightarrow> (agent_context, unit) act" where
  "send_chunk sv ev event_type content_type message_id parent_message_id object_type status =
     a_seq (a_set (\<lambda>c. c\<lparr>ac_chunk_count := ac_chunk_count c + 1\<rparr>))
    (a_seq (a_with (\<lambda>c. a_lift (emitter_chunk (sv_schema sv) (ac_emitter c) (ac_session_id c) (ac_trace_id c) ev
         (ac_current_agent_id c) (str_or message_id (ac_message_id c)) (str_or parent_message_id (ac_parent_message_id c))
         event_type content_type object_type status)))
    (a_when (event_type = ''appStreamResponse'') (flush_to_history sv)))"

definition emit_chunk ::
  "services \<Rightarrow> chunk_event \<Rightarrow> string option \<Rightarrow> string \<Rightarrow> string \<Rightarrow> string \<Rightarrow> json \<Rightarrow> json \<Rightarrow> (agent_context, unit) act" where
  "emit_chunk sv ev event_type content_type message_id parent_message_id object_type status =
     a_with (\<lambda>c. let ty = chunk_event_type c event_type in
     a_seq (a_set (buffered (ce_content ev)))
     (if ty = ''appStreamResponse'' \<and> has_source_agent c then flush_to_history sv
      else a_seq (a_when (ty = ''appStreamResponse'') (a_set (\<lambda>d. d\<lparr>ac_is_stream_finished := True\<rparr>)))
        (send_chunk sv ev ty content_type message_id parent_message_id object_type status)))"

definition emit_text :: "services \<Rightarrow> string \<Rightarrow> string \<Rightarrow> (agent_context, unit) act" where
  "emit_text sv s event_type = emit_chunk sv (text_chunk s) (Some event_type) [] [] [] JNull JNull"

definition emit_state :: "services \<Rightarrow> string \<Rightarrow> jdict \<Rightarrow> string \<Rightarrow> string \<Rightarrow> string \<Rightarrow> string \<Rightarrow> (agent_context, unit) act" where
  "emit_state sv state metadata event_type content_type message_id parent_message_id = a_with (\<lambda>c.
     a_lift (emitter_state (sv_schema sv) (ac_emitter c) (ac_session_id c) (ac_trace_id c) state metadata
       (ac_current_agent_id c) (str_or message_id (ac_message_id c)) (str_or parent_message_id (ac_parent_message_id c))
       event_type content_type))"

definition emit_artifact :: "services \<Rightarrow> string \<Rightarrow> jdict \<Rightarrow> string \<Rightarrow> string \<Rightarrow> string \<Rightarrow> string \<Rightarrow> (agent_context, unit) act" where
  "emit_artifact sv url metadata event_type content_type message_id parent_message_id = a_with (\<lambda>c.
     a_lift (emitter_artifact (sv_schema sv) (ac_emitter c) (ac_session_id c) (ac_trace_id c) url metadata
       (ac_current_agent_id c) (str_or message_id (ac_message_id c)) (str_or parent_message_id (ac_parent_message_id c))
       event_type content_type))"

definition MESSAGE_ID_PREFIX :: string where "MESSAGE_ID_PREFIX = ''msg-''"

definition EXECUTION_ID_PREFIX :: string where "EXECUTION_ID_PREFIX = ''exec-''"

definition CLIENT_SOURCE_AGENT_TYPE :: string where "CLIENT_SOURCE_AGENT_TYPE = ''client''"

definition TASK_GROUP_ID_PREFIX :: string where "TASK_GROUP_ID_PREFIX = ''tg-''"

definition generate_message_id :: "string prog" where
  "generate_message_id = bindp uuid_hex (\<lambda>fresh. Ret (MESSAGE_ID_PREFIX @ take 8 fresh))"

text \<open>
  \<open>async with context.sub_step(title)\<close>: the body runs under a fresh message id whose
  parent is the current one; the ids are restored however the body ends.
\<close>

definition sub_step :: "services \<Rightarrow> string \<Rightarrow> string \<Rightarrow> string \<Rightarrow> (string \<Rightarrow> string \<Rightarrow> (agent_context, 'a) act) \<Rightarrow> (agent_context, 'a) act" where
  "sub_step sv title content_type event_type body =
     a_bind (a_lift generate_message_id) (\<lambda>sub_id.
     a_bind (a_get (\<lambda>c. (ac_message_id c, ac_parent_message_id c))) (\<lambda>(parent_id, grand_id).
     a_seq (emit_chunk sv (text_chunk title) (Some event_type) content_type sub_id parent_id JNull JNull)
    (a_seq (a_set (\<lambda>c. c\<lparr>ac_message_id := sub_id, ac_parent_message_id := parent_id\<rparr>))
    (a_finally (body sub_id parent_id)
       (a_set (\<lambda>c. c\<lparr>ac_message_id := parent_id, ac_parent_message_id := grand_id\<rparr>))))))"

text \<open>\<open>asyncio.CancelledError(self.cancel_reason or "task cancelled")\<close>.\<close>

definition check_cancelled :: "(agent_context, unit) act" where
  "check_cancelled = a_with (\<lambda>c. if ac_cancel_requested c
     then a_raise (CancelledError (str_or (ac_cancel_reason c) ''task cancelled'')) else a_ret ())"

section \<open>Waiting\<close>

text \<open>\<open>_register_wait\<close>: the entry, then the previous round's marker; neither may raise.\<close>

definition register_wait :: "schema \<Rightarrow> string \<Rightarrow> string \<Rightarrow> string \<Rightarrow> string \<Rightarrow> int \<Rightarrow> unit prog" where
  "register_wait V session_id parent_message_id child_message_id task_group_id timeout_ms =
     (let member = encode_member session_id parent_message_id child_message_id task_group_id in
      try_exc
        (bindp now_ms (\<lambda>now.
         bindp (exec_cmd (ZAdd (wait_index_key V session_id) member (now + max 0 timeout_ms))) (\<lambda>_.
         try_exc (exec_cmd (Del (consumed_marker_key V session_id member))) (\<lambda>_. Ret ()))))
        (\<lambda>_. Ret ()))"

definition suspend_for :: "string \<Rightarrow> agent_context \<Rightarrow> agent_context" where
  "suspend_for state c = c\<lparr>ac_is_suspended := True, ac_suspended_state := state\<rparr>"

definition ask_user :: "services \<Rightarrow> string \<Rightarrow> jdict \<Rightarrow> string \<Rightarrow> string \<Rightarrow> int option \<Rightarrow> (agent_context, string) act" where
  "ask_user sv prompt metadata message_id parent_message_id reply_timeout_ms =
     a_seq (a_with (\<lambda>c. a_lift (register_wait (sv_schema sv) (ac_session_id c) (ac_message_id c) [] []
         (case reply_timeout_ms of None \<Rightarrow> DEFAULT_ASK_USER_TIMEOUT_MS | Some t \<Rightarrow> t))))
    (a_seq (a_with (\<lambda>c. a_lift (emitter_ask_user (sv_schema sv) (ac_emitter c) (ac_session_id c) (ac_trace_id c)
         prompt metadata (ac_current_agent_id c) (str_or message_id (ac_message_id c))
         (str_or parent_message_id (ac_parent_message_id c)))))
    (a_seq (a_set (suspend_for ''WAITING_USER'')) (a_ret ''WAITING_USER'')))"

definition update_execution_state :: "services \<Rightarrow> string \<Rightarrow> (agent_context, unit) act" where
  "update_execution_state sv status = a_with (\<lambda>c.
     a_lift (update_execution_status_by_message (sv_schema sv) (ac_message_id c) (ac_session_id c) status))"

end
