(* ===== verification/Agent_Dispatch.thy ===== *)
theory Agent_Dispatch
  imports Agent_Context
begin

text \<open>
  The calls of \<open>AgentContext\<close> to other agents (\<open>worker/context.py\<close>): one task
  (\<open>dispatch_single_task\<close>), a fan-out (\<open>call_agents\<close>) and the stand-in for a member of
  a fan-out that could not be dispatched.  A content is a \<open>pyobj\<close>; what a plain wire
  content holds inside its dictionaries is JSON.
\<close>

section \<open>Parents of spans\<close>

definition hex_digit :: "nat \<Rightarrow> char" where
  "hex_digit d = (if d < 10 then char_of (48 + d) else char_of (87 + d))"

text \<open>\<open>f"{x:016x}"\<close> on an unsigned 64-bit number.\<close>

definition hex16 :: "int \<Rightarrow> string" where
  "hex16 x = map (\<lambda>i. hex_digit (nat (x div 16 ^ i mod 16))) (rev [0..<16])"

definition hex_value :: "char \<Rightarrow> int option" where
  "hex_value c = (let n = of_char c :: int in
     if 48 \<le> n \<and> n \<le> 57 then Some (n - 48) else if 97 \<le> n \<and> n \<le> 102 then Some (n - 87)
     else if 65 \<le> n \<and> n \<le> 70 then Some (n - 55) else None)"

text \<open>A text of sixteen hexadecimal digits is its number, any other one is hashed.\<close>

definition str_to_uint64 :: "(string \<Rightarrow> int) \<Rightarrow> string \<Rightarrow> int" where
  "str_to_uint64 hash s =
     (if length s = 16 \<and> list_all (\<lambda>c. hex_value c \<noteq> None) s
      then foldl (\<lambda>n c. n * 16 + the (hex_value c)) 0 s
      else if hash s \<noteq> 0 then hash s else 1)"

definition resolve_call_trace_parent_span_id :: "services \<Rightarrow> agent_context \<Rightarrow> string \<Rightarrow> string" where
  "resolve_call_trace_parent_span_id sv c call_parent_span_id =
     (if ac_phoenix_span_id c \<noteq> 0 then hex16 (ac_phoenix_span_id c)
      else if sv_otel_span_id sv \<noteq> 0 then hex16 (sv_otel_span_id sv)
      else hex16 (str_to_uint64 (sv_hash64 sv) call_parent_span_id))"

definition resolve_call_langfuse_parent_id :: "services \<Rightarrow> agent_context \<Rightarrow> string" where
  "resolve_call_langfuse_parent_id sv c =
     (if sv_langfuse_observation_id sv \<noteq> [] then sv_langfuse_observation_id sv
      else if sv_otel_span_id sv \<noteq> 0 then hex16 (sv_otel_span_id sv)
      else if ac_langfuse_observation_id c \<noteq> [] then ac_langfuse_observation_id c
      else case ac_current_command c of None \<Rightarrow> []
        | Some cmd \<Rightarrow> str_or (mh_langfuse_parent_observation_id (command_header cmd))
            (py_text (dget (mh_metadata (command_header cmd)) ''langfuse_parent_observation_id'' (JStr []))))"

section \<open>One call\<close>

record call_args =
  ca_target_agent_type :: string
  ca_content :: pyobj
  ca_extra_payload :: jdict
  ca_wait_for_reply :: bool
  ca_metadata :: jdict
  ca_message_id :: string
  ca_parent_message_id :: string
  ca_task_group_id :: string
  ca_route_policy :: string
  ca_availability_timeout_ms :: int
  ca_region :: string
  ca_priority :: int
  ca_reply_timeout_ms :: "int option"

record call_result =
  cl_status :: string
  cl_message_id :: string
  cl_parent_message_id :: string
  cl_target_agent_type :: string
  cl_error :: string
  cl_error_code :: string

text \<open>\<open>_is_wire_content\<close> and \<open>_serialize_outbound_content\<close>.\<close>

definition is_dict :: "pyobj \<Rightarrow> bool" where
  "is_dict v = (case v of PDict d \<Rightarrow> True | _ \<Rightarrow> False)"

definition is_wire_content :: "pyobj \<Rightarrow> bool" where
  "is_wire_content v = (case v of PStr s \<Rightarrow> True | PList l \<Rightarrow> list_all is_dict l | _ \<Rightarrow> False)"

definition serialize_outbound_content :: "(pyobj \<Rightarrow> exn + json) option \<Rightarrow> pyobj \<Rightarrow> exn + json" where
  "serialize_outbound_content codec v = (case codec of
       Some serialize \<Rightarrow> serialize v
     | None \<Rightarrow> if is_wire_content v then ensure_json_serializable v
         else Inl (TypeError ''AgentContext requires a content codec to serialize non-wire content''))"

text \<open>The metadata, the trace parent and the Langfuse parent of the outgoing header.\<close>

definition call_metadata :: "services \<Rightarrow> agent_context \<Rightarrow> string \<Rightarrow> jdict \<Rightarrow> jdict" where
  "call_metadata sv c message_id metadata =
     dsetdefault ''framework_parent_span_id'' (JStr (message_id @ '':client.dispatch''))
       (dsetdefault ''trace_parent_span_id''
          (JStr (resolve_call_trace_parent_span_id sv c (message_id @ '':client.dispatch''))) metadata)"

definition call_header :: "services \<Rightarrow> agent_context \<Rightarrow> call_args \<Rightarrow> string \<Rightarrow> string \<Rightarrow> header" where
  "call_header sv c a message_id parent_message_id =
     (let metadata = call_metadata sv c message_id (ca_metadata a) in
      \<lparr>mh_message_id = message_id, mh_session_id = ac_session_id c, mh_trace_id = ac_trace_id c,
       mh_source_agent_type = (if ca_wait_for_reply a then ac_current_agent_id c else []),
       mh_target_agent_type = ca_target_agent_type a, mh_parent_message_id = parent_message_id,
       mh_task_group_id = ca_task_group_id a, mh_user_code = ac_user_code c, mh_user_name = ac_user_name c,
       mh_metadata = metadata,
       mh_trace_parent_span_id = resolve_call_trace_parent_span_id sv c (message_id @ '':client.dispatch''),
       mh_langfuse_parent_observation_id = str_or
         (py_text (dget metadata ''langfuse_parent_observation_id'' (JStr []))) (resolve_call_langfuse_parent_id sv c)\<rparr>)"

definition ask_command :: "services \<Rightarrow> agent_context \<Rightarrow> call_args \<Rightarrow> string \<Rightarrow> string \<Rightarrow> json \<Rightarrow> exn + command" where
  "ask_command sv c a message_id parent_message_id content = new_ask
     \<lparr>ask_header = call_header sv c a message_id parent_message_id, ask_content = content,
      ask_wait_for_reply = ca_wait_for_reply a,
      ask_extra_payload = filter (\<lambda>(k, v). k \<noteq> ''wait_for_reply'') (ca_extra_payload a)\<rparr>"

definition call_intent :: "agent_context \<Rightarrow> call_args \<Rightarrow> string \<Rightarrow> string \<Rightarrow> command \<Rightarrow> intent" where
  "call_intent c a execution_id message_id command =
     \<lparr>in_execution_id = execution_id, in_message_id = message_id, in_session_id = ac_session_id c,
      in_trace_id = ac_trace_id c, in_source = ac_current_agent_id c,
      in_target_agent_type = ca_target_agent_type a, in_user_code = ac_user_code c, in_region = ca_region a,
      in_priority = ca_priority a, in_policy = ca_route_policy a, in_timeout_ms = ca_availability_timeout_ms a,
      in_command_payload = command_to_dict command, in_metadata = mh_metadata (command_header command)\<rparr>"

definition dispatched_status :: "string \<Rightarrow> bool" where
  "dispatched_status st = (st \<in> {''DELIVER_NOW'', ''WAIT_AND_DELIVER'', ''FALLBACK_TO_OTHER_AGENT_TYPE'', ''QUEUE_PENDING''})"

text \<open>The span of the dispatch; whatever recording it does, the call goes on.\<close>

definition dispatch_span :: "agent_context \<Rightarrow> call_args \<Rightarrow> string \<Rightarrow> string \<Rightarrow> string \<Rightarrow> availability \<Rightarrow> int \<Rightarrow> int \<Rightarrow> trace_span" where
  "dispatch_span c a message_id parent_message_id target av start_ts end_ts =
     (plain_span (ac_trace_id c) (message_id @ '':client.dispatch'')
        ((if ac_execution_id c \<noteq> [] then ac_execution_id c else ac_message_id c) @ '':worker.execute'')
        ''client.dispatch'' ''agent_context'' start_ts end_ts ''COMPLETED'')
     \<lparr>sp_session_id := ac_session_id c, sp_message_id := message_id, sp_parent_message_id := parent_message_id,
      sp_worker_id := av_target_worker_id av,
      sp_source_agent_type := (if ca_wait_for_reply a then ac_current_agent_id c else []),
      sp_target_agent_type := target, sp_route_policy := ca_route_policy a, sp_route_status := av_status av\<rparr>"

definition record_in_context :: "trace_span \<Rightarrow> (agent_context, unit) act" where
  "record_in_context span = a_except
     (a_zoom ac_span_recorder (\<lambda>r c. c\<lparr>ac_span_recorder := r\<rparr>) (record_span span)) (\<lambda>_. a_ret ())"

text \<open>The record of the sub-task's execution.\<close>

definition call_execution ::
  "agent_context \<Rightarrow> call_args \<Rightarrow> string \<Rightarrow> string \<Rightarrow> string \<Rightarrow> string \<Rightarrow> string \<Rightarrow> jdict \<Rightarrow> availability \<Rightarrow> execution" where
  "call_execution c a execution_id message_id parent_message_id target stream metadata av =
     [(''execution_id'', JStr execution_id), (''message_id'', JStr message_id),
      (''session_id'', JStr (ac_session_id c)), (''trace_id'', JStr (ac_trace_id c)),
      (''parent_message_id'', JStr parent_message_id),
      (''source_agent_type'', JStr (if ca_wait_for_reply a then ac_current_agent_id c else [])),
      (''target_agent_type'', JStr target), (''task_group_id'', JStr (ca_task_group_id a)),
      (''metadata'', JObj metadata), (''stream_name'', JStr stream), (''status'', JStr ''QUEUED''),
      (''route_policy'', JStr (ca_route_policy a)), (''route_status'', JStr (av_status av)),
      (''selected_agent_type'', JStr (av_selected_agent_type av)),
      (''availability_error_code'', JStr (av_error_code av)), (''availability_error'', JStr (av_error av))]"

definition failed_route :: "agent_context \<Rightarrow> call_args \<Rightarrow> string \<Rightarrow> string \<Rightarrow> string \<Rightarrow> availability \<Rightarrow> route_record" where
  "failed_route c a execution_id message_id parent_message_id av =
     \<lparr>rr_execution_id = execution_id, rr_message_id = message_id, rr_session_id = ac_session_id c,
      rr_trace_id = ac_trace_id c, rr_parent_message_id = parent_message_id,
      rr_source_agent_type = (if ca_wait_for_reply a then ac_current_agent_id c else []),
      rr_target_agent_type = ca_target_agent_type a, rr_route_policy = ca_route_policy a,
      rr_route_status = av_status av, rr_stream_name = av_stream_name av,
      rr_selected_agent_type = av_selected_agent_type av, rr_error_code = av_error_code av, rr_error = av_error av\<rparr>"

text \<open>The flags a call sets before anything else, and their values on entry.\<close>

definition hand_off :: "bool \<Rightarrow> agent_context \<Rightarrow> agent_context" where
  "hand_off wait c = (if wait then suspend_for ''WAITING_AGENT'' c else c\<lparr>ac_permission_transferred := True\<rparr>)"

definition restore_flags :: "agent_context \<Rightarrow> agent_context \<Rightarrow> agent_context" where
  "restore_flags entry c = c\<lparr>ac_is_suspended := ac_is_suspended entry,
     ac_suspended_state := ac_suspended_state entry, ac_permission_transferred := ac_permission_transferred entry\<rparr>"

definition with_target :: "string \<Rightarrow> command \<Rightarrow> command" where
  "with_target target command = (if target = [] then command else (case command of
     AskAgentCommand k \<Rightarrow> AskAgentCommand (k\<lparr>ask_header := (ask_header k)\<lparr>mh_target_agent_type := target\<rparr>\<rparr>)
   | _ \<Rightarrow> command))"

text \<open>The branch of a dispatch the router rejected.\<close>

definition reject_call ::
  "services \<Rightarrow> agent_context \<Rightarrow> call_args \<Rightarrow> string \<Rightarrow> string \<Rightarrow> string \<Rightarrow> command \<Rightarrow> availability \<Rightarrow> (agent_context, call_result) act" where
  "reject_call sv entry a execution_id message_id parent_message_id command av =
     a_seq (a_with (\<lambda>c. a_lift (record_failed_route_decision (sv_schema sv)
        (failed_route c a execution_id message_id parent_message_id av))))
    (a_bind (with_command (run_hooks (\<lambda>h. hk_call_error h (RuntimeError (av_error av))) (sv_plugins sv)) command) (\<lambda>_.
     a_seq (a_set (restore_flags entry))
     (a_ret \<lparr>cl_status = ''FAILED'', cl_message_id = [], cl_parent_message_id = parent_message_id,
        cl_target_agent_type = ca_target_agent_type a, cl_error = av_error av,
        cl_error_code = str_or (av_error_code av) ''AGENT_TYPE_UNAVAILABLE''\<rparr>)))"

text \<open>The message itself, the span and the hooks; an exception is told to the plugins and passed on.\<close>

definition send_call ::
  "services \<Rightarrow> call_args \<Rightarrow> string \<Rightarrow> string \<Rightarrow> command \<Rightarrow> availability \<Rightarrow> string \<Rightarrow> string \<Rightarrow> (agent_context, call_result) act" where
  "send_call sv a message_id parent_message_id command av target stream =
     a_seq (a_except
         (a_bind (a_lift now_ms) (\<lambda>started.
          a_seq (a_when (av_status av \<noteq> ''QUEUE_PENDING'') (a_lift (exec_cmd (XAdd stream (to_redis_payload command)))))
          (a_bind (a_lift now_ms) (\<lambda>ended.
           a_with (\<lambda>c. record_in_context (dispatch_span c a message_id parent_message_id target av started ended))))))
         (\<lambda>e. a_bind (with_command (run_hooks (\<lambda>h. hk_call_error h e) (sv_plugins sv)) command) (\<lambda>_. a_raise e)))
     (a_bind (with_command (run_hooks (\<lambda>h. hk_call_complete h ''QUEUED'') (sv_plugins sv)) command) (\<lambda>_.
      a_ret \<lparr>cl_status = ''QUEUED'', cl_message_id = message_id, cl_parent_message_id = parent_message_id,
        cl_target_agent_type = target, cl_error = [], cl_error_code = []\<rparr>))"

definition deliver_call ::
  "services \<Rightarrow> call_args \<Rightarrow> string \<Rightarrow> string \<Rightarrow> string \<Rightarrow> command \<Rightarrow> availability \<Rightarrow> (agent_context, call_result) act" where
  "deliver_call sv a execution_id message_id parent_message_id command0 av =
     (let command = with_target (av_selected_agent_type av) command0;
          target = str_or (av_selected_agent_type av) (ca_target_agent_type a);
          stream = str_or (av_stream_name av) (ctrl_stream (sv_schema sv) target)
      in a_seq (a_with (\<lambda>c. a_except
             (a_bind (a_lift (initialize_execution (sv_schema sv)
                (call_execution c a execution_id message_id parent_message_id target stream
                   (mh_metadata (command_header command)) av))) (\<lambda>_. a_ret ()))
             (\<lambda>_. a_ret ())))
        (a_seq (a_when (ca_wait_for_reply a) (a_with (\<lambda>c. a_lift (register_wait (sv_schema sv) (ac_session_id c)
             parent_message_id message_id (ca_task_group_id a)
             (case ca_reply_timeout_ms a of None \<Rightarrow> DEFAULT_REPLY_TIMEOUT_MS | Some t \<Rightarrow> t)))))
        (send_call sv a message_id parent_message_id command av target stream)))"

text \<open>From the serialized content on, with the flags already set.\<close>

definition route_call :: "services \<Rightarrow> agent_context \<Rightarrow> call_args \<Rightarrow> string \<Rightarrow> string \<Rightarrow> (agent_context, call_result) act" where
  "route_call sv entry a message_id parent_message_id =
     a_bind (a_with (\<lambda>c. a_lift (lift_res (serialize_outbound_content (ac_content_codec c) (ca_content a))))) (\<lambda>content.
     a_bind (a_with (\<lambda>c. a_lift (lift_res (ask_command sv c a message_id parent_message_id content)))) (\<lambda>command0.
     a_bind (a_lift uuid_hex) (\<lambda>fresh. let execution_id = EXECUTION_ID_PREFIX @ take 8 fresh in
     a_bind (with_command (run_hooks hk_call_start (sv_plugins sv)) command0) (\<lambda>command.
     a_bind (a_with (\<lambda>c. a_lift (prepare_delivery (sv_rounds sv) (sv_schema sv)
        (call_intent c a execution_id message_id command)))) (\<lambda>av.
     if dispatched_status (av_status av)
     then deliver_call sv a execution_id message_id parent_message_id command av
     else reject_call sv entry a execution_id message_id parent_message_id command av)))))"

definition dispatch_single_task :: "services \<Rightarrow> call_args \<Rightarrow> (agent_context, call_result) act" where
  "dispatch_single_task sv a =
     a_bind (if ca_message_id a \<noteq> [] then a_ret (ca_message_id a) else a_lift generate_message_id) (\<lambda>message_id.
     a_with (\<lambda>entry. a_seq (a_set (hand_off (ca_wait_for_reply a)))
       (route_call sv entry a message_id (str_or (ca_parent_message_id a) (ac_message_id entry)))))"

section \<open>A fan-out\<close>

record task_spec =
  ts_target_agent_type :: "string option"
  ts_content :: pyobj
  ts_extra_payload :: jdict
  ts_metadata :: jdict

record group_result =
  gr_status :: string
  gr_task_group_id :: string
  gr_dispatched_tasks :: "(string \<times> string) list"

text \<open>The reply a member would have sent had it started and failed.\<close>

definition member_stand_in :: "agent_context \<Rightarrow> string \<Rightarrow> string \<Rightarrow> string \<Rightarrow> call_result \<Rightarrow> jdict \<Rightarrow> stand_in" where
  "member_stand_in c task_group_id caller_message_id child_message_id r metadata =
     \<lparr>si_session_id = ac_session_id c, si_caller_message_id = caller_message_id,
      si_caller_agent_type = ac_current_agent_id c, si_child_message_id = child_message_id,
      si_child_agent_type = cl_target_agent_type r, si_task_group_id = task_group_id, si_trace_id = ac_trace_id c,
      si_status = ''FAILED'', si_content = JStr [],
      si_reply_data = failure_reply_data (cl_error r) (str_or (cl_error_code r) ''AGENT_TYPE_UNAVAILABLE'') child_message_id,
      si_extra_payload = [], si_metadata = metadata, si_error_code = cl_error_code r,
      si_synthesized_by = SYNTHESIZED_BY_DISPATCH, si_user_code = ac_user_code c, si_user_name = ac_user_name c\<rparr>"

definition queue_undispatched_member_failure ::
  "services \<Rightarrow> string \<Rightarrow> string \<Rightarrow> string \<Rightarrow> call_result \<Rightarrow> jdict \<Rightarrow> int option \<Rightarrow> (agent_context, unit) act" where
  "queue_undispatched_member_failure sv task_group_id caller_message_id child_message_id r metadata reply_timeout_ms =
     a_with (\<lambda>c.
     a_seq (a_lift (register_wait (sv_schema sv) (ac_session_id c) caller_message_id child_message_id task_group_id
        (case reply_timeout_ms of None \<Rightarrow> DEFAULT_REPLY_TIMEOUT_MS | Some t \<Rightarrow> t)))
     (if ac_current_agent_id c = [] then a_ret ()
      else a_bind (a_lift (stand_in_reply (member_stand_in c task_group_id caller_message_id child_message_id r metadata)))
        (\<lambda>reply. a_set (\<lambda>d. d\<lparr>ac_pending_group_replies := ac_pending_group_replies d @ [reply]\<rparr>))))"

text \<open>
  One round of the loop.  A task without a target agent type raises before the \<open>try\<close>.
  A fan-out uses the default route policy, timeout, region and priority.
\<close>

definition member_args :: "task_spec \<Rightarrow> string \<Rightarrow> bool \<Rightarrow> string \<Rightarrow> string \<Rightarrow> string \<Rightarrow> int option \<Rightarrow> call_args" where
  "member_args t target wait message_id parent_message_id task_group_id reply_timeout_ms =
     \<lparr>ca_target_agent_type = target, ca_content = ts_content t, ca_extra_payload = ts_extra_payload t,
      ca_wait_for_reply = wait, ca_metadata = ts_metadata t, ca_message_id = message_id,
      ca_parent_message_id = parent_message_id, ca_task_group_id = task_group_id, ca_route_policy = ''FAIL_FAST'',
      ca_availability_timeout_ms = 30000, ca_region = [], ca_priority = 0, ca_reply_timeout_ms = reply_timeout_ms\<rparr>"

definition dispatch_member ::
  "services \<Rightarrow> string \<Rightarrow> bool \<Rightarrow> string \<Rightarrow> string \<Rightarrow> int option \<Rightarrow> task_spec \<Rightarrow> (agent_context, string \<times> string) act" where
  "dispatch_member sv task_group_id wait message_id parent_message_id reply_timeout_ms t =
     (case ts_target_agent_type t of
        None \<Rightarrow> a_raise (KeyError ''target_agent_type'')
      | Some target \<Rightarrow>
          a_bind (if message_id \<noteq> [] then a_ret message_id else a_lift generate_message_id) (\<lambda>current.
          a_bind (a_except
             (a_bind (dispatch_single_task sv
                (member_args t target wait current parent_message_id task_group_id reply_timeout_ms)) (\<lambda>r.
              a_seq (a_when (cl_status r = ''FAILED'' \<and> wait)
                (queue_undispatched_member_failure sv task_group_id (cl_parent_message_id r) current r
                   (ts_metadata t) reply_timeout_ms))
              (a_ret r)))
             (\<lambda>e. a_seq (a_when wait (a_lift (exec_cmd (HSet (task_group (sv_schema sv) task_group_id) ''aborted'' (Doc (JInt 1))))))
                (a_raise e)))
            (\<lambda>r. a_ret (current, cl_target_agent_type r))))"

definition group_setup :: "services \<Rightarrow> string \<Rightarrow> nat \<Rightarrow> (agent_context, unit) act" where
  "group_setup sv task_group_id expected =
     (let group_key = task_group (sv_schema sv) task_group_id in
      a_seq (a_with (\<lambda>c. a_lift (exec_cmd (Pipe
        [HSet group_key ''total'' (Doc (JInt (int expected))), HSet group_key ''completed'' (Doc (JInt 0)),
         HSet group_key ''source_agent_type'' (Txt (ac_current_agent_id c))]))))
     (a_seq (a_lift (exec_cmd (Expire group_key TASK_GROUP_TTL_SECONDS)))
     (a_set (suspend_for ''WAITING_AGENT''))))"

definition group_span :: "agent_context \<Rightarrow> string \<Rightarrow> nat \<Rightarrow> bool \<Rightarrow> int \<Rightarrow> int \<Rightarrow> trace_span" where
  "group_span c task_group_id expected wait start_ts end_ts =
     (plain_span (ac_trace_id c) (task_group_id @ '':agent.dispatch_group'')
        ((if ac_execution_id c \<noteq> [] then ac_execution_id c else ac_message_id c) @ '':worker.execute'')
        ''agent.dispatch_group'' ''agent_context'' start_ts end_ts ''COMPLETED'')
     \<lparr>sp_session_id := ac_session_id c, sp_execution_id := ac_execution_id c, sp_message_id := ac_message_id c,
      sp_target_agent_type := ac_current_agent_id c,
      sp_metadata := [(''task_group_id'', JStr task_group_id), (''task_count'', JInt (int expected)),
        (''wait_for_reply'', JBool wait)]\<rparr>"

definition call_agents ::
  "services \<Rightarrow> task_spec list \<Rightarrow> bool \<Rightarrow> string \<Rightarrow> string \<Rightarrow> int option \<Rightarrow> (agent_context, group_result) act" where
  "call_agents sv tasks wait message_id parent_message_id reply_timeout_ms =
     (if tasks = [] then a_raise (ValueError ''dispatch_group/call_agents requires at least one task'')
      else if message_id \<noteq> [] \<and> 1 < length tasks
      then a_raise (ValueError ''call_agents/dispatch_group cannot pin message_id across tasks'')
      else
        a_bind (a_lift uuid_hex) (\<lambda>fresh. let task_group_id = TASK_GROUP_ID_PREFIX @ take 8 fresh in
        a_bind (a_lift now_ms) (\<lambda>start.
        a_seq (if wait then group_setup sv task_group_id (length tasks)
               else a_set (\<lambda>c. c\<lparr>ac_permission_transferred := True\<rparr>))
       (a_bind (a_for (dispatch_member sv task_group_id wait message_id parent_message_id reply_timeout_ms) tasks) (\<lambda>dispatched.
        a_seq (a_except (a_bind (a_lift now_ms) (\<lambda>stop.
             a_with (\<lambda>c. record_in_context (group_span c task_group_id (length tasks) wait start stop)))) (\<lambda>_. a_ret ()))
        (a_ret \<lparr>gr_status = ''QUEUED'', gr_task_group_id = task_group_id, gr_dispatched_tasks = dispatched\<rparr>))))))"

section \<open>Polling for the results of a fan-out\<close>

text \<open>
  \<open>collect_group_results\<close>: \<open>expected\<close> is \<open>None\<close> for the group that is gone (infinity); at
  most \<open>n\<close> rounds of 0.1 s, and the time is in milliseconds.
\<close>

definition group_result_of :: "string \<times> rtext \<Rightarrow> exn + json" where
  "group_result_of p = (case loads (snd p) of
       Some (JObj d) \<Rightarrow> Inr (JObj (dupdate [(''message_id'', JStr (fst p))] d))
     | Some _ \<Rightarrow> Inl (TypeError ''argument after ** must be a mapping'')
     | None \<Rightarrow> Inl (ValueError ''invalid JSON''))"

fun all_results :: "(string \<times> rtext) list \<Rightarrow> exn + json list" where
  "all_results [] = Inr []"
| "all_results (p # ps) = res_bind (group_result_of p) (\<lambda>v. res_bind (all_results ps) (\<lambda>vs. Inr (v # vs)))"

primrec poll_results :: "nat \<Rightarrow> string \<Rightarrow> int option \<Rightarrow> int \<Rightarrow> int \<Rightarrow> json list \<Rightarrow> json list prog" where
  "poll_results 0 key expected start timeout found = Raise Diverges"
| "poll_results (Suc n) key expected start timeout found =
     (let enough = (\<lambda>rs :: json list. case expected of None \<Rightarrow> False | Some t \<Rightarrow> t \<le> int (length rs)) in
      if enough found then Ret found
      else bindp (call Monotonic r_int) (\<lambda>now.
        if timeout \<le> now - start then Ret found
        else bindp (call (HGetAll key) r_pairs) (\<lambda>raw.
          bindp (if raw = [] then Ret found else lift_res (all_results raw)) (\<lambda>rs.
          if raw \<noteq> [] \<and> enough rs then Ret rs else poll_results n key expected start timeout rs))))"

definition collect_group_results :: "nat \<Rightarrow> schema \<Rightarrow> string \<Rightarrow> int \<Rightarrow> json list prog" where
  "collect_group_results n V task_group_id timeout =
     (if task_group_id = [] then Ret []
      else bindp (call (HGet (task_group V task_group_id) ''total'') r_text) (\<lambda>expected.
        bindp (case expected of None \<Rightarrow> Ret None
          | Some (Doc (JInt t)) \<Rightarrow> Ret (Some t)
          | Some _ \<Rightarrow> Raise (ValueError ''invalid literal for int()'')) (\<lambda>t.
        bindp (call Monotonic r_int) (\<lambda>start. poll_results n (task_group_results V task_group_id) t start timeout []))))"

end
