(* ===== verification/Dispatch_Properties.thy ===== *)
theory Dispatch_Properties
  imports Agent_Dispatch "HOL-Library.Sublist"
begin

text \<open>
  What a call promises about the context it is made in: the flags after every outcome,
  the wait that is registered before its message goes out, the fan-out whose members are
  answered for, and where the code falls short of its comments.
\<close>

section \<open>Hooks and spans\<close>

lemma with_command_aouts [aouts_simps]:
  "aouts Q (with_command m x) c = aouts (\<lambda>r (c', x'). Q (case r of Inl e \<Rightarrow> Inl e | Inr _ \<Rightarrow> Inr x') c') m (c, x)"
  unfolding aouts_def with_command_def outs_bindp
  by (intro arg_cong [where f = "\<lambda>R. outs R (m (c, x))"] ext) (auto split: sum.splits prod.splits)

lemma keeps_run_hooks [keeps_intros]:
  assumes "\<And>h. h \<in> set plugins \<Longrightarrow> keeps I P (\<lambda>_. True) (hook h)" and "E ()"
  shows "keeps I P E (run_hooks hook plugins)"
  unfolding run_hooks_def by (intro keeps_intros assms TrueI)

text \<open>Hooks on a context and a command that keep a property of the context.\<close>

lemma keeps_with_command [keeps_intros]:
  assumes "keeps (\<lambda>p. I (fst p)) P (\<lambda>_. True) m" and "\<And>x. E x"
  shows "keeps I P E (with_command m x)"
proof (rule keepsI)
  fix c assume "I c"
  then have c: "I (fst (c, x))" by simp
  show "aouts (\<lambda>r c'. I c' \<and> (\<forall>a. r = Inr a \<longrightarrow> E a)) (with_command m x) c"
    unfolding with_command_aouts by (rule aouts_mono [OF keepsD [OF assms(1) c]]) (auto simp: assms(2))
  show "only P (with_command m x c)"
    using keeps_only [OF assms(1) c] by (auto simp: with_command_def intro!: only_bindp split: prod.splits)
qed

lemma keeps_record_in_context [keeps_intros]:
  assumes "\<And>c. I c \<Longrightarrow> exporters_in P (ac_span_recorder c)"
    and "\<And>c q. I c \<Longrightarrow> exporters_in P q \<Longrightarrow> I (c\<lparr>ac_span_recorder := q\<rparr>)"
  shows "keeps I P (\<lambda>_. True) (record_in_context span)"
  unfolding record_in_context_def
  by (intro keeps_intros keeps_zoom [OF record_span_keeps]) (auto intro: assms)

lemma exporters_any [simp]: "exporters_in (\<lambda>_. True) q"
  by (simp add: exporters_in_def split: prod.splits)

section \<open>The flags of a context\<close>

definition flags :: "agent_context \<Rightarrow> bool \<times> string \<times> bool" where
  "flags c = (ac_is_suspended c, ac_suspended_state c, ac_permission_transferred c)"

lemma flags_simps [simp]:
  "flags (restore_flags e c) = flags e" "flags (c\<lparr>ac_span_recorder := q\<rparr>) = flags c"
  "flags (c\<lparr>ac_pending_group_replies := p\<rparr>) = flags c"
  by (simp_all add: flags_def restore_flags_def)

text \<open>Plugins whose call hooks keep a property of the context, whatever else they do.\<close>

definition respectful :: "services \<Rightarrow> (agent_context \<Rightarrow> bool) \<Rightarrow> (cmd \<Rightarrow> bool) \<Rightarrow> bool" where
  "respectful sv I P = (\<forall>h \<in> set (sv_plugins sv).
     keeps (\<lambda>p. I (fst p)) P (\<lambda>_. True) (hk_call_start h) \<and>
     (\<forall>e. keeps (\<lambda>p. I (fst p)) P (\<lambda>_. True) (hk_call_error h e)) \<and>
     (\<forall>st. keeps (\<lambda>p. I (fst p)) P (\<lambda>_. True) (hk_call_complete h st)))"

lemma keeps_deliver:
  assumes "respectful sv I (\<lambda>_. True)" and "\<And>c q. I c \<Longrightarrow> I (c\<lparr>ac_span_recorder := q\<rparr>)"
  shows "keeps I (\<lambda>_. True) (\<lambda>res. cl_status res = ''QUEUED'') (deliver_call sv a execution_id mid pid cmd av)"
  using assms(1) unfolding deliver_call_def send_call_def Let_def
  by (intro keeps_intros assms(2)) (auto simp: respectful_def)

text \<open>A rejected call ends with the flags of its entry, whatever the hooks did.\<close>

lemma reject_flags:
  assumes "respectful sv I (\<lambda>_. True)" and "I c"
  shows "aouts (\<lambda>r c'. case r of Inl e \<Rightarrow> I c' | Inr res \<Rightarrow> cl_status res = ''FAILED'' \<and> flags c' = flags entry)
     (reject_call sv entry a execution_id mid pid cmd av) c"
  unfolding reject_call_def
proof (rule aouts_after_seq [where I = I and P = "\<lambda>_. True"])
  fix c assume "I c"
  have hooks: "keeps I (\<lambda>_. True) (\<lambda>_. True)
      (with_command (run_hooks (\<lambda>h. hk_call_error h (RuntimeError (av_error av))) (sv_plugins sv)) cmd)"
    using assms(1) by (intro keeps_intros) (auto simp: respectful_def)
  show "aouts (\<lambda>r c'. case r of Inl e \<Rightarrow> I c' | Inr res \<Rightarrow> cl_status res = ''FAILED'' \<and> flags c' = flags entry)
      (a_bind (with_command (run_hooks (\<lambda>h. hk_call_error h (RuntimeError (av_error av))) (sv_plugins sv)) cmd) (\<lambda>_.
       a_seq (a_set (restore_flags entry)) (a_ret \<lparr>cl_status = ''FAILED'', cl_message_id = [], cl_parent_message_id = pid,
        cl_target_agent_type = ca_target_agent_type a, cl_error = av_error av,
        cl_error_code = str_or (av_error_code av) ''AGENT_TYPE_UNAVAILABLE''\<rparr>))) c"
    by (rule aouts_after [OF hooks \<open>I c\<close>]) (auto simp: aouts_simps)
qed (use assms(2) in \<open>auto intro!: keeps_intros\<close>)

definition flags_after :: "agent_context \<Rightarrow> bool \<Rightarrow> exn + call_result \<Rightarrow> agent_context \<Rightarrow> bool" where
  "flags_after entry wait r c' = (case r of Inl e \<Rightarrow> flags c' \<in> {flags entry, flags (hand_off wait entry)}
     | Inr res \<Rightarrow> flags c' = (if cl_status res = ''FAILED'' then flags entry else flags (hand_off wait entry)))"

lemma route_flags:
  assumes "\<And>f. respectful sv (\<lambda>c. flags c = f) (\<lambda>_. True)" and "flags c = flags (hand_off wait entry)"
  shows "aouts (flags_after entry wait) (route_call sv entry a mid pid) c"
proof -
  let ?I = "\<lambda>c'. flags c' = flags (hand_off wait entry)"
  have I: "respectful sv ?I (\<lambda>_. True)" using assms(1) .
  have hooks: "keeps ?I (\<lambda>_. True) (\<lambda>_. True) (with_command (run_hooks hk_call_start (sv_plugins sv)) cmd)" for cmd
    using I by (intro keeps_intros) (auto simp: respectful_def)
  have deliver: "aouts (flags_after entry wait) (deliver_call sv a eid mid pid cmd av) c'" if "?I c'" for eid cmd av c'
    by (rule aouts_mono [OF keepsD [OF keeps_deliver [OF I] that]]) (auto simp: flags_after_def split: sum.splits)
  have reject: "aouts (flags_after entry wait) (reject_call sv entry a eid mid pid cmd av) c'" if "?I c'" for eid cmd av c'
    by (rule aouts_mono [OF reject_flags [OF I that]]) (auto simp: flags_after_def split: sum.splits)
  have fail: "flags_after entry wait (Inl e) c'" if "?I c'" for e c'
    using that by (simp add: flags_after_def)
  show ?thesis
    unfolding route_call_def Let_def
    by (rule aouts_after [where I = ?I and P = "\<lambda>_. True" and E = "\<lambda>_. True"];
        (intro keeps_intros hooks TrueI only_True | simp add: assms(2) aouts_if deliver reject fail)?)+
qed

lemma dispatch_flags:
  assumes "\<And>f. respectful sv (\<lambda>c. flags c = f) (\<lambda>_. True)"
  shows "aouts (flags_after c (ca_wait_for_reply a)) (dispatch_single_task sv a) c"
  unfolding dispatch_single_task_def
proof (rule aouts_after [where I = "\<lambda>d. d = c" and P = "\<lambda>_. True" and E = "\<lambda>_. True"])
  fix mid d assume "d = c"
  then show "aouts (flags_after c (ca_wait_for_reply a))
      (a_with (\<lambda>entry. a_seq (a_set (hand_off (ca_wait_for_reply a)))
         (route_call sv entry a mid (str_or (ca_parent_message_id a) (ac_message_id entry))))) d"
    by (simp add: aouts_simps route_flags [OF assms])
qed (auto intro!: keeps_intros simp: flags_after_def)

text \<open>
  C31: a call leaves the context's flags as its outcome says, on any server: a call that
  is refused because no worker is available leaves them exactly as they were, also when
  an earlier call had suspended the context; a call that is sent leaves the context
  suspended in \<open>WAITING_AGENT\<close> when it waits for the reply, and handed over when it does
  not; a call that raises leaves them in one of these two states.
\<close>

theorem call_flags_follow_outcome:
  assumes "\<And>f. respectful sv (\<lambda>c. flags c = f) (\<lambda>_. True)"
  shows "case fst (run X (dispatch_single_task sv a c) s) of
     Inl e \<Rightarrow> e = Diverges
   | Inr (r, c') \<Rightarrow> (case r of
       Inl e \<Rightarrow> flags c' \<in> {flags c, flags (hand_off (ca_wait_for_reply a) c)}
     | Inr res \<Rightarrow> flags c' = (if cl_status res = ''FAILED'' then flags c else flags (hand_off (ca_wait_for_reply a) c)))"
  by (rule aouts_run [OF dispatch_flags [OF assms, unfolded flags_after_def]])

text \<open>
  A call whose content cannot be serialized raises before anything is sent, yet
  leaves the context suspended (or handed over): a handler that catches the exception and
  goes on is recorded as waiting for a reply nobody was asked for.
\<close>

theorem unserializable_call_suspends:
  assumes "ac_content_codec c = None" and "\<not> is_wire_content (ca_content a)" and "ca_message_id a \<noteq> []"
  shows "\<exists>m. run X (dispatch_single_task sv a c) s = ((Inr (Inl (TypeError m), hand_off (ca_wait_for_reply a) c)), s)"
proof -
  have "ac_content_codec (hand_off w c) = None" for w
    using assms(1) by (simp add: hand_off_def suspend_for_def)
  then show ?thesis
    using assms by (simp add: dispatch_single_task_def a_bind_def a_ret_def a_with_def a_seq_def a_set_def route_call_def
        a_lift_def attempt_def lift_res_def serialize_outbound_content_def)
qed

section \<open>Waiting before sending\<close>

text \<open>Registering a wait: no stream is written, and afterwards the entry is there.\<close>

lemma marker_not_index [simp]: "consumed_marker_key V s m \<noteq> wait_index_key V s'"
  using render_inj [of "KConsumed s (member_digest m)" "KWaitIndex (wait_index_shard s')" V]
  by (simp add: consumed_marker_key_def wait_index_key_def)

lemmas index_not_marker [simp] = marker_not_index [symmetric]

lemma register_wait_registers:
  assumes "strm K = strm K0"
  shows "wp (register_wait V sid pid cid gid t) (\<lambda>o' K'. o' = Inr () \<and>
      zs K' (wait_index_key V sid) (encode_member sid pid cid gid) \<noteq> None) K"
    and "always (\<lambda>K. strm K = strm K0 \<or> zs K (wait_index_key V sid) (encode_member sid pid cid gid) \<noteq> None)
      (register_wait V sid pid cid gid t) K"
  using assms
  by (auto simp: register_wait_def Let_def wp_simps always_simps)

text \<open>What is only read to route a call, and what records it.\<close>

lemma check_type_quiet [simp]: "only quiet (check_agent_type_online V t act)"
proof -
  have "only quiet (filter_online V ws)" for ws
    by (induction ws) (auto simp: check_worker_online_def intro!: only_bindp split: option.splits)
  then show ?thesis by (auto simp: check_agent_type_online_def intro!: only_bindp)
qed

lemma routing_quiet:
  "in_policy i \<in> {''FAIL_FAST'', ''SEND_ANYWAY''} \<Longrightarrow> only quiet (prepare_delivery n V i)"
  by (auto simp: prepare_delivery_def check_control_plane_policy_def read_json_key_def has_online_agent_type_def
      resolve_configured_fallback_def intro!: only_bindp split: option.splits)

lemma initialize_quiet [simp]: "only quiet (initialize_execution V e)"
  by (auto simp: initialize_execution_def Let_def field_str_def save_new_record_def intro!: only_bindp split: option.splits)

lemma failed_route_quiet [simp]: "only quiet (record_failed_route_decision V r)"
  by (auto simp: record_failed_route_decision_def intro!: only_bindp only_try_exc)

text \<open>A wait for the reply of a call, as the caller registers it.\<close>

definition awaited :: "services \<Rightarrow> string \<Rightarrow> string \<Rightarrow> call_args \<Rightarrow> string \<Rightarrow> kspace \<Rightarrow> bool" where
  "awaited sv sid mid a pid K = (zs K (wait_index_key (sv_schema sv) sid) (encode_member sid pid mid (ca_task_group_id a)) \<noteq> None)"

definition harmless :: "services \<Rightarrow> string \<Rightarrow> string \<Rightarrow> call_args \<Rightarrow> string \<Rightarrow> cmd \<Rightarrow> bool" where
  "harmless sv sid mid a pid =
     spares (wait_index_key (sv_schema sv) sid) (encode_member sid pid mid (ca_task_group_id a))"

lemma harmless_keeps: "harmless sv sid mid a pid c \<Longrightarrow> awaited sv sid mid a pid K \<Longrightarrow> awaited sv sid mid a pid (apply_cmd c K)"
  by (simp add: harmless_def awaited_def spares_def)

lemma keeps_send_call:
  assumes hooks: "respectful sv I P"
    and "\<And>c. I c \<Longrightarrow> exporters_in P (ac_span_recorder c)"
    and "\<And>c q. I c \<Longrightarrow> exporters_in P q \<Longrightarrow> I (c\<lparr>ac_span_recorder := q\<rparr>)"
    and "P Now" "\<And>k v. P (XAdd k v)"
  shows "keeps I P (\<lambda>_. True) (send_call sv a mid pid cmd av target stream)"
proof -
  have complete: "keeps I P (\<lambda>_. True) (with_command (run_hooks (\<lambda>h. hk_call_complete h st) (sv_plugins sv)) x)" for st x
    using hooks unfolding respectful_def by (intro keeps_intros; fastforce)
  have fails: "keeps I P (\<lambda>_. True) (with_command (run_hooks (\<lambda>h. hk_call_error h e) (sv_plugins sv)) x)" for e x
    using hooks unfolding respectful_def by (intro keeps_intros; fastforce)
  show ?thesis
    unfolding send_call_def
    by (intro complete fails keeps_intros TrueI; (use assms(2-5) in \<open>auto\<close>)?)
qed

lemma respectful_weaken:
  "respectful sv I P \<Longrightarrow> (\<And>c. P c \<Longrightarrow> Q c) \<Longrightarrow> respectful sv I Q"
  unfolding respectful_def by (blast intro: keeps_weaken)

lemma deliver_awaited:
  fixes K K0 :: kspace
  assumes hooks: "respectful sv I (\<lambda>c. quiet c \<and> harmless sv sid mid a pid c)"
    and I: "\<And>c. I c \<Longrightarrow> ac_session_id c = sid \<and> exporters_in (harmless sv sid mid a pid) (ac_span_recorder c)"
    and I': "\<And>c q. I c \<Longrightarrow> exporters_in (harmless sv sid mid a pid) q \<Longrightarrow> I (c\<lparr>ac_span_recorder := q\<rparr>)"
    and "ca_wait_for_reply a" and "I c" and "strm K = strm K0"
  shows "aalways (\<lambda>K. strm K = strm K0 \<or> awaited sv sid mid a pid K) (deliver_call sv a eid mid pid cmd av) c K"
proof -
  let ?R = "\<lambda>K. strm K = strm K0 \<or> awaited sv sid mid a pid K" and ?P = "harmless sv sid mid a pid"
  have send: "keeps I ?P (\<lambda>_. True) (send_call sv a mid pid x av target stream)" for x target stream
    by (rule keeps_send_call [OF respectful_weaken [OF hooks]]) (use I I' in \<open>auto simp: harmless_def\<close>)
  show ?thesis
    unfolding deliver_call_def Let_def
  proof (rule aalways_after_seq [where I = I and P = quiet and S = "\<lambda>K. strm K = strm K0"])
    fix c' and K' :: kspace assume c': "I c'" and K': "strm K' = strm K0"
    let ?t = "case ca_reply_timeout_ms a of None \<Rightarrow> DEFAULT_REPLY_TIMEOUT_MS | Some t \<Rightarrow> t"
    have sid: "ac_session_id c' = sid" using I [OF c'] by simp
    have sent: "aalways ?R (send_call sv a mid pid x av target stream) c' L" if "awaited sv sid mid a pid L" for x target stream L
      by (rule aalways_mono [OF aalways_only [OF send c' harmless_keeps that]]) simp_all
    have reg: "wp (register_wait (sv_schema sv) sid pid mid (ca_task_group_id a) ?t)
        (\<lambda>o' L. o' = Inr () \<and> awaited sv sid mid a pid L) K'"
      "always ?R (register_wait (sv_schema sv) sid pid mid (ca_task_group_id a) ?t) K'"
      using register_wait_registers [OF K', where V = "sv_schema sv" and sid = sid and pid = pid and cid = mid
          and gid = "ca_task_group_id a" and t = ?t] by (simp_all add: awaited_def)
    show "aalways ?R (a_seq (a_when (ca_wait_for_reply a) (a_with (\<lambda>c. a_lift (register_wait (sv_schema sv)
           (ac_session_id c) pid mid (ca_task_group_id a) ?t))))
        (send_call sv a mid pid (with_target (av_selected_agent_type av) cmd) av
          (str_or (av_selected_agent_type av) (ca_target_agent_type a))
          (str_or (av_stream_name av) (ctrl_stream (sv_schema sv) (str_or (av_selected_agent_type av) (ca_target_agent_type a))))))
        c' K'"
      unfolding aalways_seq aalways_when aalways_with aalways_lift awp_when awp_with awp_lift sid
      using assms(4) reg by (auto intro!: wp_mono [OF reg(1)] sent)
  qed (use assms(5,6) in \<open>auto intro!: keeps_intros simp: quiet_def\<close>)
qed

lemma keeps_reject_call:
  assumes "respectful sv I P" and "\<And>c. I c \<Longrightarrow> I (restore_flags entry c)" and "\<And>c. quiet c \<Longrightarrow> P c"
  shows "keeps I P (\<lambda>_. True) (reject_call sv entry a eid mid pid cmd av)"
  using assms(1) unfolding reject_call_def
  by (intro keeps_intros TrueI only_mono [OF failed_route_quiet]) (auto simp: respectful_def assms(2,3))

lemma route_awaited:
  fixes K K0 :: kspace
  assumes hooks: "respectful sv I (\<lambda>c. quiet c \<and> harmless sv sid mid a pid c)"
    and I: "\<And>c. I c \<Longrightarrow> ac_session_id c = sid \<and> exporters_in (harmless sv sid mid a pid) (ac_span_recorder c)"
    and I': "\<And>c q. I c \<Longrightarrow> exporters_in (harmless sv sid mid a pid) q \<Longrightarrow> I (c\<lparr>ac_span_recorder := q\<rparr>)"
    and I'': "\<And>c. I c \<Longrightarrow> I (restore_flags entry c)"
    and "ca_wait_for_reply a" and policy: "ca_route_policy a \<in> {''FAIL_FAST'', ''SEND_ANYWAY''}" and "I c" and "strm K = strm K0"
  shows "aalways (\<lambda>K. strm K = strm K0 \<or> awaited sv sid mid a pid K) (route_call sv entry a mid pid) c K"
proof -
  let ?S = "\<lambda>K. strm K = strm K0"
  have hooks': "respectful sv I quiet" by (rule respectful_weaken [OF hooks]) simp
  have start: "keeps I quiet (\<lambda>_. True) (with_command (run_hooks hk_call_start (sv_plugins sv)) cmd)" for cmd
    using hooks' by (intro keeps_intros) (auto simp: respectful_def)
  have reject: "aalways (\<lambda>K. strm K = strm K0 \<or> awaited sv sid mid a pid K)
      (reject_call sv entry a eid mid pid cmd av) c' K'" if "I c'" "?S K'" for eid cmd av c' K'
    by (rule aalways_mono [OF aalways_only [OF keeps_reject_call [OF hooks' I''] that(1), where I = ?S]])
      (use that in \<open>auto simp: quiet_def\<close>)
  have route: "only quiet (prepare_delivery n V (call_intent d a eid mid cmd))" for n V d eid cmd
    by (rule routing_quiet) (use policy in \<open>simp add: call_intent_def\<close>)
  show ?thesis
    unfolding route_call_def Let_def
    by (rule aalways_after [where I = I and P = quiet and E = "\<lambda>_. True" and S = ?S];
        ((intro keeps_intros start TrueI route; (simp add: quiet_def)?)
          | simp add: assms(7,8) aalways_if reject deliver_awaited [OF hooks I I' assms(5)] quiet_def)?)+
qed

definition undisturbed :: "services \<Rightarrow> agent_context \<Rightarrow> call_args \<Rightarrow> agent_context \<Rightarrow> bool" where
  "undisturbed sv c a d = (ac_session_id d = ac_session_id c \<and>
     exporters_in (harmless sv (ac_session_id c) (ca_message_id a) a (str_or (ca_parent_message_id a) (ac_message_id c)))
       (ac_span_recorder d))"

lemma dispatch_awaited:
  fixes K K0 :: kspace
  assumes "respectful sv (undisturbed sv c a) (\<lambda>cmd. quiet cmd \<and>
      harmless sv (ac_session_id c) (ca_message_id a) a (str_or (ca_parent_message_id a) (ac_message_id c)) cmd)"
    and "undisturbed sv c a c" and "ca_wait_for_reply a" and "ca_route_policy a \<in> {''FAIL_FAST'', ''SEND_ANYWAY''}"
    and "ca_message_id a \<noteq> []"
  shows "aalways (\<lambda>K'. strm K' = strm K \<or> awaited sv (ac_session_id c) (ca_message_id a) a
     (str_or (ca_parent_message_id a) (ac_message_id c)) K') (dispatch_single_task sv a) c K"
proof -
  have "aalways (\<lambda>K'. strm K' = strm K \<or> awaited sv (ac_session_id c) (ca_message_id a) a
     (str_or (ca_parent_message_id a) (ac_message_id c)) K')
     (route_call sv c a (ca_message_id a) (str_or (ca_parent_message_id a) (ac_message_id c)))
     (hand_off (ca_wait_for_reply a) c) K"
    by (rule route_awaited [where I = "undisturbed sv c a"])
      (use assms in \<open>auto simp: undisturbed_def restore_flags_def hand_off_def suspend_for_def\<close>)
  then show ?thesis
    using assms(5) by (simp add: dispatch_single_task_def aalways_simps awp_simps aalways_now)
qed


section \<open>A fan-out\<close>

lemma keeps_dispatch:
  assumes hooks: "respectful sv I (\<lambda>_. True)" and rec: "\<And>c q. I c \<Longrightarrow> I (c\<lparr>ac_span_recorder := q\<rparr>)"
    and hand: "\<And>c. I c \<Longrightarrow> I (hand_off (ca_wait_for_reply a) c)"
    and restore: "\<And>e c. I e \<Longrightarrow> I c \<Longrightarrow> I (restore_flags e c)"
  shows "keeps I (\<lambda>_. True) (\<lambda>_. True) (dispatch_single_task sv a)"
proof -
  have start: "keeps I (\<lambda>_. True) (\<lambda>_. True) (with_command (run_hooks hk_call_start (sv_plugins sv)) cmd)" for cmd
    using hooks by (intro keeps_intros) (auto simp: respectful_def)
  have deliver: "keeps I (\<lambda>_. True) (\<lambda>_. True) (deliver_call sv a eid mid pid cmd av)" for eid mid pid cmd av
    by (rule keeps_weaken [OF keeps_deliver [OF hooks rec]]) simp_all
  show ?thesis
    unfolding dispatch_single_task_def route_call_def Let_def
    by (intro keeps_intros start deliver keeps_reject_call [OF hooks] TrueI only_True) (auto intro: hand restore)
qed

text \<open>The replies queued for the members that could not be dispatched, oldest first.\<close>

definition stands_for :: "string \<Rightarrow> command \<Rightarrow> bool" where
  "stands_for gid reply = (constructed reply \<and> cls_of reply = ResumeCls \<and> command_status reply = ''FAILED'' \<and>
     mh_task_group_id (command_header reply) = gid)"

abbreviation child_of :: "command \<Rightarrow> string" where
  "child_of reply \<equiv> mh_parent_message_id (command_header reply)"

definition holding :: "command list \<Rightarrow> agent_context \<Rightarrow> bool" where
  "holding p c = (ac_pending_group_replies c = p \<and> ac_is_suspended c)"

lemma member_stand_in_outs:
  "outs (\<lambda>o'. case o' of Inl e \<Rightarrow> True | Inr reply \<Rightarrow> stands_for gid reply \<and> child_of reply = mid)
     (stand_in_reply (member_stand_in c gid cid mid r md))"
  by (auto simp: stand_in_reply_def member_stand_in_def outs_bindp new_resume_def stands_for_def command_header_def
      command_status_def stand_in_header_def intro: outs_mono [OF outs_True] split: sum.splits)

lemma queue_failure_aouts:
  assumes "holding p c"
  shows "aouts (\<lambda>r c'. \<exists>rs. holding (p @ rs) c' \<and> (rs = [] \<or> (\<exists>reply. rs = [reply] \<and> stands_for gid reply \<and> child_of reply = mid)))
     (queue_undispatched_member_failure sv gid cid mid r md t) c"
proof -
  have none: "holding p c' \<Longrightarrow> \<exists>rs. holding (p @ rs) c' \<and> (rs = [] \<or> (\<exists>reply. rs = [reply] \<and> stands_for gid reply \<and> child_of reply = mid))"
    for c'
    by (rule exI [of _ "[]"]) simp
  have one: "holding p c' \<Longrightarrow> stands_for gid reply \<Longrightarrow> child_of reply = mid \<Longrightarrow>
      \<exists>rs. holding (p @ rs) (c'\<lparr>ac_pending_group_replies := ac_pending_group_replies c' @ [reply]\<rparr>) \<and>
        (rs = [] \<or> (\<exists>reply. rs = [reply] \<and> stands_for gid reply \<and> child_of reply = mid))" for c' reply
    by (rule exI [of _ "[reply]"]) (simp add: holding_def)
  show ?thesis
    unfolding queue_undispatched_member_failure_def aouts_simps
    by (rule outs_mono [OF outs_True])
      (auto simp: aouts_simps none [OF assms] one [OF assms] split: sum.splits
        intro!: outs_mono [OF member_stand_in_outs [of gid mid]])
qed

lemma member_aouts:
  assumes hooks: "\<And>p. respectful sv (holding p) (\<lambda>_. True)" and c: "holding p c"
  shows "aouts (\<lambda>r c'. \<forall>mid t. r = Inr (mid, t) \<longrightarrow> (\<exists>rs. holding (p @ rs) c' \<and>
      (rs = [] \<or> (\<exists>reply. rs = [reply] \<and> stands_for gid reply \<and> child_of reply = mid))))
    (dispatch_member sv gid True message_id pid timeout t) c"
proof -
  have single: "keeps (holding p) (\<lambda>_. True) (\<lambda>_. True) (dispatch_single_task sv (member_args t target True mid pid gid timeout))"
    for target mid
    by (rule keeps_dispatch [OF hooks])
      (auto simp: holding_def hand_off_def suspend_for_def restore_flags_def member_args_def)
  have queue: "aouts (\<lambda>r c'. \<exists>rs. holding (p @ rs) c' \<and> (rs = [] \<or> (\<exists>reply. rs = [reply] \<and> stands_for gid reply \<and> child_of reply = mid)))
     (queue_undispatched_member_failure sv gid cid mid r md timeout) c'" if "holding p c'" for cid mid r md c'
    by (rule queue_failure_aouts [OF that])
  have none: "\<exists>rs. holding (p @ rs) c' \<and> (rs = [] \<or> (\<exists>reply. rs = [reply] \<and> stands_for gid reply \<and> child_of reply = mid))"
    if "holding p c'" for c' mid
    by (rule exI [of _ "[]"]) (simp add: that)
  show ?thesis
  proof (cases "ts_target_agent_type t")
    case (Some target)
    have id: "keeps (holding p) (\<lambda>_. True) (\<lambda>_. True)
        (if message_id \<noteq> [] then a_ret message_id else a_lift generate_message_id)"
      by (intro keeps_intros TrueI) simp
    show ?thesis
      unfolding dispatch_member_def Some option.case
    proof (rule aouts_after [OF id c])
      fix mid c1 assume c1: "holding p c1"
      let ?R = "\<lambda>c'. \<exists>rs. holding (p @ rs) c' \<and> (rs = [] \<or> (\<exists>reply. rs = [reply] \<and> stands_for gid reply \<and> child_of reply = mid))"
      have "aouts (\<lambda>r c'. \<forall>x. r = Inr x \<longrightarrow> ?R c') (a_bind (dispatch_single_task sv
            (member_args t target True mid pid gid timeout)) (\<lambda>r. a_seq (a_when (cl_status r = ''FAILED'' \<and> True)
              (queue_undispatched_member_failure sv gid (cl_parent_message_id r) mid r (ts_metadata t) timeout))
              (a_ret r))) c1"
        by (rule aouts_after [OF single c1])
          (auto simp: aouts_simps none intro: aouts_mono [OF queue] split: sum.splits)
      then show "aouts (\<lambda>r c'. \<forall>mid t. r = Inr (mid, t) \<longrightarrow> (\<exists>rs. holding (p @ rs) c' \<and>
          (rs = [] \<or> (\<exists>reply. rs = [reply] \<and> stands_for gid reply \<and> child_of reply = mid))))
        (a_bind (a_except (a_bind (dispatch_single_task sv (member_args t target True mid pid gid timeout))
            (\<lambda>r. a_seq (a_when (cl_status r = ''FAILED'' \<and> True)
              (queue_undispatched_member_failure sv gid (cl_parent_message_id r) mid r (ts_metadata t) timeout))
              (a_ret r)))
           (\<lambda>e. a_seq (a_when True (a_lift (exec_cmd (HSet (task_group (sv_schema sv) gid) ''aborted'' (Doc (JInt 1))))))
              (a_raise e))) (\<lambda>r. a_ret (mid, cl_target_agent_type r))) c1"
        unfolding aouts_bind [of _ "a_except _ _"] aouts_except
        by (rule aouts_mono) (auto simp: aouts_simps split: sum.splits exn.splits intro!: outs_mono [OF outs_True])
    qed auto
  qed (simp add: dispatch_member_def aouts_simps)
qed

definition accounted :: "string \<Rightarrow> command list \<Rightarrow> string list \<Rightarrow> bool" where
  "accounted gid rs mids = (subseq (map child_of rs) mids \<and> list_all (stands_for gid) rs)"

lemma members_aouts:
  assumes hooks: "\<And>p. respectful sv (holding p) (\<lambda>_. True)"
  shows "holding p c \<Longrightarrow> aouts (\<lambda>r c'. \<forall>ds. r = Inr ds \<longrightarrow> length ds = length tasks \<and>
      (\<exists>rs. holding (p @ rs) c' \<and> accounted gid rs (map fst ds)))
    (a_for (dispatch_member sv gid True message_id pid timeout) tasks) c"
proof (induction tasks arbitrary: p c)
  case Nil
  then show ?case by (auto simp: aouts_simps accounted_def intro!: exI [of _ "[]"])
next
  case (Cons t ts)
  show ?case
    unfolding a_for.simps aouts_bind
  proof (rule aouts_mono [OF member_aouts [OF hooks Cons.prems, where gid = gid and message_id = message_id and pid = pid
        and timeout = timeout and t = t]])
    fix r :: "exn + string \<times> string" and c' assume r: "\<forall>mid t. r = Inr (mid, t) \<longrightarrow> (\<exists>rs. holding (p @ rs) c' \<and>
      (rs = [] \<or> (\<exists>reply. rs = [reply] \<and> stands_for gid reply \<and> child_of reply = mid)))"
    let ?Q = "\<lambda>r c'. \<forall>ds. r = Inr ds \<longrightarrow> length ds = length (t # ts) \<and>
      (\<exists>rs. holding (p @ rs) c' \<and> accounted gid rs (map fst ds))"
    show "case r of Inl e \<Rightarrow> ?Q (Inl e) c' | Inr a \<Rightarrow> aouts (\<lambda>r c'. case r of Inl e \<Rightarrow> ?Q (Inl e) c'
        | Inr as \<Rightarrow> aouts ?Q (a_ret (a # as)) c') (a_for (dispatch_member sv gid True message_id pid timeout) ts) c'"
    proof (cases r)
      case (Inr a)
      obtain mid ty where a: "a = (mid, ty)" by (cases a)
      then obtain rs where rs: "holding (p @ rs) c'"
          "rs = [] \<or> (\<exists>reply. rs = [reply] \<and> stands_for gid reply \<and> child_of reply = mid)"
        using r Inr by blast
      have step: "accounted gid (rs @ rs') (mid # mids)" if "accounted gid rs' mids" for rs' mids
        using rs(2) that by (auto simp: accounted_def intro: list_emb_Cons)
      show ?thesis
        unfolding Inr sum.case a
        by (rule aouts_mono [OF Cons.IH [OF rs(1)]])
          (auto simp: aouts_simps split: sum.splits dest: step)
    qed simp
  qed
qed


section \<open>A queued call\<close>

text \<open>\<open>sometime I p K\<close>: on a server that behaves as documented, \<open>I\<close> holds at some step of \<open>p\<close>.\<close>

primrec sometime :: "(kspace \<Rightarrow> bool) \<Rightarrow> 'a prog \<Rightarrow> kspace \<Rightarrow> bool" where
  "sometime I (Ret a) K = I K"
| "sometime I (Raise e) K = I K"
| "sometime I (Do c k) K = (I K \<or> (\<forall>r. reply_ok c K r \<longrightarrow> sometime I (k r) (apply_cmd c K)))"

lemma sometime_now: "I K \<Longrightarrow> sometime I p K"
  by (cases p) auto

lemma sometime_bindp:
  "wp p (\<lambda>o' K'. case o' of Inl e \<Rightarrow> False | Inr a \<Rightarrow> sometime I (f a) K') K \<Longrightarrow> sometime I (bindp p f) K"
  by (induction p arbitrary: K) auto

context redis begin

lemma sometime_stages: "sometime I p (view s) \<Longrightarrow> \<exists>t \<in> set (stages exec p s). I (view t)"
proof (induction p arbitrary: s)
  case (Do c k)
  show ?case
  proof (cases "I (view s)")
    case False
    then have "sometime I (k (fst (exec c s))) (view (snd (exec c s)))"
      using Do.prems exec_reply [of c s] exec_view [of c s] by simp
    then show ?thesis using Do.IH [OF rangeI] by fastforce
  qed simp
qed auto

end

definition asometime :: "(kspace \<Rightarrow> bool) \<Rightarrow> ('c, 'a) act \<Rightarrow> 'c \<Rightarrow> kspace \<Rightarrow> bool" where
  "asometime I m c K = sometime I (m c) K"

lemma asometime_bind:
  "awp m (\<lambda>r c' K'. case r of Inl e \<Rightarrow> False | Inr a \<Rightarrow> asometime I (f a) c' K') (\<lambda>_. False) c K \<Longrightarrow>
     asometime I (a_bind m f) c K"
  unfolding asometime_def a_bind_def awp_def
proof (rule sometime_bindp, erule wp_mono)
  fix o' :: "exn + (exn + 'b) \<times> 'a" and K' :: kspace
  show "case o' of Inl e \<Rightarrow> False | Inr (r, c') \<Rightarrow> case r of Inl e \<Rightarrow> False | Inr a \<Rightarrow> sometime I (f a c') K' \<Longrightarrow>
      case o' of Inl e \<Rightarrow> False | Inr a \<Rightarrow> sometime I (case a of (Inl e, c') \<Rightarrow> Ret (Inl e, c') | (Inr a, c') \<Rightarrow> f a c') K'"
    by (cases o'; cases "projr o'"; cases "fst (projr o')") auto
qed

lemma asometime_now: "I K \<Longrightarrow> asometime I m c K"
  by (simp add: asometime_def sometime_now)

lemma asometime_with: "asometime I (f c) c K \<Longrightarrow> asometime I (a_with f) c K"
  by (simp add: asometime_def a_with_def)

lemma no_plugins [simp]: "with_command (run_hooks h []) x = a_ret x"
  by (simp add: fun_eq_iff with_command_def run_hooks_def a_bind_def a_ret_def)

text \<open>The router queues a call: nobody serves the type and the control plane says nothing about it.\<close>

definition nobody_serves :: "schema \<Rightarrow> kspace \<Rightarrow> string \<Rightarrow> bool" where
  "nobody_serves V K t = (\<not> type_online V K t \<and> kv K (control_plane_agent_circuit V t) = None \<and>
     kv K (control_plane_agent_fallback V t) = None)"

lemma queue_only_wp:
  assumes "nobody_serves V K (in_target_agent_type i)" and "in_policy i = ''QUEUE_ONLY''" and "in_user_code i = []"
  shows "wp (prepare_delivery n V i) (\<lambda>o' K'. (\<exists>a. o' = Inr a) \<and>
     zs K' = zs K \<and> pending_payload (pending_of V i) \<in> set (strm K' (control_plane_delivery_pending_stream V))) K"
proof -
  have policy: "wp (check_control_plane_policy V i) (\<lambda>o' K'. K' = K \<and> o' = Inr None) K"
    using assms by (simp add: check_control_plane_policy_def wp_simps wp_read_json circuit_rejection_def nobody_serves_def)
  have fallback: "wp (resolve_configured_fallback V i) (\<lambda>o' K'. K' = K \<and> o' = Inr None) K"
    using assms by (simp add: resolve_configured_fallback_def wp_simps wp_read_json fallback_type_def nobody_serves_def)
  have online: "wp (has_online_agent_type V (in_target_agent_type i)) (\<lambda>o' K'. K' = K \<and> o' = Inr False) K"
    by (rule wp_mono [OF has_online_wp]) (use assms in \<open>simp add: nobody_serves_def\<close>)
  show ?thesis
    unfolding prepare_delivery_def
    by (rule wp_seq_read [OF policy], simp add: assms(2), rule wp_seq_read [OF online], simp,
        rule wp_seq_read [OF fallback]) (simp add: queue_pending_def wp_simps)
qed

text \<open>
  A call that is queued for a worker goes out before its wait is registered: on a
  server that behaves as documented there is a point of the dispatch at which the command
  already stands in the stream of pending deliveries, for a controller to release, while
  the wait index has no entry for it, whatever it held before.  A caller that dies at
  that point waits for a reply no sweep will ever time out.
\<close>

theorem queued_call_precedes_its_wait:
  assumes "redis exec view" and "sv_plugins sv = []" and "ca_route_policy a = ''QUEUE_ONLY''" and "ac_user_code c = []"
    and "serialize_outbound_content (ac_content_codec c) (ca_content a) = Inr v" and "has_content v"
    and "nobody_serves (sv_schema sv) (view s) (ca_target_agent_type a)" and "ca_message_id a \<noteq> []"
    and "\<not> awaited sv (ac_session_id c) (ca_message_id a) a (str_or (ca_parent_message_id a) (ac_message_id c)) (view s)"
  shows "\<exists>t \<in> set (stages exec (dispatch_single_task sv a c) s).
     \<not> awaited sv (ac_session_id c) (ca_message_id a) a (str_or (ca_parent_message_id a) (ac_message_id c)) (view t) \<and>
     (\<exists>i. in_message_id i = ca_message_id a \<and>
        pending_payload (pending_of (sv_schema sv) i) \<in> set (strm (view t) (control_plane_delivery_pending_stream (sv_schema sv))))"
proof -
  let ?mid = "ca_message_id a" and ?pid = "str_or (ca_parent_message_id a) (ac_message_id c)"
  let ?I = "\<lambda>K. \<not> awaited sv (ac_session_id c) ?mid a ?pid K \<and> (\<exists>i. in_message_id i = ca_message_id a \<and>
        pending_payload (pending_of (sv_schema sv) i) \<in> set (strm K (control_plane_delivery_pending_stream (sv_schema sv))))"
  let ?h = "hand_off (ca_wait_for_reply a) c"
  have h: "ac_content_codec ?h = ac_content_codec c" "ac_user_code ?h = ac_user_code c"
    by (simp_all add: hand_off_def suspend_for_def)
  have queue: "wp (prepare_delivery n (sv_schema sv) (call_intent ?h a eid ?mid cmd)) (\<lambda>o' K'. \<exists>x. o' = Inr x \<and> ?I K') (view s)"
    for n eid cmd
    by (rule wp_mono [OF queue_only_wp])
      (use assms in \<open>auto simp: call_intent_def h awaited_def intro!: exI [of _ "call_intent ?h a eid ?mid cmd"]\<close>)
  have "asometime ?I (route_call sv c a ?mid ?pid) ?h (view s)"
    unfolding route_call_def Let_def
    by (rule asometime_bind,
      auto simp: awp_simps assms(2,5,6) h lift_res_def wp_simps ask_command_def new_ask_def asometime_now
        split: sum.splits intro!: asometime_bind wp_mono [OF queue], (rule asometime_now, blast)+)
  then have "sometime ?I (dispatch_single_task sv a c) (view s)"
    using assms(8) unfolding dispatch_single_task_def
    by (simp add: asometime_def a_bind_def a_ret_def a_with_def a_seq_def a_set_def)
  from redis.sometime_stages [OF assms(1) this] show ?thesis .
qed

definition demo_services :: services where
  "demo_services = \<lparr>sv_schema = V1, sv_plugins = [], sv_save_message = \<lambda>_ _ _. Ret (), sv_hash64 = \<lambda>_. 7,
     sv_otel_span_id = 0, sv_langfuse_observation_id = [], sv_rounds = 3\<rparr>"

definition demo_context :: agent_context where
  "demo_context = \<lparr>ac_session_id = ''s'', ac_trace_id = ''t'', ac_current_agent_id = ''planner'', ac_execution_id = ''e'',
     ac_worker_id = ''w'', ac_message_id = ''m'', ac_parent_message_id = [], ac_user_code = [], ac_user_name = [],
     ac_current_command = None, ac_cancel_requested = False, ac_cancel_reason = [], ac_is_sub_agent = False,
     ac_emitter = \<lparr>em_fixed = [], em_layout = default_layout (\<lambda>_. []) (\<lambda>_. None), em_printed = \<lambda>_. []\<rparr>, ac_content_codec = None,
     ac_span_recorder = new_recorder V1 (\<lambda>_. False) 100 900, ac_chunk_count = 0, ac_response_buffer = [],
     ac_is_history_saved = False, ac_is_stream_finished = False, ac_permission_transferred = False,
     ac_is_suspended = False, ac_suspended_state = [], ac_pending_group_replies = [],
     ac_trace_parent_observation_id = [], ac_phoenix_span_id = 0, ac_langfuse_observation_id = []\<rparr>"

definition demo_call :: "string \<Rightarrow> call_args" where
  "demo_call policy = \<lparr>ca_target_agent_type = ''coder'', ca_content = PStr ''go'', ca_extra_payload = [],
     ca_wait_for_reply = True, ca_metadata = [], ca_message_id = ''c'', ca_parent_message_id = [],
     ca_task_group_id = [], ca_route_policy = policy, ca_availability_timeout_ms = 5, ca_region = [], ca_priority = 0,
     ca_reply_timeout_ms = None\<rparr>"


lemma demo_call_simps [simp]:
  "ca_wait_for_reply (demo_call p) = True" "ca_message_id (demo_call p) = ''c''" "ca_parent_message_id (demo_call p) = []"
  "ca_route_policy (demo_call p) = p" "ca_content (demo_call p) = PStr ''go''" "ca_target_agent_type (demo_call p) = ''coder''"
  "ca_task_group_id (demo_call p) = []"
  by (simp_all add: demo_call_def)

lemma demo_context_simps [simp]:
  "ac_session_id demo_context = ''s''" "ac_message_id demo_context = ''m''" "ac_content_codec demo_context = None"
  "ac_user_code demo_context = []" "ac_pending_group_replies demo_context = []"
  "ac_span_recorder demo_context = new_recorder V1 (\<lambda>_. False) 100 900"
  by (simp_all add: demo_context_def)

lemma demo_quiet [simp]: "respectful demo_services I P"
  by (simp add: respectful_def demo_services_def)

theorem call_flags_follow_outcome_witness:
  "case fst (run ref_exec (dispatch_single_task demo_services (demo_call ''FAIL_FAST'') demo_context) empty_server) of
     Inl e \<Rightarrow> e = Diverges
   | Inr (r, c') \<Rightarrow> (case r of
       Inl e \<Rightarrow> flags c' \<in> {flags demo_context, flags (hand_off (ca_wait_for_reply (demo_call ''FAIL_FAST'')) demo_context)}
     | Inr res \<Rightarrow> flags c' = (if cl_status res = ''FAILED'' then flags demo_context
         else flags (hand_off (ca_wait_for_reply (demo_call ''FAIL_FAST'')) demo_context)))"
  by (rule call_flags_follow_outcome [OF demo_quiet])

theorem unserializable_call_suspends_witness:
  "\<exists>m. run ref_exec (dispatch_single_task demo_services ((demo_call ''FAIL_FAST'')\<lparr>ca_content := PInt 3\<rparr>) demo_context) empty_server =
     ((Inr (Inl (TypeError m), hand_off True demo_context)), empty_server)"
  using unserializable_call_suspends [where c = demo_context and a = "(demo_call ''FAIL_FAST'')\<lparr>ca_content := PInt 3\<rparr>"
      and X = ref_exec and sv = demo_services and s = empty_server]
  by (simp add: is_wire_content_def)

lemma trace_cmd_spares: "trace_cmd V c \<Longrightarrow> \<not> trace_key V k \<Longrightarrow> spares k m c"
  by (simp add: spares_def) (metis trace_cmd_frame untraced_def)

lemma wait_index_untraced: "\<not> trace_key V1 (wait_index_key V1 s)"
  by (auto simp: trace_key_def trace_meta_def trace_spans_def trace_index_session_def trace_index_worker_def
      trace_index_agent_def wait_index_key_def wait_index_def versioned_def)

lemma stages_nonempty [simp]: "stages X p s \<noteq> []"
  by (cases p) auto

lemma demo_undisturbed: "undisturbed demo_services demo_context (demo_call policy) demo_context"
proof -
  have "only (harmless demo_services ''s'' ''c'' (demo_call policy) ''m'') p" if "only (trace_cmd V1) p" for p :: "unit prog"
    by (rule only_mono [OF that])
      (simp add: harmless_def demo_services_def trace_cmd_spares wait_index_untraced)
  then have "exporters_in (harmless demo_services ''s'' ''c'' (demo_call policy) ''m'') (new_recorder V1 (\<lambda>_. False) 100 900)"
    using new_recorder_in [of V1 "\<lambda>_. False" 100 900] by (auto simp: exporters_in_def)
  then show ?thesis by (simp add: undisturbed_def str_or_def)
qed


definition demo_tasks :: "task_spec list" where
  "demo_tasks = [\<lparr>ts_target_agent_type = Some ''coder'', ts_content = PStr ''go'', ts_extra_payload = [], ts_metadata = []\<rparr>]"


theorem queued_call_precedes_its_wait_witness:
  "\<exists>t \<in> set (stages ref_exec (dispatch_single_task demo_services (demo_call ''QUEUE_ONLY'') demo_context) empty_server).
     \<not> awaited demo_services ''s'' ''c'' (demo_call ''QUEUE_ONLY'') ''m'' (rview t) \<and>
     (\<exists>i. in_message_id i = ''c'' \<and>
        pending_payload (pending_of V1 i) \<in> set (strm (rview t) (control_plane_delivery_pending_stream V1)))"
proof -
  have e: "kv (rview empty_server) k = None" "zs (rview empty_server) k = (\<lambda>_. None)" "ss (rview empty_server) k = {}" for k
    by (simp_all add: empty_server_def rview_def look_def)
  show ?thesis
    using queued_call_precedes_its_wait [OF ref.redis_axioms, where sv = demo_services and a = "demo_call ''QUEUE_ONLY''"
        and c = demo_context and s = empty_server and v = "JStr ''go''"]
    by (simp add: e str_or_def awaited_def nobody_serves_def type_online_def demo_services_def
        serialize_outbound_content_def is_wire_content_def is_space_def)
qed

end
