(* ===== verification/Worker_Message.thy ===== *)
theory Worker_Message
  imports Agent_Dispatch
begin

text \<open>
  \<open>GatewayWorker\<close> of \<open>worker/worker.py\<close>: how one command becomes one run of the handler,
  the join of a fan-out, and the reply to the caller.  What a worker is built from is a
  record: the business handler \<open>process_command\<close> and the hooks a subclass may override,
  the plugins (\<open>services\<close>), the workspace (a file system) and the serializer of the
  configuration snapshots.
\<close>

section \<open>The worker and the execution it runs\<close>

text \<open>A configuration snapshot: its version and what the serializer makes of it.\<close>

type_synonym configs = "int \<times> string"

record worker =
  wk_worker_id :: string
  wk_services :: services
  wk_has_registry :: bool
  wk_process_command :: "command \<Rightarrow> (agent_context, pyobj) act"
  wk_on_cancelled_resume :: "command \<Rightarrow> string \<Rightarrow> (agent_context, unit) act"
  wk_prepare_command :: "command \<Rightarrow> command"
  wk_content_codec :: "(pyobj \<Rightarrow> exn + json) option"
  wk_emitter :: emitter
  wk_span_recorder :: recorder
  wk_printed :: "json \<Rightarrow> string"
  wk_setup_workspace :: "string \<Rightarrow> string \<Rightarrow> string \<Rightarrow> string \<Rightarrow> (string \<times> string) list prog"
  wk_cleanup_task :: "string \<Rightarrow> string \<Rightarrow> string \<Rightarrow> string \<Rightarrow> unit prog"
  wk_write_text :: "string \<Rightarrow> json \<Rightarrow> unit prog"
  wk_configs :: configs
  wk_deserialize :: "string \<Rightarrow> exn + configs"
  wk_config_audit :: "string \<Rightarrow> json"

text \<open>\<open>RunningExecution\<close>, less the task and the event the runner keeps in it.\<close>

record running =
  rx_execution_id :: string
  rx_message_id :: string
  rx_parent_message_id :: string
  rx_cancel_reason :: string
  rx_is_resumed :: bool
  rx_existing_data :: "execution option"

definition existing_data :: "running option \<Rightarrow> execution" where
  "existing_data execution = (case execution of None \<Rightarrow> [] | Some x \<Rightarrow>
     (case rx_existing_data x of None \<Rightarrow> [] | Some d \<Rightarrow> d))"

text \<open>\<open>replace(command, header=...)\<close>: the checks of the constructor hold of it as before.\<close>

definition with_header :: "header \<Rightarrow> command \<Rightarrow> command" where
  "with_header h command = (case command of
     AskAgentCommand a \<Rightarrow> AskAgentCommand (a\<lparr>ask_header := h\<rparr>)
   | ResumeCommand r \<Rightarrow> ResumeCommand (r\<lparr>res_header := h\<rparr>)
   | CancelTaskCommand k \<Rightarrow> CancelTaskCommand (k\<lparr>can_header := h\<rparr>)
   | ReloadPluginsCommand g i r \<Rightarrow> ReloadPluginsCommand h i r
   | SuspendWorkerCommand g r \<Rightarrow> SuspendWorkerCommand h r | ResumeWorkerCommand g \<Rightarrow> ResumeWorkerCommand h
   | EvictWorkerCommand g r f \<Rightarrow> EvictWorkerCommand h r f)"

section \<open>Whom an execution answers, and what it reads\<close>

definition resolve_reply_command :: "command \<Rightarrow> running option \<Rightarrow> exn + command option" where
  "resolve_reply_command command execution =
     (if \<not> is_resume command
      then Inr (if mh_source_agent_type (command_header command) \<noteq> [] then Some command else None)
      else let snapshot = existing_data execution;
               caller_agent_type = py_text (dget snapshot ''source_agent_type'' (JStr []))
        in if caller_agent_type = [] \<or> caller_agent_type = CLIENT_SOURCE_AGENT_TYPE then Inr None
           else res_bind (as_dict (py_or (dget0 snapshot ''metadata'') (JObj []))) (\<lambda>metadata.
             Inr (Some (with_header ((command_header command)
               \<lparr>mh_source_agent_type := caller_agent_type,
                mh_parent_message_id := py_text (dget snapshot ''parent_message_id'' (JStr [])),
                mh_task_group_id := py_text (dget snapshot ''task_group_id'' (JStr [])),
                mh_metadata := metadata\<rparr>) command))))"

definition FRAMEWORK_HOP_METADATA_KEYS :: "string set" where
  "FRAMEWORK_HOP_METADATA_KEYS = {''trace_parent_span_id'', ''framework_parent_span_id'', ''langfuse_parent_observation_id''}"

definition merge_resume_metadata :: "json \<Rightarrow> jdict \<Rightarrow> exn + jdict" where
  "merge_resume_metadata stored incoming =
     res_bind (as_dict (py_or stored (JObj []))) (\<lambda>base.
     Inr (dupdate (filter (\<lambda>(k, v). k \<notin> FRAMEWORK_HOP_METADATA_KEYS) base) incoming))"

definition restore_inbound_metadata :: "command \<Rightarrow> bool \<Rightarrow> running option \<Rightarrow> exn + command" where
  "restore_inbound_metadata command is_agent_return execution =
     (if \<not> is_agent_return then Inr command
      else res_bind (merge_resume_metadata (dget0 (existing_data execution) ''metadata'')
             (mh_metadata (command_header command))) (\<lambda>metadata.
        Inr (with_header ((command_header command)\<lparr>mh_metadata := metadata\<rparr>) command)))"

definition apply_suspended_status :: "task_result \<Rightarrow> agent_context \<Rightarrow> task_result" where
  "apply_suspended_status r c =
     (if ac_suspended_state c = [] \<or> is_terminal_state (tr_status r) then r
      else r\<lparr>tr_status := ac_suspended_state c\<rparr>)"

section \<open>The configuration snapshot of an execution\<close>

definition SNAPSHOT_PAYLOAD_PREFIX :: string where "SNAPSHOT_PAYLOAD_PREFIX = ''dill-base64:''"

definition AGENT_CONFIGS_SNAPSHOT_TTL_SECONDS :: int where "AGENT_CONFIGS_SNAPSHOT_TTL_SECONDS = DEFAULT_SESSION_TTL"

definition persist_agent_configs_snapshot :: "schema \<Rightarrow> string \<Rightarrow> configs \<Rightarrow> string prog" where
  "persist_agent_configs_snapshot V snapshot_key snapshot =
     bindp (exec_cmd (Set (agent_configs_snapshot V snapshot_key) (Txt (SNAPSHOT_PAYLOAD_PREFIX @ snd snapshot))
       (Some AGENT_CONFIGS_SNAPSHOT_TTL_SECONDS) False)) (\<lambda>_. Ret snapshot_key)"

definition load_agent_configs_snapshot :: "schema \<Rightarrow> (string \<Rightarrow> exn + configs) \<Rightarrow> string \<Rightarrow> configs option prog" where
  "load_agent_configs_snapshot V deserialize snapshot_key =
     bindp (get (agent_configs_snapshot V snapshot_key)) (\<lambda>payload. case payload of
       None \<Rightarrow> Ret None
     | Some t \<Rightarrow> if \<not> starts_with SNAPSHOT_PAYLOAD_PREFIX (rtext_str t)
         then Raise (ValueError ''Unsupported persisted agent configs snapshot payload format'')
         else bindp (lift_res (deserialize (drop (length SNAPSHOT_PAYLOAD_PREFIX) (rtext_str t)))) (\<lambda>c. Ret (Some c)))"

definition resolve_agent_configs_snapshot :: "worker \<Rightarrow> running option \<Rightarrow> string \<Rightarrow> string \<Rightarrow> configs prog" where
  "resolve_agent_configs_snapshot wk execution session_id target_agent_type =
     (let V = sv_schema (wk_services wk) in case execution of
       None \<Rightarrow> Ret (wk_configs wk)
     | Some x \<Rightarrow>
         if rx_is_resumed x then
           (let snapshot_key = py_text (dget (existing_data execution) ''agent_configs_snapshot_key'' (JStr [])) in
            if snapshot_key = []
            then Raise (RuntimeError ''Missing persisted agent config snapshot key for resumed execution'')
            else if \<not> wk_has_registry wk
            then Raise (RuntimeError ''Worker registry is required to load persisted agent config snapshots for resumed execution'')
            else bindp (try_exc (load_agent_configs_snapshot V (wk_deserialize wk) snapshot_key)
                (\<lambda>_. Raise (RuntimeError (''Failed to restore persisted agent config snapshot: '' @ snapshot_key)))) (\<lambda>found.
              case found of
                None \<Rightarrow> Raise (RuntimeError (''Persisted agent config snapshot not found: '' @ snapshot_key))
              | Some c \<Rightarrow> Ret c))
         else if wk_has_registry wk then
           try_exc
             (bindp (persist_agent_configs_snapshot V (rx_execution_id x) (wk_configs wk)) (\<lambda>snapshot_key.
              bindp (update_execution_fields V (rx_execution_id x) session_id
                [(''agent_configs_version'', JInt (fst (wk_configs wk))),
                 (''agent_configs_snapshot_key'', JStr snapshot_key),
                 (''agent_config_audit'', wk_config_audit wk target_agent_type)]) (\<lambda>_. Ret (wk_configs wk))))
             (\<lambda>_. Raise (RuntimeError (''Failed to persist agent config snapshot for execution: '' @ rx_execution_id x)))
         else Ret (wk_configs wk))"

section \<open>The reply to the caller\<close>

definition agent_return_parent_span_id :: "header \<Rightarrow> agent_context \<Rightarrow> string" where
  "agent_return_parent_span_id h c =
     (if ac_execution_id c \<noteq> [] then ac_execution_id c else mh_message_id h) @ '':agent.return''"

definition agent_return_langfuse_parent_id :: "header \<Rightarrow> agent_context \<Rightarrow> string" where
  "agent_return_langfuse_parent_id h c =
     (if ac_trace_parent_observation_id c \<noteq> [] then ac_trace_parent_observation_id c
      else if mh_langfuse_parent_observation_id h \<noteq> [] then mh_langfuse_parent_observation_id h
      else py_text (dget (mh_metadata h) ''langfuse_parent_observation_id'' (JStr [])))"

definition record_agent_return_span :: "worker \<Rightarrow> command \<Rightarrow> string \<Rightarrow> string \<Rightarrow> (agent_context, unit) act" where
  "record_agent_return_span wk command status parent_span_id =
     (let h = command_header command in
      a_bind (a_lift now_ms) (\<lambda>start_ts.
      a_except (a_bind (a_lift now_ms) (\<lambda>end_ts. a_with (\<lambda>c.
          a_zoom ac_span_recorder (\<lambda>r c. c\<lparr>ac_span_recorder := r\<rparr>) (record_span
            ((plain_span (ac_trace_id c) parent_span_id
                ((if ac_execution_id c \<noteq> [] then ac_execution_id c else mh_message_id h) @ '':worker.execute'')
                ''agent.return'' ''worker'' start_ts end_ts status)
             \<lparr>sp_session_id := ac_session_id c, sp_execution_id := ac_execution_id c, sp_message_id := mh_message_id h,
              sp_parent_message_id := mh_parent_message_id h, sp_worker_id := wk_worker_id wk,
              sp_source_agent_type := mh_target_agent_type h, sp_target_agent_type := mh_source_agent_type h\<rparr>)))))
        (\<lambda>_. a_ret ())))"

text \<open>What is stored of one reply, for a single call and for a member of a fan-out alike.\<close>

definition reply_record :: "resume_cmd \<Rightarrow> jdict" where
  "reply_record r =
     [(''status'', JStr (res_status r)), (''reply_data'', res_reply_data r), (''content'', res_content r),
      (''target_agent_type'', JStr (mh_source_agent_type (res_header r))),
      (''metadata'', JObj (mh_metadata (res_header r))), (''extra_payload'', JObj (res_extra_payload r))]"

definition persist_single_call_result :: "schema \<Rightarrow> header \<Rightarrow> command \<Rightarrow> unit prog" where
  "persist_single_call_result V h callback = (case callback of
     ResumeCommand r \<Rightarrow>
       if mh_task_group_id h \<noteq> [] \<or> mh_message_id h = [] then Ret ()
       else let results_key = task_group_results V (single_call_task_group_id (mh_message_id h)) in
         try_exc (bindp (exec_cmd (HSet results_key (mh_message_id h) (Doc (JObj (reply_record r))))) (\<lambda>_.
           exec_cmd (Expire results_key TASK_GROUP_TTL_SECONDS))) (\<lambda>_. Ret ())
   | _ \<Rightarrow> Ret ())"

text \<open>The metadata of the reply: the header's, the handler's, and the parents of the spans.\<close>

definition return_metadata :: "services \<Rightarrow> header \<Rightarrow> jdict \<Rightarrow> agent_context \<Rightarrow> jdict" where
  "return_metadata sv h metadata c =
     (let span = agent_return_parent_span_id h c;
          langfuse = agent_return_langfuse_parent_id h c;
          m = dset ''trace_parent_span_id'' (JStr (hex16 (str_to_uint64 (sv_hash64 sv) span)))
                (dset ''framework_parent_span_id'' (JStr span) (dupdate (mh_metadata h) metadata))
      in if langfuse \<noteq> [] then dset ''langfuse_parent_observation_id'' (JStr langfuse) m else m)"

definition callback_header :: "worker \<Rightarrow> header \<Rightarrow> jdict \<Rightarrow> agent_context \<Rightarrow> string \<Rightarrow> string \<Rightarrow> header" where
  "callback_header wk h metadata c message_id trace_id =
     \<lparr>mh_message_id = message_id, mh_session_id = mh_session_id h, mh_trace_id = trace_id,
      mh_source_agent_type = str_or (mh_target_agent_type h) (wk_worker_id wk),
      mh_target_agent_type = mh_source_agent_type h, mh_parent_message_id = mh_message_id h,
      mh_task_group_id = mh_task_group_id h, mh_user_code = mh_user_code h, mh_user_name = mh_user_name h,
      mh_metadata = return_metadata (wk_services wk) h metadata c,
      mh_trace_parent_span_id = hex16 (str_to_uint64 (sv_hash64 (wk_services wk)) (agent_return_parent_span_id h c)),
      mh_langfuse_parent_observation_id = agent_return_langfuse_parent_id h c\<rparr>"

definition send_callback :: "worker \<Rightarrow> command \<Rightarrow> command \<Rightarrow> (agent_context, unit) act" where
  "send_callback wk command callback0 =
     (let sv = wk_services wk; V = sv_schema sv in
      a_bind (with_command (run_hooks (\<lambda>h. hk_return_start h command) (sv_plugins sv)) callback0) (\<lambda>callback.
      a_seq (a_lift (persist_single_call_result V (command_header command) callback))
     (a_seq (a_except (a_lift (exec_cmd (XAdd (ctrl_stream V (mh_target_agent_type (command_header callback)))
            (to_redis_payload callback))))
        (\<lambda>e. a_bind (with_command (run_hooks (\<lambda>h. hk_return_error h command e) (sv_plugins sv)) callback) (\<lambda>_. a_raise e)))
     (a_bind (with_command (run_hooks (\<lambda>h. hk_return_complete h command) (sv_plugins sv)) callback) (\<lambda>_. a_ret ())))))"

definition enqueue_agent_return ::
  "worker \<Rightarrow> command \<Rightarrow> string \<Rightarrow> json \<Rightarrow> json \<Rightarrow> jdict \<Rightarrow> jdict \<Rightarrow> (agent_context, unit) act" where
  "enqueue_agent_return wk command status reply_data content metadata extra_payload =
     (let h = command_header command in
      if mh_source_agent_type h = [] then a_ret ()
      else a_with (\<lambda>c.
        a_seq (record_agent_return_span wk command status (agent_return_parent_span_id h c))
       (a_bind (a_lift (if mh_parent_message_id h \<noteq> [] then Ret (mh_parent_message_id h) else generate_message_id)) (\<lambda>message_id.
        a_bind (a_lift (if mh_trace_id h \<noteq> [] then Ret (mh_trace_id h) else uuid_hex)) (\<lambda>trace_id.
        a_bind (a_lift (lift_res (new_resume \<lparr>res_header = callback_header wk h metadata c message_id trace_id,
            res_content = content, res_status = status, res_reply_data = reply_data,
            res_extra_payload = extra_payload\<rparr>))) (\<lambda>callback.
        send_callback wk command callback))))))"

section \<open>The join of a fan-out\<close>

definition int_of_text :: "rtext \<Rightarrow> exn + int" where
  "int_of_text t = (case t of Doc (JInt n) \<Rightarrow> Inr n | _ \<Rightarrow> Inl (ValueError ''invalid literal for int()''))"

definition set_reply_data :: "json \<Rightarrow> command \<Rightarrow> command" where
  "set_reply_data v command = (case command of ResumeCommand r \<Rightarrow> ResumeCommand (r\<lparr>res_reply_data := v\<rparr>) | _ \<Rightarrow> command)"

definition status_only :: "string \<Rightarrow> task_result" where
  "status_only status = default_result\<lparr>tr_status := status\<rparr>"

text \<open>\<open>Inl\<close>: the task ends here with this result; \<open>Inr\<close>: the handler runs on this command.\<close>

definition aggregate_group :: "string \<Rightarrow> command \<Rightarrow> (task_result + command) prog" where
  "aggregate_group results_key command =
     bindp (call (HGetAll results_key) r_pairs) (\<lambda>raw_results.
     bindp (lift_res (all_results raw_results)) (\<lambda>aggregated.
     Ret (Inr (set_reply_data (JList aggregated) command))))"

definition group_join :: "schema \<Rightarrow> resume_cmd \<Rightarrow> command \<Rightarrow> (task_result + command) prog" where
  "group_join V raw command =
     (let h = res_header raw; group_key = task_group V (mh_task_group_id h);
          results_key = task_group_results V (mh_task_group_id h) in
      bindp (call (HGet group_key ''total'') r_text) (\<lambda>total_str. case total_str of
        None \<Rightarrow> Ret (Inr command)
      | Some expected \<Rightarrow>
        bindp (call (HGet group_key ''aborted'') r_text) (\<lambda>aborted.
        if (case aborted of None \<Rightarrow> False | Some t \<Rightarrow> rtext_str t \<noteq> [])
        then Ret (Inl (status_only ''CANCELLED: group_aborted''))
        else
          bindp (exec_cmd (HSet results_key (mh_parent_message_id h) (Doc (JObj (reply_record raw))))) (\<lambda>_.
          bindp (exec_cmd (Expire results_key TASK_GROUP_TTL_SECONDS)) (\<lambda>_.
          bindp (call (HIncrBy group_key ''completed'' 1) r_int) (\<lambda>completed.
          bindp (lift_res (int_of_text expected)) (\<lambda>n.
          if completed < n then Ret (Inl (status_only ''WAITING_AGENT: waiting_for_group''))
          else aggregate_group results_key command)))))))"

section \<open>One message\<close>

text \<open>\<open>Path(a) / b\<close>: an absolute \<open>b\<close> wins.\<close>

definition path_join :: "string \<Rightarrow> string \<Rightarrow> string" where
  "path_join a b = (if starts_with ''/'' b then b else a @ ''/'' @ b)"

definition agent_return_state :: "resume_cmd \<Rightarrow> jdict" where
  "agent_return_state r =
     (let h = res_header r in
      [(''message_id'', JStr (mh_message_id h)), (''parent_message_id'', JStr (mh_parent_message_id h)),
       (''source_agent_type'', JStr (mh_source_agent_type h)), (''target_agent_type'', JStr (mh_target_agent_type h)),
       (''action_type'', JStr ''RESUME''), (''status'', JStr (res_status r)), (''content'', res_content r),
       (''reply_data'', res_reply_data r), (''trace_id'', JStr (mh_trace_id h)), (''session_id'', JStr (mh_session_id h)),
       (''user_code'', JStr (mh_user_code h)), (''user_name'', JStr (mh_user_name h)),
       (''metadata'', JObj (mh_metadata h))])"

definition persist_agent_return_state :: "worker \<Rightarrow> (string \<times> string) list \<Rightarrow> resume_cmd \<Rightarrow> unit prog" where
  "persist_agent_return_state wk paths r = (case map_of paths ''public'' of
     None \<Rightarrow> Ret ()
   | Some public \<Rightarrow>
       (let h = res_header r; state_dir = public @ ''/session/agent_returns'';
            state_file = (if mh_task_group_id h \<noteq> []
              then path_join (path_join state_dir (mh_task_group_id h)) (mh_message_id h @ ''.json'')
              else path_join state_dir (str_or (mh_parent_message_id h) (mh_message_id h) @ ''.json''))
        in wk_write_text wk state_file (JObj (agent_return_state r))))"

definition new_agent_context ::
  "worker \<Rightarrow> header \<Rightarrow> command \<Rightarrow> string \<Rightarrow> string \<Rightarrow> bool \<Rightarrow> string \<Rightarrow> bool \<Rightarrow> string \<Rightarrow> agent_context" where
  "new_agent_context wk h command trace_id parent_message_id cancelled cancel_reason is_sub_agent execution_id =
     \<lparr>ac_session_id = mh_session_id h, ac_trace_id = str_or (mh_trace_id h) trace_id,
      ac_current_agent_id = mh_target_agent_type h, ac_execution_id = execution_id, ac_worker_id = wk_worker_id wk,
      ac_message_id = mh_message_id h, ac_parent_message_id = parent_message_id, ac_user_code = mh_user_code h,
      ac_user_name = mh_user_name h, ac_current_command = Some command, ac_cancel_requested = cancelled,
      ac_cancel_reason = cancel_reason, ac_is_sub_agent = is_sub_agent, ac_emitter = wk_emitter wk,
      ac_content_codec = wk_content_codec wk, ac_span_recorder = wk_span_recorder wk, ac_chunk_count = 0,
      ac_response_buffer = [], ac_is_history_saved = False, ac_is_stream_finished = False,
      ac_permission_transferred = False, ac_is_suspended = False, ac_suspended_state = [],
      ac_pending_group_replies = [], ac_trace_parent_observation_id = [], ac_phoenix_span_id = 0,
      ac_langfuse_observation_id = []\<rparr>"

text \<open>The end of the stream: sent unless it was, or else the history is written.\<close>

definition end_stream :: "worker \<Rightarrow> bool \<Rightarrow> (agent_context, unit) act" where
  "end_stream wk is_answered = a_with (\<lambda>c.
     if \<not> is_answered \<and> \<not> ac_permission_transferred c \<and> \<not> ac_is_stream_finished c
     then emit_text (wk_services wk) [] ''appStreamResponse''
     else flush_to_history (wk_services wk))"

text \<open>What is shown to the user of a result.\<close>

definition final_message :: "worker \<Rightarrow> task_result \<Rightarrow> string option" where
  "final_message wk r =
     (case tr_content r of
        JStr (x # xs) \<Rightarrow> Some (x # xs)
      | _ \<Rightarrow> (case tr_reply_data r of
          JStr (x # xs) \<Rightarrow> Some (x # xs)
        | JNull \<Rightarrow> None
        | v \<Rightarrow> Some (wk_printed wk v)))"

text \<open>The reply, unless nobody is waiting or the task itself still waits.\<close>

definition answer_caller :: "worker \<Rightarrow> command option \<Rightarrow> bool \<Rightarrow> task_result \<Rightarrow> (agent_context, unit) act" where
  "answer_caller wk reply is_suspended r = (case reply of
     Some reply_command \<Rightarrow> a_when (\<not> is_suspended) (enqueue_agent_return wk reply_command (tr_status r)
       (tr_reply_data r) (tr_content r) (tr_metadata r) (tr_extra_payload r))
   | None \<Rightarrow> a_ret ())"

text \<open>After the reply: hooks, what the user sees, and the end of the stream.\<close>

definition after_reply :: "worker \<Rightarrow> command option \<Rightarrow> pyobj \<Rightarrow> task_result \<Rightarrow> (agent_context, task_result) act" where
  "after_reply wk reply process_result r =
     (let sv = wk_services wk in
      a_seq (run_hooks (\<lambda>h. hk_task_complete h process_result) (sv_plugins sv))
     (a_bind (a_get (\<lambda>c. reply = None \<and> is_terminal_state (tr_status r) \<and> \<not> ac_permission_transferred c \<and> \<not> ac_is_suspended c))
        (\<lambda>should_emit_stream_end.
      a_seq (case final_message wk r of Some m \<Rightarrow> emit_text sv m ''finalAnswer'' | None \<Rightarrow> a_ret ())
     (a_seq (if should_emit_stream_end
        then a_with (\<lambda>c. a_when (\<not> ac_is_stream_finished c) (a_seq (emit_text sv [] ''appStreamResponse'')
               (a_set (\<lambda>c. c\<lparr>ac_is_stream_finished := True\<rparr>))))
        else flush_to_history sv)
     (a_ret r)))))"

definition answer_task :: "worker \<Rightarrow> command option \<Rightarrow> pyobj \<Rightarrow> bool \<Rightarrow> task_result \<Rightarrow> (agent_context, task_result) act" where
  "answer_task wk reply process_result is_suspended r =
     a_seq (answer_caller wk reply is_suspended r) (after_reply wk reply process_result r)"

text \<open>After the handler has returned: the stand-ins go out, the status is decided.\<close>

definition finish_task :: "worker \<Rightarrow> command option \<Rightarrow> pyobj \<Rightarrow> (agent_context, task_result) act" where
  "finish_task wk reply process_result =
     a_bind (a_get ac_pending_group_replies) (\<lambda>pending.
     a_seq (a_set (\<lambda>c. c\<lparr>ac_pending_group_replies := []\<rparr>))
    (a_seq (a_lift (flush_pending_group_replies (sv_schema (wk_services wk)) pending))
    (a_bind (a_lift (lift_res (normalize_process_result process_result))) (\<lambda>result0.
     a_with (\<lambda>c. answer_task wk reply process_result (ac_is_suspended c \<and> \<not> is_terminal_state (tr_status result0))
       (apply_suspended_status result0 c))))))"

text \<open>What comes before the handler, and whether it runs at all.\<close>

definition prepare_task ::
  "worker \<Rightarrow> command \<Rightarrow> command \<Rightarrow> bool \<Rightarrow> string \<Rightarrow> (agent_context, task_result + command) act" where
  "prepare_task wk raw command cancelled cancel_reason =
     (let sv = wk_services wk; h = command_header raw in
      a_seq (run_hooks hk_task_start (sv_plugins sv))
     (a_seq (case raw of
          AskAgentCommand a \<Rightarrow> a_lift (sv_save_message sv ''user'' (ask_content a)
            [(''message_id'', JStr (mh_message_id h)), (''trace_id'', JStr (mh_trace_id h))])
        | _ \<Rightarrow> a_ret ())
     (a_bind (a_lift (wk_setup_workspace wk (mh_session_id h) (mh_message_id h) (str_or (mh_user_code h) ''default'')
          (str_or (mh_target_agent_type h) (wk_worker_id wk)))) (\<lambda>paths.
      a_seq (if map_of paths ''private'' = None then a_raise (KeyError ''private'') else a_ret ())
     (a_seq (a_when cancelled (a_seq (wk_on_cancelled_resume wk command cancel_reason)
          (a_raise (CancelledError (''Task cancelled before processing (reason: '' @ cancel_reason @ '')'')))))
     (case raw of
        ResumeCommand r \<Rightarrow>
          a_seq (a_lift (persist_agent_return_state wk paths r))
          (if mh_task_group_id h \<noteq> [] then a_lift (group_join (sv_schema sv) r command) else a_ret (Inr command))
      | _ \<Rightarrow> a_ret (Inr command)))))))"

definition perform_task ::
  "worker \<Rightarrow> command \<Rightarrow> command \<Rightarrow> command option \<Rightarrow> bool \<Rightarrow> string \<Rightarrow> (agent_context, task_result) act" where
  "perform_task wk raw command reply cancelled cancel_reason =
     a_bind (prepare_task wk raw command cancelled cancel_reason) (\<lambda>step. case step of
       Inl result \<Rightarrow> a_ret result
     | Inr command' \<Rightarrow>
         a_seq (a_set (\<lambda>c. c\<lparr>ac_current_command := Some command'\<rparr>))
         (a_bind (wk_process_command wk command') (finish_task wk reply)))"

text \<open>\<open>except asyncio.CancelledError\<close>: the caller hears of it unless it is being cancelled itself.\<close>

definition should_callback :: "worker \<Rightarrow> string \<Rightarrow> string \<Rightarrow> bool prog" where
  "should_callback wk parent_msg_id session_id =
     (if parent_msg_id \<noteq> [] \<and> wk_has_registry wk
      then try_exc (bindp (get_execution_by_message_id (sv_schema (wk_services wk)) parent_msg_id session_id) (\<lambda>found.
             Ret (case found of None \<Rightarrow> True | Some e \<Rightarrow> \<not> truthy (dget0 e ''cancel_requested'')))) (\<lambda>_. Ret True)
      else Ret True)"

definition task_cancelled :: "worker \<Rightarrow> header \<Rightarrow> command option \<Rightarrow> running option \<Rightarrow> string \<Rightarrow> string \<Rightarrow> (agent_context, task_result) act" where
  "task_cancelled wk h reply execution cancel_reason message =
     (let reason = str_or message (case execution of Some x \<Rightarrow> rx_cancel_reason x | None \<Rightarrow> cancel_reason) in
      a_seq (case reply of
          None \<Rightarrow> a_ret ()
        | Some reply_command \<Rightarrow>
            a_bind (a_lift (should_callback wk (mh_parent_message_id (command_header reply_command)) (mh_session_id h)))
              (\<lambda>callback. a_when callback (enqueue_agent_return wk reply_command ''CANCELLED''
                 (JObj [(''reason'', JStr reason)]) (JStr []) [] [])))
     (a_seq (end_stream wk (reply \<noteq> None)) (a_ret (status_only ''CANCELLED''))))"

fun exn_type :: "exn \<Rightarrow> string" where
  "exn_type (ValueError m) = ''ValueError''" | "exn_type (TypeError m) = ''TypeError''"
| "exn_type (KeyError m) = ''KeyError''" | "exn_type (RuntimeError m) = ''RuntimeError''"
| "exn_type (UnsupportedCommandError m) = ''UnsupportedCommandError''"
| "exn_type (ExecutionDataError m) = ''ExecutionDataError''" | "exn_type (RedisError m) = ''RedisError''"
| "exn_type (TimeoutError m) = ''TimeoutError''" | "exn_type (LookupError m) = ''LookupError''" | "exn_type (AttributeError m) = ''AttributeError''"
| "exn_type (FrameworkError m) = ''FrameworkError''" | "exn_type (CancelledError m) = ''CancelledError''" | "exn_type Diverges = []"

definition task_failed :: "worker \<Rightarrow> command option \<Rightarrow> exn \<Rightarrow> (agent_context, task_result) act" where
  "task_failed wk reply e =
     a_seq (case reply of
         None \<Rightarrow> a_ret ()
       | Some reply_command \<Rightarrow> enqueue_agent_return wk reply_command ''FAILED''
           (JObj [(''error'', JStr (exn_text e))]) (JStr []) [] [])
    (a_seq (run_hooks (\<lambda>h. hk_task_error h e) (sv_plugins (wk_services wk)))
    (a_seq (end_stream wk (reply \<noteq> None))
    (a_ret \<lparr>tr_status = ''FAILED'', tr_content = JStr [], tr_reply_data = JObj [(''error'', JStr (exn_text e))],
       tr_metadata = [(''error_type'', JStr (exn_type e)), (''error_message'', JStr (exn_text e)),
         (''failed_stage'', JStr ''process_command'')], tr_extra_payload = []\<rparr>)))"

definition run_task ::
  "worker \<Rightarrow> command \<Rightarrow> command \<Rightarrow> command option \<Rightarrow> bool \<Rightarrow> string \<Rightarrow> running option \<Rightarrow> (agent_context, task_result) act" where
  "run_task wk raw command reply cancelled cancel_reason execution =
     (let h = command_header raw in
      a_finally
        (a_catch (perform_task wk raw command reply cancelled cancel_reason) (\<lambda>e. case e of
           CancelledError message \<Rightarrow> task_cancelled wk h reply execution cancel_reason message
         | _ \<Rightarrow> task_failed wk reply e))
        (a_lift (wk_cleanup_task wk (mh_session_id h) (mh_message_id h) (str_or (mh_user_code h) ''default'')
           (str_or (mh_target_agent_type h) (wk_worker_id wk)))))"

text \<open>\<open>_handle_message\<close>: nothing before the context is built is inside the \<open>try\<close>.\<close>

definition handle_message :: "worker \<Rightarrow> command \<Rightarrow> bool \<Rightarrow> string \<Rightarrow> running option \<Rightarrow> ((exn + task_result) \<times> agent_context) prog" where
  "handle_message wk raw cancelled cancel_reason execution =
     (let h = command_header raw in
      bindp uuid_hex (\<lambda>trace_id.
      bindp (lift_res (resolve_reply_command raw execution)) (\<lambda>reply.
      bindp (lift_res (restore_inbound_metadata (wk_prepare_command wk raw) (is_resume raw) execution)) (\<lambda>command.
      bindp (resolve_agent_configs_snapshot wk execution (mh_session_id h) (mh_target_agent_type h)) (\<lambda>_.
      run_task wk raw command reply cancelled cancel_reason execution
        (new_agent_context wk h command trace_id
          (case execution of Some x \<Rightarrow> if rx_is_resumed x then rx_parent_message_id x else mh_parent_message_id h
           | None \<Rightarrow> mh_parent_message_id h)
          cancelled cancel_reason (reply \<noteq> None) (case execution of Some x \<Rightarrow> rx_execution_id x | None \<Rightarrow> [])))))))"

end
