(* ===== verification/Worker_Properties.thy ===== *)
theory Worker_Properties
  imports Worker_Message Dispatch_Properties
begin

text \<open>
  What a worker promises: the join of a fan-out against an abstract group, the reply that
  clears the caller's wait, and one reply per execution, with the places where the code
  falls short.
\<close>

section \<open>The join\<close>

text \<open>
  The abstract group: how many members it has, and the answers so far.  \<open>group_state\<close>
  relates it to the two hashes of the group.
\<close>

type_synonym answers = "string \<Rightarrow> jdict option"

definition group_state :: "schema \<Rightarrow> string \<Rightarrow> nat \<Rightarrow> answers \<Rightarrow> kspace \<Rightarrow> bool" where
  "group_state V gid n m K =
     (finite (dom m) \<and> hs K (task_group V gid) ''total'' = Some (Doc (JInt (int n))) \<and>
      hs K (task_group V gid) ''completed'' = Some (Doc (JInt (int (card (dom m))))) \<and>
      hs K (task_group V gid) ''aborted'' = None \<and>
      hs K (task_group_results V gid) = (\<lambda>k. map_option (\<lambda>d. Doc (JObj d)) (m k)))"

text \<open>What the caller is given of an answered group.\<close>

definition aggregate :: "answers \<Rightarrow> json set" where
  "aggregate m = {JObj (dupdate [(''message_id'', JStr k)] d) |k d. m k = Some d}"

lemma aggregate_dom: "aggregate m = (\<lambda>k. JObj (dupdate [(''message_id'', JStr k)] (the (m k)))) ` dom m"
  by (force simp: aggregate_def)

lemma group_keys_differ [simp]: "task_group_results V gid \<noteq> task_group V gid"
  by (cases V) (auto simp: task_group_results_def task_group_def versioned_def)

lemmas group_keys_differ' [simp] = group_keys_differ [symmetric]

lemma all_results_of:
  "map_of l = (\<lambda>k. map_option (\<lambda>d. Doc (JObj d)) (m k)) \<Longrightarrow> distinct (map fst l) \<Longrightarrow>
     \<exists>vs. all_results l = Inr vs \<and> set vs = aggregate m \<and> length vs = length l"
proof (induction l arbitrary: m)
  case Nil
  then have "m = (\<lambda>_. None)" by (auto simp: fun_eq_iff)
  then show ?case by (simp add: aggregate_def)
next
  case (Cons p l)
  obtain k t where p: "p = (k, t)" by (cases p)
  have "map_option (\<lambda>d. Doc (JObj d)) (m k) = Some t" using fun_cong [OF Cons.prems(1), of k] unfolding p by simp
  then obtain d where d: "m k = Some d" "t = Doc (JObj d)" by auto
  have l: "map_of l = (\<lambda>k'. map_option (\<lambda>d. Doc (JObj d)) ((m(k := None)) k'))"
  proof
    fix k' show "map_of l k' = map_option (\<lambda>d. Doc (JObj d)) ((m(k := None)) k')"
      using fun_cong [OF Cons.prems(1), of k'] Cons.prems(2) by (auto simp: p map_of_eq_None_iff split: if_splits)
  qed
  have "distinct (map fst l)" using Cons.prems(2) by simp
  from Cons.IH [OF l this]
  obtain vs where vs: "all_results l = Inr vs" "set vs = aggregate (m(k := None))" "length vs = length l"
    by blast
  have "insert (JObj (dupdate [(''message_id'', JStr k)] d)) (aggregate (m(k := None))) = aggregate m"
    unfolding aggregate_dom using d(1) by (auto simp: image_iff) (metis domI option.sel)
  then show ?case
    using vs by (simp add: p d(2) group_result_of_def)
qed

text \<open>One reply of a member that has not answered: the group takes its answer, no more.\<close>

definition answered :: "resume_cmd \<Rightarrow> answers \<Rightarrow> answers" where
  "answered r m = m(mh_parent_message_id (res_header r) := Some (reply_record r))"

definition join_outcome :: "nat \<Rightarrow> answers \<Rightarrow> command \<Rightarrow> task_result + command \<Rightarrow> bool" where
  "join_outcome n m command res =
     (if card (dom m) < n then res = Inl (status_only ''WAITING_AGENT: waiting_for_group'')
      else \<exists>vs. res = Inr (set_reply_data (JList vs) command) \<and> set vs = aggregate m \<and> length vs = card (dom m))"

lemma join_step_wp:
  assumes "group_state V gid n m K" and "mh_task_group_id (res_header r) = gid"
    and "mh_parent_message_id (res_header r) \<notin> dom m"
  shows "wp (group_join V r command) (\<lambda>o' K'. \<exists>res. o' = Inr res \<and> group_state V gid n (answered r m) K' \<and>
     join_outcome n (answered r m) command res) K"
proof -
  let ?k = "mh_parent_message_id (res_header r)" and ?m = "answered r m"
  have card: "card (dom ?m) = card (dom m) + 1"
    using assms(1,3) by (simp add: answered_def group_state_def)
  let ?H = "(hs K)(task_group_results V gid := (hs K (task_group_results V gid))(?k := Some (Doc (JObj (reply_record r)))),
      task_group V gid := (hs K (task_group V gid))(''completed'' := Some (Doc (JInt (int (card (dom m)) + 1)))))"
  have state: "group_state V gid n ?m K'" if "hs K' = ?H" for K'
    using assms(1) card that by (auto simp: group_state_def answered_def fun_eq_iff)
  have list: "\<exists>vs. all_results l = Inr vs \<and> set vs = aggregate ?m \<and> length vs = card (dom ?m)"
    if "distinct (map fst l)" "map_of l = ?H (task_group_results V gid)" for l
  proof -
    have l: "map_of l = (\<lambda>k. map_option (\<lambda>d. Doc (JObj d)) (?m k))"
      using assms(1) that(2) by (auto simp: group_state_def answered_def fun_eq_iff)
    moreover have "dom (map_of l) = dom ?m" unfolding l by (auto simp: dom_def)
    then have "card (dom ?m) = length l"
      using that(1) by (metis distinct_card dom_map_of_conv_image_fst length_map set_map)
    ultimately show ?thesis using all_results_of [OF l that(1)] by simp
  qed
  let ?Q = "\<lambda>o' K'. \<exists>res. o' = Inr res \<and> group_state V gid n ?m K' \<and> join_outcome n ?m command res"
  have rest: "wp (aggregate_group (task_group_results V gid) command) ?Q K'" if "hs K' = ?H" "\<not> card (dom m) + 1 < n" for K'
  proof -
    have "\<exists>vs. all_results l = Inr vs \<and> set vs = aggregate ?m \<and> length vs = Suc (card (dom m))"
      if "distinct (map fst l)" "map_of l = hs K' (task_group_results V gid)" for l
      using list [of l] that card unfolding \<open>hs K' = ?H\<close> by simp
    then show ?thesis
      using state [OF that(1)] card that(2)
      by (fastforce simp: aggregate_group_def wp_bindp wp_lift_res join_outcome_def wp_simple_reads)
  qed
  have wait: "join_outcome n ?m command (Inl (status_only ''WAITING_AGENT: waiting_for_group''))" if "int (card (dom m)) + 1 < int n"
    using that card by (simp add: join_outcome_def)
  have h: "hs K (task_group V gid) ''total'' = Some (Doc (JInt (int n)))" "hs K (task_group V gid) ''aborted'' = None"
    "hs K (task_group V gid) ''completed'' = Some (Doc (JInt (int (card (dom m)))))"
    using assms(1) by (simp_all add: group_state_def)
  show ?thesis
    unfolding group_join_def Let_def assms(2)
    by (simp add: wp_simps h hash_int_def int_of_text_def wp_lift_res) (auto intro!: rest state wait)
qed


primrec joins :: "schema \<Rightarrow> resume_cmd list \<Rightarrow> command \<Rightarrow> (task_result + command) list prog" where
  "joins V [] command = Ret []"
| "joins V (r # rs) command = bindp (group_join V r command) (\<lambda>a. bindp (joins V rs command) (\<lambda>as. Ret (a # as)))"

abbreviation child :: "resume_cmd \<Rightarrow> string" where
  "child r \<equiv> mh_parent_message_id (res_header r)"

lemma dom_answered [simp]: "dom (answered r m) = insert (child r) (dom m)"
  by (auto simp: answered_def)

lemma joins_wp:
  assumes "group_state V gid n m K" and "\<forall>r \<in> set rs. mh_task_group_id (res_header r) = gid"
    and "distinct (map child rs)" and "child ` set rs \<inter> dom m = {}"
  shows "wp (joins V rs command) (\<lambda>o' K'. \<exists>as. o' = Inr as \<and> length as = length rs \<and>
     group_state V gid n (fold answered rs m) K' \<and>
     (\<forall>i < length rs. join_outcome n (fold answered (take (Suc i) rs) m) command (as ! i))) K"
  using assms
proof (induction rs arbitrary: m K)
  case (Cons r rs)
  have step: "wp (group_join V r command) (\<lambda>o' K'. \<exists>res. o' = Inr res \<and> group_state V gid n (answered r m) K' \<and>
     join_outcome n (answered r m) command res) K"
    by (rule join_step_wp) (use Cons.prems in auto)
  have rest: "wp (joins V rs command) (\<lambda>o' K'. \<exists>as. o' = Inr as \<and> length as = length rs \<and>
     group_state V gid n (fold answered rs (answered r m)) K' \<and>
     (\<forall>i < length rs. join_outcome n (fold answered (take (Suc i) rs) (answered r m)) command (as ! i))) K'"
    if "group_state V gid n (answered r m) K'" for K'
    by (rule Cons.IH [OF that]) (use Cons.prems in auto)
  show ?case
    unfolding joins.simps wp_bindp
  proof (rule wp_mono [OF step])
    fix o' :: "exn + task_result + command" and K' assume "\<exists>res. o' = Inr res \<and> group_state V gid n (answered r m) K' \<and>
      join_outcome n (answered r m) command res"
    then obtain res where res: "o' = Inr res" "group_state V gid n (answered r m) K'" "join_outcome n (answered r m) command res"
      by blast
    show "case o' of Inl e \<Rightarrow> \<exists>as. Inl e = Inr as \<and> length as = length (r # rs) \<and>
         group_state V gid n (fold answered (r # rs) m) K' \<and>
         (\<forall>i < length (r # rs). join_outcome n (fold answered (take (Suc i) (r # rs)) m) command (as ! i))
      | Inr a \<Rightarrow> wp (joins V rs command) (\<lambda>o' K'. case o' of
           Inl e \<Rightarrow> \<exists>as. Inl e = Inr as \<and> length as = length (r # rs) \<and>
             group_state V gid n (fold answered (r # rs) m) K' \<and>
             (\<forall>i < length (r # rs). join_outcome n (fold answered (take (Suc i) (r # rs)) m) command (as ! i))
         | Inr as \<Rightarrow> wp (Ret (a # as)) (\<lambda>o' K'. \<exists>as. o' = Inr as \<and> length as = length (r # rs) \<and>
             group_state V gid n (fold answered (r # rs) m) K' \<and>
             (\<forall>i < length (r # rs). join_outcome n (fold answered (take (Suc i) (r # rs)) m) command (as ! i))) K') K'"
      unfolding res(1) sum.case
      by (rule wp_mono [OF rest [OF res(2)]]) (auto simp: res(3) nth_Cons split: nat.splits)
  qed
qed simp

lemma fold_answered_dom: "dom (fold answered rs m) = child ` set rs \<union> dom m"
  by (induction rs arbitrary: m) auto

text \<open>
  C3: the join refines the abstract group: on a server that behaves as documented, from a
  group of \<open>n\<close> members of which those in \<open>m\<close> have answered, the reply of a member that
  has not answered leaves a group in which it has, and the caller is told to wait exactly
  while members are missing and is otherwise given the answers of all of them.
\<close>

theorem join_refines_group:
  assumes "redis exec view" and "group_state V gid n m (view s)" and "mh_task_group_id (res_header r) = gid"
    and "child r \<notin> dom m"
  shows "case run exec (group_join V r command) s of
     (Inr res, u) \<Rightarrow> group_state V gid n (answered r m) (view u) \<and> join_outcome n (answered r m) command res
   | (Inl e, u) \<Rightarrow> False"
  using redis.wp_run [OF assms(1) join_step_wp [OF assms(2-4), where command = command]]
  by (auto split: prod.splits sum.splits)

text \<open>
  C2: a fan-out resumes its caller exactly once and with every answer: when the replies of
  \<open>n\<close> different members reach the join one after another, in any order, from a fresh group,
  each but the last leaves the caller waiting, and the last resumes it with \<open>n\<close> results,
  one per member.
\<close>

theorem join_resumes_once:
  assumes "redis exec view" and "group_state V gid (length rs) Map.empty (view s)"
    and "\<forall>r \<in> set rs. mh_task_group_id (res_header r) = gid" and "distinct (map child rs)" and "rs \<noteq> []"
  shows "case run exec (joins V rs command) s of
     (Inr as, u) \<Rightarrow> (\<exists>vs. as = replicate (length rs - 1) (Inl (status_only ''WAITING_AGENT: waiting_for_group'')) @
         [Inr (set_reply_data (JList vs) command)] \<and>
       length vs = length rs \<and> set vs = aggregate (fold answered rs Map.empty))
   | (Inl e, u) \<Rightarrow> False"
proof -
  let ?w = "Inl (status_only ''WAITING_AGENT: waiting_for_group'')"
  have "wp (joins V rs command) (\<lambda>o' K'. \<exists>as. o' = Inr as \<and> length as = length rs \<and>
     (\<forall>i < length rs. join_outcome (length rs) (fold answered (take (Suc i) rs) Map.empty) command (as ! i))) (view s)"
    by (rule wp_mono [OF joins_wp [OF assms(2-4)]]) auto
  from redis.wp_run [OF assms(1) this] obtain as u where
    run: "run exec (joins V rs command) s = (Inr as, u)" and len: "length as = length rs"
    and out: "\<And>i. i < length rs \<Longrightarrow> join_outcome (length rs) (fold answered (take (Suc i) rs) Map.empty) command (as ! i)"
    by (auto split: prod.splits)
  have card: "card (dom (fold answered (take (Suc i) rs) Map.empty)) = Suc i" if "i < length rs" for i
  proof -
    have "distinct (take (Suc i) (map child rs))" using assms(4) by simp
    then have "card (set (take (Suc i) (map child rs))) = Suc i" using that by (simp add: distinct_card)
    then show ?thesis by (simp add: fold_answered_dom take_map)
  qed
  have wait: "as ! i = ?w" if "i < length rs - 1" for i
    using out [of i] card [of i] that by (simp add: join_outcome_def)
  obtain vs where vs: "as ! (length rs - 1) = Inr (set_reply_data (JList vs) command)"
      "set vs = aggregate (fold answered rs Map.empty)" "length vs = length rs"
    using out [of "length rs - 1"] card [of "length rs - 1"] assms(5) by (auto simp: join_outcome_def)
  have "as = replicate (length rs - 1) ?w @ [Inr (set_reply_data (JList vs) command)]"
  proof (rule nth_equalityI)
    fix i assume "i < length as"
    then consider "i < length rs - 1" | "i = length rs - 1" using len by linarith
    then show "as ! i = (replicate (length rs - 1) ?w @ [Inr (set_reply_data (JList vs) command)]) ! i"
      by cases (use wait vs(1) in \<open>simp_all add: nth_append\<close>)
  qed (use len assms(5) in simp)
  then show ?thesis using run vs(2,3) by auto
qed

lemma again_wp:
  assumes "group_state V gid n m K" and "mh_task_group_id (res_header r) = gid" and "child r \<in> dom m"
    and "n \<le> card (dom m) + 1"
  shows "wp (group_join V r command) (\<lambda>o' K'. \<exists>vs. o' = Inr (Inr (set_reply_data (JList vs) command)) \<and>
     length vs = card (dom m)) K"
proof -
  have h: "hs K (task_group V gid) ''total'' = Some (Doc (JInt (int n)))" "hs K (task_group V gid) ''aborted'' = None"
    "hs K (task_group V gid) ''completed'' = Some (Doc (JInt (int (card (dom m)))))"
    "hs K (task_group_results V gid) = (\<lambda>k. map_option (\<lambda>d. Doc (JObj d)) (m k))"
    using assms(1) by (simp_all add: group_state_def)
  have last: "wp (aggregate_group (task_group_results V gid) command) (\<lambda>o' K'. \<exists>vs. o' = Inr (Inr (set_reply_data (JList vs) command)) \<and>
     length vs = card (dom m)) K'" if "hs K' (task_group_results V gid) = (\<lambda>k. map_option (\<lambda>d. Doc (JObj d)) (answered r m k))" for K'
  proof -
    have "\<exists>vs. all_results l = Inr vs \<and> length vs = card (dom m)"
      if l: "distinct (map fst l)" "map_of l = hs K' (task_group_results V gid)" for l
    proof -
      have m: "map_of l = (\<lambda>k. map_option (\<lambda>d. Doc (JObj d)) (answered r m k))" using l(2) \<open>hs K' (task_group_results V gid) = _\<close> by simp
      have "dom (map_of l) = dom m" unfolding m using assms(3) by (auto simp: dom_def answered_def)
      then have "card (dom m) = length l"
        using l(1) by (metis distinct_card dom_map_of_conv_image_fst length_map set_map)
      then show ?thesis using all_results_of [OF m l(1)] by auto
    qed
    then show ?thesis by (fastforce simp: aggregate_group_def wp_bindp wp_lift_res wp_simple_reads)
  qed
  have full: "\<not> int (card (dom m)) + 1 < int n" using assms(4) by linarith
  show ?thesis
    unfolding group_join_def Let_def assms(2)
    by (simp add: wp_simps h hash_int_def int_of_text_def wp_lift_res full)
      (rule last, auto simp: h answered_def fun_eq_iff)
qed

text \<open>
  The join counts replies, not members: when all members of a group but one have
  answered, a second copy of the reply of one that has resumes the caller, with one result
  missing.  Only the gate before the join keeps copies out (see \<open>gate_race\<close>).
\<close>

theorem repeated_reply_resumes_early:
  assumes "redis exec view" and "group_state V gid n m (view s)" and "mh_task_group_id (res_header r) = gid"
    and "child r \<in> dom m" and "card (dom m) + 1 = n"
  shows "\<exists>vs. fst (run exec (group_join V r command) s) = Inr (Inr (set_reply_data (JList vs) command)) \<and>
     length vs = n - 1"
  using redis.wp_run [OF assms(1) again_wp [OF assms(2-4), where command = command]] assms(5)
  by (auto split: prod.splits)

text \<open>
  A group that has expired joins nothing: each reply of a member then resumes the
  caller by itself with nothing stored.  The group lives a day, while the members may wait
  for a user for a week.
\<close>

theorem expired_group_resumes_each:
  assumes "redis exec view" and "hs (view s) (task_group V (mh_task_group_id (res_header r))) = (\<lambda>_. None)"
  shows "TASK_GROUP_TTL_SECONDS * 1000 < DEFAULT_ASK_USER_TIMEOUT_MS \<and>
     (case run exec (group_join V r command) s of (res, u) \<Rightarrow> res = Inr (Inr command) \<and> view u = view s)"
proof -
  have "wp (group_join V r command) (\<lambda>o' K. o' = Inr (Inr command) \<and> K = view s) (view s)"
    using assms(2) by (simp add: group_join_def Let_def wp_simps)
  from redis.wp_run [OF assms(1) this] show ?thesis
    by (simp add: TASK_GROUP_TTL_SECONDS_def DEFAULT_ASK_USER_TIMEOUT_MS_def DEFAULT_SESSION_TTL_def)
qed

section \<open>The reply and the wait\<close>


section \<open>One reply for one execution\<close>

text \<open>Commands that leave a stream alone, and contexts whose emissions do.\<close>

definition leaves :: "string \<Rightarrow> cmd \<Rightarrow> bool" where
  "leaves k c = (\<forall>K. strm (apply_cmd c K) k = strm K k)"

lemma leaves_simps [simp]: "leaves k (XAdd x v) = (x \<noteq> k)" "leaves k (Expire x n)" "leaves k Uuid" "leaves k Now"
  by (auto simp: leaves_def)

lemma leaves_Pipe: "\<forall>c \<in> set cs. leaves k c \<Longrightarrow> leaves k (Pipe cs)"
proof (induction cs)
  case (Cons c cs)
  then show ?case by (simp add: leaves_def)
qed (simp add: leaves_def)

definition apart :: "services \<Rightarrow> string \<Rightarrow> agent_context \<Rightarrow> bool" where
  "apart sv k c = (stream_of (sv_schema sv) (em_fixed (ac_emitter c)) (ac_session_id c) \<noteq> k \<and>
     (\<forall>args. only (leaves k) (lb_build (em_layout (ac_emitter c)) args)) \<and>
     (\<forall>r j d. only (leaves k) (sv_save_message sv r j d)))"

lemma buffered_simps [simp]: "ac_emitter (buffered j c) = ac_emitter c" "ac_session_id (buffered j c) = ac_session_id c"
  by (simp_all add: buffered_def split: json.splits)

lemma apart_simps [simp]:
  "apart sv k (c\<lparr>ac_chunk_count := n\<rparr>) = apart sv k c" "apart sv k (c\<lparr>ac_is_history_saved := b\<rparr>) = apart sv k c"
  "apart sv k (c\<lparr>ac_is_stream_finished := b\<rparr>) = apart sv k c" "apart sv k (c\<lparr>ac_pending_group_replies := p\<rparr>) = apart sv k c"
  "apart sv k (c\<lparr>ac_span_recorder := q\<rparr>) = apart sv k c" "apart sv k (buffered j c) = apart sv k c"
  by (simp_all add: apart_def buffered_def split: json.splits)

lemma emit_event_leaves:
  "stream_of V fixed sid \<noteq> k \<Longrightarrow> only (leaves k) (emit_event V fixed sid tid ty src mid pid data metadata)"
  by (auto simp: emit_event_def intro!: only_bindp leaves_Pipe)

lemma flush_leaves [keeps_intros]: "keeps (apart sv k) (leaves k) (\<lambda>_. True) (flush_to_history sv)"
  unfolding flush_to_history_def by (intro keeps_intros) (auto simp: apart_def)

lemma emit_leaves [keeps_intros]: "keeps (apart sv k) (leaves k) (\<lambda>_. True) (emit_text sv m ty)"
  unfolding emit_text_def emit_chunk_def send_chunk_def Let_def
  by (intro keeps_intros TrueI) (auto simp: emitter_chunk_def apart_def intro!: only_bindp emit_event_leaves)


text \<open>A context whose recorder has no exporter: recording then only counts.\<close>

definition silent :: "agent_context \<Rightarrow> bool" where
  "silent c = (rec_exporters (ac_span_recorder c) = [])"

lemma return_span_awp:
  assumes "silent c" and "\<And>q. rec_exporters q = [] \<Longrightarrow> Q (Inr ()) (c\<lparr>ac_span_recorder := q\<rparr>) K"
  shows "awp (record_agent_return_span wk cmd status span) Q D c K"
proof -
  have rec: "awp (record_span sp) Q' D (ac_span_recorder c) K"
    if "\<And>q. rec_exporters q = [] \<Longrightarrow> Q' (Inr ()) q K" for Q' sp
  proof -
    obtain q where q: "rec_exporters q = []" "record_span sp (ac_span_recorder c) = Ret (Inr (), q)"
      using record_off assms(1) unfolding silent_def by blast
    show ?thesis using that [OF q(1)] by (simp add: awp_def q(2))
  qed
  show ?thesis
    unfolding record_agent_return_span_def Let_def
    by (simp add: awp_simps wp_simps) (auto intro!: rec simp: assms(2))
qed

text \<open>The reply as it is sent.\<close>

definition reply_in :: "worker \<Rightarrow> command \<Rightarrow> string \<Rightarrow> resume_cmd \<Rightarrow> bool" where
  "reply_in wk command status cb = (res_status cb = status \<and>
     mh_target_agent_type (res_header cb) = mh_source_agent_type (command_header command) \<and>
     mh_parent_message_id (res_header cb) = mh_message_id (command_header command))"

lemma enqueue_awp:
  assumes "silent c" and "sv_plugins (wk_services wk) = []" and "mh_source_agent_type (command_header command) \<noteq> []"
    and "status \<noteq> []"
    and "\<And>cb q K'. reply_in wk command status cb \<Longrightarrow> rec_exporters q = [] \<Longrightarrow>
      strm K' = (strm K)(ctrl_stream (sv_schema (wk_services wk)) (mh_source_agent_type (command_header command)) :=
        strm K (ctrl_stream (sv_schema (wk_services wk)) (mh_source_agent_type (command_header command))) @
          [to_redis_payload (ResumeCommand cb)]) \<Longrightarrow>
      Q (Inr ()) (c\<lparr>ac_span_recorder := q\<rparr>) K'"
  shows "awp (enqueue_agent_return wk command status rd content md ex) Q D c K"
proof -
  let ?h = "command_header command"
  have build: "new_resume \<lparr>res_header = h, res_content = content, res_status = status, res_reply_data = rd,
      res_extra_payload = ex\<rparr> = Inr (ResumeCommand \<lparr>res_header = h, res_content = content, res_status = status,
      res_reply_data = rd, res_extra_payload = ex\<rparr>)" for h
    using assms(4) by (simp add: new_resume_def)
  have persist: "wp (persist_single_call_result V h (ResumeCommand cb)) P K' = P (Inr ()) K''"
    if "K'' = (if mh_task_group_id h \<noteq> [] \<or> mh_message_id h = [] then K' else
      apply_cmd (Expire (task_group_results V (single_call_task_group_id (mh_message_id h))) TASK_GROUP_TTL_SECONDS)
       (apply_cmd (HSet (task_group_results V (single_call_task_group_id (mh_message_id h))) (mh_message_id h)
         (Doc (JObj (reply_record cb)))) K'))" for V h cb P K' K''
    using that by (simp add: persist_single_call_result_def Let_def wp_simps)
  have send: "awp (send_callback wk command (ResumeCommand cb)) Q D (c\<lparr>ac_span_recorder := q\<rparr>) K"
    if "reply_in wk command status cb" "rec_exporters q = []" for cb q
    using that assms(2)
    by (simp add: send_callback_def Let_def awp_simps persist [OF refl] wp_simps command_header_def [of "ResumeCommand cb"])
       (auto simp: reply_in_def intro!: assms(5))
  show ?thesis
    using assms(3)
    unfolding enqueue_agent_return_def Let_def
    by (auto simp: awp_simps wp_simps wp_lift_res build generate_message_id_def reply_in_def callback_header_def
      intro!: return_span_awp assms(1) send split: sum.splits)
qed

lemma awp_keep:
  assumes "keeps I P E m" and "I c" and "\<And>c K. P c \<Longrightarrow> R K \<Longrightarrow> R (apply_cmd c K)" and "R K"
  shows "awp m (\<lambda>r _ K'. R K' \<and> (\<forall>a. r = Inr a \<longrightarrow> E a)) R c K"
proof -
  have 1: "wp (m c) (\<lambda>o' K'. R K') K"
    by (intro always_after always_only [OF keeps_only [OF assms(1,2)]]) (use assms(3,4) in auto)
  have 2: "wp (m c) (\<lambda>o' K'. case o' of Inr (r, c') \<Rightarrow> R K' \<and> I c' \<and> (\<forall>a. r = Inr a \<longrightarrow> E a) | Inl e \<Rightarrow> True) K"
    using awp_frame [OF assms] by (simp add: awp_def)
  show ?thesis
    unfolding awp_def by (rule wp_mono [OF wp_conj [OF 1 2]]) (auto split: sum.splits prod.splits)
qed

lemma retrace_simps [simp]:
  "silent (c\<lparr>ac_span_recorder := q\<rparr>) = (rec_exporters q = [])" "silent (c\<lparr>ac_pending_group_replies := p\<rparr>) = silent c"
  by (simp_all add: silent_def)

lemma finish_task_awp:
  assumes "normalize_process_result res = Inr r0"
  shows "awp (finish_task wk reply res) Q D c K =
    awp (answer_task wk reply res (ac_is_suspended c \<and> \<not> is_terminal_state (tr_status r0)) (apply_suspended_status r0 c)) Q D
      (c\<lparr>ac_pending_group_replies := []\<rparr>) (sent_replies (sv_schema (wk_services wk)) (ac_pending_group_replies c) K)"
proof -
  have "apply_suspended_status r0 (c\<lparr>ac_pending_group_replies := p\<rparr>) = apply_suspended_status r0 c" for p
    by (simp add: apply_suspended_status_def)
  then show ?thesis
    using assms by (simp add: finish_task_def awp_simps flush_wp wp_lift_res)
qed

lemma after_reply_keeps:
  assumes "\<forall>h \<in> set (sv_plugins (wk_services wk)). keeps (apart (wk_services wk) k) (leaves k) (\<lambda>_. True) (hk_task_complete h res)"
  shows "keeps (apart (wk_services wk) k) (leaves k) (\<lambda>x. x = r) (after_reply wk reply res r)"
  unfolding after_reply_def Let_def
  by (intro keeps_intros TrueI refl; (use assms in \<open>auto split: option.splits intro!: keeps_intros\<close>)?)

lemma leaves_keeps: "leaves k cmd \<Longrightarrow> strm K k = x \<Longrightarrow> strm (apply_cmd cmd K) k = x"
  by (simp add: leaves_def)

lemma sent_replies_elsewhere:
  "\<forall>p \<in> set ps. ctrl_stream V (mh_target_agent_type (command_header p)) \<noteq> k \<Longrightarrow> strm (sent_replies V ps K) k = strm K k"
  unfolding sent_replies_def by (induction ps arbitrary: K) auto




text \<open>
  A reply that has gone out is followed by a second one when something after it fails:
  on a server that behaves as documented, when the history back end refuses the text the
  task has streamed, the caller is sent the result and then a failure for the same call,
  and the exception of the back end leaves the handler as well.
\<close>

theorem failing_history_answers_twice:
  assumes "redis exec view" and "sv_plugins (wk_services wk) = []" and "silent c" and "ac_pending_group_replies c = []"
    and "normalize_process_result res = Inr r" and "is_terminal_state (tr_status r)" and "final_message wk r = None"
    and "mh_source_agent_type (command_header rc) \<noteq> []" and "ac_response_buffer c \<noteq> []" and "\<not> ac_is_history_saved c"
    and "sv_save_message (wk_services wk) = (\<lambda>_ _ _. Raise (RuntimeError m))"
    and "k = ctrl_stream (sv_schema (wk_services wk)) (mh_source_agent_type (command_header rc))"
  shows "case run exec (a_catch (finish_task wk (Some rc) res) (task_failed wk (Some rc)) c) s of (o', u) \<Rightarrow>
     (\<exists>c'. o' = Inr (Inl (RuntimeError m), c')) \<and>
     (\<exists>cb cb'. reply_in wk rc (tr_status r) cb \<and> reply_in wk rc ''FAILED'' cb' \<and>
        strm (view u) k = strm (view s) k @ [to_redis_payload (ResumeCommand cb), to_redis_payload (ResumeCommand cb')])"
proof -
  let ?sv = "wk_services wk"
  have r: "apply_suspended_status r c = r" and ne: "tr_status r \<noteq> []"
    using assms(6) by (auto simp: apply_suspended_status_def is_terminal_state_def TERMINAL_STATES_def)
  have flush: "awp (flush_to_history ?sv) Q D d K = Q (Inl (RuntimeError m)) d K"
    if "ac_response_buffer d \<noteq> []" "\<not> ac_is_history_saved d" for Q D d and K :: kspace
    using that assms(11) by (simp add: flush_to_history_def awp_simps)
  have "awp (a_catch (finish_task wk (Some rc) res) (task_failed wk (Some rc))) (\<lambda>o' c' K'. o' = Inl (RuntimeError m) \<and>
     (\<exists>cb cb'. reply_in wk rc (tr_status r) cb \<and> reply_in wk rc ''FAILED'' cb' \<and>
        strm K' k = strm (view s) k @ [to_redis_payload (ResumeCommand cb), to_redis_payload (ResumeCommand cb')]))
     (\<lambda>_. False) c (view s)"
    unfolding awp_catch finish_task_awp [OF assms(5)] r answer_task_def answer_caller_def option.case awp_seq awp_when
      task_failed_def after_reply_def end_stream_def Let_def
    using assms(3,6,9,10)
    by (auto simp: sent_replies_def assms(2,4,7,8,12) ne run_hooks_def awp_simps flush intro!: enqueue_awp) blast
  then have "wp (a_catch (finish_task wk (Some rc) res) (task_failed wk (Some rc)) c)
     (\<lambda>o' K'. (\<exists>c'. o' = Inr (Inl (RuntimeError m), c')) \<and>
     (\<exists>cb cb'. reply_in wk rc (tr_status r) cb \<and> reply_in wk rc ''FAILED'' cb' \<and>
        strm K' k = strm (view s) k @ [to_redis_payload (ResumeCommand cb), to_redis_payload (ResumeCommand cb')])) (view s)"
    unfolding awp_def by (rule wp_mono) (auto split: sum.splits prod.splits)
  from redis.wp_run [OF assms(1) this] show ?thesis by (auto split: prod.splits)
qed

section \<open>What a resumed handler reads\<close>

text \<open>
  A resumed handler reads the metadata it was dispatched with under those of the
  message that woke it: every key of the waking message keeps its value, the keys that
  describe a hop never come from the stored copy, and every other stored key is there.
\<close>

theorem resumed_metadata:
  assumes "merge_resume_metadata (JObj stored) incoming = Inr merged" and "distinct (map fst incoming)"
  shows "map_of merged key = (case map_of incoming key of Some v \<Rightarrow> Some v
     | None \<Rightarrow> if key \<in> FRAMEWORK_HOP_METADATA_KEYS then None else map_of stored key)"
proof -
  have kept: "map_of (filter (\<lambda>(k, v). k \<notin> FRAMEWORK_HOP_METADATA_KEYS) l) key =
      (if key \<in> FRAMEWORK_HOP_METADATA_KEYS then None else map_of l key)" for l :: jdict
    by (induction l) auto
  have "merged = dupdate (filter (\<lambda>(k, v). k \<notin> FRAMEWORK_HOP_METADATA_KEYS) stored) incoming"
    using assms(1) by (cases stored) (auto simp: merge_resume_metadata_def py_or_def)
  then show ?thesis
    using kept [of stored] by (simp add: map_of_dupdate [OF assms(2)] map_add_def split: option.splits)
qed

section \<open>The properties at concrete inputs\<close>

definition demo_worker :: worker where
  "demo_worker = \<lparr>wk_worker_id = ''w'', wk_services = demo_services, wk_has_registry = True,
     wk_process_command = (\<lambda>_. a_ret PNull), wk_on_cancelled_resume = (\<lambda>_ _. a_ret ()), wk_prepare_command = id,
     wk_content_codec = None, wk_emitter = ac_emitter demo_context, wk_span_recorder = ac_span_recorder demo_context,
     wk_printed = (\<lambda>_. []), wk_setup_workspace = (\<lambda>_ _ _ _. Ret []), wk_cleanup_task = (\<lambda>_ _ _ _. Ret ()),
     wk_write_text = (\<lambda>_ _. Ret ()), wk_configs = (1, []), wk_deserialize = (\<lambda>_. Inr (1, [])), wk_config_audit = (\<lambda>_. JNull)\<rparr>"

definition member_header :: "string \<Rightarrow> header" where
  "member_header mid = \<lparr>mh_message_id = ''m'', mh_session_id = ''s'', mh_trace_id = ''t'', mh_source_agent_type = ''coder'',
     mh_target_agent_type = ''planner'', mh_parent_message_id = mid, mh_task_group_id = ''g'', mh_user_code = [],
     mh_user_name = [], mh_metadata = [], mh_trace_parent_span_id = [], mh_langfuse_parent_observation_id = []\<rparr>"

definition member_reply :: "string \<Rightarrow> resume_cmd" where
  "member_reply mid = \<lparr>res_header = member_header mid, res_content = JStr [], res_status = ''COMPLETED'',
     res_reply_data = JStr mid, res_extra_payload = []\<rparr>"

definition demo_group :: "nat \<Rightarrow> answers \<Rightarrow> (string \<times> rtext) list \<Rightarrow> rserver" where
  "demo_group n m l = snd (ref_exec (Pipe ([HSet (task_group V1 ''g'') ''total'' (Doc (JInt (int n))),
     HSet (task_group V1 ''g'') ''completed'' (Doc (JInt (int (card (dom m)))))] @
     map (\<lambda>(k, v). HSet (task_group_results V1 ''g'') k v) l)) empty_server)"

lemma view_empty: "hs (rview empty_server) = (\<lambda>_. Map.empty)" "kv (rview empty_server) = Map.empty"
  "strm (rview empty_server) = (\<lambda>_. [])"
  by (simp_all add: empty_server_def rview_def look_def fun_eq_iff)

lemma demo_group_state: "group_state V1 ''g'' n Map.empty (rview (demo_group n Map.empty []))"
  by (simp add: demo_group_def ref.exec_view group_state_def view_empty)

lemma demo_group_one: "group_state V1 ''g'' n [''a'' \<mapsto> d] (rview (demo_group n [''a'' \<mapsto> d] [(''a'', Doc (JObj d))]))"
  by (simp add: demo_group_def ref.exec_view group_state_def view_empty fun_eq_iff)

theorem join_refines_group_witness:
  "case run ref_exec (group_join V1 (member_reply ''a'') (ResumeCommand (member_reply ''a''))) (demo_group 2 Map.empty []) of
     (Inr res, u) \<Rightarrow> group_state V1 ''g'' 2 (answered (member_reply ''a'') Map.empty) (rview u) \<and>
       join_outcome 2 (answered (member_reply ''a'') Map.empty) (ResumeCommand (member_reply ''a'')) res
   | (Inl e, u) \<Rightarrow> False"
  by (rule join_refines_group [OF ref.redis_axioms demo_group_state]) (simp_all add: member_reply_def member_header_def)

theorem join_resumes_once_witness:
  "case run ref_exec (joins V1 [member_reply ''a'', member_reply ''b''] (ResumeCommand (member_reply ''b''))) (demo_group 2 Map.empty []) of
     (Inr as, u) \<Rightarrow> (\<exists>vs. as = replicate 1 (Inl (status_only ''WAITING_AGENT: waiting_for_group'')) @
         [Inr (set_reply_data (JList vs) (ResumeCommand (member_reply ''b'')))] \<and> length vs = 2)
   | (Inl e, u) \<Rightarrow> False"
proof -
  let ?rs = "[member_reply ''a'', member_reply ''b'']"
  have g: "group_state V1 ''g'' (length ?rs) Map.empty (rview (demo_group 2 Map.empty []))"
    using demo_group_state [of 2] by (simp add: numeral_2_eq_2)
  have r: "\<forall>r \<in> set ?rs. mh_task_group_id (res_header r) = ''g''" "distinct (map child ?rs)" "?rs \<noteq> []"
    by (simp_all add: member_reply_def member_header_def)
  show ?thesis
    using join_resumes_once [OF ref.redis_axioms g r, where command = "ResumeCommand (member_reply ''b'')"]
    by (auto simp del: joins.simps split: prod.splits sum.splits)
qed

theorem repeated_reply_resumes_early_witness:
  "\<exists>vs. fst (run ref_exec (group_join V1 (member_reply ''a'') (ResumeCommand (member_reply ''a'')))
       (demo_group 2 [''a'' \<mapsto> []] [(''a'', Doc (JObj []))])) =
     Inr (Inr (set_reply_data (JList vs) (ResumeCommand (member_reply ''a'')))) \<and> length vs = 2 - 1"
  by (rule repeated_reply_resumes_early [OF ref.redis_axioms demo_group_one]) (simp_all add: member_reply_def member_header_def dom_def)

theorem expired_group_resumes_each_witness:
  "case run ref_exec (group_join V1 (member_reply ''a'') (ResumeCommand (member_reply ''a''))) empty_server of (res, u) \<Rightarrow>
     res = Inr (Inr (ResumeCommand (member_reply ''a''))) \<and> rview u = rview empty_server"
  using expired_group_resumes_each [OF ref.redis_axioms, where s = empty_server and V = V1 and r = "member_reply ''a''"
      and command = "ResumeCommand (member_reply ''a'')"]
  by (simp add: empty_server_def rview_def look_def)


text \<open>A context without an exporter, whose data goes to the stream \<open>d\<close>.\<close>

definition quiet_context :: agent_context where
  "quiet_context = demo_context\<lparr>ac_span_recorder := (ac_span_recorder demo_context)\<lparr>rec_exporters := []\<rparr>,
     ac_emitter := (ac_emitter demo_context)\<lparr>em_fixed := ''d''\<rparr>, ac_response_buffer := [''hello'']\<rparr>"

lemma quiet_context_simps [simp]:
  "silent quiet_context" "ac_pending_group_replies quiet_context = []" "ac_response_buffer quiet_context \<noteq> []"
  "\<not> ac_is_history_saved quiet_context" "em_layout (ac_emitter quiet_context) = default_layout (\<lambda>_. []) (\<lambda>_. None)"
  "stream_of V (em_fixed (ac_emitter quiet_context)) sid = ''d''"
  by (simp_all add: quiet_context_def demo_context_def silent_def stream_of_def str_or_def)

lemma sse_leaves: "only (leaves k) (sse_build args)"
  unfolding sse_build_def by (auto intro!: only_bindp)

lemma quiet_apart: "apart demo_services (ctrl_stream V1 a) quiet_context"
proof -
  have "ctrl_stream V a' \<noteq> ''d''" for V a'
    by (cases V) (simp_all add: ctrl_stream_def versioned_def)
  from this [of V1 a] show ?thesis
    by (simp add: apart_def demo_services_def sse_leaves default_layout_def)
qed

lemma demo_worker_simps [simp]:
  "wk_services demo_worker = demo_services" "sv_schema demo_services = V1" "sv_plugins demo_services = []"
  by (simp_all add: demo_worker_def demo_services_def)

lemma member_reply_simps [simp]:
  "mh_source_agent_type (command_header (ResumeCommand (member_reply a))) = ''coder''"
  by (simp add: member_reply_def member_header_def command_header_def)

lemma demo_completed [simp]:
  "normalize_process_result (PStr ''COMPLETED'') = Inr (default_result\<lparr>tr_status := ''COMPLETED''\<rparr>)"
  "is_terminal_state ''COMPLETED''"
  by (simp_all add: AgentStateLiteral_def is_terminal_state_def TERMINAL_STATES_def)



text \<open>The worker of a history back end that is down.\<close>

definition failing_worker :: worker where
  "failing_worker = demo_worker\<lparr>wk_services := demo_services\<lparr>sv_save_message := (\<lambda>_ _ _. Raise (RuntimeError ''down''))\<rparr>\<rparr>"

theorem failing_history_answers_twice_witness:
  "case run ref_exec (a_catch (finish_task failing_worker (Some (ResumeCommand (member_reply ''a''))) (PStr ''COMPLETED''))
       (task_failed failing_worker (Some (ResumeCommand (member_reply ''a'')))) quiet_context) empty_server of (o', u) \<Rightarrow>
     (\<exists>c'. o' = Inr (Inl (RuntimeError ''down''), c')) \<and>
     (\<exists>cb cb'. reply_in failing_worker (ResumeCommand (member_reply ''a'')) ''COMPLETED'' cb \<and>
        reply_in failing_worker (ResumeCommand (member_reply ''a'')) ''FAILED'' cb' \<and>
        strm (rview u) (ctrl_stream V1 ''coder'') = [to_redis_payload (ResumeCommand cb), to_redis_payload (ResumeCommand cb')])"
  using failing_history_answers_twice [OF ref.redis_axioms, where wk = failing_worker and c = quiet_context
      and res = "PStr ''COMPLETED''" and rc = "ResumeCommand (member_reply ''a'')" and m = "''down''"
      and k = "ctrl_stream V1 ''coder''" and s = empty_server]
  by (simp add: failing_worker_def view_empty final_message_def default_result_def del: normalize_process_result.simps)

theorem resumed_metadata_witness:
  "map_of (dupdate [(''k'', JInt 1)] [(''j'', JInt 2)]) ''k'' = Some (JInt 1)"
proof -
  have "merge_resume_metadata (JObj [(''k'', JInt 1)]) [(''j'', JInt 2)] = Inr (dupdate [(''k'', JInt 1)] [(''j'', JInt 2)])"
    by (simp add: merge_resume_metadata_def py_or_def FRAMEWORK_HOP_METADATA_KEYS_def)
  from resumed_metadata [OF this, where key = "''k''"] show ?thesis
    by (simp add: FRAMEWORK_HOP_METADATA_KEYS_def)
qed

end
