(* ===== verification/Plugin_Registry.thy ===== *)
theory Plugin_Registry
  imports Agent_Context "HOL-Library.Product_Lexorder" "HOL-Library.List_Lexorder" "HOL-Library.Char_ord"
begin

text \<open>
  \<open>core/extensions/registry.py\<close>: the plugins of a worker, the agent configurations they
  register, hot reload, and the isolation and the statistics of hooks.  What a plugin does
  is a parameter: its hooks are methods that may await the server, return anything or
  raise; a hook that \<open>asyncio.wait_for\<close> gives up on raises \<open>TimeoutError\<close>.  The durations
  the registry also sums up, and loading modules from a directory, are left out.
\<close>

section \<open>Configurations and plugins\<close>

text \<open>An \<open>AgentConfig\<close>: the object it is, the fields the registry reads, and the others.\<close>

record agent_config =
  ag_ref :: nat
  ag_agent_id :: string
  ag_on_conflict :: string
  ag_body :: string

text \<open>\<open>==\<close> of the data class, and of lists of them.\<close>

definition config_eq :: "agent_config \<Rightarrow> agent_config \<Rightarrow> bool" where
  "config_eq a b = (ag_agent_id a = ag_agent_id b \<and> ag_on_conflict a = ag_on_conflict b \<and> ag_body a = ag_body b)"

definition configs_eq :: "agent_config list \<Rightarrow> agent_config list \<Rightarrow> bool" where
  "configs_eq = list_all2 config_eq"

record build_context =
  bc_agent_configs :: "agent_config list"
  bc_prev_agent_configs :: "agent_config list"

definition freeze_prev_agent_configs :: "build_context \<Rightarrow> build_context" where
  "freeze_prev_agent_configs b = b\<lparr>bc_prev_agent_configs := bc_agent_configs b\<rparr>"

record configs_snapshot =
  cs_version :: int
  cs_configs :: "agent_config list"

record reload_context =
  rl_plugin_id :: string
  rl_reload_id :: string
  rl_reason :: string
  rl_current_agent_configs :: "agent_config list"
  rl_previous_stable_agent_configs :: "agent_config list"
  rl_current_version :: int

text \<open>\<open>reload\<close> returns a list, a \<open>PluginReloadResult\<close> of one, or \<open>None\<close>.\<close>

record plugin =
  pl_ref :: nat
  pl_classes :: "nat list"
  pl_plugin_id :: string
  pl_name :: string
  pl_priority :: int
  pl_enabled :: bool
  pl_hook_timeout_seconds :: "int option"
  pl_register_agent_configs :: "(build_context, agent_config list option) act"
  pl_reload :: "reload_context \<Rightarrow> agent_config list option prog"
  pl_worker_startup :: "unit prog"
  pl_worker_shutdown :: "unit prog"

record hook_stat =
  hs_success :: nat
  hs_failure :: nat
  hs_timeout :: nat
  hs_last_error :: string

type_synonym hook_stats = "(string \<times> (string \<times> hook_stat) list) list"

record plugin_registry =
  pr_plugins :: "plugin list"
  pr_agent_configs :: "agent_config list"
  pr_agent_configs_version :: int
  pr_initialized_plugins :: "nat list"
  pr_hook_stats :: hook_stats
  pr_processed_reload_ids :: "string list"
  pr_reload_status :: "(string \<times> jdict) list"

definition new_plugin_registry :: plugin_registry where
  "new_plugin_registry = \<lparr>pr_plugins = [], pr_agent_configs = [], pr_agent_configs_version = 0,
     pr_initialized_plugins = [], pr_hook_stats = [], pr_processed_reload_ids = [], pr_reload_status = []\<rparr>"

definition get_agent_configs_snapshot :: "plugin_registry \<Rightarrow> configs_snapshot" where
  "get_agent_configs_snapshot r = \<lparr>cs_version = pr_agent_configs_version r, cs_configs = pr_agent_configs r\<rparr>"

definition get_reload_status :: "string \<Rightarrow> plugin_registry \<Rightarrow> jdict option" where
  "get_reload_status reload_id r = map_of (pr_reload_status r) reload_id"

definition agent_config_of :: "string \<Rightarrow> plugin_registry \<Rightarrow> agent_config option" where
  "agent_config_of agent_id r = find (\<lambda>c. ag_agent_id c = agent_id) (pr_agent_configs r)"

definition register_bundle :: "plugin \<Rightarrow> plugin_registry \<Rightarrow> plugin_registry" where
  "register_bundle p r =
     (if pl_ref p \<in> pl_ref ` set (pr_plugins r) then r else r\<lparr>pr_plugins := pr_plugins r @ [p]\<rparr>)"

definition register_bundles :: "plugin list \<Rightarrow> plugin_registry \<Rightarrow> plugin_registry" where
  "register_bundles = fold register_bundle"

definition get_active_plugins :: "plugin_registry \<Rightarrow> plugin list" where
  "get_active_plugins r = sort_key (\<lambda>p. (- pl_priority p, pl_name p)) (filter pl_enabled (pr_plugins r))"

definition get_plugin :: "string \<Rightarrow> plugin_registry \<Rightarrow> plugin option" where
  "get_plugin plugin_id r = find (\<lambda>p. pl_plugin_id p = plugin_id) (pr_plugins r)"

section \<open>Hooks\<close>

definition no_stat :: hook_stat where
  "no_stat = \<lparr>hs_success = 0, hs_failure = 0, hs_timeout = 0, hs_last_error = []\<rparr>"

definition plugin_stats :: "string \<Rightarrow> hook_stats \<Rightarrow> (string \<times> hook_stat) list" where
  "plugin_stats plugin_name st = (case map_of st plugin_name of None \<Rightarrow> [] | Some s \<Rightarrow> s)"

definition stat_of :: "string \<Rightarrow> string \<Rightarrow> hook_stats \<Rightarrow> hook_stat" where
  "stat_of plugin_name hook_name st =
     (case map_of (plugin_stats plugin_name st) hook_name of None \<Rightarrow> no_stat | Some s \<Rightarrow> s)"

text \<open>\<open>_ensure_hook_stats\<close>, and a change of the counters it returns.\<close>

definition count_hook :: "string \<Rightarrow> string \<Rightarrow> (hook_stat \<Rightarrow> hook_stat) \<Rightarrow> plugin_registry \<Rightarrow> plugin_registry" where
  "count_hook plugin_name hook_name f r =
     r\<lparr>pr_hook_stats := AList.update plugin_name (AList.update hook_name (f (stat_of plugin_name hook_name (pr_hook_stats r)))
       (plugin_stats plugin_name (pr_hook_stats r))) (pr_hook_stats r)\<rparr>"

definition ensure_hook_stats :: "string \<Rightarrow> string \<Rightarrow> plugin_registry \<Rightarrow> plugin_registry" where
  "ensure_hook_stats plugin_name hook_name = count_hook plugin_name hook_name id"

definition hook_done :: "hook_stat \<Rightarrow> hook_stat" where
  "hook_done st = st\<lparr>hs_success := hs_success st + 1\<rparr>"

definition hook_failed :: "exn \<Rightarrow> hook_stat \<Rightarrow> hook_stat" where
  "hook_failed e st = st\<lparr>hs_failure := hs_failure st + 1,
     hs_timeout := (case e of TimeoutError m \<Rightarrow> hs_timeout st + 1 | _ \<Rightarrow> hs_timeout st), hs_last_error := exn_text e\<rparr>"

text \<open>The hook works on the registry and on whatever else it is given.\<close>

definition execute_hook ::
  "plugin \<Rightarrow> string \<Rightarrow> (plugin_registry \<times> 'c, unit) act \<Rightarrow> (plugin_registry \<times> 'c, unit) act" where
  "execute_hook p hook_name coro =
     a_seq (a_set (apfst (ensure_hook_stats (pl_name p) hook_name)))
       (a_except (a_seq coro (a_set (apfst (count_hook (pl_name p) hook_name hook_done))))
         (\<lambda>e. a_set (apfst (count_hook (pl_name p) hook_name (hook_failed e)))))"

definition reset_hook_stats :: "string \<Rightarrow> string \<Rightarrow> plugin_registry \<Rightarrow> plugin_registry" where
  "reset_hook_stats plugin_name hook_name r =
     (let st = pr_hook_stats r; ps = plugin_stats plugin_name st; ps' = AList.delete hook_name ps in
      r\<lparr>pr_hook_stats :=
        (if plugin_name = [] then []
         else if ps = [] then st
         else if hook_name = [] \<or> ps' = [] then AList.delete plugin_name st
         else AList.update plugin_name ps' st)\<rparr>)"

section \<open>Registering configurations\<close>

definition validate_agent_config :: "agent_config \<Rightarrow> exn + unit" where
  "validate_agent_config c =
     (if ag_agent_id c = [] then Inl (ValueError ''AgentConfig.agent_id must not be empty'') else Inr ())"

primrec validate_agent_config_list :: "agent_config list \<Rightarrow> exn + unit" where
  "validate_agent_config_list [] = Inr ()"
| "validate_agent_config_list (c # cs) = res_bind (validate_agent_config c) (\<lambda>_. validate_agent_config_list cs)"

definition set_agent_configs :: "agent_config list \<Rightarrow> plugin_registry \<Rightarrow> exn + plugin_registry" where
  "set_agent_configs configs r = res_bind (validate_agent_config_list configs) (\<lambda>_.
     Inr (r\<lparr>pr_agent_configs := configs, pr_agent_configs_version := pr_agent_configs_version r + 1\<rparr>))"

text \<open>\<open>list.remove\<close>: the first equal one.\<close>

primrec remove_config :: "agent_config \<Rightarrow> agent_config list \<Rightarrow> agent_config list" where
  "remove_config c [] = []"
| "remove_config c (d # ds) = (if config_eq d c then ds else d # remove_config c ds)"

primrec stage_configs :: "agent_config list \<Rightarrow> agent_config list \<Rightarrow> exn + agent_config list" where
  "stage_configs [] staged = Inr staged"
| "stage_configs (c # cs) staged = res_bind (validate_agent_config c) (\<lambda>_.
     case find (\<lambda>item. ag_agent_id item = ag_agent_id c) staged of
       None \<Rightarrow> stage_configs cs (staged @ [c])
     | Some existing \<Rightarrow>
         if ag_ref existing = ag_ref c then stage_configs cs staged
         else if ag_on_conflict c = ''error''
         then Inl (ValueError (''agent_config '' @ ag_agent_id c @ '' is already registered''))
         else if ag_on_conflict c = ''skip'' then stage_configs cs staged
         else stage_configs cs (remove_config existing staged @ [c]))"

definition register_plugin_agent_configs :: "plugin \<Rightarrow> (plugin_registry \<times> build_context, unit) act" where
  "register_plugin_agent_configs p =
     a_seq (a_set (apsnd freeze_prev_agent_configs))
    (a_bind (a_zoom snd (\<lambda>b (r, _). (r, b)) (pl_register_agent_configs p)) (\<lambda>new_configs.
     a_seq (case new_configs of None \<Rightarrow> a_ret ()
         | Some l \<Rightarrow> a_set (apsnd (\<lambda>b. b\<lparr>bc_agent_configs := l\<rparr>)))
    (a_with (\<lambda>(r, b). a_when (bc_agent_configs b \<noteq> [])
       (a_bind (a_lift (lift_res (stage_configs (bc_agent_configs b) (pr_agent_configs r)))) (\<lambda>staged.
        a_set (apfst (\<lambda>r. r\<lparr>pr_agent_configs := staged\<rparr>))))))))"

definition initialize_plugin :: "plugin \<Rightarrow> (plugin_registry \<times> build_context, unit) act" where
  "initialize_plugin p = a_with (\<lambda>(r, _). a_when (pl_ref p \<notin> set (pr_initialized_plugins r))
     (let successes = (\<lambda>r. hs_success (stat_of (pl_name p) ''register_agent_configs'' (pr_hook_stats r))) in
      a_seq (execute_hook p ''register_agent_configs'' (register_plugin_agent_configs p))
        (a_set (apfst (\<lambda>r'. if successes r < successes r'
           then r'\<lparr>pr_initialized_plugins := pl_ref p # pr_initialized_plugins r'\<rparr> else r')))))"

text \<open>\<open>initialize_plugins(build_context)\<close>; the context is the registry's own when none is given.\<close>

definition initialize_plugins :: "build_context option \<Rightarrow> (plugin_registry, unit) act" where
  "initialize_plugins given r =
     (let b = (case given of Some b \<Rightarrow> b
                | None \<Rightarrow> \<lparr>bc_agent_configs = pr_agent_configs r, bc_prev_agent_configs = []\<rparr>) in
      bindp (a_for initialize_plugin (get_active_plugins r) (r, b)) (\<lambda>(o', r', _).
      Ret (case o' of Inl e \<Rightarrow> (Inl e, r') | Inr _ \<Rightarrow>
        (Inr (), if configs_eq (pr_agent_configs r') (pr_agent_configs r) then r'
           else r'\<lparr>pr_agent_configs_version := pr_agent_configs_version r' + 1\<rparr>))))"

text \<open>The plugin classes a process has defined, each with what calling it gives.\<close>

definition discover_plugins :: "(nat \<times> (exn + plugin)) list \<Rightarrow> plugin_registry \<Rightarrow> plugin_registry" where
  "discover_plugins = fold (\<lambda>(cls, made) r.
     if (\<exists>p \<in> set (pr_plugins r). cls \<in> set (pl_classes p)) then r
     else case made of Inl e \<Rightarrow> r | Inr p \<Rightarrow> register_bundle p r)"

definition apply_default_hook_timeout :: "int \<Rightarrow> plugin_registry \<Rightarrow> plugin_registry" where
  "apply_default_hook_timeout timeout_seconds r =
     (if timeout_seconds \<le> 0 then r
      else r\<lparr>pr_plugins := map (\<lambda>p. if pl_hook_timeout_seconds p = None
        then p\<lparr>pl_hook_timeout_seconds := Some timeout_seconds\<rparr> else p) (pr_plugins r)\<rparr>)"

text \<open>A hook of every active plugin; here one that does not touch the registry.\<close>

definition worker_hooks :: "string \<Rightarrow> (plugin \<Rightarrow> unit prog) \<Rightarrow> (plugin_registry, unit) act" where
  "worker_hooks hook_name hook r =
     bindp (a_for (\<lambda>p. execute_hook p hook_name (a_lift (hook p))) (get_active_plugins r) (r, ()))
       (\<lambda>(o', r', _). Ret (case o' of Inl e \<Rightarrow> (Inl e, r') | Inr _ \<Rightarrow> (Inr (), r')))"

definition on_worker_startup :: "(nat \<times> (exn + plugin)) list \<Rightarrow> (plugin_registry, unit) act" where
  "on_worker_startup classes =
     a_seq (a_set (discover_plugins classes))
    (a_seq (initialize_plugins None)
     (worker_hooks ''on_worker_startup'' pl_worker_startup))"

definition on_worker_shutdown :: "(plugin_registry, unit) act" where
  "on_worker_shutdown = worker_hooks ''on_worker_shutdown'' pl_worker_shutdown"

section \<open>Hot reload\<close>

definition extract_reload_configs :: "agent_config list option \<Rightarrow> agent_config list \<Rightarrow> agent_config list" where
  "extract_reload_configs result fallback = (case result of None \<Rightarrow> fallback | Some l \<Rightarrow> l)"

primrec replay_reload_chain ::
  "configs_snapshot \<Rightarrow> string \<Rightarrow> string \<Rightarrow> plugin list \<Rightarrow> agent_config list \<Rightarrow> agent_config list prog" where
  "replay_reload_chain base reload_id reason [] working = Ret working"
| "replay_reload_chain base reload_id reason (p # ps) working =
     bindp (pl_reload p \<lparr>rl_plugin_id = pl_plugin_id p, rl_reload_id = reload_id, rl_reason = reason,
        rl_current_agent_configs = working, rl_previous_stable_agent_configs = cs_configs base,
        rl_current_version = cs_version base\<rparr>) (\<lambda>result.
     let working' = extract_reload_configs result working in
     bindp (lift_res (validate_agent_config_list working')) (\<lambda>_.
     replay_reload_chain base reload_id reason ps working'))"

definition record_reload :: "string \<Rightarrow> string \<Rightarrow> string \<Rightarrow> int \<Rightarrow> int \<Rightarrow> string \<Rightarrow> plugin_registry \<Rightarrow> plugin_registry" where
  "record_reload reload_id status reason version_before version_after error r =
     r\<lparr>pr_processed_reload_ids := reload_id # pr_processed_reload_ids r,
       pr_reload_status := AList.update reload_id
        [(''status'', JStr status), (''reason'', JStr reason), (''version_before'', JInt version_before),
         (''version_after'', JInt version_after), (''error'', JStr error)] (pr_reload_status r)\<rparr>"

definition reload_plugins :: "string \<Rightarrow> string \<Rightarrow> (plugin_registry, configs_snapshot) act" where
  "reload_plugins reload_id reason = a_with (\<lambda>r.
     if reload_id \<in> set (pr_processed_reload_ids r) then a_get get_agent_configs_snapshot
     else let base = get_agent_configs_snapshot r in
       a_except
        (a_bind (a_lift (replay_reload_chain base reload_id reason (get_active_plugins r) (cs_configs base))) (\<lambda>next_configs.
         a_bind (a_lift (lift_res (set_agent_configs next_configs r))) (\<lambda>r'.
         a_seq (a_set (\<lambda>_. record_reload reload_id ''success'' reason (cs_version base) (pr_agent_configs_version r') [] r'))
           (a_get get_agent_configs_snapshot))))
        (\<lambda>e. a_seq (a_set (\<lambda>r. record_reload reload_id ''failure'' reason (cs_version base) (pr_agent_configs_version r)
             (exn_text e) r)) (a_raise e)))"

section \<open>A reload replaces everything or nothing\<close>

definition valid_configs :: "agent_config list \<Rightarrow> bool" where
  "valid_configs cs = (\<forall>c \<in> set cs. ag_agent_id c \<noteq> [])"

lemma validate_spec: "validate_agent_config_list cs = Inr u \<longleftrightarrow> valid_configs cs"
  by (induction cs) (auto simp: valid_configs_def validate_agent_config_def)

lemma set_configs_spec:
  "set_agent_configs cs r = (if valid_configs cs
     then Inr (r\<lparr>pr_agent_configs := cs, pr_agent_configs_version := pr_agent_configs_version r + 1\<rparr>)
     else Inl (ValueError ''AgentConfig.agent_id must not be empty''))"
proof -
  have "validate_agent_config_list cs = (if valid_configs cs then Inr ()
      else Inl (ValueError ''AgentConfig.agent_id must not be empty''))"
    by (induction cs) (auto simp: valid_configs_def validate_agent_config_def)
  then show ?thesis by (simp add: set_agent_configs_def)
qed

text \<open>What a reload may leave: the old configurations and version, or new valid ones and the next version.\<close>

definition reload_status :: "string \<Rightarrow> string \<Rightarrow> int \<Rightarrow> int \<Rightarrow> string \<Rightarrow> jdict" where
  "reload_status status reason before after error =
     [(''status'', JStr status), (''reason'', JStr reason), (''version_before'', JInt before),
      (''version_after'', JInt after), (''error'', JStr error)]"

definition unchanged_configs :: "plugin_registry \<Rightarrow> plugin_registry \<Rightarrow> bool" where
  "unchanged_configs r r' = (get_agent_configs_snapshot r' = get_agent_configs_snapshot r)"

definition reload_outcome :: "string \<Rightarrow> string \<Rightarrow> plugin_registry \<Rightarrow> exn + configs_snapshot \<Rightarrow> plugin_registry \<Rightarrow> bool" where
  "reload_outcome rid reason r res r' = (case res of
     Inr snap \<Rightarrow> snap = get_agent_configs_snapshot r' \<and> pr_agent_configs_version r' = pr_agent_configs_version r + 1 \<and>
       valid_configs (pr_agent_configs r') \<and>
       get_reload_status rid r' = Some (reload_status ''success'' reason (pr_agent_configs_version r)
         (pr_agent_configs_version r + 1) [])
   | Inl (CancelledError m) \<Rightarrow> r' = r
   | Inl e \<Rightarrow> unchanged_configs r r' \<and>
       get_reload_status rid r' = Some (reload_status ''failure'' reason (pr_agent_configs_version r)
         (pr_agent_configs_version r) (exn_text e)))"

lemma reload_aouts:
  assumes "rid \<notin> set (pr_processed_reload_ids r)"
  shows "aouts (\<lambda>res r'. reload_outcome rid reason r res r' \<and>
     ((\<exists>m. res = Inl (CancelledError m)) \<or> rid \<in> set (pr_processed_reload_ids r'))) (reload_plugins rid reason) r"
  using assms
  by (auto simp: reload_plugins_def aouts_simps Let_def set_configs_spec lift_res_def reload_outcome_def
      get_agent_configs_snapshot_def record_reload_def get_reload_status_def reload_status_def update_conv'
      unchanged_configs_def intro!: outs_mono [OF outs_True] split: sum.splits exn.splits if_splits)


text \<open>A reload that was processed, successfully or not, is not replayed.\<close>

lemma reload_once:
  "rid \<in> set (pr_processed_reload_ids r) \<Longrightarrow>
     reload_plugins rid reason r = Ret (Inr (get_agent_configs_snapshot r), r)"
  by (simp add: reload_plugins_def a_with_def a_get_def)

section \<open>Registration keeps the ids unique\<close>

definition unique_ids :: "agent_config list \<Rightarrow> bool" where
  "unique_ids cs = (distinct (map ag_agent_id cs) \<and> valid_configs cs)"

lemma remove_config_filter:
  "e \<in> set cs \<Longrightarrow> distinct (map ag_agent_id cs) \<Longrightarrow>
     remove_config e cs = filter (\<lambda>i. ag_agent_id i \<noteq> ag_agent_id e) cs"
proof (induction cs)
  case (Cons c cs)
  show ?case
  proof (cases "config_eq c e")
    case True
    then have "\<forall>i \<in> set cs. ag_agent_id i \<noteq> ag_agent_id e"
      using Cons.prems(2) by (simp add: config_eq_def) (metis imageI)
    then show ?thesis using True by (simp add: config_eq_def filter_id_conv)
  next
    case False
    then have "c \<noteq> e" by (auto simp: config_eq_def)
    then show ?thesis using Cons False by (auto simp: config_eq_def)
  qed
qed simp

lemma stage_unique: "stage_configs cs st = Inr st' \<Longrightarrow> unique_ids st \<Longrightarrow> unique_ids st'"
proof (induction cs arbitrary: st)
  case (Cons c cs)
  have c: "ag_agent_id c \<noteq> []"
    using Cons.prems(1) by (auto simp: validate_agent_config_def split: if_splits)
  show ?case
  proof (cases "find (\<lambda>i. ag_agent_id i = ag_agent_id c) st")
    case None
    then have "unique_ids (st @ [c])"
      using Cons.prems(2) c by (auto simp: unique_ids_def valid_configs_def find_None_iff)
    then show ?thesis
      using Cons.IH Cons.prems(1) None c by (simp add: validate_agent_config_def)
  next
    case (Some e)
    have "unique_ids (remove_config e st @ [c])"
      using remove_config_filter [of e st] Some Cons.prems(2) c
      by (auto simp: unique_ids_def valid_configs_def find_Some_iff distinct_map inj_on_def)
    then show ?thesis
      using Cons Some c by (auto simp: validate_agent_config_def split: if_splits)
  qed
qed simp

text \<open>What holds of the registry through the registration of plugins.\<close>

definition registered :: "plugin_registry \<times> build_context \<Rightarrow> bool" where
  "registered = (\<lambda>(r, b). unique_ids (pr_agent_configs r))"

lemma count_hook_configs [simp]:
  "pr_agent_configs (count_hook n h f r) = pr_agent_configs r"
  "pr_agent_configs_version (count_hook n h f r) = pr_agent_configs_version r"
  "pr_initialized_plugins (count_hook n h f r) = pr_initialized_plugins r"
  "stat_of n h (pr_hook_stats (count_hook n h f r)) = f (stat_of n h (pr_hook_stats r))"
  "n' \<noteq> n \<Longrightarrow> stat_of n' h' (pr_hook_stats (count_hook n h f r)) = stat_of n' h' (pr_hook_stats r)"
  by (simp_all add: count_hook_def stat_of_def plugin_stats_def update_conv')

lemma registered_simps [simp]:
  "registered (apfst (count_hook n h f) rb) = registered rb" "registered (apsnd g rb) = registered rb"
  by (cases rb; simp add: registered_def)+

text \<open>A plugin's method is one: what it raises is an outcome of it.\<close>

definition is_method :: "plugin \<Rightarrow> bool" where
  "is_method p = keeps (\<lambda>_. True) (\<lambda>_. True) (\<lambda>_. True) (pl_register_agent_configs p)"

lemma register_keeps:
  assumes "is_method p"
  shows "keeps registered (\<lambda>_. True) (\<lambda>_. True) (register_plugin_agent_configs p)"
proof (rule keepsI)
  have m: "aouts Q (pl_register_agent_configs p) b" if "\<And>r b. Q r b" for Q b
    by (rule aouts_mono [OF keepsD [OF assms [unfolded is_method_def]]]) (simp_all add: that)
  fix c assume "registered c"
  then show "aouts (\<lambda>r c'. registered c' \<and> (\<forall>a. r = Inr a \<longrightarrow> True)) (register_plugin_agent_configs p) c"
    by (cases c) (auto simp: register_plugin_agent_configs_def aouts_simps registered_def lift_res_def
      intro!: m split: sum.splits option.splits dest: stage_unique)
qed simp

text \<open>A hook that raises is counted and goes no further; only a cancellation does.\<close>

lemma execute_hook_aouts:
  assumes "keeps I (\<lambda>_. True) (\<lambda>_. True) coro" and "\<And>n h f c. I (apfst (count_hook n h f) c) = I c" and "I c"
  shows "aouts (\<lambda>o' c'. I c' \<and> (\<forall>e. o' = Inl e \<longrightarrow> (\<exists>m. e = CancelledError m))) (execute_hook p h coro) c"
  unfolding execute_hook_def ensure_hook_stats_def aouts_simps sum.case
  by (rule aouts_mono [OF keepsD [OF assms(1)]])
    (use assms(2,3) in \<open>auto simp: aouts_simps split: sum.splits exn.splits\<close>)

lemma initialize_plugin_aouts:
  assumes "is_method p" and "registered c"
  shows "aouts (\<lambda>o' c'. registered c' \<and> (\<forall>e. o' = Inl e \<longrightarrow> (\<exists>m. e = CancelledError m))) (initialize_plugin p) c"
proof -
  have "registered (apfst (\<lambda>r'. if P r' then r'\<lparr>pr_initialized_plugins := l r'\<rparr> else r') c') = registered c'" for P l c'
    by (cases c') (simp add: registered_def)
  then show ?thesis
    using assms execute_hook_aouts [OF register_keeps [OF assms(1)], where c = c and p = p and h = "''register_agent_configs''"]
    by (cases c) (auto simp: initialize_plugin_def aouts_simps Let_def split: sum.splits elim!: aouts_mono)
qed

text \<open>
  Registration isolates the plugins and keeps the ids unique: on any server and
  whatever the plugins register, raise or time out on, from configurations with unique
  non-empty ids \<open>initialize_plugins\<close> ends in such configurations, and raises only when it
  is cancelled.
\<close>

theorem registration_keeps_ids_unique:
  assumes "unique_ids (pr_agent_configs r)" and "\<forall>p \<in> set (pr_plugins r). is_method p"
  shows "case fst (run X (initialize_plugins given r) s) of
     Inr (res, r') \<Rightarrow> unique_ids (pr_agent_configs r') \<and> (\<forall>e. res = Inl e \<longrightarrow> (\<exists>m. e = CancelledError m))
   | Inl e \<Rightarrow> e = Diverges"
proof -
  have all: "aouts (\<lambda>o' c'. registered c' \<and> (case o' of Inl e \<Rightarrow> (\<exists>m. e = CancelledError m) | Inr _ \<Rightarrow> True))
      (a_for initialize_plugin (get_active_plugins r)) (r, b)" for b
    by (rule aouts_for [where E = "\<lambda>o'. \<forall>e. o' = Inl e \<longrightarrow> (\<exists>m. e = CancelledError m)"])
      (use assms in \<open>auto simp: registered_def get_active_plugins_def intro: initialize_plugin_aouts [unfolded registered_def]\<close>)
  have "aouts (\<lambda>res r'. unique_ids (pr_agent_configs r') \<and> (\<forall>e. res = Inl e \<longrightarrow> (\<exists>m. e = CancelledError m)))
      (initialize_plugins given) r"
    unfolding initialize_plugins_def aouts_def outs_bindp Let_def
    by (rule outs_mono [OF all [unfolded aouts_def]])
      (auto simp: registered_def split: sum.splits)
  then show ?thesis by (rule aouts_run)
qed

text \<open>
  The configurations a plugin is refused for are offered again in the name of the next
  one: on any server, when one plugin returns configurations that cannot be registered and
  the next one returns nothing, the second one fails with the first one's error, neither
  counts as initialised, and no configuration has changed.
\<close>

theorem rejected_configs_fail_next_plugin:
  assumes "get_active_plugins r = [p, q]" and "{pl_ref p, pl_ref q} \<inter> set (pr_initialized_plugins r) = {}"
    and "pl_name p \<noteq> pl_name q" and "l \<noteq> []" and "stage_configs l (pr_agent_configs r) = Inl (ValueError m)"
    and "pl_register_agent_configs p = (\<lambda>b. Ret (Inr (Some l), b))"
    and "pl_register_agent_configs q = (\<lambda>b. Ret (Inr None, b))"
  shows "\<exists>r'. run X (initialize_plugins None r) s = (Inr (Inr (), r'), s) \<and>
     unchanged_configs r r' \<and> pr_initialized_plugins r' = pr_initialized_plugins r \<and>
     (\<forall>n \<in> {pl_name p, pl_name q}. stat_of n ''register_agent_configs'' (pr_hook_stats r') =
        hook_failed (ValueError m) (stat_of n ''register_agent_configs'' (pr_hook_stats r)))"
proof -
  let ?h = "''register_agent_configs''"
  let ?fail = "\<lambda>x r. count_hook (pl_name x) ?h (hook_failed (ValueError m)) (count_hook (pl_name x) ?h id r)"
  have eq: "configs_eq cs cs" for cs
    by (simp add: configs_eq_def config_eq_def list_all2_same)
  have step: "initialize_plugin x (r1, b) = Ret (Inr (), ?fail x r1, b')"
    if "pl_ref x \<notin> set (pr_initialized_plugins r1)" and "pl_register_agent_configs x = (\<lambda>b. Ret (Inr new, b))"
      and "b' = (freeze_prev_agent_configs b)\<lparr>bc_agent_configs := (case new of Some l' \<Rightarrow> l' | None \<Rightarrow> bc_agent_configs b)\<rparr>"
      and "bc_agent_configs b' = l" and "pr_agent_configs r1 = pr_agent_configs r" for x r1 b b' new
    using that assms(4,5)
    by (cases new) (simp_all add: initialize_plugin_def a_with_def a_when_def execute_hook_def register_plugin_agent_configs_def
      a_seq_def a_bind_def a_set_def a_except_def a_zoom_def a_lift_def lift_res_def attempt_def Let_def a_ret_def
      ensure_hook_stats_def hook_failed_def freeze_prev_agent_configs_def)
  show ?thesis
    using assms eq
    by (simp add: initialize_plugins_def a_bind_def a_ret_def step [OF _ assms(6) refl] step [OF _ assms(7) refl]
        freeze_prev_agent_configs_def unchanged_configs_def get_agent_configs_snapshot_def Let_def)
qed

section \<open>The properties at concrete inputs\<close>

definition demo_config :: "nat \<Rightarrow> agent_config" where
  "demo_config n = \<lparr>ag_ref = n, ag_agent_id = ''coder'', ag_on_conflict = ''error'', ag_body = []\<rparr>"

definition demo_plugin :: "nat \<Rightarrow> string \<Rightarrow> agent_config list option \<Rightarrow> plugin" where
  "demo_plugin n name registers = \<lparr>pl_ref = n, pl_classes = [], pl_plugin_id = name, pl_name = name, pl_priority = 0,
     pl_enabled = True, pl_hook_timeout_seconds = None, pl_register_agent_configs = a_ret registers,
     pl_reload = (\<lambda>c. Ret (Some (rl_current_agent_configs c))), pl_worker_startup = Ret (), pl_worker_shutdown = Ret ()\<rparr>"

definition demo_plugins :: plugin_registry where
  "demo_plugins = new_plugin_registry\<lparr>pr_agent_configs := [demo_config 0],
     pr_plugins := [demo_plugin 1 ''a'' (Some [demo_config 1]), demo_plugin 2 ''b'' None]\<rparr>"

lemma demo_plugins_simps [simp]:
  "pr_agent_configs demo_plugins = [demo_config 0]" "pr_processed_reload_ids demo_plugins = []"
  "pr_initialized_plugins demo_plugins = []" "pr_agent_configs_version demo_plugins = 0"
  "get_active_plugins demo_plugins = [demo_plugin 1 ''a'' (Some [demo_config 1]), demo_plugin 2 ''b'' None]"
  by (simp_all add: demo_plugins_def new_plugin_registry_def get_active_plugins_def demo_plugin_def)


theorem registration_keeps_ids_unique_witness:
  "case fst (run ref_exec (initialize_plugins None demo_plugins) empty_server) of
     Inr (res, r') \<Rightarrow> unique_ids (pr_agent_configs r') \<and> (\<forall>e. res = Inl e \<longrightarrow> (\<exists>m. e = CancelledError m))
   | Inl e \<Rightarrow> e = Diverges"
  by (rule registration_keeps_ids_unique)
    (auto simp: unique_ids_def valid_configs_def demo_config_def demo_plugins_def is_method_def demo_plugin_def intro!: keeps_intros)

theorem rejected_configs_fail_next_plugin_witness:
  "\<exists>m r'. run ref_exec (initialize_plugins None demo_plugins) empty_server = (Inr (Inr (), r'), empty_server) \<and>
     unchanged_configs demo_plugins r' \<and> pr_initialized_plugins r' = [] \<and>
     stat_of ''b'' ''register_agent_configs'' (pr_hook_stats r') =
       hook_failed (ValueError m) (stat_of ''b'' ''register_agent_configs'' (pr_hook_stats demo_plugins))"
  using rejected_configs_fail_next_plugin [where r = demo_plugins and p = "demo_plugin 1 ''a'' (Some [demo_config 1])"
      and q = "demo_plugin 2 ''b'' None" and l = "[demo_config 1]" and X = ref_exec and s = empty_server]
  by (fastforce simp: demo_plugin_def demo_config_def validate_agent_config_def a_ret_def)

end
