(* ===== verification/Trace_Writer.thy ===== *)
theory Trace_Writer
  imports Trace_Span Protocol
begin

text \<open>
  \<open>trace/trace_schema.py\<close> and \<open>trace/trace_writer.py\<close>: the records of a trace, how they
  are laid out in Redis and read back, and the client that writes them and never lets a
  failure of the back end reach the task.  \<open>json.loads\<close> on a text is a parameter.
\<close>

section \<open>Records and their encoding\<close>

definition clean_dict :: "jdict \<Rightarrow> jdict" where
  "clean_dict payload = filter (\<lambda>(k, v). v \<noteq> JStr [] \<and> v \<noteq> JNull) payload"

definition sanitize_mapping :: "jdict \<Rightarrow> json" where
  "sanitize_mapping mapping = sanitize_value DEFAULT_METADATA_VALUE_MAX_LENGTH ''metadata'' (JObj mapping)"

fun encode_redis_value :: "json \<Rightarrow> rtext" where
  "encode_redis_value (JStr s) = Txt s"
| "encode_redis_value v = Doc v"

text \<open>The text of \<open>Doc v\<close> is JSON and starts like JSON, so reading it gives \<open>v\<close>.\<close>

fun decode_redis_value :: "(string \<Rightarrow> json option) \<Rightarrow> rtext \<Rightarrow> json" where
  "decode_redis_value parse (Doc v) = v"
| "decode_redis_value parse (Txt value) =
     (let stripped = strip value in
      if stripped = [] then JStr []
      else if hd stripped \<notin> set ''[{\"-0123456789'' \<and> stripped \<notin> {''true'', ''false'', ''null''} then JStr value
      else (case parse stripped of Some v \<Rightarrow> v | None \<Rightarrow> JStr value))"

record trace_record =
  tc_trace_id :: string
  tc_name :: string
  tc_session_id :: string
  tc_root_message_id :: string
  tc_root_agent_type :: string
  tc_input :: json
  tc_output :: json
  tc_status :: string
  tc_start_ts :: int
  tc_end_ts :: int
  tc_metadata :: jdict

definition plain_trace :: "string \<Rightarrow> trace_record" where
  "plain_trace trace_id = \<lparr>tc_trace_id = trace_id, tc_name = [], tc_session_id = [], tc_root_message_id = [],
     tc_root_agent_type = [], tc_input = JNull, tc_output = JNull, tc_status = [], tc_start_ts = 0, tc_end_ts = 0,
     tc_metadata = []\<rparr>"

definition trace_to_dict :: "trace_record \<Rightarrow> jdict" where
  "trace_to_dict r = clean_dict
     [(''trace_id'', JStr (tc_trace_id r)), (''name'', JStr (tc_name r)), (''session_id'', JStr (tc_session_id r)),
      (''root_message_id'', JStr (tc_root_message_id r)), (''root_agent_type'', JStr (tc_root_agent_type r)),
      (''input'', tc_input r), (''output'', tc_output r), (''status'', JStr (tc_status r)),
      (''start_ts'', JInt (tc_start_ts r)), (''end_ts'', JInt (tc_end_ts r)),
      (''metadata'', if tc_metadata r \<noteq> [] then sanitize_mapping (tc_metadata r) else JObj [])]"

definition decoded :: "(string \<Rightarrow> json option) \<Rightarrow> (string \<times> rtext) list \<Rightarrow> jdict" where
  "decoded parse mapping = map (\<lambda>(k, v). (k, decode_redis_value parse v)) mapping"

definition dict_or_empty :: "json \<Rightarrow> jdict" where
  "dict_or_empty v = (case v of JObj d \<Rightarrow> d | _ \<Rightarrow> [])"

definition trace_from_mapping :: "(string \<Rightarrow> json option) \<Rightarrow> (string \<times> rtext) list \<Rightarrow> exn + trace_record" where
  "trace_from_mapping parse mapping =
     (let data = decoded parse mapping; str = (\<lambda>k. py_str (dget data k (JStr []))) in
      res_bind (to_int (py_or (dget data ''start_ts'' (JInt 0)) (JInt 0))) (\<lambda>start_ts.
      res_bind (to_int (py_or (dget data ''end_ts'' (JInt 0)) (JInt 0))) (\<lambda>end_ts.
      Inr \<lparr>tc_trace_id = str ''trace_id'', tc_name = str ''name'', tc_session_id = str ''session_id'',
        tc_root_message_id = str ''root_message_id'', tc_root_agent_type = str ''root_agent_type'',
        tc_input = dget0 data ''input'', tc_output = dget0 data ''output'', tc_status = str ''status'',
        tc_start_ts = start_ts, tc_end_ts = end_ts, tc_metadata = dict_or_empty (dget0 data ''metadata'')\<rparr>)))"

record execution_record =
  er_execution_id :: string
  er_message_id :: string
  er_trace_id :: string
  er_session_id :: string
  er_parent_message_id :: string
  er_worker_id :: string
  er_source_agent_type :: string
  er_target_agent_type :: string
  er_status :: string
  er_timing :: jdict
  er_error :: jdict
  er_route :: jdict
  er_timeline :: "jdict list"
  er_metadata :: jdict

definition execution_to_dict :: "execution_record \<Rightarrow> jdict" where
  "execution_to_dict r = clean_dict
     [(''execution_id'', JStr (er_execution_id r)), (''message_id'', JStr (er_message_id r)),
      (''trace_id'', JStr (er_trace_id r)), (''session_id'', JStr (er_session_id r)),
      (''parent_message_id'', JStr (er_parent_message_id r)), (''worker_id'', JStr (er_worker_id r)),
      (''source_agent_type'', JStr (er_source_agent_type r)), (''target_agent_type'', JStr (er_target_agent_type r)),
      (''status'', JStr (er_status r)), (''timing'', JObj (er_timing r)),
      (''error'', if er_error r \<noteq> [] then sanitize_mapping (er_error r) else JObj []), (''route'', JObj (er_route r)),
      (''timeline'', JList (map JObj (er_timeline r))),
      (''metadata'', if er_metadata r \<noteq> [] then sanitize_mapping (er_metadata r) else JObj [])]"

record event_record =
  ev_event_id :: string
  ev_trace_id :: string
  ev_session_id :: string
  ev_message_id :: string
  ev_event_type :: string
  ev_content_type :: string
  ev_timestamp :: int
  ev_payload :: jdict

text \<open>A span as it is read back; \<open>SpanRecord\<close> has the fields of the exported span.\<close>

definition span_from_mapping :: "(string \<Rightarrow> json option) \<Rightarrow> (string \<times> rtext) list \<Rightarrow> exn + trace_span" where
  "span_from_mapping parse mapping =
     (let data = decoded parse mapping; str = (\<lambda>k. py_str (dget data k (JStr [])));
          int_of = (\<lambda>k. to_int (py_or (dget data k (JInt 0)) (JInt 0))) in
      res_bind (int_of ''start_ts'') (\<lambda>start_ts. res_bind (int_of ''end_ts'') (\<lambda>end_ts.
      res_bind (int_of ''queue_wait_ms'') (\<lambda>queue_wait_ms. res_bind (int_of ''chunk_count'') (\<lambda>chunk_count.
      Inr \<lparr>sp_trace_id = str ''trace_id'', sp_span_id = str ''span_id'', sp_parent_span_id = str ''parent_span_id'',
        sp_operation = py_str (py_or (dget0 data ''operation'') (py_or (dget0 data ''name'') (JStr []))),
        sp_component = str ''component'', sp_start_ts = start_ts, sp_end_ts = end_ts,
        sp_status = py_str (dget data ''status'' (JStr ''COMPLETED'')),
        sp_name = py_str (py_or (dget0 data ''name'') (py_or (dget0 data ''operation'') (JStr []))),
        sp_kind = str ''kind'', sp_source = py_str (py_or (dget0 data ''source'') (JStr ''redis'')),
        sp_input = dget0 data ''input'', sp_output = dget0 data ''output'',
        sp_tokens = dict_or_empty (dget0 data ''tokens''), sp_cost = dict_or_empty (dget0 data ''cost''),
        sp_session_id = str ''session_id'', sp_execution_id = str ''execution_id'', sp_message_id = str ''message_id'',
        sp_parent_message_id = str ''parent_message_id'', sp_worker_id = str ''worker_id'',
        sp_source_agent_type = str ''source_agent_type'', sp_target_agent_type = str ''target_agent_type'',
        sp_error_type = str ''error_type'', sp_error_message = str ''error_message'', sp_error_code = str ''error_code'',
        sp_failed_stage = str ''failed_stage'', sp_retryable = truthy (dget data ''retryable'' (JBool False)),
        sp_route_policy = str ''route_policy'', sp_route_status = str ''route_status'',
        sp_queue_wait_ms = queue_wait_ms, sp_chunk_count = chunk_count, sp_event_type = str ''event_type'',
        sp_metadata = dict_or_empty (dget0 data ''metadata'')\<rparr>)))))"

section \<open>The writer\<close>

text \<open>The client: the key schema, the time to live, and the recorder it gives spans to.\<close>

record trace_writer =
  tw_schema :: schema
  tw_ttl_seconds :: int
  tw_span_recorder :: recorder

definition new_trace_writer :: "schema \<Rightarrow> (string \<Rightarrow> bool) \<Rightarrow> int \<Rightarrow> int \<Rightarrow> trace_writer" where
  "new_trace_writer V sampled_out max_spans ttl_seconds =
     \<lparr>tw_schema = V, tw_ttl_seconds = max 1 (if ttl_seconds = 0 then 900 else ttl_seconds),
      tw_span_recorder = new_recorder V sampled_out max_spans (max 1 (if ttl_seconds = 0 then 900 else ttl_seconds))\<rparr>"

definition index_trace :: "trace_writer \<Rightarrow> string \<Rightarrow> string \<Rightarrow> int \<Rightarrow> unit prog" where
  "index_trace w index_key trace_id score =
     try_exc (bindp (exec_cmd (ZAdd index_key trace_id score)) (\<lambda>_. exec_cmd (Expire index_key (tw_ttl_seconds w))))
       (\<lambda>_. Ret ())"

definition trace_start_ts :: "jdict \<Rightarrow> int" where
  "trace_start_ts payload = py_int (py_or (dget payload ''start_ts'' (JInt 0)) (py_or (dget payload ''end_ts'' (JInt 0)) (JInt 0)))"

definition trace_meta_cmds :: "string \<Rightarrow> int \<Rightarrow> jdict \<Rightarrow> cmd list" where
  "trace_meta_cmds meta_key ttl payload =
     (let start_ts = trace_start_ts payload in
      map (\<lambda>(key, value). HSet meta_key key (encode_redis_value value)) payload @
      (if dhas payload ''updated_at'' then []
       else [HSet meta_key ''updated_at''
         (Doc (JInt (py_int (py_or (dget payload ''end_ts'' (JInt start_ts)) (JInt start_ts)))))]) @
      [Expire meta_key ttl])"

definition record_trace :: "trace_record \<Rightarrow> trace_writer \<Rightarrow> unit prog" where
  "record_trace r w =
     (let V = tw_schema w; payload = trace_to_dict r; trace_id = py_str (dget0 payload ''trace_id'');
          start_ts = trace_start_ts payload in
      if \<not> truthy (dget0 payload ''trace_id'') then Ret ()
      else bindp (try_exc (bindp (exec_cmd (Pipe (trace_meta_cmds (trace_meta V trace_id) (tw_ttl_seconds w) payload)))
             (\<lambda>_. Ret True)) (\<lambda>_. Ret False)) (\<lambda>written.
        if \<not> written then Ret ()
        else bindp (if truthy (dget0 payload ''session_id'')
            then index_trace w (trace_index_session V (py_str (dget0 payload ''session_id''))) trace_id start_ts else Ret ()) (\<lambda>_.
          if truthy (dget0 payload ''root_agent_type'')
          then index_trace w (trace_index_agent V (py_str (dget0 payload ''root_agent_type''))) trace_id start_ts else Ret ())))"

definition writer_record_span :: "trace_span \<Rightarrow> (trace_writer, unit) act" where
  "writer_record_span r = a_except (a_zoom tw_span_recorder (\<lambda>q w. w\<lparr>tw_span_recorder := q\<rparr>)
     (record_span (r\<lparr>sp_operation := str_or (sp_operation r) (sp_name r)\<rparr>))) (\<lambda>_. a_ret ())"

definition record_execution :: "execution_record \<Rightarrow> trace_writer \<Rightarrow> unit prog" where
  "record_execution r w =
     (if er_session_id r = [] \<or> er_execution_id r = [] then Ret ()
      else let key = session_registry (tw_schema w) (er_session_id r) in
        try_exc (bindp (exec_cmd (HSet key (''exec:'' @ er_execution_id r) (Doc (JObj (execution_to_dict r))))) (\<lambda>_.
          exec_cmd (Expire key (tw_ttl_seconds w)))) (\<lambda>_. Ret ()))"

text \<open>Of a stream entry the model keeps the field \<open>data\<close>; the others repeat parts of it.\<close>

definition record_event :: "event_record \<Rightarrow> trace_writer \<Rightarrow> unit prog" where
  "record_event r w =
     (if ev_session_id r = [] then Ret ()
      else try_exc (exec_cmd (XAdd (session_data_stream (tw_schema w) (ev_session_id r)) (Doc (JObj
        [(''event_id'', JStr (ev_event_id r)), (''trace_id'', JStr (ev_trace_id r)), (''session_id'', JStr (ev_session_id r)),
         (''message_id'', JStr (ev_message_id r)), (''event_type'', JStr (ev_event_type r)),
         (''content_type'', JStr (ev_content_type r)), (''timestamp'', JInt (ev_timestamp r)),
         (''data'', JObj (ev_payload r))])))) (\<lambda>_. Ret ()))"

section \<open>Reading back what was written\<close>

definition stored :: "jdict \<Rightarrow> (string \<times> rtext) list" where
  "stored payload = map (\<lambda>(k, v). (k, encode_redis_value v)) payload"

text \<open>A value that is read as it was written.\<close>

definition readable :: "(string \<Rightarrow> json option) \<Rightarrow> json \<Rightarrow> bool" where
  "readable parse v = (decode_redis_value parse (encode_redis_value v) = v)"

lemma readable_other [simp]:
  "readable parse JNull" "readable parse (JInt n)" "readable parse (JBool b)" "readable parse (JObj d)"
  "readable parse (JList l)" "readable parse (JStr [])"
  by (simp_all add: readable_def strip_def)

lemma map_of_read_back:
  assumes "distinct (map fst d)"
  shows "map_of (decoded parse (stored (clean_dict d))) k = (case map_of d k of None \<Rightarrow> None
    | Some v \<Rightarrow> if v = JStr [] \<or> v = JNull then None else Some (decode_redis_value parse (encode_redis_value v)))"
  using assms
  by (induction d) (auto simp: decoded_def stored_def clean_dict_def map_of_eq_None_iff split: option.splits
      dest: map_of_SomeD intro: rev_image_eqI)

lemma dget_read_back:
  assumes "distinct (map fst d)" and "map_of d k = Some v" and "readable parse v"
  shows "dget (decoded parse (stored (clean_dict d))) k x = (if v = JStr [] \<or> v = JNull then x else v)"
  using assms by (simp add: dget_def map_of_read_back readable_def)

text \<open>
  A trace record is read back as it was written, when every text in it reads as a text,
  its input and output are not the empty text, and the redaction leaves its metadata alone.
\<close>

theorem trace_record_roundtrip:
  assumes "\<forall>v \<in> {JStr (tc_trace_id r), JStr (tc_name r), JStr (tc_session_id r), JStr (tc_root_message_id r),
       JStr (tc_root_agent_type r), JStr (tc_status r), tc_input r, tc_output r}. readable parse v"
    and "tc_input r \<noteq> JStr []" and "tc_output r \<noteq> JStr []"
    and "sanitize_mapping (tc_metadata r) = JObj (tc_metadata r)"
  shows "trace_from_mapping parse (stored (trace_to_dict r)) = Inr r"
proof -
  let ?d = "[(''trace_id'', JStr (tc_trace_id r)), (''name'', JStr (tc_name r)), (''session_id'', JStr (tc_session_id r)),
      (''root_message_id'', JStr (tc_root_message_id r)), (''root_agent_type'', JStr (tc_root_agent_type r)),
      (''input'', tc_input r), (''output'', tc_output r), (''status'', JStr (tc_status r)),
      (''start_ts'', JInt (tc_start_ts r)), (''end_ts'', JInt (tc_end_ts r)), (''metadata'', JObj (tc_metadata r))]"
  have d: "trace_to_dict r = clean_dict ?d"
    using assms(4) by (simp add: trace_to_dict_def)
  have dist: "distinct (map fst ?d)" by simp
  note get = dget_read_back [OF dist, of _ _ parse]
  have t: "map_of ?d ''trace_id'' = Some (JStr (tc_trace_id r))" "map_of ?d ''name'' = Some (JStr (tc_name r))"
    "map_of ?d ''session_id'' = Some (JStr (tc_session_id r))" "map_of ?d ''root_message_id'' = Some (JStr (tc_root_message_id r))"
    "map_of ?d ''root_agent_type'' = Some (JStr (tc_root_agent_type r))" "map_of ?d ''input'' = Some (tc_input r)"
    "map_of ?d ''output'' = Some (tc_output r)" "map_of ?d ''status'' = Some (JStr (tc_status r))"
    "map_of ?d ''start_ts'' = Some (JInt (tc_start_ts r))" "map_of ?d ''end_ts'' = Some (JInt (tc_end_ts r))"
    "map_of ?d ''metadata'' = Some (JObj (tc_metadata r))"
    by simp_all
  show ?thesis
    unfolding d trace_from_mapping_def dget0_def Let_def
    using assms(1-3) by (simp add: get [OF t(1)] get [OF t(2)] get [OF t(3)] get [OF t(4)] get [OF t(5)] get [OF t(6)]
      get [OF t(7)] get [OF t(8)] get [OF t(9)] get [OF t(10)] get [OF t(11)] py_or_def dict_or_empty_def
      del: map_of.simps cong: if_cong)
qed

text \<open>
  A text that looks like JSON comes back as what it looks like: a trace whose input is
  such a text is read with the parsed value in its place, a number for instance.
\<close>

theorem json_text_read_as_value:
  assumes "tc_input r = JStr t" and "strip t \<noteq> []"
    and "hd (strip t) \<in> set ''[{\"-0123456789''" and "parse (strip t) = Some v"
    and "trace_from_mapping parse (stored (trace_to_dict r)) = Inr r'"
  shows "tc_input r' = v"
proof -
  let ?d = "[(''trace_id'', JStr (tc_trace_id r)), (''name'', JStr (tc_name r)), (''session_id'', JStr (tc_session_id r)),
      (''root_message_id'', JStr (tc_root_message_id r)), (''root_agent_type'', JStr (tc_root_agent_type r)),
      (''input'', tc_input r), (''output'', tc_output r), (''status'', JStr (tc_status r)),
      (''start_ts'', JInt (tc_start_ts r)), (''end_ts'', JInt (tc_end_ts r)),
      (''metadata'', if tc_metadata r \<noteq> [] then sanitize_mapping (tc_metadata r) else JObj [])]"
  have t: "t \<noteq> []" using assms(2) by (auto simp: strip_def)
  have "map_of (decoded parse (stored (clean_dict ?d))) ''input'' = Some v"
    using assms(1-4) t by (subst map_of_read_back) (auto simp: Let_def)
  then show ?thesis
    using assms(5) by (auto simp: trace_from_mapping_def trace_to_dict_def Let_def dget0_def dget_def res_bind_def split: sum.splits)
qed

text \<open>The writer never lets a failure through; only a cancellation passes.\<close>

lemma index_trace_returns [intro]: "returns (\<lambda>_. True) (index_trace w k t n)"
  unfolding index_trace_def by (intro returns_try_exc results_bindp) (simp_all add: exec_cmd_def)

lemma record_trace_returns: "returns (\<lambda>_. True) (record_trace r w)"
  unfolding record_trace_def Let_def
  by (auto intro!: returns_bindp [where A = "\<lambda>_. True"] returns_try_exc results_bindp simp: exec_cmd_def)

section \<open>The properties at concrete inputs\<close>

theorem trace_record_roundtrip_witness:
  "trace_from_mapping (\<lambda>_. None) (stored (trace_to_dict (plain_trace ''t''))) = Inr (plain_trace ''t'')"
  by (rule trace_record_roundtrip)
    (simp_all add: plain_trace_def sanitize_mapping_def is_sensitive_key_def contains_sensitive_marker_def SENSITIVE_KEY_PARTS_def
      readable_def strip_def is_space_def lower_char_def)

definition number_text :: trace_record where
  "number_text = (plain_trace ''t'')\<lparr>tc_input := JStr ''42''\<rparr>"

theorem json_text_read_as_value_witness:
  "\<exists>r'. trace_from_mapping (\<lambda>s. if s = ''42'' then Some (JInt 42) else None) (stored (trace_to_dict number_text)) = Inr r' \<and>
     tc_input r' = JInt 42"
proof -
  let ?parse = "\<lambda>s. if s = ''42'' then Some (JInt 42) else None"
  have s: "strip ''42'' = ''42''" by (simp add: strip_def is_space_def)
  obtain r' where r': "trace_from_mapping ?parse (stored (trace_to_dict number_text)) = Inr r'"
    by (simp add: trace_from_mapping_def trace_to_dict_def number_text_def plain_trace_def clean_dict_def stored_def
        decoded_def dget_def Let_def py_or_def)
  then show ?thesis
    using json_text_read_as_value [OF _ _ _ _ r', where t = "''42''" and v = "JInt 42"] s
    by (simp add: number_text_def)
qed

end
