(* ===== verification/Runner.thy ===== *)
theory Runner
  imports Worker_Message Plugin_Registry Trace_Writer
begin

text \<open>
  \<open>WorkerRunner\<close> of \<open>worker/runner.py\<close> with the helpers \<open>_execution_tracking.py\<close>,
  \<open>_message_processing.py\<close> and \<open>_control_handling.py\<close>: the executions a worker is running,
  how one message of a stream becomes one execution, when it is acknowledged, and the
  messages of the control stream.  Reading a stream through a consumer group is a
  parameter; the loops around these operations, the OpenTelemetry span, the Prometheus
  counters and the logging are not modelled.
\<close>

section \<open>The executions of a worker\<close>

text \<open>
  \<open>RunningExecution\<close> in full: \<open>tx_cancelled\<close> is its event, \<open>tx_task_cancelled\<close> what its
  task was cancelled with, \<open>tx_chunk_count\<close> the counter of the context it is given.
\<close>

record tracked_execution = running +
  tx_session_id :: string
  tx_worker_id :: string
  tx_cancelled :: bool
  tx_task_cancelled :: "string option"

record tracker =
  tk_active_executions :: "(string \<times> tracked_execution) list"
  tk_message_to_execution :: "(string \<times> string) list"

definition empty_tracker :: tracker where
  "empty_tracker = \<lparr>tk_active_executions = [], tk_message_to_execution = []\<rparr>"

definition add_execution :: "tracked_execution \<Rightarrow> tracker \<Rightarrow> tracker" where
  "add_execution x t = t\<lparr>tk_active_executions := AList.update (rx_execution_id x) x (tk_active_executions t),
     tk_message_to_execution := AList.update (rx_message_id x) (rx_execution_id x) (tk_message_to_execution t)\<rparr>"

definition tracked_execution_of :: "string \<Rightarrow> tracker \<Rightarrow> tracked_execution option" where
  "tracked_execution_of execution_id t = map_of (tk_active_executions t) execution_id"

definition execution_by_message :: "string \<Rightarrow> tracker \<Rightarrow> tracked_execution option" where
  "execution_by_message message_id t = (case map_of (tk_message_to_execution t) message_id of
     None \<Rightarrow> None | Some eid \<Rightarrow> if eid = [] then None else tracked_execution_of eid t)"

definition remove_execution :: "string \<Rightarrow> tracker \<Rightarrow> tracked_execution option \<times> tracker" where
  "remove_execution execution_id t = (case tracked_execution_of execution_id t of
     None \<Rightarrow> (None, t)
   | Some x \<Rightarrow> (Some x, t\<lparr>tk_active_executions := AList.delete execution_id (tk_active_executions t),
       tk_message_to_execution := AList.delete (rx_message_id x) (tk_message_to_execution t)\<rparr>))"

definition remove_by_message :: "string \<Rightarrow> tracker \<Rightarrow> tracker" where
  "remove_by_message message_id t = (case map_of (tk_message_to_execution t) message_id of
     None \<Rightarrow> t
   | Some eid \<Rightarrow> (let t' = t\<lparr>tk_message_to_execution := AList.delete message_id (tk_message_to_execution t)\<rparr> in
       if eid = [] then t' else t'\<lparr>tk_active_executions := AList.delete eid (tk_active_executions t)\<rparr>))"

definition get_active_count :: "tracker \<Rightarrow> nat" where
  "get_active_count t = length (tk_active_executions t)"

text \<open>What a runner holds.  \<open>rn_redacts\<close> and \<open>rn_max_length\<close> are the limits of recorded output.\<close>

record runner =
  rn_worker :: worker
  rn_agent_types :: "string list"
  rn_group_name :: string
  rn_commands :: cmd_registry
  rn_span_recorder :: recorder
  rn_trace_writer :: trace_writer
  rn_redacts :: bool
  rn_max_length :: nat
  rn_tracker :: tracker
  rn_plugin_registry :: plugin_registry
  rn_token_usage :: "agent_context \<Rightarrow> jdict"
  rn_admin_lifecycle :: string
  rn_evict_force :: bool
  rn_denied_agent_types :: "string list"
  rn_primary_cursor :: nat

text \<open>What the handler of a failed message knows of it.\<close>

record progress =
  pg_header :: "header option"
  pg_session_id :: string
  pg_execution_id :: string
  pg_start_ts :: int

definition no_progress :: progress where
  "no_progress = \<lparr>pg_header = None, pg_session_id = [], pg_execution_id = [], pg_start_ts = 0\<rparr>"

section \<open>Messages\<close>

text \<open>The field \<open>data\<close> of a stream entry.\<close>

definition parse_message_data :: "rtext option \<Rightarrow> exn + json" where
  "parse_message_data msg_data = (case msg_data of
     None \<Rightarrow> Inl (RuntimeError ''Message data not found'')
   | Some t \<Rightarrow> (case loads t of None \<Rightarrow> Inl (RuntimeError ''Failed to parse message'') | Some v \<Rightarrow> Inr v))"

text \<open>\<open>_parse_xreadgroup_results\<close>: what cannot be parsed is logged and left out.\<close>

definition parse_results :: "(string \<times> (string \<times> rtext option) list) list \<Rightarrow> (string \<times> string \<times> json) list" where
  "parse_results batches = concat (map (\<lambda>(stream, entries). List.map_filter (\<lambda>(i, data).
     case parse_message_data data of Inl e \<Rightarrow> None | Inr v \<Rightarrow> Some (stream, i, v)) entries) batches)"

definition active_agent_type_streams :: "runner \<Rightarrow> string list" where
  "active_agent_type_streams r = remdups (map (ctrl_stream (sv_schema (wk_services (rn_worker r))))
     (filter (\<lambda>a. a \<notin> set (rn_denied_agent_types r)) (rn_agent_types r)))"

text \<open>
  \<open>fetch_messages\<close>: one read of every stream, and only when all are empty a blocking read
  of one of them, in turn.  \<open>read blocking stream\<close> is the read through the group.
\<close>

definition fetch_messages ::
  "(bool \<Rightarrow> string \<Rightarrow> (string \<times> rtext option) list prog) \<Rightarrow> (runner, (string \<times> string \<times> json) list) act" where
  "fetch_messages read = a_with (\<lambda>r. let streams = active_agent_type_streams r in
     if streams = [] then a_ret []
     else a_bind (a_for (\<lambda>s. a_bind (a_lift (read False s)) (\<lambda>es. a_ret (s, es))) streams) (\<lambda>first_pass.
       if parse_results first_pass \<noteq> [] then a_ret (parse_results first_pass)
       else let primary = streams ! (rn_primary_cursor r mod length streams) in
         a_seq (a_set (\<lambda>r. r\<lparr>rn_primary_cursor := rn_primary_cursor r + 1\<rparr>))
         (a_bind (a_lift (read True primary)) (\<lambda>es. a_ret (parse_results [(primary, es)])))))"

definition ack_message :: "runner \<Rightarrow> string \<Rightarrow> string \<Rightarrow> unit prog" where
  "ack_message r stream_name message_id = exec_cmd (XAck stream_name (rn_group_name r) message_id)"

section \<open>Observability of an execution\<close>

definition framework_parent_span_id :: "header \<Rightarrow> string" where
  "framework_parent_span_id h =
     (let parent = py_text (dget (mh_metadata h) ''framework_parent_span_id'' (JStr [])) in
      if parent \<noteq> [] then parent
      else if mh_trace_parent_span_id h \<noteq> [] then mh_trace_parent_span_id h
      else str_or (py_text (dget (mh_metadata h) ''trace_parent_span_id'' (JStr []))) (mh_message_id h @ '':client.dispatch''))"

text \<open>\<open>_build_completion_observability_fields\<close>.\<close>

definition completion_error :: "task_result \<Rightarrow> jdict \<Rightarrow> jdict" where
  "completion_error res info =
     (if dhas info ''error_message'' then info
      else case tr_reply_data res of
        JObj d \<Rightarrow> if truthy (dget0 d ''error'') then dset ''error_message'' (JStr (py_str (dget0 d ''error''))) info else info
      | _ \<Rightarrow> info)"

definition completion_fields :: "task_result \<Rightarrow> jdict" where
  "completion_fields res =
     (let md = tr_metadata res;
          info = filter (\<lambda>(k, v). truthy v) (map (\<lambda>k. (k, dget0 md k))
            [''error_type'', ''error_message'', ''error_code'', ''failed_stage'']);
          info = (if dhas md ''retryable'' then dset ''retryable'' (JBool (truthy (dget0 md ''retryable''))) info else info)
      in completion_error res info)"

definition execute_span ::
  "runner \<Rightarrow> header \<Rightarrow> string \<Rightarrow> string \<Rightarrow> jdict \<Rightarrow> execution \<Rightarrow> int \<Rightarrow> int \<Rightarrow> nat \<Rightarrow> jdict \<Rightarrow> trace_span" where
  "execute_span r h execution_id status info existing start_ts end_ts chunk_count tokens =
     (let text = (\<lambda>d k. py_str (dget d k (JStr []))) in
      (plain_span (mh_trace_id h) (execution_id @ '':worker.execute'')
        (str_or (framework_parent_span_id h) (mh_message_id h @ '':client.dispatch'')) ''worker.execute'' ''worker'' start_ts end_ts status)
      \<lparr>sp_session_id := mh_session_id h, sp_execution_id := execution_id, sp_message_id := mh_message_id h,
       sp_parent_message_id := mh_parent_message_id h, sp_worker_id := wk_worker_id (rn_worker r),
       sp_target_agent_type := mh_target_agent_type h, sp_error_type := text info ''error_type'',
       sp_error_message := text info ''error_message'', sp_error_code := text info ''error_code'',
       sp_failed_stage := text info ''failed_stage'', sp_retryable := truthy (dget info ''retryable'' (JBool False)),
       sp_route_policy := text existing ''route_policy'', sp_route_status := text existing ''route_status'',
       sp_chunk_count := int chunk_count, sp_tokens := tokens,
       sp_cost := (if dhas tokens ''cost'' then [(''total'', dget0 tokens ''cost'')] else [])\<rparr>)"

definition record_worker_execute_span :: "trace_span \<Rightarrow> (runner, unit) act" where
  "record_worker_execute_span span = a_except (a_zoom rn_span_recorder (\<lambda>q r. r\<lparr>rn_span_recorder := q\<rparr>) (record_span span))
     (\<lambda>_. a_ret ())"

definition write_trace_root_end :: "runner \<Rightarrow> string \<Rightarrow> string \<Rightarrow> int \<Rightarrow> json \<Rightarrow> string \<Rightarrow> unit prog" where
  "write_trace_root_end r trace_id status end_ts result error =
     try_exc (record_trace ((plain_trace trace_id)\<lparr>tc_status := status, tc_end_ts := end_ts,
         tc_output := (if result = JNull then JNull else sanitize_io_value (rn_redacts r) (rn_max_length r) result),
         tc_metadata := (if error \<noteq> [] then [(''error'', JStr error)] else [])\<rparr>) (rn_trace_writer r)) (\<lambda>_. Ret ())"

section \<open>One message, one execution\<close>

text \<open>A reply passes the gate before anything else is looked at; a dropped one is reported and acknowledged.\<close>

definition admit_reply :: "runner \<Rightarrow> string \<Rightarrow> string \<Rightarrow> command \<Rightarrow> bool prog" where
  "admit_reply r stream_name msg_id command =
     (if is_resume command then
        bindp (consume_wait_entry (sv_schema (wk_services (rn_worker r))) (command_header command)) (\<lambda>gate.
        if gd_allow gate then Ret True
        else bindp (emit_orphaned_reply (sv_schema (wk_services (rn_worker r))) command (wk_worker_id (rn_worker r)) (gd_reason gate)) (\<lambda>_.
             bindp (ack_message r stream_name msg_id) (\<lambda>_. Ret False)))
      else Ret True)"

text \<open>The empty dictionary is false, like no record at all.\<close>

definition known :: "execution option \<Rightarrow> execution" where
  "known existing = (case existing of None \<Rightarrow> [] | Some e \<Rightarrow> e)"

definition has_terminal_status :: "execution \<Rightarrow> bool" where
  "has_terminal_status e = (case dget0 e ''status'' of JStr s \<Rightarrow> is_terminal_state s | _ \<Rightarrow> False)"

text \<open>\<open>is_resumed_execution\<close>: everything but the first pick-up of a queued execution.\<close>

definition is_resumed_execution :: "command \<Rightarrow> execution \<Rightarrow> bool" where
  "is_resumed_execution command e = (is_resume command \<or> (e \<noteq> [] \<and> dget0 e ''status'' \<noteq> JStr ''QUEUED''))"

definition tracked_for :: "runner \<Rightarrow> command \<Rightarrow> execution option \<Rightarrow> string \<Rightarrow> tracked_execution" where
  "tracked_for r command existing execution_id =
     (let h = command_header command; e = known existing in
      \<lparr>rx_execution_id = execution_id, rx_message_id = mh_message_id h,
       rx_parent_message_id = (if dhas e ''parent_message_id'' then py_str (dget0 e ''parent_message_id'') else mh_parent_message_id h),
       rx_cancel_reason = py_str (dget e ''cancel_reason'' (JStr [])), rx_is_resumed = is_resumed_execution command e,
       rx_existing_data = existing, tx_session_id = mh_session_id h, tx_worker_id = wk_worker_id (rn_worker r),
       tx_cancelled = truthy (dget e ''cancel_requested'' (JBool False)), tx_task_cancelled = None\<rparr>)"

text \<open>The execution is recorded as running, on this worker.\<close>

definition new_record :: "runner \<Rightarrow> string \<Rightarrow> string \<Rightarrow> header \<Rightarrow> tracked_execution \<Rightarrow> execution" where
  "new_record r stream_name msg_id h x =
     [(''execution_id'', JStr (rx_execution_id x)), (''message_id'', JStr (mh_message_id h)), (''session_id'', JStr (mh_session_id h)),
      (''trace_id'', JStr (mh_trace_id h)), (''parent_message_id'', JStr (mh_parent_message_id h)),
      (''worker_id'', JStr (wk_worker_id (rn_worker r))), (''target_agent_type'', JStr (mh_target_agent_type h)),
      (''metadata'', JObj (mh_metadata h)), (''stream_name'', JStr stream_name), (''redis_message_id'', JStr msg_id),
      (''status'', JStr ''RUNNING''), (''cancel_requested'', JBool (tx_cancelled x)), (''cancel_reason'', JStr (rx_cancel_reason x)),
      (''created_at'', JInt 0), (''started_at'', JInt 0), (''finished_at'', JInt 0)]"

definition record_running :: "runner \<Rightarrow> string \<Rightarrow> string \<Rightarrow> command \<Rightarrow> tracked_execution \<Rightarrow> unit prog" where
  "record_running r stream_name msg_id command x =
     (let h = command_header command; V = sv_schema (wk_services (rn_worker r)) in
      if \<not> wk_has_registry (rn_worker r) then Ret ()
      else if known (rx_existing_data x) \<noteq> []
      then update_execution_status V (rx_execution_id x) (mh_session_id h) ''RUNNING''
        ((''worker_id'', JStr (wk_worker_id (rn_worker r))) #
         (if is_resume command then [] else [(''metadata'', JObj (mh_metadata h))]))
      else bindp (save_execution V (new_record r stream_name msg_id h x)) (\<lambda>_. Ret ()))"

text \<open>The handler, and what is read off the context it leaves.\<close>

definition call_handler :: "runner \<Rightarrow> command \<Rightarrow> string \<Rightarrow> ((exn + task_result) \<times> agent_context) prog" where
  "call_handler r command execution_id =
     (let x = tracked_execution_of execution_id (rn_tracker r) in
      handle_message (rn_worker r) command (case x of None \<Rightarrow> False | Some x \<Rightarrow> tx_cancelled x)
        (case x of None \<Rightarrow> [] | Some x \<Rightarrow> rx_cancel_reason x) (map_option running.truncate x))"

text \<open>After the handler: the final status, the span, the end of the trace, and the acknowledgement.\<close>

definition complete_message ::
  "string \<Rightarrow> string \<Rightarrow> header \<Rightarrow> string \<Rightarrow> execution \<Rightarrow> int \<Rightarrow> task_result \<Rightarrow> agent_context \<Rightarrow> (runner, unit) act" where
  "complete_message stream_name msg_id h execution_id existing start_ts res c =
     (let info = completion_fields res in
      a_bind (a_lift now_ms) (\<lambda>end_ts.
      a_with (\<lambda>r.
      a_seq (a_lift (if wk_has_registry (rn_worker r)
        then mark_execution_finished (sv_schema (wk_services (rn_worker r))) execution_id (mh_session_id h) (tr_status res) info
        else Ret ()))
     (a_seq (record_worker_execute_span (let here = (tracked_execution_of execution_id (rn_tracker r) \<noteq> None) in
        execute_span r h execution_id (tr_status res) info existing start_ts end_ts
          (if here then ac_chunk_count c else 0) (if here then rn_token_usage r c else [])))
     (a_seq (a_lift (if mh_parent_message_id h = []
        then write_trace_root_end r (mh_trace_id h) (tr_status res) end_ts (tr_reply_data res)
          (py_str (dget info ''error_message'' (JStr []))) else Ret ()))
      (a_lift (ack_message r stream_name msg_id)))))))"

definition run_handler ::
  "string \<Rightarrow> string \<Rightarrow> command \<Rightarrow> string \<Rightarrow> execution \<Rightarrow> int \<Rightarrow> (runner, unit) act" where
  "run_handler stream_name msg_id command execution_id existing start_ts =
     a_bind (a_with (\<lambda>r. a_lift (call_handler r command execution_id))) (\<lambda>(res, c). case res of
       Inl err \<Rightarrow> a_raise err
     | Inr result \<Rightarrow> complete_message stream_name msg_id (command_header command) execution_id existing start_ts result c)"

definition mark_progress :: "(progress \<Rightarrow> progress) \<Rightarrow> (progress \<times> runner, unit) act" where
  "mark_progress f = a_set (apfst f)"

definition on_runner :: "(runner, 'a) act \<Rightarrow> (progress \<times> runner, 'a) act" where
  "on_runner = a_zoom snd (\<lambda>r (p, _). (p, r))"

definition execute_message ::
  "string \<Rightarrow> string \<Rightarrow> command \<Rightarrow> execution option \<Rightarrow> (progress \<times> runner, unit) act" where
  "execute_message stream_name msg_id command existing =
     (let e = known existing; stored = py_text (dget0 e ''execution_id'') in
      a_bind (a_lift (if stored \<noteq> [] then Ret stored else bindp uuid_hex (\<lambda>fresh. Ret (EXECUTION_ID_PREFIX @ take 8 fresh))))
        (\<lambda>execution_id.
      a_seq (mark_progress (\<lambda>p. p\<lparr>pg_execution_id := execution_id\<rparr>))
     (a_bind (on_runner (a_with (\<lambda>r. let x = tracked_for r command existing execution_id in
        a_seq (a_set (\<lambda>r. r\<lparr>rn_tracker := add_execution x (rn_tracker r)\<rparr>))
          (a_lift (record_running r stream_name msg_id command x))))) (\<lambda>_.
      a_bind (a_lift now_ms) (\<lambda>start_ts.
      a_seq (mark_progress (\<lambda>p. p\<lparr>pg_start_ts := start_ts\<rparr>))
     (on_runner (run_handler stream_name msg_id command execution_id e start_ts)))))))"

text \<open>Gate, look up, skip what has ended, execute.\<close>

definition start_message :: "string \<Rightarrow> string \<Rightarrow> command \<Rightarrow> (progress \<times> runner, unit) act" where
  "start_message stream_name msg_id command = a_with (\<lambda>(_, r). let h = command_header command in
     a_bind (a_lift (admit_reply r stream_name msg_id command)) (\<lambda>admitted.
     if \<not> admitted then a_ret ()
     else a_bind (a_lift (if wk_has_registry (rn_worker r)
          then get_execution_by_message_id (sv_schema (wk_services (rn_worker r))) (mh_message_id h) (mh_session_id h)
          else Ret None)) (\<lambda>existing.
       if known existing \<noteq> [] \<and> has_terminal_status (known existing) \<and> \<not> is_resume command
       then a_lift (ack_message r stream_name msg_id)
       else execute_message stream_name msg_id command existing)))"

text \<open>The \<open>try\<close> block.  A missing message id is filled in.\<close>

definition try_message :: "string \<Rightarrow> string \<Rightarrow> json \<Rightarrow> (progress \<times> runner, unit) act" where
  "try_message stream_name msg_id data =
     a_bind (a_with (\<lambda>(_, r). a_lift (lift_res (res_bind (as_dict data) (command_from_dict (rn_commands r)))))) (\<lambda>received.
     if \<not> is_resume received \<and> cls_of received \<noteq> AskAgentCls
     then a_raise (UnsupportedCommandError ''not a business command'')
     else let h = command_header received in
       a_seq (mark_progress (\<lambda>p. p\<lparr>pg_header := Some h, pg_session_id := mh_session_id h\<rparr>))
      (a_bind (a_lift (if mh_message_id h \<noteq> [] then Ret (mh_message_id h) else generate_message_id)) (\<lambda>message_id.
       let h' = h\<lparr>mh_message_id := message_id\<rparr> in
       a_seq (mark_progress (\<lambda>p. p\<lparr>pg_header := Some h'\<rparr>))
         (start_message stream_name msg_id (with_header h' received)))))"

text \<open>The handlers of its exceptions.\<close>

definition message_failed :: "string \<Rightarrow> string \<Rightarrow> exn \<Rightarrow> (progress \<times> runner, unit) act" where
  "message_failed stream_name msg_id err = (case err of
     UnsupportedCommandError m \<Rightarrow> a_with (\<lambda>(_, r). a_lift (ack_message r stream_name msg_id))
   | _ \<Rightarrow>
     (let info = [(''error_message'', JStr (exn_text err)), (''error_type'', JStr (exn_type err))] in
      a_with (\<lambda>(p, _). case pg_header p of
        None \<Rightarrow> a_ret ()
      | Some h \<Rightarrow>
        a_seq (a_when (pg_execution_id p \<noteq> [] \<and> pg_start_ts p \<noteq> 0)
          (a_except (a_bind (a_lift now_ms) (\<lambda>end_ts. on_runner (a_with (\<lambda>r. record_worker_execute_span
            (execute_span r h (pg_execution_id p) ''FAILED'' info [] (pg_start_ts p) end_ts 0 []))))) (\<lambda>_. a_ret ())))
       (a_seq (a_when (mh_parent_message_id h = [])
          (a_bind (a_lift now_ms) (\<lambda>end_ts. a_with (\<lambda>(_, r). a_lift (write_trace_root_end r (mh_trace_id h) ''FAILED'' end_ts
            JNull (exn_text err))))))
        (a_with (\<lambda>(_, r). a_when (pg_execution_id p \<noteq> [] \<and> pg_session_id p \<noteq> [] \<and> wk_has_registry (rn_worker r))
          (a_except (a_lift (mark_execution_finished (sv_schema (wk_services (rn_worker r))) (pg_execution_id p) (pg_session_id p)
            ''FAILED'' info)) (\<lambda>_. a_ret ()))))))))"

text \<open>\<open>finally\<close>: the id of the message as it was sent.\<close>

definition sent_message_id :: "json \<Rightarrow> exn + string" where
  "sent_message_id data = res_bind (as_dict data) (\<lambda>d. res_bind (as_dict (dget d ''header'' (JObj []))) (\<lambda>h.
     Inr (py_str (dget h ''message_id'' (JStr [])))))"

definition untrack_message :: "json \<Rightarrow> (runner, unit) act" where
  "untrack_message data = a_bind (a_lift (lift_res (sent_message_id data))) (\<lambda>message_id.
     a_set (\<lambda>r. r\<lparr>rn_tracker := remove_by_message message_id (rn_tracker r)\<rparr>))"

definition process_message :: "string \<Rightarrow> string \<Rightarrow> json \<Rightarrow> (runner, unit) act" where
  "process_message stream_name msg_id data r =
     bindp (a_finally (a_except (try_message stream_name msg_id data) (message_failed stream_name msg_id))
         (on_runner (untrack_message data)) (no_progress, r)) (\<lambda>(o', _, r'). Ret (o', r'))"

section \<open>The control stream\<close>

definition parse_control_command :: "cmd_registry \<Rightarrow> json \<Rightarrow> exn + command" where
  "parse_control_command reg data = (case res_bind (as_dict data) (command_from_dict reg) of
     Inl (ValueError m) \<Rightarrow> Inl (UnsupportedCommandError m) | res \<Rightarrow> res)"

text \<open>The hooks a cancellation schedules as tasks of their own are not part of it.\<close>

definition cancel_span :: "cancel_cmd \<Rightarrow> tracked_execution \<Rightarrow> int \<Rightarrow> trace_span" where
  "cancel_span k x now =
     (plain_span (mh_trace_id (can_header k)) (rx_execution_id x @ '':agent.cancel'') (rx_execution_id x @ '':worker.execute'')
        ''agent.cancel'' ''worker'' now now ''CANCELLED'')
     \<lparr>sp_session_id := tx_session_id x, sp_execution_id := rx_execution_id x, sp_message_id := rx_message_id x,
      sp_parent_message_id := rx_parent_message_id x, sp_worker_id := tx_worker_id x,
      sp_metadata := [(''cancel_reason'', JStr (can_reason k))]\<rparr>"

definition cancel_target :: "cancel_cmd \<Rightarrow> tracker \<Rightarrow> string" where
  "cancel_target k t = str_or (can_target_execution_id k)
     (case map_of (tk_message_to_execution t) (can_target_message_id k) of None \<Rightarrow> [] | Some eid \<Rightarrow> eid)"

definition cancel_running :: "string \<Rightarrow> tracked_execution \<Rightarrow> tracker \<Rightarrow> tracker" where
  "cancel_running reason x t = t\<lparr>tk_active_executions := AList.update (rx_execution_id x)
     (x\<lparr>rx_cancel_reason := reason, tx_cancelled := True, tx_task_cancelled := Some reason\<rparr>) (tk_active_executions t)\<rparr>"

definition handle_cancel_task :: "cancel_cmd \<Rightarrow> (runner, unit) act" where
  "handle_cancel_task k = a_with (\<lambda>r.
     let execution_id = cancel_target k (rn_tracker r);
         running = (if execution_id = [] then None else tracked_execution_of execution_id (rn_tracker r));
         session_id = (case running of None \<Rightarrow> mh_session_id (can_header k) | Some x \<Rightarrow> tx_session_id x) in
     a_seq (a_lift (if execution_id \<noteq> [] \<and> wk_has_registry (rn_worker r)
       then mark_execution_cancelling (sv_schema (wk_services (rn_worker r))) execution_id session_id (can_reason k) else Ret ()))
       (case running of
          None \<Rightarrow> a_ret ()
        | Some x \<Rightarrow>
            a_seq (a_set (\<lambda>r. r\<lparr>rn_tracker := cancel_running (can_reason k) x (rn_tracker r)\<rparr>))
            (a_bind (a_lift now_ms) (\<lambda>now. a_except (a_zoom rn_span_recorder (\<lambda>q r. r\<lparr>rn_span_recorder := q\<rparr>)
               (record_span (cancel_span k x now))) (\<lambda>_. a_ret ())))))"

text \<open>The acknowledgement of a reload: what the registry recorded, on top of the defaults.\<close>

definition reload_payload :: "runner \<Rightarrow> string \<Rightarrow> string \<Rightarrow> jdict" where
  "reload_payload r reload_id reason =
     (let version = JInt (pr_agent_configs_version (rn_plugin_registry r)) in
      [(''reload_id'', JStr reload_id), (''worker_id'', JStr (wk_worker_id (rn_worker r))), (''status'', JStr ''failure''),
       (''reason'', JStr reason), (''version_before'', version), (''version_after'', version), (''error'', JStr [])])"

definition publish_reload_ack :: "runner \<Rightarrow> jdict \<Rightarrow> unit prog" where
  "publish_reload_ack r payload = exec_cmd (XAdd (plugin_reload_ack_stream (sv_schema (wk_services (rn_worker r)))
     (py_str (dget0 payload ''reload_id''))) (Doc (JObj payload)))"

definition handle_reload_plugins :: "string \<Rightarrow> string \<Rightarrow> (runner, unit) act" where
  "handle_reload_plugins reload_id reason = a_with (\<lambda>r0. let payload = reload_payload r0 reload_id reason in
     a_seq (a_except
         (a_bind (a_zoom rn_plugin_registry (\<lambda>q r. r\<lparr>rn_plugin_registry := q\<rparr>) (reload_plugins reload_id reason)) (\<lambda>_. a_ret ()))
         (\<lambda>error. a_with (\<lambda>r. a_seq (a_lift (publish_reload_ack r
             (case get_reload_status reload_id (rn_plugin_registry r) of
                Some (p # ps) \<Rightarrow> dupdate payload (p # ps)
              | _ \<Rightarrow> dset ''error'' (JStr (exn_text error)) payload)))
           (a_raise error))))
     (a_with (\<lambda>r. a_lift (publish_reload_ack r
         (case get_reload_status reload_id (rn_plugin_registry r) of
            Some (p # ps) \<Rightarrow> dupdate payload (p # ps)
          | _ \<Rightarrow> dupdate payload [(''status'', JStr ''success''),
              (''version_after'', JInt (pr_agent_configs_version (rn_plugin_registry r)))])))))"

definition set_admin_lifecycle :: "string \<Rightarrow> (runner, unit) act" where
  "set_admin_lifecycle lifecycle = a_set (\<lambda>r. r\<lparr>rn_admin_lifecycle := lifecycle\<rparr>)"

definition handle_control_command :: "string \<Rightarrow> string \<Rightarrow> json \<Rightarrow> command \<Rightarrow> (runner, unit) act" where
  "handle_control_command stream_name msg_id data command = (case command of
     CancelTaskCommand k \<Rightarrow> a_finally (handle_cancel_task k) (a_with (\<lambda>r. a_lift (ack_message r stream_name msg_id)))
   | ReloadPluginsCommand h reload_id reason \<Rightarrow> handle_reload_plugins reload_id reason
   | SuspendWorkerCommand h reason \<Rightarrow> set_admin_lifecycle ''suspended''
   | ResumeWorkerCommand h \<Rightarrow> set_admin_lifecycle ''active''
   | EvictWorkerCommand h reason force \<Rightarrow>
       a_seq (set_admin_lifecycle ''evicted'') (a_set (\<lambda>r. r\<lparr>rn_evict_force := force\<rparr>))
   | _ \<Rightarrow> process_message stream_name msg_id data)"

definition control_message :: "string \<Rightarrow> string \<Rightarrow> rtext option \<Rightarrow> (runner, unit) act" where
  "control_message stream_name msg_id msg_data =
     a_finally
       (a_except (a_bind (a_lift (lift_res (parse_message_data msg_data))) (\<lambda>data.
          a_bind (a_with (\<lambda>r. a_lift (lift_res (parse_control_command (rn_commands r) data))))
            (handle_control_command stream_name msg_id data)))
         (\<lambda>_. a_ret ()))
       (a_with (\<lambda>r. a_lift (ack_message r stream_name msg_id)))"

definition run_control_once ::
  "(string \<Rightarrow> (string \<times> rtext option) list prog) \<Rightarrow> (runner, bool) act" where
  "run_control_once read = a_with (\<lambda>r.
     let stream_name = worker_ctrl_stream (sv_schema (wk_services (rn_worker r))) (wk_worker_id (rn_worker r)) in
     a_bind (a_lift (read stream_name)) (\<lambda>messages.
     if messages = [] then a_ret False
     else a_bind (a_for (\<lambda>(msg_id, msg_data). control_message stream_name msg_id msg_data) messages) (\<lambda>_. a_ret True)))"

section \<open>Starting and stopping\<close>

text \<open>The pause before the next attempt, in milliseconds.\<close>

definition claim_pause :: "int \<Rightarrow> nat \<Rightarrow> int \<Rightarrow> int" where
  "claim_pause retry_interval attempt_no remaining = min (min (retry_interval * 2 ^ min attempt_no 3) remaining) 10000"

text \<open>At most \<open>n\<close> attempts; the loop itself ends when the deadline has passed.\<close>

primrec claim_worker_id_with_retry :: "nat \<Rightarrow> schema \<Rightarrow> registry \<Rightarrow> string \<Rightarrow> int \<Rightarrow> int \<Rightarrow> (registry \<times> (exn + string)) prog" where
  "claim_worker_id_with_retry 0 V reg worker_id ttl deadline = Raise Diverges"
| "claim_worker_id_with_retry (Suc n) V reg worker_id ttl deadline =
     bindp (catch (claim_worker_id V reg worker_id ttl) (\<lambda>e. Ret (reg, Inl e))) (\<lambda>(reg', res). case res of
       Inl (ValueError m) \<Rightarrow> bindp (call Monotonic r_int) (\<lambda>now.
         if deadline - now \<le> 0 then Ret (reg', res) else claim_worker_id_with_retry n V reg' worker_id ttl deadline)
     | _ \<Rightarrow> Ret (reg', res))"

text \<open>\<open>_shutdown\<close>: the id is released only when it is held, and only then the worker is unregistered.\<close>

definition shutdown_worker :: "registry \<Rightarrow> string \<Rightarrow> (runner, registry) act" where
  "shutdown_worker reg lock_token = a_with (\<lambda>r.
     let V = sv_schema (wk_services (rn_worker r)); worker_id = wk_worker_id (rn_worker r) in
     a_bind (a_lift (if lock_token \<noteq> [] then release_worker_id V reg worker_id (Some lock_token) else Ret (reg, False))) (\<lambda>(reg', released).
     a_seq (a_when released (a_lift (unregister_worker_membership V worker_id)))
    (a_seq (a_zoom rn_plugin_registry (\<lambda>q r. r\<lparr>rn_plugin_registry := q\<rparr>) on_worker_shutdown)
     (a_ret reg'))))"

section \<open>Concurrency slots\<close>

text \<open>
  The semaphore's value, the slots the loop holds, the tasks that still run, and those that
  have released their slot but are not yet discarded from \<open>_running_tasks\<close>.
\<close>

record slots =
  sl_free :: nat
  sl_held :: nat
  sl_active :: nat
  sl_finished :: nat

definition running_tasks :: "slots \<Rightarrow> nat" where
  "running_tasks q = sl_active q + sl_finished q"

text \<open>\<open>acquire\<close> is the end of \<open>_acquire_slot\<close>; \<open>give_back\<close> is an empty or failing fetch.\<close>

inductive slot_step :: "nat \<Rightarrow> slots \<Rightarrow> slots \<Rightarrow> bool" for max_concurrency :: nat where
  acquire: "sl_held q = 0 \<Longrightarrow> running_tasks q < max_concurrency \<Longrightarrow> sl_free q = Suc n \<Longrightarrow>
     slot_step max_concurrency q (q\<lparr>sl_free := n, sl_held := 1\<rparr>)"
| give_back: "sl_held q = Suc n \<Longrightarrow> slot_step max_concurrency q (q\<lparr>sl_free := sl_free q + 1, sl_held := n\<rparr>)"
| spawn: "sl_held q = Suc n \<Longrightarrow> slot_step max_concurrency q (q\<lparr>sl_active := sl_active q + 1, sl_held := n\<rparr>)"
| release: "sl_active q = Suc n \<Longrightarrow>
     slot_step max_concurrency q (q\<lparr>sl_free := sl_free q + 1, sl_active := n, sl_finished := sl_finished q + 1\<rparr>)"
| discard: "sl_finished q = Suc n \<Longrightarrow> slot_step max_concurrency q (q\<lparr>sl_finished := n\<rparr>)"

definition fresh_slots :: "nat \<Rightarrow> slots" where
  "fresh_slots max_concurrency = \<lparr>sl_free = max_concurrency, sl_held = 0, sl_active = 0, sl_finished = 0\<rparr>"

end
