(* ===== verification/Runner_Properties.thy ===== *)
theory Runner_Properties
  imports Runner Worker_Properties
begin

text \<open>
  What holds of a runner: which messages it acknowledges, skips or leaves, what a dropped
  reply does to the execution it was sent to, how a cancellation arrives, and that its
  slots and its reads of the streams are fair.
\<close>

section \<open>The parts of one message\<close>

lemma awp_process:
  "awp (process_message st i d) Q D r K = awp (a_finally (a_except (try_message st i d) (message_failed st i))
     (on_runner (untrack_message d))) (\<lambda>o' (_, r') K'. Q o' r' K') D (no_progress, r) K"
  unfolding awp_def process_message_def wp_bindp
  by (intro arg_cong [where f = "\<lambda>R. wp _ R K"] ext) (auto split: sum.splits prod.splits)

lemma orphaned_wp:
  assumes "\<And>K'. acked K' = acked K \<Longrightarrow> hs K' = hs K \<Longrightarrow> Q (Inr ()) K'"
  shows "wp (emit_orphaned_reply V c w r) Q K"
  using assms by (auto simp: emit_orphaned_reply_def Let_def emit_event_def wp_simps)

lemma ack_wp [wp_simps]: "wp (ack_message r st i) Q K = Q (Inr ()) (apply_cmd (XAck st (rn_group_name r) i) K)"
  by (simp add: ack_message_def wp_simps)

lemma untrack_awp [awp_simps]:
  assumes "sent_message_id d = Inr mid"
  shows "awp (untrack_message d) Q D r K = Q (Inr ()) (r\<lparr>rn_tracker := remove_by_message mid (rn_tracker r)\<rparr>) K"
  using assms by (simp add: untrack_message_def awp_simps wp_lift_res)

lemma removed_by_message:
  assumes "map_of (tk_message_to_execution t) mid = Some eid" and "eid \<noteq> []"
  shows "execution_by_message mid (remove_by_message mid t) = None"
    and "tracked_execution_of eid (remove_by_message mid t) = None"
    and "map_of (tk_message_to_execution (remove_by_message mid t)) mid = None"
  using assms by (simp_all add: remove_by_message_def execution_by_message_def tracked_execution_of_def Let_def delete_conv)

text \<open>
  A reply that the gate drops takes the execution it was sent to out of the tracker: on
  a server that behaves as documented, when a duplicate reply reaches a worker that is
  running its caller, the duplicate is acknowledged, and from then on the running
  execution is unknown to the worker: a cancellation that names the message finds nothing.
\<close>

theorem dropped_reply_untracks_caller:
  assumes "redis exec view" and "command_from_dict (rn_commands r) d = Inr (ResumeCommand rc)"
    and "mh_message_id (res_header rc) = mid" and "mid \<noteq> []" and "sent_message_id (JObj d) = Inr mid"
    and "\<not> gd_allow (gate_result (sv_schema (wk_services (rn_worker r))) (view s) (mh_session_id (res_header rc))
       (candidate_members (res_header rc)))"
    and "map_of (tk_message_to_execution (rn_tracker r)) mid = Some eid" and "eid \<noteq> []"
  shows "\<exists>r' u. run exec (process_message st i (JObj d) r) s = (Inr (Inr (), r'), u) \<and>
     (st, rn_group_name r, i) \<in> acked (view u) \<and> tracked_execution_of eid (rn_tracker r') = None \<and>
     (\<forall>k. can_target_execution_id k = [] \<and> can_target_message_id k = mid \<longrightarrow> cancel_target k (rn_tracker r') = [])"
proof -
  let ?P = "\<lambda>o' r' K'. o' = Inr () \<and> (st, rn_group_name r, i) \<in> acked K' \<and> r' = r\<lparr>rn_tracker := remove_by_message mid (rn_tracker r)\<rparr>"
  have h: "(res_header rc)\<lparr>mh_message_id := mid\<rparr> = res_header rc" and rc: "rc\<lparr>res_header := res_header rc\<rparr> = rc"
    using assms(3) by simp_all
  have "awp (process_message st i (JObj d)) ?P (\<lambda>_. False) r (view s)"
    unfolding awp_process try_message_def start_message_def admit_reply_def on_runner_def mark_progress_def Let_def
    using assms(2-6)
    by (simp add: h rc awp_simps wp_simps wp_lift_res is_resume_def command_header_def with_header_def orphaned_wp)
  then have "wp (process_message st i (JObj d) r) (\<lambda>o' K'. \<exists>r'. o' = Inr (Inr (), r') \<and> ?P (Inr ()) r' K') (view s)"
    unfolding awp_def by (rule wp_mono) (auto split: sum.splits prod.splits)
  from redis.wp_run [OF assms(1) this] show ?thesis
    using removed_by_message [OF assms(7,8)] by (auto simp: cancel_target_def str_or_def split: prod.splits)
qed

text \<open>
  A task that has ended is not run again when its message is delivered again: on a
  server that behaves as documented the message is acknowledged, and nothing else changes,
  neither the data nor what the worker is running under other messages.
\<close>

theorem ended_execution_is_skipped:
  assumes "redis exec view" and "command_from_dict (rn_commands r) d = Inr (AskAgentCommand a)"
    and "mh_message_id (ask_header a) = mid" and "mid \<noteq> []" and "sent_message_id (JObj d) = Inr mid"
    and "wk_has_registry (rn_worker r)"
    and "record_by_message (sv_schema (wk_services (rn_worker r))) (view s) (mh_session_id (ask_header a)) mid = Inr (Some e)"
    and "dget0 e ''status'' = JStr status" and "is_terminal_state status"
  shows "case run exec (process_message st i (JObj d) r) s of (o', u) \<Rightarrow>
     o' = Inr (Inr (), r\<lparr>rn_tracker := remove_by_message mid (rn_tracker r)\<rparr>) \<and>
     view u = apply_cmd (XAck st (rn_group_name r) i) (view s)"
proof -
  let ?K = "apply_cmd (XAck st (rn_group_name r) i) (view s)"
  let ?r = "r\<lparr>rn_tracker := remove_by_message mid (rn_tracker r)\<rparr>"
  have h: "(ask_header a)\<lparr>mh_message_id := mid\<rparr> = ask_header a" "a\<lparr>ask_header := ask_header a\<rparr> = a"
    using assms(3) by simp_all
  have e: "e \<noteq> []" "has_terminal_status e"
    using assms(8,9) by (auto simp: has_terminal_status_def dget0_def dget_def)
  have "awp (process_message st i (JObj d)) (\<lambda>o' r' K'. o' = Inr () \<and> r' = ?r \<and> K' = ?K) (\<lambda>_. False) r (view s)"
    unfolding awp_process try_message_def start_message_def admit_reply_def on_runner_def mark_progress_def Let_def
    using assms(2-9) e
    by (simp add: h awp_simps wp_simps wp_lift_res is_resume_def command_header_def with_header_def known_def)
  then have "wp (process_message st i (JObj d) r) (\<lambda>o' K'. o' = Inr (Inr (), ?r) \<and> K' = ?K) (view s)"
    unfolding awp_def by (rule wp_mono) (auto split: sum.splits prod.splits)
  from redis.wp_run [OF assms(1) this] show ?thesis .
qed

text \<open>
  A message whose action is not registered is neither acknowledged nor reported: on any
  server processing it issues no command at all and returns, so it stays pending in the
  consumer group; only a command of the wrong kind is acknowledged.
\<close>

theorem unknown_action_stays_pending:
  assumes "rn_commands r (py_str (dget0 d ''action_type'')) = None" and "sent_message_id (JObj d) = Inr mid"
  shows "run X (process_message st i (JObj d) r) s = (Inr (Inr (), r\<lparr>rn_tracker := remove_by_message mid (rn_tracker r)\<rparr>), s)"
  using assms
  by (simp add: process_message_def a_finally_def a_except_def try_message_def a_bind_def a_with_def a_lift_def lift_res_def
      attempt_def command_from_dict_def message_failed_def no_progress_def a_ret_def on_runner_def a_zoom_def
      untrack_message_def a_set_def Let_def)

section \<open>Cancelling\<close>

text \<open>The tracker files every execution under its own id.\<close>

definition tracker_ok :: "tracker \<Rightarrow> bool" where
  "tracker_ok t = (distinct (map fst (tk_active_executions t)) \<and>
     (\<forall>(eid, x) \<in> set (tk_active_executions t). rx_execution_id x = eid))"

lemma tracker_ok_keeps [simp]:
  "tracker_ok empty_tracker"
  "tracker_ok t \<Longrightarrow> tracker_ok (add_execution x t)"
  "tracker_ok t \<Longrightarrow> tracker_ok (remove_by_message mid t)"
  "tracker_ok t \<Longrightarrow> tracker_ok (snd (remove_execution eid t))"
  "tracker_ok t \<Longrightarrow> tracker_ok (cancel_running reason x t)"
proof -
  have upd: "(\<forall>(eid, y) \<in> set l. rx_execution_id y = eid) \<Longrightarrow> (\<forall>(eid, y) \<in> set (AList.update (rx_execution_id z) z l). rx_execution_id y = eid)"
    for l :: "(string \<times> tracked_execution) list" and z
    by (induction l) (auto split: if_splits)
  have del: "set (AList.delete k l) \<subseteq> set l" for k and l :: "(string \<times> tracked_execution) list"
    by (auto simp: AList.delete_eq)
  show "tracker_ok empty_tracker" by (simp add: tracker_ok_def empty_tracker_def)
  show "tracker_ok t \<Longrightarrow> tracker_ok (add_execution x t)"
    using upd [of "tk_active_executions t" x] by (simp add: tracker_ok_def add_execution_def distinct_update)
  show "tracker_ok t \<Longrightarrow> tracker_ok (remove_by_message mid t)"
    using del by (fastforce simp: tracker_ok_def remove_by_message_def Let_def distinct_delete split: option.splits)
  show "tracker_ok t \<Longrightarrow> tracker_ok (snd (remove_execution eid t))"
    using del by (fastforce simp: tracker_ok_def remove_execution_def distinct_delete split: option.splits)
  show "tracker_ok t \<Longrightarrow> tracker_ok (cancel_running reason x t)"
    using upd [of "tk_active_executions t" "x\<lparr>rx_cancel_reason := reason, tx_cancelled := True, tx_task_cancelled := Some reason\<rparr>"]
    by (simp add: tracker_ok_def cancel_running_def distinct_update)
qed

lemma tracked_id: "tracker_ok t \<Longrightarrow> tracked_execution_of eid t = Some x \<Longrightarrow> rx_execution_id x = eid"
  by (auto simp: tracker_ok_def tracked_execution_of_def dest: map_of_SomeD)

lemma cancelling_wp:
  assumes "record_of V K sid eid = Inr (Some e)" and "map_of e ''execution_id'' = Some (JStr eid)" and "sid \<noteq> []"
    and "\<And>K' e'. record_of V K' sid eid = Inr (Some e') \<Longrightarrow> dget0 e' ''status'' = JStr ''CANCELLING'' \<Longrightarrow>
      dget0 e' ''cancel_requested'' = JBool True \<Longrightarrow> Q (Inr ()) K'"
  shows "wp (mark_execution_cancelling V eid sid reason) Q K"
proof -
  let ?e = "\<lambda>now. cancelling_change reason e now"
  have f: "map_of (?e now) ''execution_id'' = Some (JStr eid)" "dget0 (?e now) ''status'' = JStr ''CANCELLING''"
    "dget0 (?e now) ''cancel_requested'' = JBool True" for now
    using assms(2) by (simp_all add: cancelling_change_def append_timeline_def Let_def dget0_def dget_def dset_def update_conv' split: json.splits)
  have rec: "record_of V K' sid eid = Inr (Some (?e now))"
    if "hs K' (session_registry V sid) (EXEC_FIELD_PREFIX @ eid) = Some (Doc (JObj (?e now)))" for K' now
    using that assms(3) by (simp add: record_of_def)
  show ?thesis
    using assms(1,3) f
    by (auto simp: mark_execution_cancelling_def change_execution_def wp_simps Let_def save_record_def
      update_worker_execution_stats_def field_str_def stats_session [OF refl] saved_hash simp flip: saved_def simp del: List.fold.simps
      intro!: assms(4) [OF rec])
qed

text \<open>
  C32: a cancellation reaches a task that is running here: on a server that behaves as
  documented, for an execution the worker tracks and the registry knows, with tracing off,
  the record of the execution says that it is being cancelled, and its task is cancelled
  with the reason of the command.
\<close>

theorem cancellation_reaches_task:
  assumes "redis exec view" and "tracker_ok (rn_tracker r)" and "cancel_target k (rn_tracker r) = eid" and "eid \<noteq> []"
    and "tracked_execution_of eid (rn_tracker r) = Some x" and "tx_session_id x = sid" and "sid \<noteq> []"
    and "wk_has_registry (rn_worker r)" and "rec_exporters (rn_span_recorder r) = []"
    and "record_of (sv_schema (wk_services (rn_worker r))) (view s) sid eid = Inr (Some e)"
    and "map_of e ''execution_id'' = Some (JStr eid)"
  shows "case run exec (handle_cancel_task k r) s of (o', u) \<Rightarrow>
     (\<exists>r' x' e'. o' = Inr (Inr (), r') \<and> tracked_execution_of eid (rn_tracker r') = Some x' \<and> tx_cancelled x' \<and>
        tx_task_cancelled x' = Some (can_reason k) \<and> rx_cancel_reason x' = can_reason k \<and>
        record_of (sv_schema (wk_services (rn_worker r))) (view u) sid eid = Inr (Some e') \<and>
        dget0 e' ''status'' = JStr ''CANCELLING'')"
proof -
  let ?V = "sv_schema (wk_services (rn_worker r))" and ?t = "cancel_running (can_reason k) x (rn_tracker r)"
  have eid: "rx_execution_id x = eid"
    by (rule tracked_id [OF assms(2,5)])
  have off: "\<exists>q. record_span sp (rn_span_recorder r) = Ret (Inr (), q)" for sp
    using record_off [OF assms(9)] by blast
  have "awp (handle_cancel_task k) (\<lambda>o' r' K'. o' = Inr () \<and> rn_tracker r' = ?t \<and> (\<exists>e'. record_of ?V K' sid eid = Inr (Some e') \<and>
      dget0 e' ''status'' = JStr ''CANCELLING'')) (\<lambda>_. False) r (view s)"
  proof -
    have span: "awp (record_span sp) Q D (rn_span_recorder r) K" if "\<And>q. Q (Inr ()) q K" for sp Q D K
      using off [of sp] that by (auto simp: awp_def)
    show ?thesis
      unfolding handle_cancel_task_def Let_def
      by (simp add: assms(3-6,8) assms(4) awp_simps wp_simps, intro cancelling_wp [OF assms(10,11,7)])
        (auto simp: awp_simps wp_simps intro!: span)
  qed
  then have "wp (handle_cancel_task k r) (\<lambda>o' K'. \<exists>r' e'. o' = Inr (Inr (), r') \<and> rn_tracker r' = ?t \<and>
      record_of ?V K' sid eid = Inr (Some e') \<and> dget0 e' ''status'' = JStr ''CANCELLING'') (view s)"
    unfolding awp_def by (rule wp_mono) (auto split: sum.splits prod.splits)
  from redis.wp_run [OF assms(1) this] show ?thesis
    by (fastforce simp: cancel_running_def tracked_execution_of_def eid update_conv' split: prod.splits)
qed

section \<open>Slots\<close>

text \<open>
  The slots of a runner are conserved: in every reachable state the semaphore, the slot
  the loop holds and the tasks that have not released theirs add up to the maximum, the
  loop holds at most one, and when its poll says that there is room the semaphore has a
  slot, so the loop never waits in \<open>acquire\<close> itself.
\<close>

theorem slots_conserved:
  assumes "(slot_step n)\<^sup>*\<^sup>* (fresh_slots n) q"
  shows "sl_free q + sl_held q + sl_active q = n \<and> sl_held q \<le> 1 \<and>
     (sl_held q = 0 \<and> running_tasks q < n \<longrightarrow> (\<exists>q'. slot_step n q q' \<and> sl_held q' = 1))"
proof -
  have inv: "sl_free q + sl_held q + sl_active q = n \<and> sl_held q \<le> 1"
    using assms
  proof (induction rule: rtranclp_induct)
    case base
    then show ?case by (simp add: fresh_slots_def)
  next
    case (step q q')
    from step.hyps(2) step.IH show ?case
      by cases auto
  qed
  moreover have "\<exists>q'. slot_step n q q' \<and> sl_held q' = 1" if room: "sl_held q = 0" "running_tasks q < n"
  proof -
    obtain m where "sl_free q = Suc m"
      using inv room by (cases "sl_free q") (auto simp: running_tasks_def)
    from slot_step.acquire [OF room this] show ?thesis by fastforce
  qed
  ultimately show ?thesis by blast
qed

section \<open>The blocking read goes round\<close>

text \<open>A server that only notes on which stream a read blocks, and streams that are empty.\<close>

definition note_read :: "cmd \<Rightarrow> string list \<Rightarrow> reply \<times> string list" where
  "note_read c seen = (REntries [], case c of XRead k i n \<Rightarrow> seen @ [k] | _ \<Rightarrow> seen)"

definition idle_read :: "bool \<Rightarrow> string \<Rightarrow> (string \<times> rtext option) list prog" where
  "idle_read blocking k = (if blocking then call (XRead k ''>'' 10) r_entries else Ret [])"

primrec idle_fetches :: "nat \<Rightarrow> (runner, unit) act" where
  "idle_fetches 0 = a_ret ()"
| "idle_fetches (Suc n) = a_bind (fetch_messages idle_read) (\<lambda>_. idle_fetches n)"

lemma idle_fetch:
  assumes "active_agent_type_streams r \<noteq> []"
  shows "run note_read (fetch_messages idle_read r) seen = (Inr (Inr [], r\<lparr>rn_primary_cursor := rn_primary_cursor r + 1\<rparr>),
     seen @ [active_agent_type_streams r ! (rn_primary_cursor r mod length (active_agent_type_streams r))])"
proof -
  have a: "a_for (\<lambda>s. a_bind (a_lift (idle_read False s)) (\<lambda>es. a_ret (s, es))) ss c = Ret (Inr (map (\<lambda>s. (s, [])) ss), c)" for ss and c :: runner
    by (induction ss) (simp_all add: a_bind_def a_lift_def idle_read_def attempt_def a_ret_def)
  have p: "parse_results (map (\<lambda>s. (s, [])) ss) = []" for ss
    by (induction ss) (simp_all add: parse_results_def List.map_filter_def)
  have b: "run note_read (a_lift (idle_read True k) c) seen = (Inr (Inr [], c), seen @ [k])" for k and c :: runner
    by (simp add: a_lift_def idle_read_def attempt_def call_def note_read_def run_bindp run_catch)
  show ?thesis
    using assms p [of "[_]"]
    by (simp add: fetch_messages_def a_with_def Let_def run_a_bind a p b a_seq_def a_set_def a_ret_def)
qed

lemma idle_fetches_run:
  assumes "active_agent_type_streams r \<noteq> []"
  shows "run note_read (idle_fetches n r) seen = (Inr (Inr (), r\<lparr>rn_primary_cursor := rn_primary_cursor r + n\<rparr>),
     seen @ map (\<lambda>i. active_agent_type_streams r ! ((rn_primary_cursor r + i) mod length (active_agent_type_streams r))) [0..<n])"
  using assms
proof (induction n arbitrary: r seen)
  case (Suc n)
  let ?r = "r\<lparr>rn_primary_cursor := rn_primary_cursor r + 1\<rparr>"
  have "active_agent_type_streams ?r = active_agent_type_streams r"
    by (simp add: active_agent_type_streams_def)
  then show ?case
    using Suc.IH [of ?r] Suc.prems
    by (simp add: run_a_bind idle_fetch map_upt_Suc del: upt_Suc)
qed (simp add: a_ret_def)

text \<open>
  No stream is starved of the blocking read: in as many idle rounds as the worker has
  active streams, and from any position of the cursor, the worker blocks on each of its
  streams exactly once.
\<close>

theorem blocking_read_goes_round:
  assumes "active_agent_type_streams r = streams" and "streams \<noteq> []"
  shows "\<exists>seen. run note_read (idle_fetches (length streams) r) [] =
     (Inr (Inr (), r\<lparr>rn_primary_cursor := rn_primary_cursor r + length streams\<rparr>), seen) \<and> set seen = set streams \<and> distinct seen"
proof -
  let ?n = "length streams" and ?f = "\<lambda>i. (rn_primary_cursor r + i) mod length streams"
  have d: "distinct streams"
    using assms(1) by (auto simp: active_agent_type_streams_def)
  have inj: "inj_on ?f {0..<?n}"
  proof (rule inj_onI)
    have le: "i = j" if "i \<le> j" "j < ?n" "?f i = ?f j" for i j
    proof -
      have "?n dvd (rn_primary_cursor r + j) - (rn_primary_cursor r + i)"
        using mod_eq_dvd_iff_nat [of "rn_primary_cursor r + i" "rn_primary_cursor r + j" ?n] that by simp
      then have "j - i = 0"
        using that(2) nat_dvd_not_less [of "j - i" ?n] by fastforce
      then show ?thesis using that(1) by simp
    qed
    fix i j assume "i \<in> {0..<?n}" "j \<in> {0..<?n}" "?f i = ?f j"
    then show "i = j" using le [of i j] le [of j i] by (cases i j rule: le_cases) auto
  qed
  have sub: "?f ` {0..<?n} \<subseteq> {0..<?n}" using assms(2) by auto
  have onto: "?f ` {0..<?n} = {0..<?n}"
    by (rule card_subset_eq [OF finite_atLeastLessThan sub]) (simp add: card_image [OF inj])
  have "set (map (\<lambda>i. streams ! ?f i) [0..<?n]) = (!) streams ` (?f ` {0..<?n})"
    by (simp add: image_image)
  also have "\<dots> = (!) streams ` {0..<?n}"
    by (simp only: onto)
  also have "\<dots> = set streams" by (simp add: set_conv_nth image_def) (metis atLeastLessThan_iff zero_le)
  finally have s: "set (map (\<lambda>i. streams ! ?f i) [0..<?n]) = set streams" .
  then have "distinct (map (\<lambda>i. streams ! ?f i) [0..<?n])"
    using d by (metis card_distinct distinct_card length_map length_upt minus_nat.diff_0)
  then show ?thesis
    using idle_fetches_run [of r ?n "[]"] assms s by simp
qed

section \<open>A generated message id\<close>

text \<open>What leaves the tracker alone.\<close>

definition tracks :: "tracker \<Rightarrow> runner \<Rightarrow> bool" where
  "tracks t r = (rn_tracker r = t)"

lemma tracks_simps [simp]:
  "tracks t (r\<lparr>rn_span_recorder := q\<rparr>) = tracks t r"
  by (simp add: tracks_def)

lemma worker_span_keeps [keeps_intros]: "keeps (tracks t) (\<lambda>_. True) (\<lambda>_. True) (record_worker_execute_span sp)"
  unfolding record_worker_execute_span_def
  by (intro keeps_intros keeps_zoom [OF record_span_keeps]) (auto simp: exporters_in_def)

lemma complete_keeps: "keeps (tracks t) (\<lambda>_. True) (\<lambda>_. True) (complete_message st i h eid e start res c)"
  unfolding complete_message_def Let_def by (intro keeps_intros) auto

lemma on_runner_keeps:
  "keeps I P E m \<Longrightarrow> keeps (\<lambda>(p, r). I r) P E (on_runner m)"
  unfolding on_runner_def by (rule keeps_zoom [where J = I]) auto

lemma failed_keeps: "keeps (\<lambda>(p, r). tracks t r) (\<lambda>_. True) (\<lambda>_. True) (message_failed st i err)"
proof -
  have span: "keeps (\<lambda>(p, r). tracks t r) (\<lambda>_. True) (\<lambda>_. True) (on_runner (a_with (\<lambda>r. record_worker_execute_span (g r))))" for g
    by (intro on_runner_keeps keeps_intros)
  show ?thesis
    unfolding message_failed_def Let_def
    by (cases err) (auto split: option.splits intro!: keeps_intros span)
qed

lemma awp_keeps:
  assumes "keeps I (\<lambda>_. True) E m" and "I c" and "\<And>o' c' K'. I c' \<Longrightarrow> Q o' c' K'" and "\<And>K'. D K'"
  shows "awp m Q D c K"
  by (rule awp_mono [OF awp_frame [where R = "\<lambda>_. True", OF assms(1,2)]]) (use assms(3,4) in auto)

lemma handler_keeps: "keeps (tracks t) (\<lambda>_. True) (\<lambda>_. True) (run_handler st i command eid e start_ts)"
  unfolding run_handler_def by (auto intro!: keeps_intros complete_keeps split: sum.splits)

lemma on_runner_awp [awp_simps]:
  "awp (on_runner m) Q D (p, r) K = awp m (\<lambda>o' r' K'. Q o' (p, r') K') D r K"
  by (simp add: on_runner_def awp_zoom)

lemma tracks_self:
  "tracks (rn_tracker r) r" "case c of (p, r') \<Rightarrow> tracks (rn_tracker (snd c)) r'"
  by (simp_all add: tracks_def split: prod.split)

lemmas handler_awp = awp_keeps [OF handler_keeps tracks_self(1)]

lemmas failed_awp = awp_keeps [OF failed_keeps tracks_self(2)]

text \<open>
  A task whose message came without an id is never taken out of the tracker: on a server
  that behaves as documented, with no registry and for any handler, whenever processing the
  message ends the worker still lists an execution under the id that was made up for it,
  because only the id that was sent is removed.
\<close>

theorem generated_id_stays_tracked:
  assumes "redis exec view" and "command_from_dict (rn_commands r) d = Inr (AskAgentCommand a)"
    and "mh_message_id (ask_header a) = []" and "sent_message_id (JObj d) = Inr []"
    and "\<not> wk_has_registry (rn_worker r)" and "map_of (tk_message_to_execution (rn_tracker r)) [] = None"
  shows "case fst (run exec (process_message st i (JObj d) r) s) of
     Inr (o', r') \<Rightarrow> (\<exists>mid x. mid \<noteq> [] \<and> execution_by_message mid (rn_tracker r') = Some x \<and> rx_message_id x = mid)
   | Inl e \<Rightarrow> True"
proof -
  let ?P = "\<lambda>r'. \<exists>mid x. mid \<noteq> [] \<and> execution_by_message mid (rn_tracker r') = Some x \<and> rx_message_id x = mid"
  let ?t = "\<lambda>eid mid. add_execution (tracked_for r (AskAgentCommand (a\<lparr>ask_header := (ask_header a)\<lparr>mh_message_id := mid\<rparr>\<rparr>)) None eid) (rn_tracker r)"
  have new: "rx_execution_id (tracked_for r c None eid) = eid"
      "rx_message_id (tracked_for r c None eid) = mh_message_id (command_header c)" for c eid
    by (simp_all add: tracked_for_def Let_def)
  have found: "?P (r'\<lparr>rn_tracker := remove_by_message [] (?t eid mid)\<rparr>)" if "eid \<noteq> []" "mid \<noteq> []" for r' eid mid
    using that assms(6)
    by (intro exI [of _ mid]) (simp add: remove_by_message_def add_execution_def execution_by_message_def
      tracked_execution_of_def new command_header_def update_conv')
  have "awp (process_message st i (JObj d)) (\<lambda>o' r' K'. ?P r') (\<lambda>_. True) r (view s)"
    unfolding awp_process try_message_def start_message_def admit_reply_def execute_message_def mark_progress_def Let_def
      record_running_def
    using assms(2-5)
    by (auto simp: awp_simps wp_simps wp_lift_res is_resume_def command_header_def with_header_def known_def generate_message_id_def
      MESSAGE_ID_PREFIX_def EXECUTION_ID_PREFIX_def no_progress_def dget0_def dget_def py_text_def tracks_def
      intro!: handler_awp failed_awp found [simplified] split: sum.splits exn.splits)
  then have "wp (process_message st i (JObj d) r) (\<lambda>o' K'. case o' of Inr (res, r') \<Rightarrow> ?P r' | Inl e \<Rightarrow> True) (view s)"
    unfolding awp_def by (rule wp_mono) (auto split: sum.splits prod.splits)
  from redis.wp_run [OF assms(1) this] show ?thesis
    by (auto split: prod.splits sum.splits)
qed

section \<open>The properties at concrete inputs\<close>

lemma sent_wire: "sent_message_id (JObj (command_to_dict c)) = Inr (mh_message_id (command_header c))"
  by (cases c) (simp_all add: sent_message_id_def to_dict_defs wire_def header_to_dict_def command_header_def dget_def)

lemma builtin_decodes: "constructed c \<Longrightarrow> command_from_dict builtin_commands (command_to_dict c) = Inr c"
  using cls_roundtrip by (simp add: command_from_dict_def)

definition demo_runner :: "tracker \<Rightarrow> bool \<Rightarrow> runner" where
  "demo_runner t registry = \<lparr>rn_worker = demo_worker\<lparr>wk_has_registry := registry\<rparr>, rn_agent_types = [''a'', ''b''], rn_group_name = ''g'',
     rn_commands = builtin_commands, rn_span_recorder = (new_recorder V1 (\<lambda>_. False) 100 900)\<lparr>rec_exporters := []\<rparr>,
     rn_trace_writer = new_trace_writer V1 (\<lambda>_. False) 100 900, rn_redacts = False, rn_max_length = 256, rn_tracker = t,
     rn_plugin_registry = new_plugin_registry, rn_token_usage = (\<lambda>_. []), rn_admin_lifecycle = ''active'', rn_evict_force = False,
     rn_denied_agent_types = [], rn_primary_cursor = 1\<rparr>"

lemma demo_runner_simps [simp]:
  "rn_commands (demo_runner t b) = builtin_commands" "rn_tracker (demo_runner t b) = t" "rn_group_name (demo_runner t b) = ''g''"
  "sv_schema (wk_services (rn_worker (demo_runner t b))) = V1" "wk_has_registry (rn_worker (demo_runner t b)) = b"
  "rec_exporters (rn_span_recorder (demo_runner t b)) = []" "rn_primary_cursor (demo_runner t b) = 1"
  "active_agent_type_streams (demo_runner t b) = [ctrl_stream V1 ''a'', ctrl_stream V1 ''b'']"
  by (simp_all add: demo_runner_def active_agent_type_streams_def demo_worker_def demo_services_def ctrl_stream_def versioned_def)

text \<open>The caller \<open>m\<close> runs as \<open>e\<close> on this worker.\<close>

definition demo_tracked :: tracked_execution where
  "demo_tracked = \<lparr>rx_execution_id = ''e'', rx_message_id = ''m'', rx_parent_message_id = [], rx_cancel_reason = [],
     rx_is_resumed = True, rx_existing_data = None, tx_session_id = ''s'', tx_worker_id = ''w'', tx_cancelled = False,
     tx_task_cancelled = None\<rparr>"

definition demo_tracker :: tracker where
  "demo_tracker = add_execution demo_tracked empty_tracker"

lemma demo_tracker_simps [simp]:
  "tk_message_to_execution demo_tracker = [(''m'', ''e'')]" "tracker_ok demo_tracker"
  "tracked_execution_of ''e'' demo_tracker = Some demo_tracked"
  by (simp_all add: demo_tracker_def) (simp_all add: add_execution_def empty_tracker_def demo_tracked_def tracked_execution_of_def)

text \<open>The reply of a member, and the server on which its wait has been answered.\<close>

definition answered_server :: rserver where
  "answered_server = snd (ref_exec (Set (consumed_marker_key V1 ''s'' (member_from_resume (member_header ''x''))) (Doc (JInt 1)) None False)
     empty_server)"

lemma answered_gate: "\<not> gd_allow (gate_result V1 (rview answered_server) ''s'' (candidate_members (member_header ''x'')))"
proof -
  have "zs (rview answered_server) k = Map.empty" for k
    by (simp add: answered_server_def ref.exec_view) (simp add: empty_server_def rview_def look_def fun_eq_iff)
  then show ?thesis
    by (simp add: candidate_members_def waiting_def consumed_def present_def member_header_def)
      (simp add: answered_server_def ref.exec_view member_header_def)
qed

lemma member_reply_facts [simp]:
  "res_header (member_reply x) = member_header x"
  "mh_message_id (member_header x) = ''m''" "mh_session_id (member_header x) = ''s''"
  "command_header (ResumeCommand (member_reply x)) = member_header x"
  by (simp_all add: member_reply_def member_header_def command_header_def)

definition reply_wire :: jdict where "reply_wire = command_to_dict (ResumeCommand (member_reply ''x''))"

lemma reply_wire_facts [simp]:
  "command_from_dict builtin_commands reply_wire = Inr (ResumeCommand (member_reply ''x''))"
  "sent_message_id (JObj reply_wire) = Inr ''m''"
  unfolding reply_wire_def sent_wire by (rule builtin_decodes) (simp_all add: member_reply_def new_resume_def command_header_def member_header_def)

theorem dropped_reply_untracks_caller_witness:
  "\<exists>r' u. run ref_exec (process_message ''st'' ''1-0'' (JObj reply_wire) (demo_runner demo_tracker True))
       answered_server = (Inr (Inr (), r'), u) \<and>
     (''st'', ''g'', ''1-0'') \<in> acked (rview u) \<and> tracked_execution_of ''e'' (rn_tracker r') = None"
  using dropped_reply_untracks_caller [OF ref.redis_axioms, where r = "demo_runner demo_tracker True" and rc = "member_reply ''x''"
      and d = reply_wire and mid = "''m''" and eid = "''e''" and s = answered_server
      and st = "''st''" and i = "''1-0''"] answered_gate
  by auto

text \<open>A task of the caller, and the server on which it has ended.\<close>

definition demo_ask :: "string \<Rightarrow> ask_cmd" where
  "demo_ask mid = \<lparr>ask_header = (member_header [])\<lparr>mh_message_id := mid\<rparr>, ask_content = JStr ''go'', ask_wait_for_reply = True,
     ask_extra_payload = []\<rparr>"

lemma demo_ask_facts [simp]:
  "mh_message_id (ask_header (demo_ask mid)) = mid"
  "mh_session_id (ask_header (demo_ask mid)) = ''s''" "mh_message_id (command_header (AskAgentCommand (demo_ask mid))) = mid"
  by (simp_all add: demo_ask_def member_header_def command_header_def)

definition ask_wire :: "string \<Rightarrow> jdict" where "ask_wire mid = command_to_dict (AskAgentCommand (demo_ask mid))"

lemma ask_wire_facts [simp]:
  "command_from_dict builtin_commands (ask_wire mid) = Inr (AskAgentCommand (demo_ask mid))"
  "sent_message_id (JObj (ask_wire mid)) = Inr mid"
  unfolding ask_wire_def sent_wire by (rule builtin_decodes) (simp_all add: demo_ask_def new_ask_def command_header_def is_space_def)

definition ended_server :: rserver where
  "ended_server = snd (ref_exec (Pipe [HSet (session_registry V1 ''s'') (MSG_MAP_PREFIX @ ''m'') (Txt ''e''),
     HSet (session_registry V1 ''s'') (EXEC_FIELD_PREFIX @ ''e'') (Doc (JObj [(''execution_id'', JStr ''e''), (''status'', JStr ''COMPLETED'')]))])
     empty_server)"

lemma ended_record: "record_of V1 (rview ended_server) ''s'' ''e'' = Inr (Some [(''execution_id'', JStr ''e''), (''status'', JStr ''COMPLETED'')])"
  "record_by_message V1 (rview ended_server) ''s'' ''m'' = Inr (Some [(''execution_id'', JStr ''e''), (''status'', JStr ''COMPLETED'')])"
  by (simp_all add: record_of_def record_by_message_def ended_server_def ref.exec_view)

theorem ended_execution_is_skipped_witness:
  "case run ref_exec (process_message ''st'' ''1-0'' (JObj (ask_wire ''m'')) (demo_runner demo_tracker True))
       ended_server of (o', u) \<Rightarrow>
     o' = Inr (Inr (), (demo_runner demo_tracker True)\<lparr>rn_tracker := remove_by_message ''m'' demo_tracker\<rparr>) \<and>
     rview u = apply_cmd (XAck ''st'' ''g'' ''1-0'') (rview ended_server)"
  using ended_execution_is_skipped [OF ref.redis_axioms, where r = "demo_runner demo_tracker True" and a = "demo_ask ''m''"
      and d = "ask_wire ''m''" and mid = "''m''" and s = ended_server
      and e = "[(''execution_id'', JStr ''e''), (''status'', JStr ''COMPLETED'')]" and status = "''COMPLETED''"
      and st = "''st''" and i = "''1-0''"] ended_record(2)
  by (auto simp: dget0_def dget_def is_terminal_state_def TERMINAL_STATES_def split: prod.splits)

theorem unknown_action_stays_pending_witness:
  "run ref_exec (process_message ''st'' ''1-0'' (JObj [(''action_type'', JStr ''NEW_ACTION''), (''header'', JObj [])]) (demo_runner demo_tracker True))
     empty_server = (Inr (Inr (), (demo_runner demo_tracker True)\<lparr>rn_tracker := remove_by_message [] demo_tracker\<rparr>), empty_server)"
  using unknown_action_stays_pending [where r = "demo_runner demo_tracker True" and mid = "[]" and X = ref_exec and s = empty_server
      and d = "[(''action_type'', JStr ''NEW_ACTION''), (''header'', JObj [])]" and st = "''st''" and i = "''1-0''"]
  by (simp add: dget0_def dget_def sent_message_id_def builtin_commands_def register_command_def)

definition demo_cancel :: cancel_cmd where
  "demo_cancel = \<lparr>can_header = member_header [], can_target_message_id = ''m'', can_target_execution_id = [], can_target_worker_id = [],
     can_reason = ''stop'', can_requested_by = [], can_cancel_mode = ''graceful''\<rparr>"

theorem cancellation_reaches_task_witness:
  "case run ref_exec (handle_cancel_task demo_cancel (demo_runner demo_tracker True)) ended_server of (o', u) \<Rightarrow>
     (\<exists>r' x' e'. o' = Inr (Inr (), r') \<and> tracked_execution_of ''e'' (rn_tracker r') = Some x' \<and> tx_cancelled x' \<and>
        tx_task_cancelled x' = Some ''stop'' \<and> rx_cancel_reason x' = ''stop'' \<and>
        record_of V1 (rview u) ''s'' ''e'' = Inr (Some e') \<and> dget0 e' ''status'' = JStr ''CANCELLING'')"
proof -
  have t: "cancel_target demo_cancel demo_tracker = ''e''" "can_reason demo_cancel = ''stop''"
    by (simp_all add: cancel_target_def demo_cancel_def str_or_def)
  show ?thesis
    using cancellation_reaches_task [OF ref.redis_axioms, where r = "demo_runner demo_tracker True" and k = demo_cancel and eid = "''e''"
        and x = demo_tracked and sid = "''s''" and s = ended_server] ended_record(1) t
    by (simp add: demo_tracked_def)
qed

theorem slots_conserved_witness:
  "let q = \<lparr>sl_free = 1, sl_held = 0, sl_active = 1, sl_finished = 0\<rparr> in
     sl_free q + sl_held q + sl_active q = 2 \<and> sl_held q \<le> 1 \<and>
     (sl_held q = 0 \<and> running_tasks q < 2 \<longrightarrow> (\<exists>q'. slot_step 2 q q' \<and> sl_held q' = 1))"
proof -
  let ?q = "\<lparr>sl_free = 1, sl_held = 1, sl_active = 0, sl_finished = 0\<rparr>"
  have a: "slot_step 2 (fresh_slots 2) ?q"
    using slot_step.acquire [of "fresh_slots 2" 2 1] by (simp add: fresh_slots_def running_tasks_def)
  have b: "slot_step 2 ?q \<lparr>sl_free = 1, sl_held = 0, sl_active = 1, sl_finished = 0\<rparr>"
    using slot_step.spawn [of ?q 0 2] by simp
  have "(slot_step 2)\<^sup>*\<^sup>* (fresh_slots 2) \<lparr>sl_free = 1, sl_held = 0, sl_active = 1, sl_finished = 0\<rparr>"
    using rtranclp.rtrancl_into_rtrancl [of "slot_step 2", OF r_into_rtranclp [of "slot_step 2", OF a] b] .
  from slots_conserved [OF this] show ?thesis
    unfolding Let_def .
qed

theorem blocking_read_goes_round_witness:
  "\<exists>seen. run note_read (idle_fetches (Suc (Suc 0)) (demo_runner demo_tracker True)) [] =
     (Inr (Inr (), (demo_runner demo_tracker True)\<lparr>rn_primary_cursor := Suc (Suc (Suc 0))\<rparr>), seen) \<and>
     set seen = {ctrl_stream V1 ''a'', ctrl_stream V1 ''b''} \<and> distinct seen"
  using blocking_read_goes_round [where r = "demo_runner demo_tracker True" and streams = "[ctrl_stream V1 ''a'', ctrl_stream V1 ''b'']"]
  by (simp del: idle_fetches.simps)

theorem generated_id_stays_tracked_witness:
  "case fst (run ref_exec (process_message ''st'' ''1-0'' (JObj (ask_wire [])) (demo_runner demo_tracker False))
       empty_server) of
     Inr (o', r') \<Rightarrow> (\<exists>mid x. mid \<noteq> [] \<and> execution_by_message mid (rn_tracker r') = Some x \<and> rx_message_id x = mid)
   | Inl e \<Rightarrow> True"
  by (rule generated_id_stays_tracked [OF ref.redis_axioms, where a = "demo_ask []"]) simp_all

end
