(* ===== verification/Client_Stream.thy ===== *)
theory Client_Stream
  imports Availability Coroutine Emitter
begin

text \<open>
  The reading half of \<open>GatewayClient\<close> (\<open>client/client.py\<close>): messages of a session's data
  stream, read from an id or from the checkpoint of a named consumer, and the two endless
  iterators over it.  A caller's loop is its body: a method of the caller's own object that
  says whether it asks for the next message; it may also raise.  The loops run for a given
  number of rounds, after which they are still running.
\<close>

section \<open>Entries\<close>

definition data_message_defaults :: jdict where
  "data_message_defaults = [(''trace_id'', JNull), (''session_id'', JNull), (''event_type'', JNull),
     (''source_agent_type'', JStr []), (''message_id'', JStr []), (''parent_message_id'', JStr []),
     (''timestamp'', JNull), (''data'', JObj []), (''state_msg'', JStr []), (''artifact_url'', JStr []),
     (''metadata'', JObj [])]"

text \<open>
  \<open>DataMessage(**...)\<close> of the known fields, as the attributes of the object: three are required,
  and a missing \<open>timestamp\<close> is the present time.  The data class checks no types.
\<close>

definition data_message_of :: "int \<Rightarrow> jdict \<Rightarrow> exn + jdict" where
  "data_message_of now payload =
     (if \<exists>k \<in> {''trace_id'', ''session_id'', ''event_type''}. \<not> dhas payload k
      then Inl (TypeError ''missing required positional arguments'')
      else Inr (map (\<lambda>(k, v). (k, dget payload k (if k = ''timestamp'' then JInt now else v))) data_message_defaults))"

record stream_entry =
  se_stream_id :: string
  se_message :: jdict

definition decode_data_stream_entry :: "string \<times> rtext option \<Rightarrow> stream_entry prog" where
  "decode_data_stream_entry entry = (case entry of (stream_id, raw) \<Rightarrow> (case raw of
       None \<Rightarrow> Raise (ValueError ''data stream entry missing data field'')
     | Some t \<Rightarrow> (case loads t of
         None \<Rightarrow> Raise (ValueError ''invalid JSON'')
       | Some (JObj payload) \<Rightarrow>
           bindp (if dhas payload ''timestamp'' then Ret 0 else now_ms) (\<lambda>now.
           bindp (lift_res (data_message_of now payload)) (\<lambda>m. Ret \<lparr>se_stream_id = stream_id, se_message = m\<rparr>))
       | Some v \<Rightarrow> Raise (AttributeError ''object has no attribute items''))))"

primrec decode_entries :: "(string \<times> rtext option) list \<Rightarrow> stream_entry list prog" where
  "decode_entries [] = Ret []"
| "decode_entries (e # es) = bindp (decode_data_stream_entry e) (\<lambda>x. bindp (decode_entries es) (\<lambda>xs. Ret (x # xs)))"

section \<open>Reading\<close>

definition read_data_messages :: "schema \<Rightarrow> string \<Rightarrow> string \<Rightarrow> int \<Rightarrow> nat \<Rightarrow> stream_entry list prog" where
  "read_data_messages V session_id last_id block_ms count =
     bindp (xread (session_data_stream V session_id) last_id count block_ms) decode_entries"

definition get_data_message_checkpoint :: "schema \<Rightarrow> string \<Rightarrow> string \<Rightarrow> string prog" where
  "get_data_message_checkpoint V session_id consumer_name =
     bindp (get (session_data_checkpoint V session_id consumer_name)) (\<lambda>checkpoint.
     Ret (case checkpoint of None \<Rightarrow> ''0-0'' | Some t \<Rightarrow> rtext_str t))"

definition commit_data_message :: "schema \<Rightarrow> string \<Rightarrow> string \<Rightarrow> string \<Rightarrow> unit prog" where
  "commit_data_message V session_id stream_id consumer_name =
     exec_cmd (Set (session_data_checkpoint V session_id consumer_name) (Txt stream_id) (Some DEFAULT_SESSION_TTL) False)"

definition read_data_messages_from_checkpoint ::
  "schema \<Rightarrow> string \<Rightarrow> string \<Rightarrow> int \<Rightarrow> nat \<Rightarrow> bool \<Rightarrow> stream_entry list prog" where
  "read_data_messages_from_checkpoint V session_id consumer_name block_ms count auto_commit =
     bindp (get_data_message_checkpoint V session_id consumer_name) (\<lambda>last_id.
     bindp (read_data_messages V session_id last_id block_ms count) (\<lambda>entries.
     bindp (if auto_commit \<and> entries \<noteq> [] then commit_data_message V session_id (se_stream_id (last entries)) consumer_name
            else Ret ()) (\<lambda>_. Ret entries)))"

section \<open>The iterators\<close>

text \<open>The entries of one read under the caller's loop: the id to continue from, if it goes on.\<close>

primrec iter_entries :: "(stream_entry \<Rightarrow> ('c, bool) act) \<Rightarrow> stream_entry list \<Rightarrow> string \<Rightarrow> ('c, string option) act" where
  "iter_entries body [] current_id = a_ret (Some current_id)"
| "iter_entries body (e # es) current_id =
     a_bind (body e) (\<lambda>go_on. if go_on then iter_entries body es (se_stream_id e) else a_ret None)"

primrec iter_data_messages ::
  "nat \<Rightarrow> schema \<Rightarrow> string \<Rightarrow> string \<Rightarrow> int \<Rightarrow> nat \<Rightarrow> (stream_entry \<Rightarrow> ('c, bool) act) \<Rightarrow> ('c, unit) act" where
  "iter_data_messages 0 V session_id current_id block_ms count body = a_ret ()"
| "iter_data_messages (Suc n) V session_id current_id block_ms count body =
     a_bind (a_lift (read_data_messages V session_id current_id block_ms count)) (\<lambda>entries.
     a_bind (iter_entries body entries current_id) (\<lambda>next. case next of
       None \<Rightarrow> a_ret ()
     | Some current \<Rightarrow> iter_data_messages n V session_id current block_ms count body))"

text \<open>Each entry is committed when the caller asks for the one after it.\<close>

primrec consume_entries ::
  "schema \<Rightarrow> string \<Rightarrow> string \<Rightarrow> (stream_entry \<Rightarrow> ('c, bool) act) \<Rightarrow> stream_entry list \<Rightarrow> string \<Rightarrow> ('c, string option) act" where
  "consume_entries V session_id consumer_name body [] current_id = a_ret (Some current_id)"
| "consume_entries V session_id consumer_name body (e # es) current_id =
     a_bind (body e) (\<lambda>go_on.
     if go_on then a_seq (a_lift (commit_data_message V session_id (se_stream_id e) consumer_name))
       (consume_entries V session_id consumer_name body es (se_stream_id e))
     else a_ret None)"

primrec consume_rounds ::
  "nat \<Rightarrow> schema \<Rightarrow> string \<Rightarrow> string \<Rightarrow> int \<Rightarrow> nat \<Rightarrow> (stream_entry \<Rightarrow> ('c, bool) act) \<Rightarrow> string \<Rightarrow> ('c, unit) act" where
  "consume_rounds 0 V session_id consumer_name block_ms count body current_id = a_ret ()"
| "consume_rounds (Suc n) V session_id consumer_name block_ms count body current_id =
     a_bind (a_lift (read_data_messages V session_id current_id block_ms count)) (\<lambda>entries.
     a_bind (consume_entries V session_id consumer_name body entries current_id) (\<lambda>next. case next of
       None \<Rightarrow> a_ret ()
     | Some current \<Rightarrow> consume_rounds n V session_id consumer_name block_ms count body current))"

definition consume_data_messages ::
  "nat \<Rightarrow> schema \<Rightarrow> string \<Rightarrow> string \<Rightarrow> int \<Rightarrow> nat \<Rightarrow> (stream_entry \<Rightarrow> ('c, bool) act) \<Rightarrow> ('c, unit) act" where
  "consume_data_messages n V session_id consumer_name block_ms count body =
     a_bind (a_lift (get_data_message_checkpoint V session_id consumer_name))
       (consume_rounds n V session_id consumer_name block_ms count body)"

section \<open>What a consumer is promised\<close>

text \<open>The entries behind an id, which is \<open>0-0\<close> or the id of one of them.\<close>

definition after :: "string \<Rightarrow> (string \<times> 'a) list \<Rightarrow> (string \<times> 'a) list" where
  "after i l = (if i = ''0-0'' then l else tl (dropWhile (\<lambda>p. fst p \<noteq> i) l))"

definition keeps_key :: "string \<Rightarrow> cmd \<Rightarrow> bool" where
  "keeps_key k c = (\<forall>K. kv (apply_cmd c K) k = kv K k)"

lemma keeps_key_simps [simp]: "keeps_key k Now" "keeps_key k (Get x)" "keeps_key k (XRead x i n)"
  by (simp_all add: keeps_key_def)

text \<open>
  What a consumer relies on of the server: the stream of the session only grows, whoever writes to it
  and whenever; its ids are unique; a read gives the entries behind an id it knows; the
  checkpoint is what was last written to it.
\<close>

locale stream_server =
  fixes exec :: "cmd \<Rightarrow> 's \<Rightarrow> reply \<times> 's" and V :: schema and session_id consumer_name :: string
    and entries :: "'s \<Rightarrow> (string \<times> rtext option) list" and mark :: "'s \<Rightarrow> rtext option"
  assumes grows: "\<exists>new. entries (snd (exec c s)) = entries s @ new"
    and ids: "distinct (''0-0'' # map fst (entries s))"
    and reads: "i \<in> set (''0-0'' # map fst (entries s)) \<Longrightarrow> fst (exec (XRead (session_data_stream V session_id) i n) s) =
      REntries (take n (after i (entries (snd (exec (XRead (session_data_stream V session_id) i n) s)))))"
    and marked: "fst (exec (Get (session_data_checkpoint V session_id consumer_name)) s) = RText (mark s)"
    and commits: "mark (snd (exec (Set (session_data_checkpoint V session_id consumer_name) v ttl False) s)) = Some v"
      "fst (exec (Set (session_data_checkpoint V session_id consumer_name) v ttl False) s) \<noteq> RFail e"
    and others: "keeps_key (session_data_checkpoint V session_id consumer_name) c \<Longrightarrow> mark (snd (exec c s)) = mark s"

lemma dropWhile_nth:
  "distinct (map fst l) \<Longrightarrow> k < length l \<Longrightarrow> dropWhile (\<lambda>p. fst p \<noteq> fst (l ! k)) l = drop k l"
proof (induction l arbitrary: k)
  case (Cons a l)
  then show ?case by (cases k) (auto simp: nth_mem image_iff)
qed simp

text \<open>The ids completed so far are the first ones of the stream; reading goes on behind them.\<close>

definition place :: "string list \<Rightarrow> string" where
  "place d = (if d = [] then ''0-0'' else last d)"

definition prefix_of :: "string list \<Rightarrow> (string \<times> 'a) list \<Rightarrow> bool" where
  "prefix_of d l = (take (length d) (map fst l) = d)"

lemma prefix_length: "prefix_of d l \<Longrightarrow> length d \<le> length l"
  unfolding prefix_of_def by (metis length_map length_take min.cobounded1)

lemma prefix_grows: "prefix_of d l \<Longrightarrow> prefix_of d (l @ new)"
  using prefix_length [of d l] by (simp add: prefix_of_def)

lemma prefix_next: "prefix_of (d @ i # r) l \<Longrightarrow> prefix_of (d @ [i]) l"
  unfolding prefix_of_def by (drule arg_cong [where f = "take (length d + 1)"]) (simp add: min_def)

lemma prefix_take:
  assumes "prefix_of d l" shows "prefix_of (d @ map fst (take n (drop (length d) l))) l"
proof -
  define r where "r = drop (length d) (map fst l)"
  have l: "map fst l = d @ r"
    using assms append_take_drop_id [of "length d" "map fst l"] by (simp add: r_def prefix_of_def)
  have r: "map fst (take n (drop (length d) l)) = take n r" by (simp add: r_def take_map drop_map)
  have "take (length (d @ take n r)) (d @ r) = d @ take n r" by (cases "n \<le> length r") (simp_all add: min_def)
  then show ?thesis unfolding prefix_of_def l r .
qed

lemma prefix_last:
  assumes "prefix_of d l" and "d \<noteq> []"
  shows "last d = fst (l ! (length d - 1))" and "length d - 1 < length l"
proof -
  show k: "length d - 1 < length l" using prefix_length [OF assms(1)] assms(2) by (cases d) auto
  have "last d = take (length d) (map fst l) ! (length d - 1)"
    using assms by (simp add: prefix_of_def last_conv_nth)
  also have "\<dots> = fst (l ! (length d - 1))" using k assms(2) by (cases d) simp_all
  finally show "last d = fst (l ! (length d - 1))" .
qed

lemma after_place:
  assumes "distinct (''0-0'' # map fst l)" and "prefix_of d l"
  shows "after (place d) l = drop (length d) l" and "place d \<in> set (''0-0'' # map fst l)"
proof -
  have m: "last d \<in> set (map fst l)" if "d \<noteq> []"
    using prefix_last [OF assms(2) that] by auto
  then show "place d \<in> set (''0-0'' # map fst l)" by (auto simp: place_def)
  show "after (place d) l = drop (length d) l"
  proof (cases "d = []")
    case True
    then show ?thesis by (simp add: place_def after_def)
  next
    case False
    have "dropWhile (\<lambda>p. fst p \<noteq> last d) l = drop (length d - 1) l"
      unfolding prefix_last(1) [OF assms(2) False] using assms(1) by (intro dropWhile_nth prefix_last(2) [OF assms(2) False]) simp
    moreover have "last d \<noteq> ''0-0''" using assms(1) m [OF False] by (metis distinct.simps(2))
    ultimately show ?thesis
      using False by (cases d) (simp_all add: place_def after_def drop_Suc tl_drop)
  qed
qed

text \<open>The caller's loop with a record of what it was handed and what it completed.\<close>

type_synonym 'c traced = "string list \<times> string list \<times> 'c"

definition traced :: "(stream_entry \<Rightarrow> ('c, bool) act) \<Rightarrow> stream_entry \<Rightarrow> ('c traced, bool) act" where
  "traced body e = a_seq (a_set (\<lambda>(h, d, c). (h @ [se_stream_id e], d, c)))
    (a_bind (a_zoom (\<lambda>(h, d, c). c) (\<lambda>c (h, d, _). (h, d, c)) (body e)) (\<lambda>go_on.
     a_seq (a_when go_on (a_set (\<lambda>(h, d, c). (h, d @ [se_stream_id e], c)))) (a_ret go_on)))"

text \<open>Run after run of a consumer, each until its body stops it, raises, or the process goes away.\<close>

definition consumption ::
  "schema \<Rightarrow> string \<Rightarrow> string \<Rightarrow> (nat \<times> int \<times> nat \<times> (stream_entry \<Rightarrow> ('c, bool) act)) list \<Rightarrow> ('c traced, unit list) act" where
  "consumption V session_id consumer_name = a_for (\<lambda>(n, block_ms, count, body).
     a_catch (consume_data_messages n V session_id consumer_name block_ms count (traced body)) (\<lambda>_. a_ret ()))"

text \<open>A body that leaves the checkpoint alone and ends.\<close>

definition sound_body :: "string \<Rightarrow> (stream_entry \<Rightarrow> ('c, bool) act) \<Rightarrow> bool" where
  "sound_body k body = (\<forall>e c. only (keeps_key k) (body e c) \<and> outs (\<lambda>r. \<forall>x. r \<noteq> Inl x) (body e c))"

lemma outs_decode:
  "outs (\<lambda>r. case r of Inl e \<Rightarrow> e \<noteq> Diverges | Inr xs \<Rightarrow> map se_stream_id xs = map fst es) (decode_entries es)"
proof (induction es)
  case (Cons e es)
  show ?case
    by (cases e) (auto simp: decode_data_stream_entry_def outs_bindp data_message_of_def lift_res_def now_ms_def call_def
        intro!: outs_mono [OF Cons.IH] split: option.splits json.splits sum.splits reply.splits)
qed simp

lemma only_decode [simp]: "only (keeps_key k) (decode_entries es)"
proof (induction es)
  case (Cons e es)
  then show ?case
    by (cases e) (auto simp: decode_data_stream_entry_def intro!: only_bindp split: option.splits json.splits)
qed simp

context stream_server
begin

definition later :: "'s \<Rightarrow> 's \<Rightarrow> bool" where
  "later s t = (mark t = mark s \<and> (\<exists>new. entries t = entries s @ new))"

lemma later_refl [simp]: "later s s"
  by (simp add: later_def)

lemma later_trans: "later s t \<Longrightarrow> later t u \<Longrightarrow> later s u"
  by (auto simp: later_def)

lemma later_exec: "keeps_key (session_data_checkpoint V session_id consumer_name) c \<Longrightarrow> later s (snd (exec c s))"
  using grows others by (auto simp: later_def)

lemma later_run:
  "only (keeps_key (session_data_checkpoint V session_id consumer_name)) p \<Longrightarrow> later s (snd (run exec p s))"
  by (rule only_run [where R = later, OF _ later_exec]) (auto intro: later_trans)

definition synced :: "string list \<Rightarrow> 's \<Rightarrow> bool" where
  "synced d s = (prefix_of d (entries s) \<and> mark s = (if d = [] then None else Some (Txt (last d))))"

lemma synced_later: "synced d s \<Longrightarrow> later s t \<Longrightarrow> synced d t"
  by (auto simp: synced_def later_def prefix_grows)

text \<open>What one run adds.\<close>

definition advanced :: "'c traced \<Rightarrow> 'c traced \<Rightarrow> 's \<Rightarrow> bool" where
  "advanced x y t = (case (x, y) of ((h, d, _), (h', d', _)) \<Rightarrow> synced d' t \<and>
     (\<exists>new. d' = d @ new \<and> (h' = h @ new \<or> (\<exists>i. prefix_of (d' @ [i]) (entries t) \<and> h' = h @ new @ [i]))))"

lemma advanced_refl: "synced d t \<Longrightarrow> advanced (h, d, c) (h, d, c') t"
  by (simp add: advanced_def)

lemma advanced_step:
  assumes "advanced (h @ n, d @ n, c') y t" shows "advanced (h, d, c) y t"
proof -
  obtain h1 d1 c1 new where y: "y = (h1, d1, c1)" "synced d1 t" "d1 = d @ n @ new"
    and "h1 = h @ n @ new \<or> (\<exists>i. prefix_of (d1 @ [i]) (entries t) \<and> h1 = h @ n @ new @ [i])"
    using assms by (auto simp: advanced_def split: prod.splits)
  then show ?thesis unfolding advanced_def y(1) prod.case
    by (intro conjI y(2) exI [of _ "n @ new"]) auto
qed

text \<open>The body of the loop, from any object.\<close>

lemma body_arun:
  assumes "sound_body (session_data_checkpoint V session_id consumer_name) body"
    and "\<And>r c' t. later s t \<Longrightarrow> Q r c' t"
  shows "arun exec (body e) Q c s"
proof -
  obtain o' t where r: "run exec (body e c) s = (o', t)" by force
  have "later s t"
    using later_run [of "body e c" s] assms(1) r by (simp add: sound_body_def)
  moreover have "\<forall>x. o' \<noteq> Inl x"
    using outs_run [where p = "body e c" and X = exec and s = s] assms(1) r unfolding sound_body_def by force
  ultimately show ?thesis
    using assms(2) r by (auto simp: arun_def split: sum.splits)
qed

lemma traced_arun:
  assumes "sound_body (session_data_checkpoint V session_id consumer_name) body"
    and "\<And>x c' t. later s t \<Longrightarrow> Q (Inl x) (h @ [se_stream_id e], d, c') t"
    and "\<And>c' t. later s t \<Longrightarrow> Q (Inr False) (h @ [se_stream_id e], d, c') t"
    and "\<And>c' t. later s t \<Longrightarrow> Q (Inr True) (h @ [se_stream_id e], d @ [se_stream_id e], c') t"
  shows "arun exec (traced body e) Q (h, d, c) s"
  unfolding traced_def arun_simps prod.case sum.case
proof (rule body_arun [OF assms(1)])
  fix r c' t assume "later s t"
  then show "case r of Inl x \<Rightarrow> Q (Inl x) (h @ [se_stream_id e], d, c') t
     | Inr go_on \<Rightarrow> arun exec (a_when go_on (a_set (\<lambda>(h, d, c). (h, d @ [se_stream_id e], c))))
         (\<lambda>r c' t. case r of Inl x \<Rightarrow> Q (Inl x) c' t | Inr _ \<Rightarrow> Q (Inr go_on) c' t) (h @ [se_stream_id e], d, c') t"
    using assms(2-4) by (auto simp: a_when_def arun_simps split: sum.splits)
qed

lemma commit_arun:
  "arun exec (a_lift (commit_data_message V session_id i consumer_name)) Q c s =
     Q (Inr ()) c (snd (exec (Set (session_data_checkpoint V session_id consumer_name) (Txt i) (Some DEFAULT_SESSION_TTL) False) s))"
  using commits(2) [of "Txt i" "Some DEFAULT_SESSION_TTL" s]
  by (auto simp: arun_simps commit_data_message_def exec_cmd_def call_def split: reply.splits)

lemma synced_commit:
  assumes "synced d s" and "prefix_of (d @ [i]) (entries s)"
  shows "synced (d @ [i]) (snd (exec (Set (session_data_checkpoint V session_id consumer_name) (Txt i) ttl False) s))"
  using grows [of "Set (session_data_checkpoint V session_id consumer_name) (Txt i) ttl False" s] assms(2)
  by (auto simp: synced_def commits prefix_grows)

text \<open>The entries of one read.\<close>

lemma consume_entries_arun:
  assumes "sound_body (session_data_checkpoint V session_id consumer_name) body"
    and "synced d s" and "prefix_of (d @ map se_stream_id es) (entries s)"
  shows "arun exec (consume_entries V session_id consumer_name (traced body) es (place d))
     (\<lambda>r y t. advanced (h, d, c) y t \<and> (\<forall>i. r = Inr (Some i) \<longrightarrow>
        i = place (fst (snd y)) \<and> fst y = h @ map se_stream_id es \<and> fst (snd y) = d @ map se_stream_id es)) (h, d, c) s"
  using assms(2,3)
proof (induction es arbitrary: d h c s)
  case Nil
  then show ?case by (simp add: arun_simps advanced_refl)
next
  case (Cons e es)
  let ?i = "se_stream_id e"
  have kept: "synced d t" "prefix_of (d @ ?i # map se_stream_id es) (entries t)" if "later s t" for t
    using Cons.prems synced_later [OF _ that] that by (auto simp: later_def prefix_grows)
  have stopped: "advanced (h, d, c) (h @ [?i], d, c') t" if "later s t" for c' t
    using kept [OF that] prefix_next by (auto simp: advanced_def)
  have next': "arun exec (consume_entries V session_id consumer_name (traced body) es ?i)
     (\<lambda>r y t. advanced (h, d, c) y t \<and> (\<forall>i. r = Inr (Some i) \<longrightarrow> i = place (fst (snd y)) \<and>
        fst y = h @ ?i # map se_stream_id es \<and> fst (snd y) = d @ ?i # map se_stream_id es)) (h @ [?i], d @ [?i], c') u"
    if "later s t" and "u = snd (exec (Set (session_data_checkpoint V session_id consumer_name) (Txt ?i) ttl False) t)" for c' t u ttl
  proof -
    have sync: "synced (d @ [?i]) u" and pre: "prefix_of ((d @ [?i]) @ map se_stream_id es) (entries u)"
      using synced_commit [OF kept(1) [OF that(1)] prefix_next [OF kept(2) [OF that(1)]]] kept(2) [OF that(1)] that(2)
        grows [of "Set (session_data_checkpoint V session_id consumer_name) (Txt ?i) ttl False" t]
      by (auto intro: prefix_grows)
    show ?thesis
      using Cons.IH [OF sync pre, of "h @ [?i]" c'] by (auto elim!: arun_mono intro: advanced_step simp: place_def)
  qed
  show ?case
    unfolding consume_entries.simps arun_bind
    by (rule traced_arun [OF assms(1)]) (simp_all add: stopped arun_seq commit_arun arun_basic next')
qed

lemma read_arun:
  assumes "synced d s" and "block_ms \<noteq> 0"
    and "\<And>e t. synced d t \<Longrightarrow> Q (Inl e) c t"
    and "\<And>es t. synced d t \<Longrightarrow> prefix_of (d @ map se_stream_id es) (entries t) \<Longrightarrow> Q (Inr es) c t"
  shows "arun exec (a_lift (read_data_messages V session_id (place d) block_ms count)) Q c s"
proof -
  let ?x = "XRead (session_data_stream V session_id) (place d) count"
  let ?t = "snd (exec ?x s)"
  have t: "synced d ?t" using assms(1) later_exec synced_later by simp
  have "place d \<in> set (''0-0'' # map fst (entries s))"
    using after_place(2) [OF ids [of s], of d] assms(1) by (simp add: synced_def)
  then have x: "fst (exec ?x s) = REntries (take count (drop (length d) (entries ?t)))"
    using reads [of "place d" s count] after_place(1) [OF ids [of ?t], of d] t by (simp add: synced_def)
  obtain o' u where u: "run exec (decode_entries (take count (drop (length d) (entries ?t)))) ?t = (o', u)" by force
  have "run exec (read_data_messages V session_id (place d) block_ms count) s = (o', u)"
    using u x assms(2) by (simp add: read_data_messages_def xread_def run_bindp call_def)
  moreover have l: "later ?t u"
    using later_run [OF only_decode, of ?t] u by (metis snd_conv)
  moreover have "case o' of Inl e \<Rightarrow> e \<noteq> Diverges | Inr xs \<Rightarrow> map se_stream_id xs = map fst (take count (drop (length d) (entries ?t)))"
    using outs_run [OF outs_decode, where X = exec and s = ?t] u by (metis fst_conv)
  moreover have "prefix_of (d @ map fst (take count (drop (length d) (entries ?t)))) (entries u)"
  proof -
    have "prefix_of (d @ map fst (take count (drop (length d) (entries ?t)))) (entries ?t)"
      by (rule prefix_take) (use t in \<open>simp add: synced_def\<close>)
    then show ?thesis using l by (auto simp: later_def prefix_grows)
  qed
  ultimately show ?thesis
    using assms(3,4) synced_later [OF t l] by (auto simp: arun_simps split: sum.splits)
qed

lemma rounds_arun:
  assumes "sound_body (session_data_checkpoint V session_id consumer_name) body" and "block_ms \<noteq> 0" and "synced d s"
  shows "arun exec (consume_rounds n V session_id consumer_name block_ms count (traced body) (place d))
     (\<lambda>r y t. advanced (h, d, c) y t) (h, d, c) s"
  using assms(3)
proof (induction n arbitrary: h d c s)
  case 0
  then show ?case by (simp add: arun_simps advanced_refl)
next
  case (Suc n)
  show ?case
    unfolding consume_rounds.simps arun_bind
  proof (rule read_arun [OF Suc.prems assms(2)], simp_all add: advanced_refl)
    fix es :: "stream_entry list" and t assume "synced d t" and "prefix_of (d @ map se_stream_id es) (entries t)"
    note step = consume_entries_arun [OF assms(1) this, of h c]
    show "arun exec (consume_entries V session_id consumer_name (traced body) es (place d))
      (\<lambda>r c' t. case r of Inl e \<Rightarrow> advanced (h, d, c) c' t
        | Inr a \<Rightarrow> arun exec (case a of None \<Rightarrow> a_ret ()
            | Some x \<Rightarrow> consume_rounds n V session_id consumer_name block_ms count (traced body) x)
            (\<lambda>r. advanced (h, d, c)) c' t) (h, d, c) t"
    proof (rule arun_mono [OF step])
      fix r y u
      assume y: "advanced (h, d, c) y u \<and> (\<forall>i. r = Inr (Some i) \<longrightarrow> i = place (fst (snd y)) \<and>
        fst y = h @ map se_stream_id es \<and> fst (snd y) = d @ map se_stream_id es)"
      show "case r of Inl e \<Rightarrow> advanced (h, d, c) y u
        | Inr a \<Rightarrow> arun exec (case a of None \<Rightarrow> a_ret ()
            | Some x \<Rightarrow> consume_rounds n V session_id consumer_name block_ms count (traced body) x)
            (\<lambda>r. advanced (h, d, c)) y u"
      proof (cases "\<exists>i. r = Inr (Some i)")
        case True
        then obtain c1 where c1: "y = (h @ map se_stream_id es, d @ map se_stream_id es, c1)"
          and r: "r = Inr (Some (place (d @ map se_stream_id es)))"
          using y by (cases y) auto
        have "synced (d @ map se_stream_id es) u" using y c1 by (simp add: advanced_def)
        from Suc.IH [OF this, of "h @ map se_stream_id es" c1] show ?thesis
          unfolding c1 r by (auto elim!: arun_mono intro: advanced_step)
      next
        case False
        then show ?thesis using y by (auto simp: arun_simps split: sum.splits option.splits)
      qed
    qed
  qed
qed

lemma consume_arun:
  assumes "sound_body (session_data_checkpoint V session_id consumer_name) body" and "block_ms \<noteq> 0" and "synced d s"
  shows "arun exec (consume_data_messages n V session_id consumer_name block_ms count (traced body))
     (\<lambda>r y t. advanced (h, d, c) y t) (h, d, c) s"
proof -
  let ?t = "snd (exec (Get (session_data_checkpoint V session_id consumer_name)) s)"
  have t: "synced d ?t" using assms(3) later_exec synced_later by simp
  have "run exec (get_data_message_checkpoint V session_id consumer_name) s = (Inr (place d), ?t)"
    using assms(3) by (simp add: get_data_message_checkpoint_def get_def call_def marked synced_def place_def)
  then show ?thesis
    using rounds_arun [OF assms(1,2) t] by (simp add: consume_data_messages_def arun_bind arun_lift)
qed

definition consumed_so_far :: "nat \<Rightarrow> 'c traced \<Rightarrow> 's \<Rightarrow> bool" where
  "consumed_so_far k y t = (case y of (h, d, c) \<Rightarrow> synced d t \<and> set d \<subseteq> set h \<and> length h \<le> length d + k \<and>
     (\<forall>i \<in> set h - set d. prefix_of (d @ [i]) (entries t)))"

lemma entries_grow: "\<exists>new. entries (snd (run exec p s)) = entries s @ new"
proof (induction p arbitrary: s)
  case (Do c k)
  obtain new new' where "entries (snd (exec c s)) = entries s @ new"
    and "entries (snd (run exec (k (fst (exec c s))) (snd (exec c s)))) = entries (snd (exec c s)) @ new'"
    using grows [of c s] Do [OF rangeI, of "fst (exec c s)" "snd (exec c s)"] by blast
  then show ?case by simp
qed simp_all

lemma arun_grow:
  "arun exec m Q x s \<Longrightarrow> arun exec m (\<lambda>r y t. Q r y t \<and> (\<exists>new. entries t = entries s @ new)) x s"
  using entries_grow [of "m x" s] by (auto simp: arun_def split: prod.splits sum.splits)

lemma consumed_advanced:
  assumes "consumed_so_far k (h, d, c) s" and "advanced (h, d, c) y t" and "entries t = entries s @ l"
  shows "consumed_so_far (Suc k) y t"
proof -
  obtain h1 d1 c1 new where y: "y = (h1, d1, c1)" "synced d1 t" "d1 = d @ new"
    and h1: "h1 = h @ new \<or> (\<exists>i. prefix_of (d1 @ [i]) (entries t) \<and> h1 = h @ new @ [i])"
    using assms(2) by (auto simp: advanced_def split: prod.splits)
  have "\<forall>i \<in> set h - set d1. prefix_of (d1 @ [i]) (entries t)"
  proof
    fix i assume i: "i \<in> set h - set d1"
    have "prefix_of (d @ [i]) (entries s)" using assms(1) i y(3) by (auto simp: consumed_so_far_def)
    then have p: "prefix_of (d @ [i]) (entries t)" unfolding assms(3) by (rule prefix_grows)
    have "new = []"
    proof (rule ccontr)
      assume "new \<noteq> []"
      then obtain a r where n: "new = a # r" by (cases new) auto
      have "prefix_of (d @ [a]) (entries t)" using y(2) prefix_next by (auto simp: synced_def y(3) n)
      with p have "a = i" by (simp add: prefix_of_def)
      then show False using i y(3) n by simp
    qed
    then show "prefix_of (d1 @ [i]) (entries t)" using p y(3) by simp
  qed
  then have "\<forall>i \<in> set h1 - set d1. prefix_of (d1 @ [i]) (entries t)"
    using h1 y(3) by auto
  then show ?thesis using assms(1) y h1 by (auto simp: consumed_so_far_def)
qed

lemma consumption_arun:
  fixes x :: "'c traced"
  assumes "\<forall>(n, block_ms, count, body) \<in> set rs. block_ms \<noteq> 0 \<and>
      sound_body (session_data_checkpoint V session_id consumer_name) body"
    and "consumed_so_far k x s"
  shows "arun exec (consumption V session_id consumer_name rs) (\<lambda>r y t. (\<exists>us. r = Inr us) \<and> consumed_so_far (k + length rs) y t) x s"
  using assms unfolding consumption_def
proof (induction rs arbitrary: k x s)
  case (Cons a rs)
  obtain n block_ms count body where a: "a = (n, block_ms, count, body)" by (cases a)
  obtain h d c where x: "x = (h, d, c)" by (cases x)
  have first: "arun exec (consume_data_messages n V session_id consumer_name block_ms count (traced body))
      (\<lambda>r y t. consumed_so_far (Suc k) y t) x s"
    unfolding x
    by (rule arun_mono [OF arun_grow [OF consume_arun [of body block_ms d s n count h c]]])
      (use Cons.prems in \<open>auto simp: a x intro: consumed_advanced\<close>, auto simp: consumed_so_far_def)
  have step: "arun exec (a_for (\<lambda>(n, block_ms, count, body).
         a_catch (consume_data_messages n V session_id consumer_name block_ms count (traced body)) (\<lambda>_. a_ret ())) rs)
       (\<lambda>r y t. (\<exists>us. r = Inr us) \<and> consumed_so_far (Suc k + length rs) y t) y t"
    if "consumed_so_far (Suc k) y t" for y t
    using Cons.IH [of "Suc k"] Cons.prems(1) that by simp
  show ?case
    unfolding a a_for.simps arun_bind arun_catch prod.case
    by (rule arun_mono [OF first], rename_tac r y t, case_tac r)
      (auto simp: arun_basic split: sum.splits intro: arun_mono [OF step])
qed (simp add: arun_simps)

lemma all_runs:
  assumes "mark s = None"
    and "\<forall>(n, block_ms, count, body) \<in> set rs. block_ms \<noteq> 0 \<and>
      sound_body (session_data_checkpoint V session_id consumer_name) body"
  shows "case run exec (consumption V session_id consumer_name rs ([], [], c)) s of
     (Inr (r, handed, completed, c'), t) \<Rightarrow> (\<exists>us. r = Inr us) \<and> prefix_of completed (entries t) \<and>
        mark t = (if completed = [] then None else Some (Txt (last completed))) \<and>
        set completed \<subseteq> set handed \<and> length handed \<le> length completed + length rs \<and>
        (\<forall>i \<in> set handed - set completed. prefix_of (completed @ [i]) (entries t))
   | (Inl e, t) \<Rightarrow> False"
proof -
  have "consumed_so_far 0 ([], [], c) s"
    using assms(1) by (simp add: consumed_so_far_def synced_def prefix_of_def)
  from consumption_arun [OF assms(2) this] show ?thesis
    by (auto simp: arun_def consumed_so_far_def synced_def split: prod.splits sum.splits)
qed

end

section \<open>A server for it\<close>

text \<open>
  A stream of data and one text key.  Whenever the stream is read, what the plan says arrives
  before the read and while it waits; ids are the positions.
\<close>

record session_log =
  lg_data :: "rtext list"
  lg_mark :: "rtext option"
  lg_plan :: "(rtext list \<times> rtext list) list"

definition numbered :: "rtext list \<Rightarrow> (string \<times> rtext option) list" where
  "numbered l = map (\<lambda>k. (show_nat (Suc k) @ ''-0'', Some (l ! k))) [0..<length l]"

fun log_exec :: "string \<Rightarrow> cmd \<Rightarrow> session_log \<Rightarrow> reply \<times> session_log" where
  "log_exec ckpt (XRead k i n) s = (case lg_plan s of
      [] \<Rightarrow> (REntries (take n (if i = ''$'' then [] else after i (numbered (lg_data s)))), s)
    | (before, during) # plan \<Rightarrow>
       (let before' = lg_data s @ before; l = before' @ during in
        (REntries (take n (if i = ''$'' then drop (length before') (numbered l) else after i (numbered l))),
         s\<lparr>lg_data := l, lg_plan := plan\<rparr>)))"
| "log_exec ckpt (Get k) s = (RText (if k = ckpt then lg_mark s else None), s)"
| "log_exec ckpt (Set k v ttl nx) s = (RBool True, if k = ckpt then s\<lparr>lg_mark := Some v\<rparr> else s)"
| "log_exec ckpt c s = (ROk, s)"

lemma numbered_append: "\<exists>new. numbered (l @ m) = numbered l @ new"
proof -
  have "[0..<length (l @ m)] = [0..<length l] @ [length l..<length (l @ m)]"
    using upt_add_eq_append [of 0 "length l" "length m"] by simp
  then have "numbered (l @ m) = map (\<lambda>k. (show_nat (Suc k) @ ''-0'', Some ((l @ m) ! k))) [0..<length l] @
      map (\<lambda>k. (show_nat (Suc k) @ ''-0'', Some ((l @ m) ! k))) [length l..<length (l @ m)]"
    by (simp only: numbered_def map_append)
  moreover have "map (\<lambda>k. (show_nat (Suc k) @ ''-0'', Some ((l @ m) ! k))) [0..<length l] = numbered l"
    unfolding numbered_def by (rule map_cong) (auto simp: nth_append)
  ultimately show ?thesis by (simp only:) (rule exI, rule refl)
qed

lemma show_nat_0: "show_nat 0 = ''0''"
  by code_simp

lemma numbered_ids: "distinct (''0-0'' # map fst (numbered l))"
proof -
  have "''0-0'' \<notin> set (map fst (numbered l))"
  proof
    assume "''0-0'' \<in> set (map fst (numbered l))"
    then obtain k where "show_nat (Suc k) @ ''-0'' = ''0-0''"
      by (auto simp: numbered_def)
    then have "show_nat (Suc k) = show_nat 0" by (simp add: show_nat_0)
    then show False by (auto dest: show_nat_inj)
  qed
  moreover have "distinct (map fst (numbered l))"
    by (auto simp: numbered_def distinct_map comp_def intro!: inj_onI dest: show_nat_inj)
  ultimately show ?thesis by simp
qed

lemma numbered_no_tail: "(''$'', x) \<notin> set (numbered l)"
proof
  assume "(''$'', x) \<in> set (numbered l)"
  then obtain k where "''$'' = show_nat (Suc k) @ ''-0''" by (auto simp: numbered_def)
  then show False by (cases "show_nat (Suc k)") auto
qed

lemma not_keeps_key_Set: "\<not> keeps_key k (Set k v ttl nx)"
proof
  assume "keeps_key k (Set k v ttl nx)"
  then show False
    unfolding keeps_key_def by (drule_tac x = "undefined\<lparr>kv := \<lambda>_. None\<rparr>" in spec) simp
qed

interpretation log_server: stream_server "log_exec (session_data_checkpoint V sid name)" V sid name
    "\<lambda>s. numbered (lg_data s)" lg_mark for V sid name
proof
  fix c s
  show "\<exists>new. numbered (lg_data (snd (log_exec (session_data_checkpoint V sid name) c s))) = numbered (lg_data s) @ new"
    using numbered_append by (cases c) (auto split: list.splits simp: Let_def)
next
  fix c s assume "keeps_key (session_data_checkpoint V sid name) c"
  then show "lg_mark (snd (log_exec (session_data_checkpoint V sid name) c s)) = lg_mark s"
    using not_keeps_key_Set by (cases c) (auto simp: Let_def split: list.splits)
qed (use numbered_ids numbered_no_tail in \<open>auto simp: Let_def split: list.splits\<close>)


text \<open>
  The iterator's default start \<open>$\<close> is sent again with every read until a message has been read: on a
  server where messages arrive only between the reads, it hands out none of them, however
  many arrive and however long it runs.
\<close>

lemma iterator_misses_arrivals:
  assumes "\<forall>p \<in> set (lg_plan s). snd p = []" and "n \<le> length (lg_plan s)" and "block_ms \<noteq> 0"
  shows "run (log_exec ckpt) (iter_data_messages n V session_id ''$'' block_ms count body c) s =
     (Inr (Inr (), c), s\<lparr>lg_data := lg_data s @ concat (map fst (take n (lg_plan s))), lg_plan := drop n (lg_plan s)\<rparr>)"
  using assms(1,2)
proof (induction n arbitrary: s)
  case 0
  then show ?case by (simp add: a_ret_def)
next
  case (Suc n)
  then obtain b plan where p: "lg_plan s = (b, []) # plan" by (cases "lg_plan s") auto
  let ?t = "s\<lparr>lg_data := lg_data s @ b, lg_plan := plan\<rparr>"
  have "run (log_exec ckpt) (read_data_messages V session_id ''$'' block_ms count) s = (Inr [], ?t)"
    using p assms(3) by (simp add: read_data_messages_def xread_def run_bindp call_def Let_def numbered_def)
  moreover have "run (log_exec ckpt) (iter_data_messages n V session_id ''$'' block_ms count body c) ?t =
      (Inr (Inr (), c), s\<lparr>lg_data := lg_data s @ concat (map fst (take (Suc n) (lg_plan s))), lg_plan := drop (Suc n) (lg_plan s)\<rparr>)"
    using Suc.IH [of ?t] Suc.prems p by simp
  ultimately show ?case
    by (simp add: run_a_bind a_lift_def attempt_def run_bindp run_catch a_ret_def)
qed

definition demo_body :: "stream_entry \<Rightarrow> (unit, bool) act" where
  "demo_body e = (if se_stream_id e = ''2-0'' then a_raise (RuntimeError []) else a_ret True)"

lemma demo_body_sound: "sound_body k demo_body"
  by (simp add: sound_body_def demo_body_def a_ret_def a_raise_def)

definition demo_log :: session_log where
  "demo_log = \<lparr>lg_data = [Doc JNull], lg_mark = None, lg_plan = [([], []), ([Doc JNull], []), ([], [Doc JNull])]\<rparr>"


end
