(* ===== verification/Client_Send.thy ===== *)
theory Client_Send
  imports Client_Cancel Agent_Dispatch Trace_Writer
begin

text \<open>
  The sending half of \<open>GatewayClient\<close> (\<open>client/client.py\<close>): \<open>send_message\<close> with its interceptors,
  its two ways of routing and its refusals, and the reload of plugins on all workers of a type.
  Interceptors, the observation of a tracing plugin and the hash behind the span ids are
  parameters.  A content is JSON.  The counters of the metrics are not modelled.
\<close>

section \<open>Parameters and responses\<close>

record send_params =
  pm_target_agent_type :: string
  pm_session_id :: string
  pm_user_code :: string
  pm_user_name :: string
  pm_content :: json
  pm_action_type :: string
  pm_parent_message_id :: string
  pm_extra_payload :: jdict
  pm_metadata :: jdict

text \<open>The other arguments; \<open>None\<close> and the empty string are \<open>[]\<close>.\<close>

record send_args =
  sa_message_id :: string
  sa_trace_id :: string
  sa_target_worker_id :: string
  sa_route_policy :: string
  sa_availability_timeout_ms :: int
  sa_region :: string
  sa_priority :: int

record send_response =
  sd_success :: bool
  sd_status :: string
  sd_message_id :: string
  sd_trace_id :: string
  sd_target_worker_id :: string
  sd_timestamp :: int
  sd_error :: string
  sd_error_code :: string

text \<open>\<open>ct_observe\<close>: the id of the observation a tracing plugin opens for a dispatch, if any.\<close>

record client =
  ct_schema :: schema
  ct_has_registry :: bool
  ct_interceptors :: "(send_params \<Rightarrow> exn + send_params) list"
  ct_span_recorder :: recorder
  ct_trace_writer :: trace_writer
  ct_redacts :: bool
  ct_max_length :: nat
  ct_hash64 :: "string \<Rightarrow> int"
  ct_observe :: "string \<Rightarrow> string \<Rightarrow> send_params \<Rightarrow> string"
  ct_rounds :: nat

primrec intercept :: "(send_params \<Rightarrow> exn + send_params) list \<Rightarrow> send_params \<Rightarrow> exn + send_params" where
  "intercept [] p = Inr p"
| "intercept (i # is) p = res_bind (i p) (intercept is)"

section \<open>Building the command\<close>

definition build_gateway_command :: "string \<Rightarrow> header \<Rightarrow> json \<Rightarrow> jdict \<Rightarrow> exn + command" where
  "build_gateway_command action_type h content extra =
     (if action_type = ''RESUME'' then new_resume
        \<lparr>res_header = h, res_content = content, res_status = py_text (dget extra ''status'' (JStr [])),
         res_reply_data = dget0 extra ''reply_data'',
         res_extra_payload = filter (\<lambda>(k, v). k \<notin> {''status'', ''reply_data''}) extra\<rparr>
      else new_ask
        \<lparr>ask_header = h, ask_content = content,
         ask_wait_for_reply = truthy (dget extra ''wait_for_reply'' (JBool False)),
         ask_extra_payload = filter (\<lambda>(k, v). k \<noteq> ''wait_for_reply'') extra\<rparr>)"

definition HANDED_DOWN_KEYS :: "string set" where
  "HANDED_DOWN_KEYS = {''trace_parent_span_id'', ''langfuse_parent_observation_id''}"

text \<open>The two parents are taken out of the metadata; the defaults are derived from the message id.\<close>

definition client_header :: "client \<Rightarrow> string \<Rightarrow> string \<Rightarrow> send_params \<Rightarrow> header" where
  "client_header c message_id trace_id p =
     (let md = filter (\<lambda>(k, v). k \<notin> HANDED_DOWN_KEYS) (pm_metadata p);
          span = str_or (py_text (dget (pm_metadata p) ''trace_parent_span_id'' (JStr [])))
            (hex16 (str_to_uint64 (ct_hash64 c) (message_id @ '':client.dispatch'')));
          observation = str_or (py_text (dget (pm_metadata p) ''langfuse_parent_observation_id'' (JStr [])))
            (str_or (ct_observe c trace_id message_id (p\<lparr>pm_metadata := md\<rparr>)) span)
      in \<lparr>mh_message_id = message_id, mh_session_id = pm_session_id p, mh_trace_id = trace_id, mh_source_agent_type = [],
          mh_target_agent_type = pm_target_agent_type p, mh_parent_message_id = pm_parent_message_id p,
          mh_task_group_id = [], mh_user_code = pm_user_code p, mh_user_name = pm_user_name p, mh_metadata = md,
          mh_trace_parent_span_id = span, mh_langfuse_parent_observation_id = observation\<rparr>)"

definition retarget :: "string \<Rightarrow> command \<Rightarrow> command" where
  "retarget target command = (case command of
     AskAgentCommand a \<Rightarrow> AskAgentCommand (a\<lparr>ask_header := (ask_header a)\<lparr>mh_target_agent_type := target\<rparr>\<rparr>)
   | ResumeCommand r \<Rightarrow> ResumeCommand (r\<lparr>res_header := (res_header r)\<lparr>mh_target_agent_type := target\<rparr>\<rparr>)
   | _ \<Rightarrow> command)"

section \<open>The trace of a root dispatch\<close>

definition client_trace_start :: "client \<Rightarrow> string \<Rightarrow> string \<Rightarrow> send_params \<Rightarrow> int \<Rightarrow> unit prog" where
  "client_trace_start c trace_id message_id p start_ts =
     try_exc (record_trace ((plain_trace trace_id)\<lparr>tc_name := pm_target_agent_type p, tc_session_id := pm_session_id p,
         tc_root_message_id := message_id, tc_root_agent_type := pm_target_agent_type p,
         tc_input := sanitize_io_value (ct_redacts c) (ct_max_length c) (pm_content p), tc_status := ''QUEUED'',
         tc_start_ts := start_ts\<rparr>) (ct_trace_writer c)) (\<lambda>_. Ret ())"

definition client_trace_end :: "client \<Rightarrow> string \<Rightarrow> string \<Rightarrow> int \<Rightarrow> string \<Rightarrow> unit prog" where
  "client_trace_end c trace_id status end_ts error =
     try_exc (record_trace ((plain_trace trace_id)\<lparr>tc_status := status, tc_end_ts := end_ts,
         tc_metadata := (if error \<noteq> [] then [(''error'', JStr error)] else [])\<rparr>) (ct_trace_writer c)) (\<lambda>_. Ret ())"

definition end_root :: "client \<Rightarrow> bool \<Rightarrow> string \<Rightarrow> string \<Rightarrow> unit prog" where
  "end_root c is_root trace_id error =
     (if is_root then bindp now_ms (\<lambda>end_ts. client_trace_end c trace_id ''FAILED'' end_ts error) else Ret ())"

definition refusal :: "string \<Rightarrow> string \<Rightarrow> string \<Rightarrow> int \<Rightarrow> send_response" where
  "refusal worker error code now =
     \<lparr>sd_success = False, sd_status = ''FAILED'', sd_message_id = [], sd_trace_id = [], sd_target_worker_id = worker,
      sd_timestamp = now, sd_error = error, sd_error_code = code\<rparr>"

text \<open>The two \<open>except\<close> branches of the routing; a missing key is a \<open>LookupError\<close> too.\<close>

definition refuse :: "client \<Rightarrow> send_args \<Rightarrow> bool \<Rightarrow> string \<Rightarrow> exn \<Rightarrow> send_response prog" where
  "refuse c a is_root trace_id err =
     (let answer = \<lambda>worker code. bindp (end_root c is_root trace_id (exn_text err)) (\<lambda>_.
            bindp now_ms (\<lambda>now. Ret (refusal worker (exn_text err) code now)))
      in case err of
        LookupError m \<Rightarrow> answer (sa_target_worker_id a) ''WORKER_NOT_ONLINE''
      | KeyError m \<Rightarrow> answer (sa_target_worker_id a) ''WORKER_NOT_ONLINE''
      | ValueError m \<Rightarrow> answer [] ''AGENT_TYPE_UNAVAILABLE''
      | _ \<Rightarrow> Raise err)"

section \<open>Routing\<close>

record route =
  rt_stream_name :: string
  rt_target_worker_id :: string
  rt_dispatch :: bool
  rt_target_agent_type :: string
  rt_status :: string
  rt_selected_agent_type :: string
  rt_error_code :: string
  rt_error :: string

definition resolve_direct_worker_route :: "client \<Rightarrow> string \<Rightarrow> bool \<Rightarrow> send_params \<Rightarrow> route prog" where
  "resolve_direct_worker_route c worker_id check_online p =
     bindp (if ct_has_registry c \<and> check_online then check_worker_online (ct_schema c) worker_id else Ret True) (\<lambda>online.
     if \<not> online then Raise (LookupError (''Target worker '' @ quoted worker_id @ '' is not online or not registered''))
     else Ret \<lparr>rt_stream_name = worker_ctrl_stream (ct_schema c) worker_id, rt_target_worker_id = worker_id,
       rt_dispatch = True, rt_target_agent_type = pm_target_agent_type p, rt_status = ''DIRECT_WORKER'',
       rt_selected_agent_type = [], rt_error_code = [], rt_error = []\<rparr>)"

definition client_intent :: "send_args \<Rightarrow> send_params \<Rightarrow> string \<Rightarrow> string \<Rightarrow> string \<Rightarrow> command \<Rightarrow> intent" where
  "client_intent a p execution_id message_id trace_id command =
     \<lparr>in_execution_id = execution_id, in_message_id = message_id, in_session_id = pm_session_id p,
      in_trace_id = trace_id, in_source = ''client'', in_target_agent_type = pm_target_agent_type p,
      in_user_code = pm_user_code p, in_region = sa_region a, in_priority = sa_priority a,
      in_policy = sa_route_policy a, in_timeout_ms = sa_availability_timeout_ms a,
      in_command_payload = command_to_dict command, in_metadata = pm_metadata p\<rparr>"

definition client_failed_route :: "send_args \<Rightarrow> send_params \<Rightarrow> string \<Rightarrow> string \<Rightarrow> string \<Rightarrow> availability \<Rightarrow> route_record" where
  "client_failed_route a p execution_id message_id trace_id av =
     \<lparr>rr_execution_id = execution_id, rr_message_id = message_id, rr_session_id = pm_session_id p,
      rr_trace_id = trace_id, rr_parent_message_id = pm_parent_message_id p, rr_source_agent_type = CLIENT_SOURCE_AGENT_TYPE,
      rr_target_agent_type = pm_target_agent_type p, rr_route_policy = sa_route_policy a,
      rr_route_status = av_status av, rr_stream_name = av_stream_name av,
      rr_selected_agent_type = av_selected_agent_type av, rr_error_code = av_error_code av, rr_error = av_error av\<rparr>"

text \<open>What the router rejected is recorded as a failed execution, under the id of this dispatch.\<close>

definition reject_send ::
  "client \<Rightarrow> send_args \<Rightarrow> send_params \<Rightarrow> bool \<Rightarrow> string \<Rightarrow> string \<Rightarrow> string \<Rightarrow> availability \<Rightarrow> send_response prog" where
  "reject_send c a p is_root execution_id message_id trace_id av =
     bindp (if ct_has_registry c
       then record_failed_route_decision (ct_schema c) (client_failed_route a p execution_id message_id trace_id av) else Ret ()) (\<lambda>_.
     bindp now_ms (\<lambda>now.
     bindp (end_root c is_root trace_id (av_error av)) (\<lambda>_.
     Ret (refusal [] (av_error av) (str_or (av_error_code av) ''AGENT_TYPE_UNAVAILABLE'') now))))"

definition route_of :: "send_params \<Rightarrow> availability \<Rightarrow> route" where
  "route_of p av =
     \<lparr>rt_stream_name = av_stream_name av, rt_target_worker_id = av_target_worker_id av,
      rt_dispatch = (av_status av \<noteq> ''QUEUE_PENDING''),
      rt_target_agent_type = str_or (av_selected_agent_type av) (pm_target_agent_type p), rt_status = av_status av,
      rt_selected_agent_type = av_selected_agent_type av, rt_error_code = av_error_code av, rt_error = av_error av\<rparr>"

text \<open>The \<open>try\<close> block: a response that ends the dispatch, or a route.\<close>

definition route_message ::
  "client \<Rightarrow> send_args \<Rightarrow> send_params \<Rightarrow> bool \<Rightarrow> string \<Rightarrow> string \<Rightarrow> string \<Rightarrow> command \<Rightarrow> (send_response + route) prog" where
  "route_message c a p is_root execution_id message_id trace_id command =
     try_exc
       (if sa_target_worker_id a \<noteq> []
        then bindp (resolve_direct_worker_route c (sa_target_worker_id a) (sa_route_policy a \<noteq> ''SEND_ANYWAY'') p) (\<lambda>r. Ret (Inr r))
        else bindp (prepare_delivery (ct_rounds c) (ct_schema c) (client_intent a p execution_id message_id trace_id command)) (\<lambda>av.
          if dispatched_status (av_status av) then Ret (Inr (route_of p av))
          else bindp (reject_send c a p is_root execution_id message_id trace_id av) (\<lambda>resp. Ret (Inl resp))))
       (\<lambda>err. bindp (refuse c a is_root trace_id err) (\<lambda>resp. Ret (Inl resp)))"

section \<open>Sending\<close>

definition client_execution ::
  "send_args \<Rightarrow> send_params \<Rightarrow> string \<Rightarrow> string \<Rightarrow> string \<Rightarrow> jdict \<Rightarrow> route \<Rightarrow> execution" where
  "client_execution a p execution_id message_id trace_id metadata r =
     [(''execution_id'', JStr execution_id), (''message_id'', JStr message_id), (''session_id'', JStr (pm_session_id p)),
      (''trace_id'', JStr trace_id), (''parent_message_id'', JStr (pm_parent_message_id p)),
      (''source_agent_type'', JStr CLIENT_SOURCE_AGENT_TYPE), (''target_agent_type'', JStr (rt_target_agent_type r)),
      (''metadata'', JObj metadata), (''stream_name'', JStr (rt_stream_name r)), (''status'', JStr ''QUEUED''),
      (''route_policy'', JStr (sa_route_policy a)), (''route_status'', JStr (rt_status r)),
      (''selected_agent_type'', JStr (rt_selected_agent_type r)), (''availability_error_code'', JStr (rt_error_code r)),
      (''availability_error'', JStr (rt_error r))]"

definition client_span :: "send_args \<Rightarrow> send_params \<Rightarrow> string \<Rightarrow> string \<Rightarrow> route \<Rightarrow> int \<Rightarrow> int \<Rightarrow> trace_span" where
  "client_span a p message_id trace_id r start_ts end_ts =
     (plain_span trace_id (message_id @ '':client.dispatch'') [] ''client.dispatch'' ''client'' start_ts end_ts ''COMPLETED'')
     \<lparr>sp_session_id := pm_session_id p, sp_message_id := message_id, sp_parent_message_id := pm_parent_message_id p,
      sp_worker_id := rt_target_worker_id r, sp_source_agent_type := CLIENT_SOURCE_AGENT_TYPE,
      sp_target_agent_type := rt_target_agent_type r, sp_route_policy := sa_route_policy a, sp_route_status := rt_status r\<rparr>"

text \<open>The execution is recorded unless the message resumes one; then the command goes out.\<close>

definition dispatch_message ::
  "send_args \<Rightarrow> send_params \<Rightarrow> bool \<Rightarrow> string \<Rightarrow> string \<Rightarrow> string \<Rightarrow> command \<Rightarrow> route \<Rightarrow> (client, send_response) act" where
  "dispatch_message a p resumed execution_id message_id trace_id command0 r =
     (let command = (if rt_selected_agent_type r \<noteq> [] then retarget (rt_selected_agent_type r) command0 else command0) in
      a_with (\<lambda>c.
      a_seq (a_when (\<not> resumed \<and> ct_has_registry c) (a_except
         (a_bind (a_lift (initialize_execution (ct_schema c) (client_execution a p execution_id message_id trace_id
            (mh_metadata (command_header command)) r))) (\<lambda>_. a_ret ())) (\<lambda>_. a_ret ())))
     (a_bind (a_lift now_ms) (\<lambda>started.
      a_seq (a_when (rt_dispatch r) (a_lift (exec_cmd (XAdd (rt_stream_name r) (to_redis_payload command)))))
     (a_bind (a_lift now_ms) (\<lambda>ended.
      a_seq (a_except (a_zoom ct_span_recorder (\<lambda>q c. c\<lparr>ct_span_recorder := q\<rparr>)
         (record_span (client_span a p message_id trace_id r started ended))) (\<lambda>_. a_ret ()))
     (a_bind (a_lift now_ms) (\<lambda>now.
      a_ret \<lparr>sd_success = True, sd_status = ''QUEUED'', sd_message_id = message_id, sd_trace_id = trace_id,
        sd_target_worker_id = rt_target_worker_id r, sd_timestamp = now, sd_error = [], sd_error_code = []\<rparr>))))))))"

definition resumed_execution :: "client \<Rightarrow> send_params \<Rightarrow> string \<Rightarrow> execution option prog" where
  "resumed_execution c p message_id =
     (if pm_action_type p = ''RESUME'' \<and> ct_has_registry c
      then bindp (get_execution_by_message_id (ct_schema c) message_id (pm_session_id p)) (\<lambda>e.
        Ret (case e of Some [] \<Rightarrow> None | _ \<Rightarrow> e))
      else Ret None)"

definition client_execution_id :: "execution option \<Rightarrow> string prog" where
  "client_execution_id resumed = (case resumed of
       Some e \<Rightarrow> field_str e ''execution_id''
     | None \<Rightarrow> bindp uuid_hex (\<lambda>fresh. Ret (EXECUTION_ID_PREFIX @ take 8 fresh)))"

definition send_prepared ::
  "send_args \<Rightarrow> send_params \<Rightarrow> string \<Rightarrow> string \<Rightarrow> (client, send_response) act" where
  "send_prepared a p message_id trace_id = a_with (\<lambda>c. let is_root = (pm_parent_message_id p = []) in
     a_bind (a_lift now_ms) (\<lambda>start_ts.
     a_seq (a_when is_root (a_lift (client_trace_start c trace_id message_id p start_ts)))
    (a_bind (a_lift (lift_res (build_gateway_command (pm_action_type p) (client_header c message_id trace_id p)
        (pm_content p) (pm_extra_payload p)))) (\<lambda>command.
     a_bind (a_lift (resumed_execution c p message_id)) (\<lambda>resumed.
     a_bind (a_lift (client_execution_id resumed)) (\<lambda>execution_id.
     a_bind (a_lift (route_message c a p is_root execution_id message_id trace_id command)) (\<lambda>routed. case routed of
       Inl resp \<Rightarrow> a_ret resp
     | Inr r \<Rightarrow> dispatch_message a p (resumed \<noteq> None) execution_id message_id trace_id command r)))))))"

definition send_message :: "send_args \<Rightarrow> send_params \<Rightarrow> (client, send_response) act" where
  "send_message a params = a_with (\<lambda>c.
     a_bind (a_lift (lift_res (intercept (ct_interceptors c) params))) (\<lambda>p.
     a_bind (a_lift (if sa_message_id a \<noteq> [] then Ret (sa_message_id a) else generate_message_id)) (\<lambda>message_id.
     a_bind (a_lift (if sa_trace_id a \<noteq> [] then Ret (sa_trace_id a) else uuid_hex)) (\<lambda>trace_id.
     send_prepared a p message_id trace_id))))"

section \<open>Reloading plugins everywhere\<close>

record reload_report =
  rl_reload_id :: string
  rl_agent_type :: string
  rl_worker_ids :: "string list"
  rl_dispatched_count :: nat

definition reload_message :: "schema \<Rightarrow> string \<Rightarrow> string \<Rightarrow> string \<Rightarrow> jdict \<Rightarrow> string \<Rightarrow> unit prog" where
  "reload_message V agent_type reload_id reason metadata worker_id =
     bindp uuid_hex (\<lambda>fresh. bindp uuid_hex (\<lambda>trace_id.
     bindp (lift_res (new_reload \<lparr>mh_message_id = MESSAGE_ID_PREFIX @ take 8 fresh, mh_session_id = ''reload:'' @ agent_type,
         mh_trace_id = trace_id, mh_source_agent_type = [], mh_target_agent_type = agent_type, mh_parent_message_id = [],
         mh_task_group_id = [], mh_user_code = [], mh_user_name = [], mh_metadata = metadata,
         mh_trace_parent_span_id = [], mh_langfuse_parent_observation_id = []\<rparr> reload_id reason)) (\<lambda>command.
     exec_cmd (XAdd (worker_ctrl_stream V worker_id) (to_redis_payload command)))))"

definition reload_plugins_for_agent_type :: "client \<Rightarrow> string \<Rightarrow> string \<Rightarrow> string \<Rightarrow> jdict \<Rightarrow> reload_report prog" where
  "reload_plugins_for_agent_type c agent_type reason given_id metadata =
     (if \<not> ct_has_registry c then Raise (FrameworkError ''GatewayClient requires a WorkerRegistry to reload plugins for agent type'')
      else bindp (check_agent_type_online (ct_schema c) agent_type True) (\<lambda>(online, worker_ids).
        bindp (if given_id \<noteq> [] then Ret given_id else bindp uuid_hex (\<lambda>fresh. Ret (''reload-'' @ take 8 fresh))) (\<lambda>reload_id.
        if \<not> online \<or> worker_ids = []
        then Ret \<lparr>rl_reload_id = reload_id, rl_agent_type = agent_type, rl_worker_ids = [], rl_dispatched_count = 0\<rparr>
        else bindp (for_each (reload_message (ct_schema c) agent_type reload_id reason metadata) worker_ids) (\<lambda>_.
          Ret \<lparr>rl_reload_id = reload_id, rl_agent_type = agent_type, rl_worker_ids = worker_ids,
            rl_dispatched_count = length worker_ids\<rparr>))))"

fun reload_acks :: "(string \<times> rtext option) list \<Rightarrow> exn + jdict list" where
  "reload_acks [] = Inr []"
| "reload_acks ((i, None) # rest) = reload_acks rest"
| "reload_acks ((i, Some t) # rest) = (case loads t of
     None \<Rightarrow> Inl (ValueError ''invalid JSON'')
   | Some v \<Rightarrow> res_bind (as_dict v) (\<lambda>d. res_bind (reload_acks rest) (\<lambda>ds. Inr (d # ds))))"

definition collect_reload_acks :: "schema \<Rightarrow> string \<Rightarrow> string \<Rightarrow> int \<Rightarrow> nat \<Rightarrow> jdict list prog" where
  "collect_reload_acks V reload_id last_id block_ms count =
     bindp (xread (plugin_reload_ack_stream V reload_id) last_id count block_ms) (\<lambda>entries. lift_res (reload_acks entries))"

definition get_worker_status :: "client \<Rightarrow> string \<Rightarrow> worker_summary prog" where
  "get_worker_status c worker_id =
     (if \<not> ct_has_registry c then Raise (FrameworkError ''GatewayClient requires a WorkerRegistry to get worker status'')
      else get_worker_execution_summary (ct_schema c) worker_id 100 20 None)"

text \<open>Not used by \<open>send_message\<close>, which asks the availability router.\<close>

definition resolve_agent_type_route :: "client \<Rightarrow> string \<Rightarrow> string \<Rightarrow> string prog" where
  "resolve_agent_type_route c target_agent_type route_policy =
     (if \<not> ct_has_registry c then Raise (FrameworkError ''GatewayClient requires a WorkerRegistry to send messages'')
      else if route_policy = ''SEND_ANYWAY'' then Ret (ctrl_stream (ct_schema c) target_agent_type)
      else bindp (has_online_agent_type (ct_schema c) target_agent_type) (\<lambda>online.
        if online then Ret (ctrl_stream (ct_schema c) target_agent_type)
        else Raise (ValueError (''No online worker found for agent_type '' @ quoted target_agent_type))))"

end
