(* ===== verification/Client_Properties.thy ===== *)
theory Client_Properties
  imports Client_Send Dispatch_Properties
begin

text \<open>
  What a client is promised when it sends: one message or none, a resume that reattaches the
  execution it names, and what a refused one does to it.
\<close>

section \<open>A message is sent once, or not at all\<close>

text \<open>What is only read, and what writes no stream.\<close>

lemma quiet_reads [simp]: "only quiet (get_execution_by_message_id V mid sid)" "only quiet (check_worker_online V w)"
  by (auto simp: get_execution_by_message_id_def get_execution_def check_worker_online_def intro!: only_bindp
      split: option.splits rtext.splits json.splits)

lemma record_trace_quiet [simp]: "only quiet (record_trace r w)"
proof -
  have "quiet (Pipe (trace_meta_cmds k ttl p))" for k ttl p
    by (rule quiet_Pipe) (auto simp: trace_meta_cmds_def Let_def split: if_splits)
  then show ?thesis
    by (auto simp: record_trace_def Let_def index_trace_def intro!: only_bindp only_try_exc)
qed

lemma client_quiet [simp]:
  "only quiet (client_trace_start c tid mid p t)" "only quiet (client_trace_end c tid st t e)"
  "only quiet (end_root c b tid e)" "only quiet (refuse c a b tid err)" "only quiet (reject_send c a p b eid mid tid av)"
  "only quiet (resolve_direct_worker_route c w chk p)" "only quiet (resumed_execution c p mid)" "only quiet (client_execution_id x)"
  by (auto simp: client_trace_start_def client_trace_end_def end_root_def refuse_def Let_def reject_send_def
      resolve_direct_worker_route_def resumed_execution_def client_execution_id_def field_str_def
      intro!: only_bindp only_try_exc split: exn.splits option.splits)


text \<open>Where a message goes under a policy that neither wakes nor queues.\<close>

definition plain_route :: "schema \<Rightarrow> intent \<Rightarrow> availability \<Rightarrow> bool" where
  "plain_route V i av = (dispatched_status (av_status av) \<longrightarrow> av_status av \<noteq> ''QUEUE_PENDING'' \<and>
     av_stream_name av = ctrl_stream V (str_or (av_selected_agent_type av) (in_target_agent_type i)))"

lemma plain_route_simps [simp]:
  "plain_route V i (unavailable i)"
  "plain_route V i (available ''DELIVER_NOW'' (ctrl_stream V (in_target_agent_type i)) [] e)"
  "t \<noteq> [] \<Longrightarrow> plain_route V i (available ''FALLBACK_TO_OTHER_AGENT_TYPE'' (ctrl_stream V t) t e)"
  by (simp_all add: plain_route_def unavailable_def rejected_def available_def dispatched_status_def str_or_def)

lemma plain_route_rejected:
  "circuit_rejection i x = Some r \<Longrightarrow> plain_route V i r" "quota_rejection i x = Some r \<Longrightarrow> plain_route V i r"
  by (auto simp: plain_route_def circuit_rejection_def quota_rejection_def rejected_def dispatched_status_def
      split: option.splits if_splits)

lemma plain_routing_wp:
  assumes "in_policy i \<in> {''FAIL_FAST'', ''SEND_ANYWAY''}"
  shows "wp (prepare_delivery n V i) (\<lambda>o' K'. K' = K \<and> (case o' of Inl e \<Rightarrow> False | Inr av \<Rightarrow> plain_route V i av)) K"
proof -
  have policy: "wp (check_control_plane_policy V i) (\<lambda>o' K'. K' = K \<and>
      (\<exists>r. o' = Inr r \<and> (case r of None \<Rightarrow> True | Some a \<Rightarrow> plain_route V i a))) K"
    by (auto simp: check_control_plane_policy_def wp_simps intro: plain_route_rejected split: option.splits)
  have fallback: "wp (resolve_configured_fallback V i) (\<lambda>o' K'. K' = K \<and> (\<exists>r. o' = Inr r \<and> (case r of None \<Rightarrow> True
      | Some a \<Rightarrow> plain_route V i a))) K"
    by (auto simp: resolve_configured_fallback_def wp_read_json wp_bindp [of "read_json_key _"]
        intro!: wp_seq_read [OF has_online_wp])
  show ?thesis
    unfolding prepare_delivery_def
    by (rule wp_seq_option [OF policy])
      (use assms in \<open>auto intro!: wp_seq_read [OF has_online_wp] wp_seq_option [OF fallback]\<close>)
qed

text \<open>The command a client sends for the given parameters.\<close>

definition sent_for :: "send_response \<Rightarrow> command \<Rightarrow> bool" where
  "sent_for resp cmd = (mh_message_id (command_header cmd) = sd_message_id resp \<and>
     mh_trace_id (command_header cmd) = sd_trace_id resp \<and> cls_of cmd \<in> {AskAgentCls, ResumeCls})"

definition goes_to :: "schema \<Rightarrow> send_args \<Rightarrow> command \<Rightarrow> string" where
  "goes_to V a cmd = (if sa_target_worker_id a \<noteq> [] then worker_ctrl_stream V (sa_target_worker_id a)
     else ctrl_stream V (mh_target_agent_type (command_header cmd)))"

definition sent_once :: "schema \<Rightarrow> send_args \<Rightarrow> kspace \<Rightarrow> exn + send_response \<Rightarrow> kspace \<Rightarrow> bool" where
  "sent_once V a K res K' = (case res of
     Inl e \<Rightarrow> strm K' = strm K
   | Inr resp \<Rightarrow> if sd_success resp
       then \<exists>cmd. sent_for resp cmd \<and>
         strm K' = (strm K)(goes_to V a cmd := strm K (goes_to V a cmd) @ [to_redis_payload cmd])
       else strm K' = strm K)"

lemma awp_quiet:
  assumes "only quiet p" and "\<And>r K'. strm K' = strm K \<Longrightarrow> Q r c K'" and "\<And>K'. strm K' = strm K \<Longrightarrow> D K'"
  shows "awp (a_lift p) Q D c K"
proof -
  have "wp p (\<lambda>o' K'. strm K' = strm K) K"
    by (rule wp_only [OF assms(1)]) (auto simp: quiet_def)
  then show ?thesis unfolding awp_lift by (rule wp_mono) (use assms(2,3) in auto)
qed

lemma recorded_awp:
  assumes "only quiet p"
  shows "awp (a_when b (a_except (a_bind (a_lift p) (\<lambda>_. a_ret ())) (\<lambda>_. a_ret ()))) (\<lambda>r c' K'. c' = c \<and> strm K' = strm K)
     (\<lambda>K'. strm K' = strm K) c K"
  unfolding awp_when awp_except awp_bind
  by (auto intro!: awp_quiet [OF assms] simp: awp_basic split: sum.splits exn.splits)

lemma build_header:
  assumes "build_gateway_command act h content extra = Inr cmd"
  shows "command_header cmd = h" and "cls_of cmd \<in> {AskAgentCls, ResumeCls}"
  using assms by (auto simp: build_gateway_command_def new_resume_def new_ask_def command_header_def split: if_splits)

lemma dispatch_awp:
  assumes "rec_exporters (ct_span_recorder c) = []" and "ct_schema c = V" and "strm K' = strm K" and "rt_dispatch r"
    and cmd: "cmd = (if rt_selected_agent_type r \<noteq> [] then retarget (rt_selected_agent_type r) cmd0 else cmd0)"
    and "mh_message_id (command_header cmd) = mid" and "mh_trace_id (command_header cmd) = tid"
    and "cls_of cmd \<in> {AskAgentCls, ResumeCls}" and "rt_stream_name r = goes_to V a cmd"
  shows "awp (dispatch_message a p resumed eid mid tid cmd0 r) (\<lambda>res c' K'. sent_once V a K res K') (\<lambda>K'. strm K' = strm K) c K'"
proof -
  have q: "\<exists>q'. record_span sp (ct_span_recorder c) = Ret (Inr (), q')" for sp
    using record_off [OF assms(1)] by blast
  have rec: "awp (record_span sp) Q D (ct_span_recorder c) L =
      (\<forall>q'. record_span sp (ct_span_recorder c) = Ret (Inr (), q') \<longrightarrow> Q (Inr ()) q' L)" for sp Q D L
    using q [of sp] by (auto simp: awp_def)
  have sent: "awp (a_bind (a_lift now_ms) (\<lambda>started.
      a_seq (a_when (rt_dispatch r) (a_lift (exec_cmd (XAdd (rt_stream_name r) (to_redis_payload cmd)))))
     (a_bind (a_lift now_ms) (\<lambda>ended.
      a_seq (a_except (a_zoom ct_span_recorder (\<lambda>q c. c\<lparr>ct_span_recorder := q\<rparr>)
         (record_span (client_span a p mid tid r started ended))) (\<lambda>_. a_ret ()))
     (a_bind (a_lift now_ms) (\<lambda>now.
      a_ret \<lparr>sd_success = True, sd_status = ''QUEUED'', sd_message_id = mid, sd_trace_id = tid,
        sd_target_worker_id = rt_target_worker_id r, sd_timestamp = now, sd_error = [], sd_error_code = []\<rparr>))))))
    (\<lambda>res c' K'. sent_once V a K res K') (\<lambda>K'. strm K' = strm K) c L" if "strm L = strm K" for L
    using that assms(4,6-9)
    by (auto simp: awp_simps wp_simps rec sent_once_def sent_for_def intro!: exI [of _ cmd])
  show ?thesis
    unfolding dispatch_message_def Let_def cmd [symmetric] awp_with awp_seq [of "a_when (\<not> resumed \<and> _) _"]
    by (rule awp_mono [OF recorded_awp [of "initialize_execution _ _"]]) (use assms(3) in \<open>auto simp: sent sent_once_def split: sum.splits\<close>)
qed

lemma wp_outs: "outs R p \<Longrightarrow> wp p (\<lambda>o' K'. R o') K"
  by (induction p arbitrary: K) auto

lemma outs_then: "(\<And>a. outs R (f a)) \<Longrightarrow> (\<And>e. R (Inl e)) \<Longrightarrow> outs R (bindp p f)"
  by (induction p) auto

definition refusing :: "exn + send_response \<Rightarrow> bool" where
  "refusing o' = (case o' of Inr resp \<Rightarrow> \<not> sd_success resp | Inl e \<Rightarrow> True)"

lemma refused_outs: "outs refusing (refuse c a b tid err)" "outs refusing (reject_send c a p b eid mid tid av)"
  by (auto simp: refuse_def reject_send_def Let_def refusing_def refusal_def intro!: outs_then split: exn.splits)

definition routed_well :: "client \<Rightarrow> send_args \<Rightarrow> command \<Rightarrow> send_response + route \<Rightarrow> bool" where
  "routed_well c a cmd res = (case res of
     Inl resp \<Rightarrow> \<not> sd_success resp
   | Inr r \<Rightarrow> rt_dispatch r \<and> rt_stream_name r = goes_to (ct_schema c) a
       (if rt_selected_agent_type r \<noteq> [] then retarget (rt_selected_agent_type r) cmd else cmd))"

lemma route_value_wp:
  assumes "sa_target_worker_id a \<noteq> [] \<or> sa_route_policy a \<in> {''FAIL_FAST'', ''SEND_ANYWAY''}"
    and "mh_target_agent_type (command_header cmd) = pm_target_agent_type p" and "cls_of cmd \<in> {AskAgentCls, ResumeCls}"
  shows "wp (route_message c a p root eid mid tid cmd) (\<lambda>o' K'. case o' of Inl e \<Rightarrow> True | Inr res \<Rightarrow> routed_well c a cmd res) K"
proof -
  let ?Q = "\<lambda>o' (K' :: kspace). case o' of Inl e \<Rightarrow> True | Inr res \<Rightarrow> routed_well c a cmd res"
  have refused: "wp (bindp (refuse c a root tid err) (\<lambda>resp. Ret (Inl resp))) ?Q K" for err K
    unfolding wp_bindp by (rule wp_mono [OF wp_outs [OF refused_outs(1)]]) (auto simp: routed_well_def refusing_def split: sum.splits)
  have rejected: "wp (bindp (reject_send c a p root eid mid tid av) (\<lambda>resp. Ret (Inl resp)))
      (\<lambda>o' K'. \<forall>r. o' = Inr r \<longrightarrow> routed_well c a cmd r) K" for av K
    unfolding wp_bindp by (rule wp_mono [OF wp_outs [OF refused_outs(2)]]) (auto simp: routed_well_def refusing_def split: sum.splits)
  have target: "mh_target_agent_type (command_header (retarget t cmd)) = t" for t
    using assms(3) by (cases cmd) (auto simp: retarget_def command_header_def)
  have routed: "routed_well c a cmd (Inr (route_of p av))"
    if "plain_route (ct_schema c) (client_intent a p eid mid tid cmd) av" "dispatched_status (av_status av)" "sa_target_worker_id a = []" for av
    using that assms(2) by (auto simp: routed_well_def route_of_def plain_route_def goes_to_def client_intent_def str_or_def target)
  have direct: "outs (\<lambda>o'. \<forall>r. o' = Inr r \<longrightarrow> routed_well c a cmd (Inr r))
      (resolve_direct_worker_route c (sa_target_worker_id a) chk p)" if "sa_target_worker_id a \<noteq> []" for chk
    using that by (auto simp: resolve_direct_worker_route_def outs_bindp routed_well_def goes_to_def intro!: outs_mono [OF outs_True] split: sum.splits)
  have tried: "wp (if sa_target_worker_id a \<noteq> []
        then bindp (resolve_direct_worker_route c (sa_target_worker_id a) (sa_route_policy a \<noteq> ''SEND_ANYWAY'') p) (\<lambda>r. Ret (Inr r))
        else bindp (prepare_delivery (ct_rounds c) (ct_schema c) (client_intent a p eid mid tid cmd)) (\<lambda>av.
          if dispatched_status (av_status av) then Ret (Inr (route_of p av))
          else bindp (reject_send c a p root eid mid tid av) (\<lambda>resp. Ret (Inl resp))))
      (\<lambda>o' K'. \<forall>r. o' = Inr r \<longrightarrow> routed_well c a cmd r) K"
  proof (cases "sa_target_worker_id a = []")
    case True
    then have "in_policy (client_intent a p eid mid tid cmd) \<in> {''FAIL_FAST'', ''SEND_ANYWAY''}"
      using assms(1) by (simp add: client_intent_def)
    from plain_routing_wp [OF this] have "wp (bindp (prepare_delivery (ct_rounds c) (ct_schema c) (client_intent a p eid mid tid cmd)) (\<lambda>av.
          if dispatched_status (av_status av) then Ret (Inr (route_of p av))
          else bindp (reject_send c a p root eid mid tid av) (\<lambda>resp. Ret (Inl resp))))
      (\<lambda>o' K'. \<forall>r. o' = Inr r \<longrightarrow> routed_well c a cmd r) K"
      unfolding wp_bindp [of "prepare_delivery _ _ _"]
      by (rule wp_mono) (auto simp: routed [OF _ _ True] rejected split: sum.splits)
    then show ?thesis using True by simp
  next
    case False
    then show ?thesis
      by (simp add: wp_bindp, intro wp_mono [OF wp_outs [OF direct]]) (auto split: sum.splits)
  qed
  show ?thesis
    unfolding route_message_def wp_try_exc
    by (rule wp_mono [OF tried]) (auto simp: refused split: sum.splits exn.splits)
qed

lemma route_quiet:
  assumes "sa_target_worker_id a \<noteq> [] \<or> sa_route_policy a \<in> {''FAIL_FAST'', ''SEND_ANYWAY''}"
  shows "only quiet (route_message c a p root eid mid tid cmd)"
  unfolding route_message_def
  using assms by (auto intro!: only_try_exc only_bindp routing_quiet simp: client_intent_def)

lemma awp_quiet_bind:
  assumes "only quiet p" and "wp p (\<lambda>o' K'. case o' of Inl e \<Rightarrow> True | Inr x \<Rightarrow> V x) K"
    and "\<And>e K'. strm K' = strm K \<Longrightarrow> Q (Inl e) c K'"
    and "\<And>x K'. strm K' = strm K \<Longrightarrow> V x \<Longrightarrow> awp (f x) Q D c K'" and "\<And>K'. strm K' = strm K \<Longrightarrow> D K'"
  shows "awp (a_bind (a_lift p) f) Q D c K"
proof -
  have "wp p (\<lambda>o' K'. strm K' = strm K) K"
    by (rule wp_only [OF assms(1)]) (auto simp: quiet_def)
  from wp_conj [OF this assms(2)] show ?thesis
    unfolding awp_bind awp_lift by (rule wp_mono) (use assms(3-5) in \<open>auto split: sum.splits\<close>)
qed

lemma wp_any: "wp p (\<lambda>o' K'. case o' of Inl e \<Rightarrow> True | Inr x \<Rightarrow> True) K"
  by (rule wp_mono [OF wp_true]) (simp split: sum.splits)

lemma awp_quiet_when:
  assumes "only quiet p" and "\<And>e K'. strm K' = strm K \<Longrightarrow> Q (Inl e) c K'"
    and "\<And>K'. strm K' = strm K \<Longrightarrow> awp n Q D c K'" and "\<And>K'. strm K' = strm K \<Longrightarrow> D K'"
  shows "awp (a_seq (a_when b (a_lift p)) n) Q D c K"
  unfolding awp_seq awp_when awp_lift
  by (auto simp: assms(3) intro!: wp_mono [OF wp_only [OF assms(1), where R = "\<lambda>K K'. strm K' = strm K"]] split: sum.splits)
    (auto simp: quiet_def assms(2-4))

lemma send_prepared_awp:
  assumes "rec_exporters (ct_span_recorder c) = []" and V: "ct_schema c = V"
    and plain: "sa_target_worker_id a \<noteq> [] \<or> sa_route_policy a \<in> {''FAIL_FAST'', ''SEND_ANYWAY''}"
    and "strm K' = strm K"
  shows "awp (send_prepared a p mid tid) (\<lambda>res c' K'. sent_once V a K res K') (\<lambda>K'. strm K' = strm K) c K'"
proof -
  let ?Q = "\<lambda>res (c' :: client) K'. sent_once V a K res K'"
  have no: "sent_once V a K (Inl e) L" if "strm L = strm K" for e L
    using that by (simp add: sent_once_def)
  have refused: "sent_once V a K (Inr resp) L" if "strm L = strm K" "routed_well c a cmd (Inl resp)" for resp L cmd
    using that by (simp add: sent_once_def routed_well_def)
  note q = awp_quiet_bind [where V = "\<lambda>_. True", OF _ wp_any]
  have build: "awp (a_bind (a_lift (lift_res (build_gateway_command (pm_action_type p) (client_header c mid tid p)
        (pm_content p) (pm_extra_payload p)))) (\<lambda>command.
     a_bind (a_lift (resumed_execution c p mid)) (\<lambda>resumed.
     a_bind (a_lift (client_execution_id resumed)) (\<lambda>execution_id.
     a_bind (a_lift (route_message c a p (pm_parent_message_id p = []) execution_id mid tid command)) (\<lambda>routed. case routed of
       Inl resp \<Rightarrow> a_ret resp
     | Inr r \<Rightarrow> dispatch_message a p (resumed \<noteq> None) execution_id mid tid command r))))) ?Q (\<lambda>L. strm L = strm K) c L"
    if "strm L = strm K" for L
  proof (cases "build_gateway_command (pm_action_type p) (client_header c mid tid p) (pm_content p) (pm_extra_payload p)")
    case (Inl e)
    then show ?thesis using no [OF that] that by (simp add: awp_simps wp_lift_res)
  next
    case (Inr cmd)
    note h = build_header [OF Inr]
    have target: "mh_target_agent_type (command_header cmd) = pm_target_agent_type p"
      by (simp add: h(1) client_header_def Let_def)
    have facts: "mh_message_id (command_header (retarget t cmd)) = mid" "mh_trace_id (command_header (retarget t cmd)) = tid"
      "cls_of (retarget t cmd) = cls_of cmd" for t
      using h by (cases cmd; simp add: retarget_def command_header_def client_header_def Let_def)+
    have sent: "awp (dispatch_message a p b eid mid tid cmd r) ?Q (\<lambda>L. strm L = strm K) c M"
      if "strm M = strm K" "routed_well c a cmd (Inr r)" for b eid r M
      by (rule dispatch_awp [OF assms(1) V that(1) _ refl])
        (use that(2) h facts in \<open>auto simp: routed_well_def V client_header_def Let_def\<close>)
    have route: "awp (a_bind (a_lift (route_message c a p (pm_parent_message_id p = []) eid mid tid cmd)) (\<lambda>routed. case routed of
       Inl resp \<Rightarrow> a_ret resp | Inr r \<Rightarrow> dispatch_message a p b eid mid tid cmd r)) ?Q (\<lambda>L. strm L = strm K) c M"
      if "strm M = strm K" for b eid M
      by (rule awp_quiet_bind [OF route_quiet [OF plain] route_value_wp [OF plain target h(2)]])
        (use that in \<open>auto simp: no sent awp_basic refused split: sum.splits\<close>)
    have named: "awp (a_bind (a_lift (client_execution_id resumed)) (\<lambda>eid.
       a_bind (a_lift (route_message c a p (pm_parent_message_id p = []) eid mid tid cmd)) (\<lambda>routed. case routed of
         Inl resp \<Rightarrow> a_ret resp | Inr r \<Rightarrow> dispatch_message a p (resumed \<noteq> None) eid mid tid cmd r))) ?Q (\<lambda>L. strm L = strm K) c M"
      if "strm M = strm K" for resumed M
      by (rule q) (simp_all add: no route that)
    show ?thesis
      unfolding awp_bind [of "a_lift (lift_res _)"] awp_lift [of "lift_res _"] wp_lift_res Inr sum.case
      by (simp only: sum.distinct if_False, rule q) (use no named that in \<open>simp_all\<close>)
  qed
  show ?thesis
    unfolding send_prepared_def awp_with Let_def
    by (rule q, simp, simp add: no assms(4), rule awp_quiet_when, simp, simp add: no assms(4), rule build, simp_all add: assms(4))
qed

text \<open>
  C7: a message is sent once or not at all, on a server that behaves as documented and with tracing
  off, for a message to one worker or under a policy that neither wakes nor queues: whatever the
  interceptors make of it, when \<open>send_message\<close> reports success exactly one command, with the reported
  ids, has been added to exactly one stream, the one of the worker or of the agent type the
  command names; a refusal or an exception leaves all streams as they were.
\<close>

theorem message_sent_once:
  assumes "redis exec view" and "rec_exporters (ct_span_recorder c) = []"
    and "sa_target_worker_id a \<noteq> [] \<or> sa_route_policy a \<in> {''FAIL_FAST'', ''SEND_ANYWAY''}"
  shows "case run exec (send_message a p c) s of (Inl e, u) \<Rightarrow> strm (view u) = strm (view s) | (Inr (res, c'), u) \<Rightarrow>
     (case res of
        Inl e \<Rightarrow> strm (view u) = strm (view s)
      | Inr resp \<Rightarrow> if sd_success resp
          then \<exists>cmd. mh_message_id (command_header cmd) = sd_message_id resp \<and> mh_trace_id (command_header cmd) = sd_trace_id resp \<and>
            strm (view u) = (strm (view s))(goes_to (ct_schema c) a cmd :=
              strm (view s) (goes_to (ct_schema c) a cmd) @ [to_redis_payload cmd])
          else strm (view u) = strm (view s))"
proof -
  have no: "sent_once V a K (Inl e) L" if "strm L = strm K" for V K e L
    using that by (simp add: sent_once_def)
  note q = awp_quiet_bind [where V = "\<lambda>_. True", OF _ wp_any]
  have "awp (send_message a p) (\<lambda>res c' K'. sent_once (ct_schema c) a K res K') (\<lambda>K'. strm K' = strm K) c K" for K
    unfolding send_message_def awp_with
    by (intro q; (rule send_prepared_awp [OF assms(2) refl assms(3)])?) (auto simp: no generate_message_id_def intro!: only_bindp)
  from redis.wp_run [OF assms(1) this [unfolded awp_def], where s = s] show ?thesis
    by (auto simp: sent_once_def sent_for_def split: sum.splits prod.splits if_splits) blast+
qed

section \<open>The properties at concrete inputs\<close>

definition demo_client :: client where
  "demo_client = \<lparr>ct_schema = V1, ct_has_registry = True, ct_interceptors = [],
     ct_span_recorder = \<lparr>rec_exporters = [], rec_sampled_out = (\<lambda>_. False), rec_max_spans = 10, rec_tracking_max = 10,
        rec_spans_by_trace = [], rec_dropped = [], rec_failures = []\<rparr>,
     ct_trace_writer = new_trace_writer V1 (\<lambda>_. False) 10 900, ct_redacts = False, ct_max_length = 100,
     ct_hash64 = (\<lambda>_. 7), ct_observe = (\<lambda>_ _ _. []), ct_rounds = 3\<rparr>"

definition demo_params :: "string \<Rightarrow> send_params" where
  "demo_params action = \<lparr>pm_target_agent_type = ''coder'', pm_session_id = ''s'', pm_user_code = [], pm_user_name = [],
     pm_content = JStr ''yes'', pm_action_type = action, pm_parent_message_id = [], pm_extra_payload = [], pm_metadata = []\<rparr>"

definition demo_send :: "string \<Rightarrow> send_args" where
  "demo_send policy = \<lparr>sa_message_id = ''m'', sa_trace_id = ''t'', sa_target_worker_id = [], sa_route_policy = policy,
     sa_availability_timeout_ms = 5, sa_region = [], sa_priority = 0\<rparr>"

lemma demo_client_simps [simp]:
  "ct_schema demo_client = V1" "ct_has_registry demo_client" "ct_interceptors demo_client = []"
  "rec_exporters (ct_span_recorder demo_client) = []" "tw_schema (ct_trace_writer demo_client) = V1"
  by (simp_all add: demo_client_def new_trace_writer_def)

lemma demo_send_simps [simp]:
  "sa_target_worker_id (demo_send r) = []" "sa_route_policy (demo_send r) = r" "sa_message_id (demo_send r) = ''m''"
  by (simp_all add: demo_send_def)

lemma demo_params_simps [simp]:
  "pm_action_type (demo_params t) = t" "pm_session_id (demo_params t) = ''s''" "pm_user_code (demo_params t) = []"
  "pm_content (demo_params t) = JStr ''yes''" "pm_parent_message_id (demo_params t) = []" "pm_target_agent_type (demo_params t) = ''coder''"
  by (simp_all add: demo_params_def)

theorem message_sent_once_witness:
  "case run ref_exec (send_message (demo_send ''SEND_ANYWAY'') (demo_params ''ASK_AGENT'') demo_client) empty_server of
     (Inl e, u) \<Rightarrow> strm (rview u) = strm (rview empty_server)
   | (Inr (res, c'), u) \<Rightarrow> (case res of
        Inl e \<Rightarrow> strm (rview u) = strm (rview empty_server)
      | Inr resp \<Rightarrow> if sd_success resp
          then \<exists>cmd. mh_message_id (command_header cmd) = sd_message_id resp \<and> mh_trace_id (command_header cmd) = sd_trace_id resp \<and>
            strm (rview u) = (strm (rview empty_server))(goes_to (ct_schema demo_client) (demo_send ''SEND_ANYWAY'') cmd :=
              strm (rview empty_server) (goes_to (ct_schema demo_client) (demo_send ''SEND_ANYWAY'') cmd) @ [to_redis_payload cmd])
          else strm (rview u) = strm (rview empty_server))"
  by (rule message_sent_once [OF ref.redis_axioms]) simp_all

end
