(* ===== verification/Client_Resume.thy ===== *)
theory Client_Resume
  imports Client_Properties
begin

text \<open>
  Resuming from outside: the answer to a question reaches the suspended task, and what a
  refused answer does to it.
\<close>

section \<open>The answer to a question\<close>

lemma client_header_simps [simp]:
  "mh_message_id (client_header c mid tid p) = mid" "mh_session_id (client_header c mid tid p) = pm_session_id p"
  "mh_parent_message_id (client_header c mid tid p) = pm_parent_message_id p" "mh_task_group_id (client_header c mid tid p) = []"
  by (simp_all add: client_header_def Let_def)

lemma ask_user_awp:
  assumes "\<And>d e f g. only (spares (wait_index_key (sv_schema sv) (ac_session_id c)) (encode_member (ac_session_id c) (ac_message_id c) [] []))
     (lb_ask_user (em_layout (ac_emitter c)) d e f g)"
  shows "awp (ask_user sv prompt md midx pidx t)
     (\<lambda>r c' K'. waiting (sv_schema sv) K' (ac_session_id c) (encode_member (ac_session_id c) (ac_message_id c) [] []) \<and>
        (\<forall>x. r = Inr x \<longrightarrow> ac_is_suspended c' \<and> ac_suspended_state c' = ''WAITING_USER''))
     (\<lambda>K'. waiting (sv_schema sv) K' (ac_session_id c) (encode_member (ac_session_id c) (ac_message_id c) [] [])) c K"
proof -
  let ?V = "sv_schema sv" and ?m = "encode_member (ac_session_id c) (ac_message_id c) [] []"
  have spared: "only (spares (wait_index_key ?V (ac_session_id c)) ?m)
      (emitter_ask_user ?V (ac_emitter c) (ac_session_id c) (ac_trace_id c) prompt md x y z)" for x y z
    by (auto simp: emitter_ask_user_def emit_event_def assms intro!: only_bindp spares_Pipe)
  have reg: "wp (register_wait ?V (ac_session_id c) (ac_message_id c) [] [] n)
      (\<lambda>o' K'. o' = Inr () \<and> waiting ?V K' (ac_session_id c) ?m) K" for n
    using register_wait_registers(1) [OF refl] by (simp add: waiting_def)
  have emit: "wp (emitter_ask_user ?V (ac_emitter c) (ac_session_id c) (ac_trace_id c) prompt md x y z)
      (\<lambda>o' K'. waiting ?V K' (ac_session_id c) ?m) L" if "waiting ?V L (ac_session_id c) ?m" for x y z L
    by (rule wp_mono [OF wp_only [OF spared, where R = "\<lambda>K K'. waiting ?V K' (ac_session_id c) ?m"]])
      (use that in \<open>auto simp: waiting_def spares_def\<close>)
  show ?thesis
    unfolding ask_user_def
    unfolding awp_seq awp_with awp_lift
    by (rule wp_mono [OF reg]) (auto intro!: wp_mono [OF emit] simp: awp_simps suspend_for_def split: sum.splits)
qed

text \<open>
  C8: an answer reaches the question: once a task has asked the user, whether or not the
  question could be shown, a resume that a client sends under the session and message id of
  the task is let through by the gate of the worker that reads it, as the claim of this very
  wait, and a second copy of it is dropped.
\<close>

theorem answer_claims_question:
  assumes "redis exec view"
    and "\<And>d e f g. only (spares (wait_index_key (sv_schema sv) (ac_session_id c)) (encode_member (ac_session_id c) (ac_message_id c) [] []))
      (lb_ask_user (em_layout (ac_emitter c)) d e f g)"
    and "pm_session_id p = ac_session_id c" and "pm_parent_message_id p = []"
    and "h = client_header cl (ac_message_id c) tid p"
  shows "case run exec (ask_user sv prompt md midx pidx t c) s of (res, u) \<Rightarrow>
     (case res of Inr (Inr x, c') \<Rightarrow> ac_is_suspended c' | _ \<Rightarrow> True) \<and>
     fst (run exec (bindp (consume_wait_entry (sv_schema sv) h) (\<lambda>d1. bindp (consume_wait_entry (sv_schema sv) h) (\<lambda>d2. Ret (d1, d2)))) u) = Inr
       (\<lparr>gd_allow = True, gd_reason = ALLOW_CLAIMED, gd_member = encode_member (ac_session_id c) (ac_message_id c) [] []\<rparr>,
        \<lparr>gd_allow = False, gd_reason = DENY_ALREADY_CONSUMED, gd_member = encode_member (ac_session_id c) (ac_message_id c) [] []\<rparr>)"
proof -
  have h: "mh_session_id h = ac_session_id c" "member_from_resume h = encode_member (ac_session_id c) (ac_message_id c) [] []"
    using assms(3-5) by (simp_all add: member_from_resume_def)
  obtain res u where u: "run exec (ask_user sv prompt md midx pidx t c) s = (res, u)" by fastforce
  from redis.wp_run [OF assms(1) ask_user_awp [OF assms(2), unfolded awp_def,
      where prompt = prompt and md = md and midx = midx and pidx = pidx and t = t], where s = s] u
  have "waiting (sv_schema sv) (view u) (mh_session_id h) (member_from_resume h)"
    "case res of Inr (Inr x, c') \<Rightarrow> ac_is_suspended c' | _ \<Rightarrow> True"
    by (auto simp: h split: sum.splits prod.splits)
  then show ?thesis
    using redis.wp_run [OF assms(1) twice_wp [where V = "sv_schema sv" and h = h], where s = u] u h by (auto split: prod.splits)
qed

section \<open>A refused answer\<close>

lemma untraced_keys [simp]:
  "\<not> trace_key V (session_registry V s)" "\<not> trace_key V (worker_online_lease V w)"
  "\<not> trace_key V (control_plane_agent_circuit V t)" "\<not> trace_key V (control_plane_agent_fallback V t)"
  by (cases V; auto simp: trace_key_def trace_meta_def trace_spans_def trace_index_session_def trace_index_worker_def
      trace_index_agent_def versioned_def session_registry_def worker_online_lease_def control_plane_agent_circuit_def
      control_plane_agent_fallback_def)+

lemma untraced_views:
  assumes "untraced V K K'"
  shows "record_of V K' sid eid = record_of V K sid eid" and "record_by_message V K' sid mid = record_by_message V K sid mid"
    and "nobody_serves V K' t = nobody_serves V K t"
  using assms
  by (simp_all add: untraced_def record_of_def record_by_message_def nobody_serves_def type_online_def worker_online_def
      cong: option.case_cong if_cong)

lemma record_trace_untraced: "only (trace_cmd (tw_schema w)) (record_trace r w)"
proof -
  have "trace_cmd (tw_schema w) (Pipe (trace_meta_cmds (trace_meta (tw_schema w) t) ttl p))" for t ttl p
    by (auto simp: trace_meta_cmds_def Let_def split: if_splits)
  then show ?thesis
    by (auto simp: record_trace_def Let_def index_trace_def intro!: only_bindp only_try_exc)
qed

lemma record_trace_frame:
  assumes "tw_schema w = V"
  shows "wp (record_trace r w) (\<lambda>o' K'. untraced V K K') K"
  by (rule wp_only [OF record_trace_untraced]) (use assms in \<open>auto intro: trace_cmd_frame untraced_trans\<close>)

lemma record_trace_value: "wp (record_trace r w) (\<lambda>o' K'. o' = Inr ()) K"
proof -
  have index: "wp (index_trace w k t n) Q K = Q (Inr ()) (apply_cmd (Expire k (tw_ttl_seconds w)) (apply_cmd (ZAdd k t n) K))" for k t n Q K
    by (simp add: index_trace_def wp_simps)
  have meta: "wp (exec_cmd (Pipe (trace_meta_cmds k ttl p))) Q K = Q (Inr ()) (apply_cmd (Pipe (trace_meta_cmds k ttl p)) K)" for k ttl p Q K
    by (rule wp_exec_cmd) simp
  show ?thesis by (auto simp: record_trace_def Let_def wp_simps index meta)
qed

lemma client_trace_frame:
  assumes "tw_schema (ct_trace_writer c) = ct_schema c"
  shows "wp (client_trace_start c tid mid p n) (\<lambda>o' K'. o' = Inr () \<and> untraced (ct_schema c) K K') K"
    and "wp (end_root c b tid e) (\<lambda>o' K'. o' = Inr () \<and> untraced (ct_schema c) K K') K"
  unfolding end_root_def client_trace_start_def client_trace_end_def wp_try_exc
  by (auto simp: wp_simps wp_try_exc intro!: wp_mono [OF wp_conj [OF record_trace_frame [OF assms] record_trace_value]])

lemma fail_fast_wp:
  assumes "nobody_serves V K (in_target_agent_type i)" and "in_policy i = ''FAIL_FAST''" and "in_user_code i = []"
  shows "wp (prepare_delivery n V i) (\<lambda>o' K'. o' = Inr (unavailable i) \<and> K' = K) K"
proof -
  have policy: "wp (check_control_plane_policy V i) (\<lambda>o' K'. K' = K \<and> o' = Inr None) K"
    using assms by (simp add: check_control_plane_policy_def wp_simps wp_read_json circuit_rejection_def nobody_serves_def)
  have fallback: "wp (resolve_configured_fallback V i) (\<lambda>o' K'. K' = K \<and> o' = Inr None) K"
    using assms by (simp add: resolve_configured_fallback_def wp_simps wp_read_json fallback_type_def nobody_serves_def)
  have online: "wp (has_online_agent_type V (in_target_agent_type i)) (\<lambda>o' K'. K' = K \<and> o' = Inr False) K"
    by (rule wp_mono [OF has_online_wp]) (use assms in \<open>simp add: nobody_serves_def\<close>)
  show ?thesis
    unfolding prepare_delivery_def
    by (rule wp_seq_read [OF policy], simp add: assms(2), rule wp_seq_read [OF online], simp,
        rule wp_seq_read [OF fallback]) simp
qed

text \<open>A record that only says that the task failed before it was routed.\<close>

definition failed_record :: "string \<Rightarrow> execution \<Rightarrow> bool" where
  "failed_record eid e = (dget0 e ''execution_id'' = JStr eid \<and> dget0 e ''status'' = JStr ''FAILED'' \<and>
     dget0 e ''failed_stage'' = JStr ''availability'' \<and> dget0 e ''metadata'' = JNull \<and> dget0 e ''worker_id'' = JNull)"

lemma failed_decision_wp:
  assumes "rr_execution_id r \<noteq> []" and "rr_session_id r \<noteq> []"
  shows "wp (record_failed_route_decision V r) (\<lambda>o' K'. o' = Inr () \<and>
     (\<exists>e. record_by_message V K' (rr_session_id r) (rr_message_id r) = Inr (Some e) \<and> failed_record (rr_execution_id r) e)) K"
  unfolding record_failed_route_decision_def wp_try_exc wp_bindp
  by (rule wp_mono [OF initialize_wp [where eid = "rr_execution_id r" and mid = "rr_message_id r" and sid = "rr_session_id r"]])
    (use assms in \<open>auto simp: failed_record_def initialized_def Let_def dget0_def dget_def dset_def dsetdefault_def dhas_def split: if_splits\<close>)

lemma reject_send_wp:
  assumes "tw_schema (ct_trace_writer c) = V" and "ct_schema c = V" and "ct_has_registry c" and "eid \<noteq> []" and "pm_session_id p \<noteq> []"
  shows "wp (reject_send c a p root eid mid tid av) (\<lambda>o' K'. (\<exists>resp. o' = Inr resp \<and> \<not> sd_success resp) \<and>
     (\<exists>e. record_by_message V K' (pm_session_id p) mid = Inr (Some e) \<and> failed_record eid e)) K"
proof -
  let ?r = "client_failed_route a p eid mid tid av"
  have r: "rr_execution_id ?r = eid" "rr_session_id ?r = pm_session_id p" "rr_message_id ?r = mid"
    by (simp_all add: client_failed_route_def)
  have ended: "wp (end_root c root tid x) (\<lambda>o' K'. o' = Inr () \<and>
      (\<exists>e. record_by_message V K' (pm_session_id p) mid = Inr (Some e) \<and> failed_record eid e)) L"
    if "\<exists>e. record_by_message V L (pm_session_id p) mid = Inr (Some e) \<and> failed_record eid e" for x L
    by (rule wp_mono [OF client_trace_frame(2)]) (use assms(1,2) that in \<open>auto simp: untraced_views(2)\<close>)
  show ?thesis
    unfolding reject_send_def wp_bindp [of "if ct_has_registry c then _ else _"]
    using assms(2,3)
    by (simp, intro wp_mono [OF failed_decision_wp [of ?r]])
      (use assms(4,5) in \<open>auto simp: r wp_simps refusal_def intro!: wp_mono [OF ended]\<close>)
qed

text \<open>
  C9: a refused answer destroys what it answers: on a server that behaves as documented, when a client
  resumes a suspended execution by its message id under the policy \<open>FAIL_FAST\<close> while nobody serves
  its agent type, the dispatch is refused and the record of the suspended execution has been
  replaced, under its own id, by the record of a dispatch that failed: its metadata and the worker
  that holds it are gone.
\<close>

theorem refused_resume_overwrites_execution:
  assumes "redis exec view" and "ct_interceptors c = []" and "ct_has_registry c" and "tw_schema (ct_trace_writer c) = ct_schema c"
    and "sa_target_worker_id a = []" and "sa_route_policy a = ''FAIL_FAST''" and "sa_message_id a \<noteq> []"
    and "pm_action_type p = ''RESUME''" and "pm_session_id p \<noteq> []" and "pm_user_code p = []" and "has_content (pm_content p)"
    and "record_by_message (ct_schema c) (view s) (pm_session_id p) (sa_message_id a) = Inr (Some e)"
    and "map_of e ''execution_id'' = Some (JStr eid)" and "eid \<noteq> []"
    and "nobody_serves (ct_schema c) (view s) (pm_target_agent_type p)"
  shows "case run exec (send_message a p c) s of
     (Inr (Inr resp, c'), u) \<Rightarrow> \<not> sd_success resp \<and>
       (\<exists>e'. record_by_message (ct_schema c) (view u) (pm_session_id p) (sa_message_id a) = Inr (Some e') \<and>
          dget0 e' ''execution_id'' = JStr eid \<and> dget0 e' ''status'' = JStr ''FAILED'' \<and>
          dget0 e' ''failed_stage'' = JStr ''availability'' \<and> dget0 e' ''metadata'' = JNull \<and> dget0 e' ''worker_id'' = JNull)
   | _ \<Rightarrow> False"
proof -
  let ?V = "ct_schema c" and ?mid = "sa_message_id a" and ?sid = "pm_session_id p"
  let ?Q = "\<lambda>res (c' :: client) K'. (\<exists>resp. res = Inr resp \<and> \<not> sd_success resp) \<and>
      (\<exists>e. record_by_message ?V K' ?sid ?mid = Inr (Some e) \<and> failed_record eid e)"
  let ?ok = "\<lambda>K. record_by_message ?V K ?sid ?mid = Inr (Some e) \<and> nobody_serves ?V K (pm_target_agent_type p)"
  obtain r where build: "build_gateway_command ''RESUME'' (client_header c ?mid tid p) (pm_content p) (pm_extra_payload p) = Inr (ResumeCommand (r tid))" for tid
    using assms(11) by (auto simp: build_gateway_command_def new_resume_def)
  have e: "e \<noteq> []" using assms(13) by auto
  have routed: "wp (route_message c a p root eid ?mid tid cmd) (\<lambda>o' K'. (\<exists>resp. o' = Inr (Inl resp) \<and> \<not> sd_success resp) \<and>
      (\<exists>e. record_by_message ?V K' ?sid ?mid = Inr (Some e) \<and> failed_record eid e)) K" if "?ok K" for root tid cmd K
  proof -
    have "wp (prepare_delivery (ct_rounds c) ?V (client_intent a p eid ?mid tid cmd))
        (\<lambda>o' K'. o' = Inr (unavailable (client_intent a p eid ?mid tid cmd)) \<and> K' = K) K"
      by (rule fail_fast_wp) (use assms(6,10) that in \<open>simp_all add: client_intent_def\<close>)
    note av = wp_mono [OF this]
    note rejected = wp_mono [OF reject_send_wp [OF assms(4) refl assms(3,14,9)]]
    show ?thesis
      unfolding route_message_def wp_try_exc
      by (simp add: assms(5) wp_bindp, rule av)
        (auto simp: unavailable_def rejected_def dispatched_status_def wp_bindp intro!: rejected)
  qed
  have prepared: "awp (send_prepared a p ?mid tid) ?Q (\<lambda>_. False) c K" if "?ok K" for tid K
  proof -
    have rest: "awp (a_bind (a_lift (lift_res (build_gateway_command (pm_action_type p) (client_header c ?mid tid p)
          (pm_content p) (pm_extra_payload p)))) (\<lambda>command.
       a_bind (a_lift (resumed_execution c p ?mid)) (\<lambda>resumed.
       a_bind (a_lift (client_execution_id resumed)) (\<lambda>execution_id.
       a_bind (a_lift (route_message c a p root execution_id ?mid tid command)) (\<lambda>routed. case routed of
         Inl resp \<Rightarrow> a_ret resp
       | Inr r \<Rightarrow> dispatch_message a p (resumed \<noteq> None) execution_id ?mid tid command r))))) ?Q (\<lambda>_. False) c L"
      if "?ok L" for root L
      using that e assms(3,13)
      by (auto simp: awp_simps wp_simps wp_lift_res assms(8) build resumed_execution_def client_execution_id_def field_str_def
          split: list.splits intro!: wp_mono [OF routed])
    have start: "awp (a_seq (a_when root (a_lift (client_trace_start c tid ?mid p n))) m) ?Q (\<lambda>_. False) c K"
      if "\<And>L. ?ok L \<Longrightarrow> awp m ?Q (\<lambda>_. False) c L" for root n m
      using \<open>?ok K\<close> by (auto simp: awp_seq awp_when awp_lift that untraced_views intro!: wp_mono [OF client_trace_frame(1) [OF assms(4)]])
    show ?thesis
      unfolding send_prepared_def awp_with Let_def awp_bind [of "a_lift now_ms"] awp_lift
      by (simp only: wp_simple_reads sum.distinct if_False sum.case, intro allI start rest)
  qed
  have "awp (send_message a p) ?Q (\<lambda>_. False) c (view s)"
    unfolding send_message_def awp_with
    using assms(2,7,12,15)
    by (auto simp: awp_bind awp_lift wp_lift_res wp_uuid prepared)
  from redis.wp_run [OF assms(1) this [unfolded awp_def]] show ?thesis
    by (auto simp: failed_record_def split: sum.splits prod.splits)
qed

section \<open>The properties at concrete inputs\<close>

definition silent_context :: agent_context where
  "silent_context = demo_context\<lparr>ac_emitter := \<lparr>em_fixed = [],
     em_layout = \<lparr>lb_build = (\<lambda>_. Raise (RuntimeError [])), lb_ask_user = (\<lambda>_ _ _ _. Raise (RuntimeError []))\<rparr>,
     em_printed = \<lambda>_. []\<rparr>\<rparr>"

theorem answer_claims_question_witness:
  "case run ref_exec (ask_user demo_services ''Proceed?'' [] [] [] None silent_context) empty_server of (res, u) \<Rightarrow>
     gd_reason (fst (projr (fst (run ref_exec (bindp (consume_wait_entry V1 (client_header demo_client ''m'' ''t'' (demo_params ''RESUME'')))
       (\<lambda>d1. bindp (consume_wait_entry V1 (client_header demo_client ''m'' ''t'' (demo_params ''RESUME''))) (\<lambda>d2. Ret (d1, d2)))) u)))) =
     ALLOW_CLAIMED"
proof -
  have s: "only P (lb_ask_user (em_layout (ac_emitter silent_context)) d e f g)" for P d e f g
    by (simp add: silent_context_def)
  show ?thesis
    using answer_claims_question [OF ref.redis_axioms s, where p = "demo_params ''RESUME''" and cl = demo_client and tid = "''t''"
        and sv = demo_services and prompt = "''Proceed?''" and md = "[]" and midx = "[]" and pidx = "[]" and t = None and s = empty_server]
    by (auto simp: silent_context_def demo_services_def split: prod.splits)
qed

definition resumable_server :: rserver where
  "resumable_server = empty_server\<lparr>l_hs := [(session_registry V1 ''s'',
     [(EXEC_FIELD_PREFIX @ ''e'', Doc (JObj [(''execution_id'', JStr ''e''), (''message_id'', JStr ''m''), (''session_id'', JStr ''s''),
        (''status'', JStr ''WAITING_USER''), (''worker_id'', JStr ''w''), (''metadata'', JObj [(''order'', JInt 7)])])),
      (MSG_MAP_PREFIX @ ''m'', Txt ''e'')])]\<rparr>"

theorem refused_resume_overwrites_execution_witness:
  "case run ref_exec (send_message (demo_send ''FAIL_FAST'') (demo_params ''RESUME'') demo_client) resumable_server of
     (Inr (Inr resp, c'), u) \<Rightarrow> \<not> sd_success resp \<and>
       (\<exists>e'. record_by_message (ct_schema demo_client) (rview u) (pm_session_id (demo_params ''RESUME''))
         (sa_message_id (demo_send ''FAIL_FAST'')) = Inr (Some e') \<and> dget0 e' ''execution_id'' = JStr ''e'' \<and>
          dget0 e' ''status'' = JStr ''FAILED'' \<and> dget0 e' ''failed_stage'' = JStr ''availability'' \<and>
          dget0 e' ''metadata'' = JNull \<and> dget0 e' ''worker_id'' = JNull)
   | _ \<Rightarrow> False"
proof -
  let ?e = "[(''execution_id'', JStr ''e''), (''message_id'', JStr ''m''), (''session_id'', JStr ''s''),
        (''status'', JStr ''WAITING_USER''), (''worker_id'', JStr ''w''), (''metadata'', JObj [(''order'', JInt 7)])]"
  have r: "record_by_message V1 (rview resumable_server) ''s'' ''m'' = Inr (Some ?e)"
    by (simp add: record_by_message_def record_of_def resumable_server_def rview_def look_def)
  have n: "nobody_serves V1 (rview resumable_server) ''coder''"
    by (simp add: nobody_serves_def type_online_def resumable_server_def empty_server_def rview_def look_def)
  show ?thesis
    by (rule refused_resume_overwrites_execution [OF ref.redis_axioms, where e = ?e])
      (use r n in \<open>simp_all add: is_space_def\<close>)
qed

end
