(* ===== verification/File_Paths.thy ===== *)
theory File_Paths
  imports Prelude "HOL-Library.Sublist"
begin

text \<open>
  Paths of the file runtime: \<open>posixpath.normpath\<close>, \<open>core/runtime/file_paths.py\<close> (virtual paths and
  where they are stored), \<open>core/runtime/file_permissions.py\<close> (what a session may touch) and
  \<open>worker/sandbox/hook_sandbox.py\<close> (which files application code may open).
  The property: a path the policy permits and that holds no backslash is stored below the
  directory of the user, in its public part or in the part of the session.
\<close>

section \<open>Splitting and joining\<close>

text \<open>\<open>s.split(c)\<close> and \<open>c.join(ws)\<close>.\<close>

fun split_on :: "char \<Rightarrow> string \<Rightarrow> string list" where
  "split_on c [] = [[]]"
| "split_on c (x # xs) = (if x = c then [] # split_on c xs
     else case split_on c xs of [] \<Rightarrow> [[x]] | w # ws \<Rightarrow> (x # w) # ws)"

fun join_with :: "char \<Rightarrow> string list \<Rightarrow> string" where
  "join_with c [] = []"
| "join_with c [w] = w"
| "join_with c (w # ws) = w @ c # join_with c ws"

abbreviation slash :: char where "slash \<equiv> CHR ''/''"

abbreviation backslash :: char where "backslash \<equiv> CHR 0x5C"

lemma split_on_ne [simp]: "split_on c s \<noteq> []"
  by (cases s) (auto split: list.splits)

lemma split_on_word: "c \<notin> set w \<Longrightarrow> split_on c w = [w]"
  by (induction w) auto

lemma split_on_append: "c \<notin> set w \<Longrightarrow> split_on c (w @ c # s) = w # split_on c s"
  by (induction w) (auto split: list.splits)

lemma join_Cons: "ws \<noteq> [] \<Longrightarrow> join_with c (w # ws) = w @ c # join_with c ws"
  by (cases ws) auto

lemma split_of_join: "ws \<noteq> [] \<Longrightarrow> \<forall>w \<in> set ws. c \<notin> set w \<Longrightarrow> split_on c (join_with c ws) = ws"
  by (induction c ws rule: join_with.induct) (auto simp: split_on_word split_on_append)

lemma split_on_parts: "w \<in> set (split_on c s) \<Longrightarrow> c \<notin> set w \<and> set w \<subseteq> set s"
proof (induction s arbitrary: w)
  case (Cons a s)
  then show ?case by (cases "split_on c s") (force split: if_splits)+
qed simp

lemma join_chars: "set (join_with c ws) \<subseteq> insert c (\<Union> (set ` set ws))"
  by (induction c ws rule: join_with.induct) auto

section \<open>\<open>posixpath.normpath\<close>\<close>

definition norm_step :: "bool \<Rightarrow> string list \<Rightarrow> string \<Rightarrow> string list" where
  "norm_step rooted acc part =
     (if part = [] \<or> part = ''.'' then acc
      else if part \<noteq> ''..'' \<or> (\<not> rooted \<and> acc = []) \<or> (acc \<noteq> [] \<and> last acc = ''..'') then acc @ [part]
      else butlast acc)"

definition norm_comps :: "bool \<Rightarrow> string list \<Rightarrow> string list" where
  "norm_comps rooted parts = foldl (norm_step rooted) [] parts"

definition initial_slashes :: "string \<Rightarrow> nat" where
  "initial_slashes path = (if \<not> prefix ''/'' path then 0
     else if prefix ''//'' path \<and> \<not> prefix ''///'' path then 2 else 1)"

definition normpath :: "string \<Rightarrow> string" where
  "normpath path =
     (if path = [] then ''.''
      else let body = join_with slash (norm_comps (0 < initial_slashes path) (split_on slash path));
               full = replicate (initial_slashes path) slash @ body
           in if full = [] then ''.'' else full)"

definition clean :: "string \<Rightarrow> bool" where
  "clean c = (c \<noteq> [] \<and> c \<noteq> ''.'' \<and> c \<noteq> ''..'' \<and> slash \<notin> set c)"

definition climbs :: "nat \<Rightarrow> string list" where
  "climbs n = replicate n ''..''"

lemma norm_comps_clean: "\<forall>c \<in> set cs. clean c \<Longrightarrow> foldl (norm_step r) acc cs = acc @ cs"
  by (induction cs arbitrary: acc) (auto simp: norm_step_def clean_def)

lemma norm_step_subset: "set (norm_step r acc c) \<subseteq> insert c (set acc)"
  by (auto simp: norm_step_def dest: in_set_butlastD)

lemma norm_comps_subset: "set (foldl (norm_step r) acc ws) \<subseteq> set acc \<union> set ws"
proof (induction ws arbitrary: acc)
  case (Cons w ws)
  then show ?case using norm_step_subset [of r acc w] by fastforce
qed simp

text \<open>What is left are climbs, none of them below the root, and then clean names.\<close>

definition normal :: "bool \<Rightarrow> string list \<Rightarrow> bool" where
  "normal rooted cs = (\<exists>n ds. cs = climbs n @ ds \<and> (rooted \<longrightarrow> n = 0) \<and> (\<forall>c \<in> set ds. clean c))"

lemma normal_snoc: "normal r acc \<Longrightarrow> clean c \<Longrightarrow> normal r (acc @ [c])"
proof -
  assume "normal r acc" and c: "clean c"
  then obtain n ds where "acc = climbs n @ ds" "r \<longrightarrow> n = 0" "\<forall>c \<in> set ds. clean c" by (auto simp: normal_def)
  then show ?thesis using c unfolding normal_def by (intro exI [of _ n] exI [of _ "ds @ [c]"]) auto
qed

lemma normal_climb: "normal False acc \<Longrightarrow> acc = [] \<or> last acc = ''..'' \<Longrightarrow> normal False (acc @ [''..''])"
proof -
  assume "normal False acc" and last: "acc = [] \<or> last acc = ''..''"
  then obtain n ds where acc: "acc = climbs n @ ds" and ds: "\<forall>c \<in> set ds. clean c" by (auto simp: normal_def)
  have "ds = []" using last acc ds by (cases ds rule: rev_cases) (auto simp: clean_def)
  then have "acc @ [''..''] = climbs (Suc n) @ []" using acc by (simp add: climbs_def replicate_append_same)
  then show ?thesis unfolding normal_def by (metis empty_iff list.set(1))
qed

lemma normal_drop: "normal r acc \<Longrightarrow> acc = [] \<or> last acc \<noteq> ''..'' \<Longrightarrow> normal r (butlast acc)"
proof -
  assume "normal r acc" and last: "acc = [] \<or> last acc \<noteq> ''..''"
  then obtain n ds where acc: "acc = climbs n @ ds" "r \<longrightarrow> n = 0" and ds: "\<forall>c \<in> set ds. clean c" by (auto simp: normal_def)
  show ?thesis
  proof (cases ds rule: rev_cases)
    case Nil
    have "n = 0" using last acc Nil by (cases "n = 0") (auto simp: climbs_def)
    then show ?thesis using acc Nil ds by (auto simp: normal_def climbs_def)
  next
    case (snoc es e)
    then have "butlast acc = climbs n @ es" using acc by (simp add: butlast_append)
    then show ?thesis using acc ds snoc by (auto simp: normal_def)
  qed
qed

lemma normal_rooted: "normal True acc \<Longrightarrow> acc \<noteq> [] \<Longrightarrow> last acc \<noteq> ''..''"
  by (auto simp: normal_def climbs_def clean_def dest: last_in_set)

lemma norm_step_normal:
  assumes "normal r acc" and "slash \<notin> set c"
  shows "normal r (norm_step r acc c)"
proof (cases "c = [] \<or> c = ''.'' \<or> c \<noteq> ''..''")
  case True
  then show ?thesis using assms by (auto simp: norm_step_def clean_def intro!: normal_snoc)
next
  case False
  then have c: "c = ''..''" by simp
  show ?thesis
  proof (cases "r \<or> (acc \<noteq> [] \<and> last acc \<noteq> ''..'')")
    case True
    then show ?thesis using assms normal_rooted [of acc] by (auto simp: norm_step_def c intro!: normal_drop)
  next
    case False
    then show ?thesis using assms normal_climb [of acc] by (auto simp: norm_step_def c)
  qed
qed

lemma norm_comps_normal: "\<forall>c \<in> set cs. slash \<notin> set c \<Longrightarrow> normal r acc \<Longrightarrow> normal r (foldl (norm_step r) acc cs)"
  by (induction cs arbitrary: acc) (auto intro: norm_step_normal)

lemma norm_comps_split: "normal r (norm_comps r (split_on slash s))"
  unfolding norm_comps_def
  by (rule norm_comps_normal) (auto dest: split_on_parts simp: normal_def climbs_def)


section \<open>Virtual and stored paths\<close>

record access_context =
  fa_session_id :: string
  fa_user_code :: string
  fa_shared_public :: bool
  fa_agent_id :: string

definition normalize_virtual_path :: "string \<Rightarrow> string" where
  "normalize_virtual_path path =
     (if path = [] then []
      else let normalized = normpath path in
        if normalized = ''.'' then [] else dropWhile (\<lambda>c. c = slash) normalized)"

definition storage_root_prefix :: "access_context \<Rightarrow> string" where
  "storage_root_prefix ctx = (if fa_shared_public ctx then ''public'' else fa_agent_id ctx)"

definition storage_prefix :: "access_context \<Rightarrow> string" where
  "storage_prefix ctx = (if storage_root_prefix ctx \<noteq> []
     then storage_root_prefix ctx @ ''/'' @ fa_user_code ctx @ ''/'' else fa_user_code ctx @ ''/'')"

definition to_storage_path :: "access_context \<Rightarrow> string \<Rightarrow> string" where
  "to_storage_path ctx virtual_path = (if storage_root_prefix ctx \<noteq> []
     then storage_root_prefix ctx @ ''/'' @ fa_user_code ctx @ ''/'' @ normalize_virtual_path virtual_path
     else fa_user_code ctx @ ''/'' @ normalize_virtual_path virtual_path)"

definition from_storage_path :: "access_context \<Rightarrow> string \<Rightarrow> string" where
  "from_storage_path ctx storage_path =
     (if prefix (storage_prefix ctx) storage_path then drop (length (storage_prefix ctx)) storage_path else storage_path)"

definition build_large_result_path :: "access_context \<Rightarrow> string \<Rightarrow> string \<Rightarrow> string" where
  "build_large_result_path ctx operation result_id =
     ''sessions/'' @ fa_session_id ctx @ ''/large_results/'' @ operation @ ''_'' @ result_id @ ''.json''"

section \<open>The permission policy\<close>

text \<open>\<open>WorkspaceScopedPermissionPolicy.check\<close>: an error message, or nothing.\<close>

definition check_scope :: "access_context \<Rightarrow> string \<Rightarrow> string option" where
  "check_scope ctx path =
     (let normalized = normalize_virtual_path path; parts = split_on slash normalized in
      if normalized = [] then None
      else if prefix ''/'' normalized \<or> prefix ''..'' normalized
      then Some (''PermissionError: Path '' @ CHR 0x27 # path @ CHR 0x27 # '' escapes the virtual root constraints.'')
      else if hd parts = ''public'' then None
      else if 2 \<le> length parts \<and> parts ! 0 = ''sessions'' \<and> parts ! 1 = fa_session_id ctx then None
      else Some (''PermissionError: Access to path '' @ CHR 0x27 # path @ CHR 0x27 # '' is denied. Must be within '' @
        CHR 0x27 # ''sessions/'' @ fa_session_id ctx @ CHR 0x27 # '' or '' @ CHR 0x27 # ''public'' @ [CHR 0x27, CHR ''.'']))"

section \<open>The place of a file\<close>

text \<open>
  \<open>LocalFileStorage._get_full_path\<close> on a POSIX system: a file is named by the list of its
  names from the root; \<open>base\<close> is the absolute base directory and \<open>resolve\<close> follows symbolic links.
\<close>

definition logical_path :: "string list \<Rightarrow> string \<Rightarrow> string list" where
  "logical_path base path =
     norm_comps True (base @ split_on slash (dropWhile (\<lambda>c. c = slash) (map (\<lambda>c. if c = backslash then slash else c) path)))"

definition path_text :: "string list \<Rightarrow> string" where
  "path_text p = slash # join_with slash p"

definition get_full_path :: "(string list \<Rightarrow> string list) \<Rightarrow> string list \<Rightarrow> string \<Rightarrow> string + string list" where
  "get_full_path resolve base path =
     (if prefix (resolve base) (resolve (logical_path base path)) then Inr (logical_path base path)
      else Inl (''Path traversal detected: '' @ path @ '' escapes base directory '' @ path_text base))"

section \<open>The sandbox of application code\<close>

text \<open>\<open>HookSandbox._safe_open\<close>: whether the file is opened; \<open>cwd\<close> is absolute.\<close>

definition abspath :: "string \<Rightarrow> string \<Rightarrow> string" where
  "abspath cwd file = normpath (if prefix ''/'' file then file else cwd @ ''/'' @ file)"

fun occurs :: "string \<Rightarrow> string \<Rightarrow> bool" where
  "occurs m [] = (m = [])"
| "occurs m (c # cs) = (prefix m (c # cs) \<or> occurs m cs)"

definition safe_open :: "string \<Rightarrow> string \<Rightarrow> string \<Rightarrow> string \<Rightarrow> string option" where
  "safe_open cwd workspace caller_filename file =
     (if workspace \<noteq> [] \<and> \<not> occurs ''lib/python'' caller_filename \<and> \<not> occurs ''site-packages'' caller_filename \<and>
         \<not> prefix (abspath cwd workspace) (abspath cwd file)
      then Some (''[Sandbox] Access denied to path outside workspace: '' @ file) else None)"

section \<open>What the policy permits\<close>

lemma normal_parts: "normal r cs \<Longrightarrow> c \<in> set cs \<Longrightarrow> c \<noteq> [] \<and> slash \<notin> set c \<and> c \<noteq> ''.''"
proof -
  assume "normal r cs" "c \<in> set cs"
  then obtain n ds where "cs = climbs n @ ds" "\<forall>c \<in> set ds. clean c" "c \<in> set cs" unfolding normal_def by blast
  then have "c = ''..'' \<or> clean c" by (auto simp: climbs_def split: if_splits)
  then show ?thesis by (auto simp: clean_def)
qed

lemma join_no_slash:
  assumes "normal r cs" shows "dropWhile (\<lambda>c. c = slash) (replicate k slash @ join_with slash cs) = join_with slash cs"
proof -
  have "dropWhile (\<lambda>c. c = slash) (join_with slash cs) = join_with slash cs"
  proof (cases cs)
    case (Cons c ds)
    then obtain x xs where c: "c = x # xs" "x \<noteq> slash" using normal_parts [OF assms, of c] by (cases c) auto
    then show ?thesis using Cons by (cases ds) auto
  qed simp
  then show ?thesis by (induction k) auto
qed

lemma join_dot: "normal r cs \<Longrightarrow> join_with slash cs \<noteq> ''.''"
proof
  assume n: "normal r cs" and j: "join_with slash cs = ''.''"
  then obtain c ds where cs: "cs = c # ds" by (cases cs) auto
  then have "c \<noteq> []" "c \<noteq> ''.''" using normal_parts [OF n, of c] by auto
  then show False using j cs by (cases ds; cases c) (auto simp: append_eq_Cons_conv)
qed

lemma join_nil: "normal r cs \<Longrightarrow> join_with slash cs = [] \<longleftrightarrow> cs = []"
proof (cases cs)
  case (Cons c ds)
  then show "normal r cs \<Longrightarrow> ?thesis" using normal_parts [of r cs c] by (cases ds) auto
qed simp

lemma normalize_comps:
  obtains r cs where "normalize_virtual_path p = join_with slash cs" "normal r cs" "p \<noteq> [] \<Longrightarrow> cs = norm_comps r (split_on slash p)"
    "p = [] \<Longrightarrow> cs = []"
proof (cases "p = []")
  case True
  then show ?thesis using that [of "[]" True] by (auto simp: normalize_virtual_path_def normal_def climbs_def)
next
  case False
  let ?r = "0 < initial_slashes p" and ?k = "initial_slashes p"
  let ?cs = "norm_comps ?r (split_on slash p)"
  have n: "normal ?r ?cs" by (rule norm_comps_split)
  have "replicate ?k slash @ join_with slash ?cs = ''.'' \<Longrightarrow> False"
    using join_dot [OF n] by (cases ?k) auto
  then have "normalize_virtual_path p = join_with slash ?cs"
    using False join_no_slash [OF n, of ?k] by (auto simp: normalize_virtual_path_def normpath_def Let_def)
  then show ?thesis using that [of ?cs ?r] n False by simp
qed

text \<open>The parts of a session's own area.\<close>

definition own_area :: "access_context \<Rightarrow> string list \<Rightarrow> bool" where
  "own_area ctx cs = (hd cs = ''public'' \<or> (2 \<le> length cs \<and> cs ! 0 = ''sessions'' \<and> cs ! 1 = fa_session_id ctx))"

lemma permitted_comps:
  assumes "check_scope ctx p = None"
  obtains cs where "normalize_virtual_path p = join_with slash cs" "\<forall>c \<in> set cs. clean c" "cs = [] \<or> own_area ctx cs"
proof -
  obtain r cs where n: "normalize_virtual_path p = join_with slash cs" "normal r cs" by (rule normalize_comps [of p])
  show ?thesis
  proof (cases "cs = []")
    case True
    then show ?thesis using that [of "[]"] n by simp
  next
    case False
    then have j: "join_with slash cs \<noteq> []" using join_nil [OF n(2)] by simp
    have s: "split_on slash (join_with slash cs) = cs"
      using normal_parts [OF n(2)] False by (intro split_of_join) auto
    obtain m ds where cs: "cs = climbs m @ ds" "\<forall>c \<in> set ds. clean c" using n(2) by (auto simp: normal_def)
    have "m = 0"
    proof (rule ccontr)
      assume "m \<noteq> 0"
      then obtain xs where "cs = ''..'' # xs" using cs by (cases m) (auto simp: climbs_def)
      then have "prefix ''..'' (join_with slash cs)" by (cases xs) (auto simp: prefix_def)
      then show False using assms n(1) j by (simp add: check_scope_def Let_def)
    qed
    then have "\<forall>c \<in> set cs. clean c" using cs by (simp add: climbs_def)
    moreover have "own_area ctx cs"
      using assms j by (auto simp: check_scope_def n(1) Let_def own_area_def s split: if_splits)
    ultimately show ?thesis using that n(1) by blast
  qed
qed

definition plain :: "string \<Rightarrow> bool" where
  "plain c = (clean c \<and> backslash \<notin> set c)"

text \<open>The directory of a user.\<close>

definition user_root :: "access_context \<Rightarrow> string list" where
  "user_root ctx = (if storage_root_prefix ctx \<noteq> [] then [storage_root_prefix ctx, fa_user_code ctx] else [fa_user_code ctx])"

definition named_plainly :: "access_context \<Rightarrow> bool" where
  "named_plainly ctx = (plain (fa_user_code ctx) \<and> (storage_root_prefix ctx = [] \<or> plain (storage_root_prefix ctx)))"

lemma storage_join:
  assumes "normalize_virtual_path p = join_with slash cs"
  shows "to_storage_path ctx p = join_with slash (user_root ctx @ (if cs = [] then [[]] else cs))"
  using assms by (auto simp: to_storage_path_def user_root_def join_Cons)

lemma logical_join:
  assumes "\<forall>c \<in> set base. clean c" and "\<forall>c \<in> set cs. plain c" and "cs \<noteq> []"
  shows "logical_path base (join_with slash cs) = base @ cs"
    and "logical_path base (join_with slash (cs @ [[]])) = base @ cs"
proof -
  obtain x xs w where w: "cs = (x # xs) # w" "x \<noteq> slash"
    using assms(2,3) by (cases cs; cases "hd cs") (auto simp: plain_def clean_def)
  have first: "\<exists>t. join_with slash (((x # xs) # w) @ ds) = x # t" for ds
    by (cases "w @ ds") auto
  have d: "dropWhile (\<lambda>c. c = slash) (join_with slash (cs @ ds)) = join_with slash (cs @ ds)" for ds
  proof -
    obtain t where "join_with slash (((x # xs) # w) @ ds) = x # t" using first by blast
    then show ?thesis using w by simp
  qed
  have m: "map (\<lambda>c. if c = backslash then slash else c) (join_with slash (cs @ ds)) = join_with slash (cs @ ds)"
    if "ds = [] \<or> ds = [[]]" for ds
  proof (rule map_idI)
    fix c assume c: "c \<in> set (join_with slash (cs @ ds))"
    have "c = slash \<or> (\<exists>w \<in> set cs. c \<in> set w)" using join_chars [of slash "cs @ ds"] that c by fastforce
    then have "c = slash \<or> (\<exists>w. plain w \<and> c \<in> set w)" using assms(2) by blast
    then show "(if c = backslash then slash else c) = c" by (auto simp: plain_def)
  qed
  have s: "split_on slash (join_with slash (cs @ ds)) = cs @ ds" if "ds = [] \<or> ds = [[]]" for ds
  proof (rule split_of_join)
    show "cs @ ds \<noteq> []" using assms(3) by simp
    show "\<forall>w \<in> set (cs @ ds). slash \<notin> set w"
    proof
      fix w assume "w \<in> set (cs @ ds)"
      then have "plain w \<or> w = []" using that assms(2) by auto
      then show "slash \<notin> set w" by (auto simp: plain_def clean_def)
    qed
  qed
  have b: "norm_comps True (base @ cs) = base @ cs"
  proof -
    have "\<forall>c \<in> set (base @ cs). clean c" using assms(1,2) by (auto simp: plain_def)
    from norm_comps_clean [OF this] show ?thesis by (simp add: norm_comps_def)
  qed
  have n: "norm_comps True (base @ cs @ ds) = base @ cs" if "ds = [] \<or> ds = [[]]" for ds
    using that b by (auto simp: norm_comps_def norm_step_def)
  show "logical_path base (join_with slash cs) = base @ cs"
    using m [of "[]"] d [of "[]"] s [of "[]"] n [of "[]"] by (simp add: logical_path_def)
  show "logical_path base (join_with slash (cs @ [[]])) = base @ cs"
    using m [of "[[]]"] d [of "[[]]"] s [of "[[]]"] n [of "[[]]"] by (simp add: logical_path_def)
qed

lemma permitted_place:
  assumes "check_scope ctx p = None" and "backslash \<notin> set p" and "named_plainly ctx" and "\<forall>c \<in> set base. clean c"
  obtains cs where "logical_path base (to_storage_path ctx p) = base @ user_root ctx @ cs"
    "\<forall>c \<in> set cs. clean c" "cs = [] \<or> own_area ctx cs" "normalize_virtual_path p = join_with slash cs"
proof -
  obtain cs where n: "normalize_virtual_path p = join_with slash cs" and c: "\<forall>c \<in> set cs. clean c" and o: "cs = [] \<or> own_area ctx cs"
    by (rule permitted_comps [OF assms(1)])
  obtain r cs' where n': "normalize_virtual_path p = join_with slash cs'" "normal r cs'"
      "p \<noteq> [] \<longrightarrow> cs' = norm_comps r (split_on slash p)" "p = [] \<longrightarrow> cs' = []"
    using normalize_comps [of p] by blast
  have cs': "cs' = cs"
  proof (cases "cs = [] \<or> cs' = []")
    case True
    have "normal True cs" using c by (auto simp: normal_def climbs_def)
    then show ?thesis using True n n'(1,2) join_nil by metis
  next
    case False
    have "split_on slash (join_with slash cs) = cs" using c False by (intro split_of_join) (auto simp: clean_def)
    moreover have "split_on slash (join_with slash cs') = cs'" using normal_parts [OF n'(2)] False by (intro split_of_join) auto
    ultimately show ?thesis using n n'(1) by simp
  qed
  have "\<forall>w \<in> set cs. backslash \<notin> set w"
  proof (cases "p = []")
    case False
    then have "set cs \<subseteq> set (split_on slash p)" using n'(3) cs' norm_comps_subset [of r "[]"] by (auto simp: norm_comps_def)
    then show ?thesis using split_on_parts [of _ slash p] assms(2) by blast
  qed (use n'(4) cs' in simp)
  then have p: "\<forall>w \<in> set (user_root ctx @ cs). plain w"
    using c assms(3) by (auto simp: plain_def user_root_def named_plainly_def)
  have u: "user_root ctx @ cs \<noteq> []" by (simp add: user_root_def)
  have "logical_path base (to_storage_path ctx p) = base @ user_root ctx @ cs"
    using logical_join [OF assms(4) p u] storage_join [OF n, of ctx] by auto
  then show ?thesis using that c o n by blast
qed

end
