(* ===== verification/File_Store.thy ===== *)
theory File_Store
  imports File_Paths "HOL-Library.Char_ord" "HOL-Library.List_Lexorder"
begin

text \<open>
  Files and \<open>core/runtime/filestore/local.py\<close>: a tree of directories and files without symbolic
  links, the calls of the operating system it serves, and the operations of \<open>LocalFileStorage\<close>
  with the errors they report.  Texts are UTF-8; what a file holds are bytes, and the codecs
  are parameters.  Permissions of the operating system, full disks and other processes are not
  modelled.
\<close>

section \<open>Texts\<close>

definition continuation :: "char \<Rightarrow> bool" where
  "continuation c = (128 \<le> (of_char c :: nat) \<and> (of_char c :: nat) < 192)"

text \<open>\<open>len\<close> and the characters of a text.\<close>

definition py_len :: "string \<Rightarrow> nat" where
  "py_len s = length (filter (\<lambda>c. \<not> continuation c) s)"

fun code_points :: "string \<Rightarrow> string list" where
  "code_points [] = []"
| "code_points (c # cs) = (case code_points cs of
     [] \<Rightarrow> [[c]] | p # ps \<Rightarrow> if continuation (hd p) then (c # p) # ps else [c] # p # ps)"

text \<open>Line ends as \<open>open(..., newline=None)\<close> reads them.\<close>

fun universal :: "string \<Rightarrow> string" where
  "universal [] = []"
| "universal (c # cs) = (if c = CHR 0x0D
     then CHR 0x0A # universal (if take 1 cs = [CHR 0x0A] then tl cs else cs) else c # universal cs)"

text \<open>\<open>str.splitlines\<close>: the rest after the line end a text starts with.\<close>

definition line_break :: "string \<Rightarrow> string option" where
  "line_break s =
     (if s = [] then None
      else if hd s \<in> {CHR 0x0A, CHR 0x0B, CHR 0x0C, CHR 0x1C, CHR 0x1D, CHR 0x1E} then Some (tl s)
      else if hd s = CHR 0x0D then Some (if take 1 (tl s) = [CHR 0x0A] then tl (tl s) else tl s)
      else if take 2 s = [CHR 0xC2, CHR 0x85] then Some (drop 2 s)
      else if take 3 s \<in> {[CHR 0xE2, CHR 0x80, CHR 0xA8], [CHR 0xE2, CHR 0x80, CHR 0xA9]} then Some (drop 3 s)
      else None)"

lemma line_break_shorter: "line_break s = Some r \<Longrightarrow> length r < length s"
proof -
  assume b: "line_break s = Some r"
  have "s \<noteq> [] \<and> r \<in> {tl s, tl (tl s), drop 2 s, drop 3 s}"
  proof (rule ccontr)
    assume "\<not> ?thesis"
    then show False using b unfolding line_break_def by (simp only: option.inject option.distinct insert_iff simp_thms split: if_split_asm)
  qed
  then show ?thesis by (cases s) auto
qed

function lines_from :: "string \<Rightarrow> string \<Rightarrow> string list" where
  "lines_from cur [] = (if cur = [] then [] else [cur])"
| "lines_from cur (c # cs) = (case line_break (c # cs) of
     Some rest \<Rightarrow> cur # lines_from [] rest | None \<Rightarrow> lines_from (cur @ [c]) cs)"
  by pat_completeness auto
termination by (relation "measure (\<lambda>(cur, s). length s)") (auto dest: line_break_shorter)

definition splitlines :: "string \<Rightarrow> string list" where
  "splitlines s = lines_from [] s"

definition slice_lines :: "string \<Rightarrow> int \<Rightarrow> int option \<Rightarrow> string" where
  "slice_lines s offset limit =
     (let rest = drop (nat (max offset 0)) (splitlines s) in
      join_with (CHR 0x0A) (case limit of None \<Rightarrow> rest | Some n \<Rightarrow> take (nat (max n 0)) rest))"

text \<open>\<open>str.count\<close> and \<open>str.replace\<close>, of occurrences that do not overlap.\<close>

function occurrences :: "string \<Rightarrow> string \<Rightarrow> nat" where
  "occurrences old s =
     (if old = [] then py_len s + 1 else if s = [] then 0
      else if prefix old s then 1 + occurrences old (drop (length old) s) else occurrences old (tl s))"
  by auto
termination by (relation "measure (\<lambda>(old, s). length s)") auto

declare occurrences.simps [simp del]

function replace_first :: "nat \<Rightarrow> string \<Rightarrow> string \<Rightarrow> string \<Rightarrow> string" where
  "replace_first n old new s =
     (if n = 0 \<or> old = [] \<or> s = [] then s
      else if prefix old s then new @ replace_first (n - 1) old new (drop (length old) s)
      else hd s # replace_first n old new (tl s))"
  by auto
termination by (relation "measure (\<lambda>(n, old, new, s). length s)") auto

declare replace_first.simps [simp del]

definition replaced :: "bool \<Rightarrow> string \<Rightarrow> string \<Rightarrow> string \<Rightarrow> string" where
  "replaced every old new s =
     (if old = [] then (if every then new @ concat (map (\<lambda>p. p @ new) (code_points s)) else new @ s)
      else replace_first (if every then length s else 1) old new s)"

section \<open>The file system\<close>

datatype node = Directory | Regular string

type_synonym fs = "(string list \<times> node) list"

definition node_at :: "fs \<Rightarrow> string list \<Rightarrow> node option" where
  "node_at fs p = (if p = [] then Some Directory else map_of fs p)"

definition is_dir :: "fs \<Rightarrow> string list \<Rightarrow> bool" where
  "is_dir fs p = (node_at fs p = Some Directory)"

definition is_file :: "fs \<Rightarrow> string list \<Rightarrow> bool" where
  "is_file fs p = (case node_at fs p of Some (Regular b) \<Rightarrow> True | _ \<Rightarrow> False)"

definition ancestors :: "string list \<Rightarrow> string list list" where
  "ancestors p = map (\<lambda>n. take n p) [1..<length p]"

definition blocked :: "fs \<Rightarrow> string list \<Rightarrow> bool" where
  "blocked fs p = list_ex (is_file fs) (ancestors p)"

definition os_error :: "string \<Rightarrow> string \<Rightarrow> string list \<Rightarrow> string" where
  "os_error number what p = ''[Errno '' @ number @ ''] '' @ what @ '': '' @ CHR 0x27 # path_text p @ [CHR 0x27]"

definition no_entry :: "fs \<Rightarrow> string list \<Rightarrow> string" where
  "no_entry fs p = (if blocked fs p then os_error ''20'' ''Not a directory'' p
     else os_error ''2'' ''No such file or directory'' p)"

text \<open>\<open>Path.mkdir(parents=True, exist_ok=True)\<close>.\<close>

definition add_dir :: "string list \<Rightarrow> fs \<Rightarrow> fs" where
  "add_dir p fs = (if node_at fs p = None then AList.update p Directory fs else fs)"

definition mkdirs :: "string list \<Rightarrow> fs \<Rightarrow> string + fs" where
  "mkdirs p fs =
     (if blocked fs p then Inl (os_error ''20'' ''Not a directory'' p)
      else if is_file fs p then Inl (os_error ''17'' ''File exists'' p)
      else Inr (fold add_dir (ancestors p @ (if p = [] then [] else [p])) fs))"

definition read_bytes :: "fs \<Rightarrow> string list \<Rightarrow> string + string" where
  "read_bytes fs p = (case node_at fs p of
       Some (Regular b) \<Rightarrow> Inr b
     | Some Directory \<Rightarrow> Inl (os_error ''21'' ''Is a directory'' p)
     | None \<Rightarrow> Inl (no_entry fs p))"

definition open_for_writing :: "fs \<Rightarrow> string list \<Rightarrow> string + fs" where
  "open_for_writing fs p =
     (if is_dir fs p then Inl (os_error ''21'' ''Is a directory'' p)
      else if blocked fs p \<or> \<not> is_dir fs (butlast p) then Inl (no_entry fs p)
      else Inr (AList.update p (Regular []) fs))"

text \<open>\<open>Path.unlink\<close> of a file, \<open>shutil.rmtree\<close> of a directory.\<close>

definition remove_tree :: "string list \<Rightarrow> fs \<Rightarrow> fs" where
  "remove_tree p fs = filter (\<lambda>(q, n). \<not> prefix p q) fs"

section \<open>\<open>rglob\<close>\<close>

text \<open>\<open>fnmatch\<close> on the characters of a name.\<close>

fun in_class :: "string list \<Rightarrow> string \<Rightarrow> bool" where
  "in_class [] c = False"
| "in_class (a # ps) c = (case ps of
     d # b # rest \<Rightarrow> if d = ''-'' then (a \<le> c \<and> c \<le> b) \<or> in_class rest c else a = c \<or> in_class ps c
   | _ \<Rightarrow> a = c \<or> in_class ps c)"

definition class_end :: "string list \<Rightarrow> (bool \<times> string list \<times> string list) option" where
  "class_end ps =
     (let negated = (take 1 ps = [''!'']); body = (if negated then tl ps else ps);
          i = length (takeWhile (\<lambda>c. c \<noteq> '']'') (tl body)) + 1
      in if i < length body then Some (negated, take i body, drop (i + 1) body) else None)"

lemma class_end_shorter: "class_end ps = Some (n, cl, rest) \<Longrightarrow> length rest < length ps"
  by (auto simp: class_end_def Let_def split: if_splits)

function fn_match :: "string list \<Rightarrow> string list \<Rightarrow> bool" where
  "fn_match [] s = (s = [])"
| "fn_match (p # ps) s =
     (if p = ''*'' then (if fn_match ps s then True else if s = [] then False else fn_match (p # ps) (tl s))
      else if s = [] then False
      else if p = ''?'' then fn_match ps (tl s)
      else if p = ''['' then (case class_end ps of
          None \<Rightarrow> hd s = ''['' \<and> fn_match ps (tl s)
        | Some (negated, cl, rest) \<Rightarrow> in_class cl (hd s) \<noteq> negated \<and> fn_match rest (tl s))
      else hd s = p \<and> fn_match ps (tl s))"
  by pat_completeness auto
termination
  by (relation "measures [\<lambda>(p, s). length p, \<lambda>(p, s). length s]") (auto dest: class_end_shorter)

declare fn_match.simps [simp del]

lemma fn_match_simps [simp]:
  "fn_match [] s = (s = [])"
  "fn_match (''*'' # ps) [] = fn_match ps []"
  "fn_match (''*'' # ps) (x # xs) = (fn_match ps (x # xs) \<or> fn_match (''*'' # ps) xs)"
  "p \<notin> {''*'', ''?'', ''[''} \<Longrightarrow> fn_match (p # ps) (x # xs) = (x = p \<and> fn_match ps xs)"
  by (subst fn_match.simps, simp)+

text \<open>Whether the parts of a pattern match a path below the directory; \<open>d\<close>: it is a directory.\<close>

function parts_match :: "bool \<Rightarrow> string list \<Rightarrow> string list \<Rightarrow> bool" where
  "parts_match d [] xs = (xs = [])"
| "parts_match d (p # ps) xs =
     (if p = ''**'' then (if ps = [] then d else if parts_match d ps xs then True
        else if xs = [] then False else parts_match d (p # ps) (tl xs))
      else if p = [] then ps = [] \<and> xs = [] \<and> d
      else if xs = [] then False else fn_match (code_points p) (code_points (hd xs)) \<and> parts_match d ps (tl xs))"
  by pat_completeness auto
termination by (relation "measures [\<lambda>(d, p, s). length p, \<lambda>(d, p, s). length s]") auto

declare parts_match.simps [simp del]

lemma parts_match_simps [simp]:
  "parts_match d [] xs = (xs = [])"
  "parts_match d [''**''] xs = d"
  "parts_match d (''**'' # p # ps) [] = parts_match d (p # ps) []"
  "parts_match d (''**'' # p # ps) (x # xs) = (parts_match d (p # ps) (x # xs) \<or> parts_match d (''**'' # p # ps) xs)"
  "p \<noteq> ''**'' \<Longrightarrow> p \<noteq> [] \<Longrightarrow> parts_match d (p # ps) xs =
     (xs \<noteq> [] \<and> fn_match (code_points p) (code_points (hd xs)) \<and> parts_match d ps (tl xs))"
  by (subst parts_match.simps, simp)+

definition pattern_parts :: "string \<Rightarrow> string list" where
  "pattern_parts pattern = filter (\<lambda>c. c \<noteq> [] \<and> c \<noteq> ''.'') (split_on slash pattern) @
     (if pattern \<noteq> [] \<and> last pattern = slash then [[]] else [])"

definition rglob :: "string list \<Rightarrow> string \<Rightarrow> fs \<Rightarrow> exn + (string list \<times> node) list" where
  "rglob base pattern fs =
     (if prefix ''/'' pattern then Inl (RuntimeError ''Non-relative patterns are unsupported'')
      else if pattern_parts pattern = [] then Inl (ValueError ''Unacceptable pattern'')
      else if list_ex (\<lambda>c. occurs ''**'' c \<and> c \<noteq> ''**'') (pattern_parts pattern)
      then Inl (ValueError ''Invalid pattern'')
      else Inr (filter (\<lambda>(q, n). prefix base q \<and>
        parts_match (n = Directory) (''**'' # pattern_parts pattern) (drop (length base) q)) fs))"

section \<open>\<open>LocalFileStorage\<close>\<close>

text \<open>\<open>ls_encode\<close>, \<open>ls_decode\<close>: a codec of the standard library, by name; \<open>None\<close> is a \<open>UnicodeError\<close>.\<close>

record local_storage =
  ls_base :: "string list"
  ls_resolve :: "string list \<Rightarrow> string list"
  ls_encode :: "string \<Rightarrow> string \<Rightarrow> string option"
  ls_decode :: "string \<Rightarrow> string \<Rightarrow> string option"

abbreviation place :: "local_storage \<Rightarrow> string \<Rightarrow> string + string list" where
  "place st path \<equiv> get_full_path (ls_resolve st) (ls_base st) path"

definition write_text :: "local_storage \<Rightarrow> string \<Rightarrow> string list \<Rightarrow> string \<Rightarrow> fs \<Rightarrow> (exn + (string + unit)) \<times> fs" where
  "write_text st encoding p content fs = (case open_for_writing fs p of
       Inl m \<Rightarrow> (Inr (Inl m), fs)
     | Inr fs1 \<Rightarrow> (case ls_encode st encoding content of
         None \<Rightarrow> (Inl (ValueError ''codec can't encode characters''), fs1)
       | Some b \<Rightarrow> (Inr (Inr ()), AList.update p (Regular b) fs1)))"

definition read_text :: "local_storage \<Rightarrow> string \<Rightarrow> string list \<Rightarrow> fs \<Rightarrow> exn + (string + string)" where
  "read_text st encoding p fs = (case read_bytes fs p of
       Inl m \<Rightarrow> Inr (Inl m)
     | Inr b \<Rightarrow> (case ls_decode st encoding b of
         None \<Rightarrow> Inl (ValueError ''codec can't decode bytes'') | Some s \<Rightarrow> Inr (Inr (universal s))))"

text \<open>The results: an error message, or the absolute path and what the operation adds.\<close>

definition storage_write :: "local_storage \<Rightarrow> string \<Rightarrow> string \<Rightarrow> string \<Rightarrow> fs \<Rightarrow> (exn + (string + string \<times> int)) \<times> fs" where
  "storage_write st path content encoding fs =
     (let failed = \<lambda>m. Inr (Inl (''Error writing file: '' @ m)) in
      case place st path of
        Inl m \<Rightarrow> (failed m, fs)
      | Inr p \<Rightarrow> (case mkdirs (butlast p) fs of
          Inl m \<Rightarrow> (failed m, fs)
        | Inr fs1 \<Rightarrow> (case write_text st encoding p content fs1 of
            (Inl e, fs2) \<Rightarrow> (Inl e, fs2)
          | (Inr (Inl m), fs2) \<Rightarrow> (failed m, fs2)
          | (Inr (Inr _), fs2) \<Rightarrow> (Inr (Inr (path_text p, int (py_len content))), fs2))))"

definition IMAGE_MEDIA_TYPES :: "(string \<times> string) list" where
  "IMAGE_MEDIA_TYPES = [(''.png'', ''image/png''), (''.jpg'', ''image/jpeg''), (''.jpeg'', ''image/jpeg''),
     (''.gif'', ''image/gif''), (''.webp'', ''image/webp'')]"

text \<open>\<open>PurePath.suffix\<close>.\<close>

definition suffix_of :: "string list \<Rightarrow> string" where
  "suffix_of p =
     (let name = (if p = [] then [] else last p); ext = rev (takeWhile (\<lambda>c. c \<noteq> CHR ''.'') (rev name));
          i = int (length name) - int (length ext) - 1
      in if 0 < i \<and> ext \<noteq> [] then CHR ''.'' # ext else [])"

datatype read_result =
    ReadError string
  | ReadImage string string string
  | ReadText string string
  | ReadBinary string string

definition storage_read ::
  "local_storage \<Rightarrow> string \<Rightarrow> string \<Rightarrow> int \<Rightarrow> int option \<Rightarrow> fs \<Rightarrow> exn + read_result" where
  "storage_read st path encoding offset limit fs =
     (let failed = \<lambda>m. Inr (ReadError (''Error reading file: '' @ m)); paged = (0 < offset \<or> limit \<noteq> None) in
      case place st path of
        Inl m \<Rightarrow> failed m
      | Inr p \<Rightarrow> (case map_of IMAGE_MEDIA_TYPES (map lower_char (suffix_of p)) of
          Some media \<Rightarrow>
            if paged then Inr (ReadError ''Error: Image reads do not support offset/limit pagination'')
            else (case read_bytes fs p of Inl m \<Rightarrow> failed m | Inr b \<Rightarrow> Inr (ReadImage (path_text p) b media))
        | None \<Rightarrow>
            if encoding = [] then
              (if paged then Inr (ReadError ''Error: Line-based reads require text encoding'')
               else case read_bytes fs p of Inl m \<Rightarrow> failed m | Inr b \<Rightarrow> Inr (ReadBinary (path_text p) b))
            else (case read_text st encoding p fs of
                Inl e \<Rightarrow> Inl e
              | Inr (Inl m) \<Rightarrow> failed m
              | Inr (Inr t) \<Rightarrow> Inr (ReadText (path_text p) (if paged then slice_lines t offset limit else t)))))"

text \<open>A path that does not exist counts as deleted.\<close>

definition storage_delete :: "local_storage \<Rightarrow> string \<Rightarrow> fs \<Rightarrow> (string + string) \<times> fs" where
  "storage_delete st path fs = (case place st path of
       Inl m \<Rightarrow> (Inl (''Error deleting path: '' @ m), fs)
     | Inr p \<Rightarrow> (Inr (path_text p), if is_file fs p \<or> is_dir fs p then remove_tree p fs else fs))"

definition storage_list :: "local_storage \<Rightarrow> string \<Rightarrow> fs \<Rightarrow> string + (string \<times> string) list" where
  "storage_list st path fs = (case place st path of
       Inl m \<Rightarrow> Inl (''Error listing directory: '' @ m)
     | Inr p \<Rightarrow> if \<not> is_dir fs p then Inr []
         else Inr (map (\<lambda>(q, n). (last q, path_text q)) (filter (\<lambda>(q, n). q \<noteq> [] \<and> butlast q = p) fs)))"

record search_match =
  sx_path :: string
  sx_absolute_path :: string
  sx_line_number :: nat
  sx_content :: string

definition relative_text :: "string list \<Rightarrow> string list \<Rightarrow> string" where
  "relative_text base p = (if drop (length base) p = [] then ''.'' else join_with slash (drop (length base) p))"

definition matching_lines :: "local_storage \<Rightarrow> string \<Rightarrow> string list \<Rightarrow> string \<Rightarrow> search_match list" where
  "matching_lines st pattern p bytes = (case ls_decode st ''utf-8'' bytes of
       None \<Rightarrow> []
     | Some t \<Rightarrow> map (\<lambda>(i, l). \<lparr>sx_path = relative_text (ls_base st) p, sx_absolute_path = path_text p,
           sx_line_number = i, sx_content = l\<rparr>)
         (filter (\<lambda>(i, l). occurs pattern l) (enumerate 1 (splitlines (universal t)))))"

definition storage_grep :: "local_storage \<Rightarrow> string \<Rightarrow> string \<Rightarrow> fs \<Rightarrow> exn + search_match list" where
  "storage_grep st pattern glob_pattern fs = (case rglob (ls_base st) glob_pattern fs of
       Inl e \<Rightarrow> Inl e
     | Inr items \<Rightarrow> Inr (concat (map (\<lambda>(p, n). case n of Regular b \<Rightarrow> matching_lines st pattern p b | Directory \<Rightarrow> [])
         (sort_key fst items))))"

definition storage_glob :: "local_storage \<Rightarrow> string \<Rightarrow> fs \<Rightarrow> exn + (string \<times> string) list" where
  "storage_glob st pattern fs = (case rglob (ls_base st) pattern fs of
       Inl e \<Rightarrow> Inl e
     | Inr items \<Rightarrow> Inr (map (\<lambda>(p, n). (relative_text (ls_base st) p, path_text p)) items))"

definition storage_edit ::
  "local_storage \<Rightarrow> string \<Rightarrow> string \<Rightarrow> string \<Rightarrow> bool \<Rightarrow> string \<Rightarrow> fs \<Rightarrow> (exn + (string + string \<times> nat)) \<times> fs" where
  "storage_edit st path old_string new_string replace_all encoding fs =
     (let failed = \<lambda>m. Inr (Inl (''Error editing file: '' @ m)) in
      case place st path of
        Inl m \<Rightarrow> (failed m, fs)
      | Inr p \<Rightarrow> if \<not> is_file fs p then (Inr (Inl (''File '' @ path @ '' does not exist.'')), fs)
          else (case read_text st encoding p fs of
              Inl e \<Rightarrow> (Inl e, fs)
            | Inr (Inl m) \<Rightarrow> (failed m, fs)
            | Inr (Inr content) \<Rightarrow>
                let n = occurrences old_string content in
                if n = 0 then (Inr (Inl (''String '' @ CHR 0x27 # old_string @ CHR 0x27 # '' not found in '' @ path)), fs)
                else if \<not> replace_all \<and> 1 < n
                then (Inr (Inl (''String '' @ CHR 0x27 # old_string @ CHR 0x27 # '' is not unique in '' @ path @ '' (found '' @
                  show_nat n @ '' occurrences) and replace_all is False.'')), fs)
                else (case write_text st encoding p (replaced replace_all old_string new_string content) fs of
                    (Inl e, fs1) \<Rightarrow> (Inl e, fs1)
                  | (Inr (Inl m), fs1) \<Rightarrow> (failed m, fs1)
                  | (Inr (Inr _), fs1) \<Rightarrow> (Inr (Inr (path_text p, n)), fs1))))"

end
