(* ===== verification/File_Manager.thy ===== *)
theory File_Manager
  imports Coroutine File_Store
begin

text \<open>
  \<open>core/runtime/file_manager.py\<close>: the file operations of an agent, each checked by the policy,
  translated to a stored path and answered with a dictionary; and \<open>core/workspace.py\<close>.
\<close>

section \<open>Responses\<close>

record file_manager =
  fm_context :: access_context
  fm_storage :: local_storage
  fm_max_chars :: int
  fm_policy :: "string \<Rightarrow> string \<Rightarrow> string option"
  fm_printed :: "json \<Rightarrow> string"
  fm_base64 :: "string \<Rightarrow> string"

definition failure :: "string \<Rightarrow> jdict" where
  "failure err = [(''success'', JBool False), (''error'', JStr err)]"

definition success :: "string \<Rightarrow> json \<Rightarrow> jdict" where
  "success message v = [(''success'', JBool True), (''message'', JStr message), (''data'', v)]"

abbreviation stored_at :: "file_manager \<Rightarrow> string \<Rightarrow> string" where
  "stored_at fm filename \<equiv> to_storage_path (fm_context fm) filename"

text \<open>A call of the storage, which changes the file system only.\<close>

definition a_fs :: "(fs \<Rightarrow> (exn + 'a) \<times> fs) \<Rightarrow> (fs, 'a) act" where
  "a_fs f fs = Ret (f fs)"

text \<open>An operation the policy permits, or its refusal.\<close>

definition permitted :: "file_manager \<Rightarrow> string \<Rightarrow> string \<Rightarrow> string \<Rightarrow> (fs, jdict) act \<Rightarrow> (fs, jdict) act" where
  "permitted fm operation path tip m = (case fm_policy fm operation path of
       Some err \<Rightarrow> if err \<noteq> [] then a_ret (failure (err @ tip)) else m
     | None \<Rightarrow> m)"

section \<open>Operations on one file\<close>

definition read_file :: "file_manager \<Rightarrow> string \<Rightarrow> string \<Rightarrow> int \<Rightarrow> int option \<Rightarrow> (fs, jdict) act" where
  "read_file fm filename encoding offset limit = permitted fm ''read'' filename []
     (a_bind (a_fs (\<lambda>fs. (storage_read (fm_storage fm) (stored_at fm filename) encoding offset limit fs, fs))) (\<lambda>res. a_ret
       (case res of
          ReadError m \<Rightarrow> failure m
        | ReadImage full b media \<Rightarrow> success (''Successfully read image '' @ filename) (JObj
            [(''path'', JStr filename), (''absolute_path'', JStr full), (''type'', JStr media), (''base64'', JStr (fm_base64 fm b))])
        | ReadText full t \<Rightarrow> success (''Successfully read file '' @ filename) (JObj
            [(''path'', JStr filename), (''absolute_path'', JStr full), (''content'', JStr t)])
        | ReadBinary full b \<Rightarrow> success (''Successfully read file '' @ filename) (JObj
            [(''path'', JStr filename), (''absolute_path'', JStr full), (''content'', JStr b)]))))"

definition edit_file :: "file_manager \<Rightarrow> string \<Rightarrow> string \<Rightarrow> string \<Rightarrow> bool \<Rightarrow> string \<Rightarrow> (fs, jdict) act" where
  "edit_file fm filename old_string new_string replace_all encoding = permitted fm ''edit'' filename []
     (a_bind (a_fs (storage_edit (fm_storage fm) (stored_at fm filename) old_string new_string replace_all encoding)) (\<lambda>res. a_ret
       (case res of
          Inl m \<Rightarrow> failure m
        | Inr (full, n) \<Rightarrow> success (''Successfully edited file '' @ filename) (JObj
            [(''path'', JStr filename), (''absolute_path'', JStr full), (''occurrences'', JInt (int n))]))))"

definition write_file :: "file_manager \<Rightarrow> string \<Rightarrow> string \<Rightarrow> string \<Rightarrow> (fs, jdict) act" where
  "write_file fm filename content encoding = permitted fm ''write'' filename []
     (a_bind (a_fs (storage_write (fm_storage fm) (stored_at fm filename) content encoding)) (\<lambda>res. a_ret
       (case res of
          Inl m \<Rightarrow> failure m
        | Inr (full, n) \<Rightarrow> success (''Successfully wrote file '' @ filename) (JObj
            [(''path'', JStr filename), (''absolute_path'', JStr full), (''bytes_written'', JInt n)]))))"

definition delete_file :: "file_manager \<Rightarrow> string \<Rightarrow> (fs, jdict) act" where
  "delete_file fm filename = permitted fm ''delete'' filename []
     (a_bind (a_fs (\<lambda>fs. case storage_delete (fm_storage fm) (stored_at fm filename) fs of (r, fs1) \<Rightarrow> (Inr r, fs1))) (\<lambda>res. a_ret
       (case res of
          Inl m \<Rightarrow> failure m
        | Inr full \<Rightarrow> success (''Successfully deleted '' @ filename) (JObj
            [(''path'', JStr filename), (''absolute_path'', JStr full), (''deleted'', JBool True)]))))"

section \<open>Listing and searching\<close>

definition path_entry :: "file_manager \<Rightarrow> string \<times> string \<Rightarrow> json" where
  "path_entry fm e = JObj [(''path'', JStr (from_storage_path (fm_context fm) (fst e))), (''absolute_path'', JStr (snd e))]"

definition list_files :: "file_manager \<Rightarrow> string \<Rightarrow> (fs, jdict) act" where
  "list_files fm directory = permitted fm ''list'' directory []
     (a_bind (a_fs (\<lambda>fs. (Inr (storage_list (fm_storage fm) (stored_at fm directory) fs), fs))) (\<lambda>res. a_ret
       (case res of
          Inl m \<Rightarrow> failure m
        | Inr items \<Rightarrow> success (''Successfully listed '' @ show_nat (length items) @ '' items in '' @ str_or directory ''root'')
            (JList (map (path_entry fm) items)))))"

text \<open>\<open>s[:n]\<close> on characters.\<close>

definition py_take :: "int \<Rightarrow> string \<Rightarrow> string" where
  "py_take n s = concat (take (nat (if n < 0 then int (py_len s) + n else n)) (code_points s))"

text \<open>\<open>_build_evicted_response\<close>: a large result goes to a file of the session.\<close>

definition build_evicted_response :: "file_manager \<Rightarrow> string \<Rightarrow> json \<Rightarrow> string \<Rightarrow> (fs, jdict) act" where
  "build_evicted_response fm operation payload message =
     (let serialized = fm_printed fm payload in
      if int (py_len serialized) \<le> fm_max_chars fm then a_ret (success message payload)
      else a_bind (a_lift uuid_hex) (\<lambda>fresh.
        let result_path = build_large_result_path (fm_context fm) operation (take 8 fresh) in
        a_bind (write_file fm result_path serialized ''utf-8'') (\<lambda>written. a_ret
         (if \<not> truthy (dget0 written ''success'')
          then failure (''Failed to persist large tool result: '' @ py_str (dget written ''error'' (JStr ''unknown error'')))
          else success (message @ '' Result was stored in `'' @ result_path @ ''` because it exceeded the inline size limit. '' @
              ''Use read_file with offset/limit to page through it.'')
            (JObj [(''evicted'', JBool True), (''path'', JStr result_path),
               (''absolute_path'', case dget written ''data'' (JObj []) of JObj d \<Rightarrow> dget0 d ''absolute_path'' | _ \<Rightarrow> JNull),
               (''preview'', JStr (py_take (min 240 (fm_max_chars fm)) serialized))])))))"

definition without_chars :: "char list \<Rightarrow> string \<Rightarrow> string" where
  "without_chars cs s = filter (\<lambda>c. c \<notin> set cs) s"

fun first_paths :: "search_match list \<Rightarrow> search_match list" where
  "first_paths [] = []"
| "first_paths (m # ms) = m # filter (\<lambda>x. sx_path x \<noteq> sx_path m) (first_paths ms)"

definition grep_payload :: "string \<Rightarrow> search_match list \<Rightarrow> json \<times> string" where
  "grep_payload output_mode ms =
     (let paths = first_paths ms; n = show_nat (length paths);
          entry = \<lambda>m. [(''path'', JStr (sx_path m)), (''absolute_path'', JStr (sx_absolute_path m))]
      in if output_mode = ''files_with_matches'' then (JList (map (\<lambda>m. JObj (entry m)) paths), ''Found '' @ n @ '' matching files'')
      else if output_mode = ''count'' then
        (JList (map (\<lambda>m. JObj (entry m @ [(''count'', JInt (int (length (filter (\<lambda>x. sx_path x = sx_path m) ms))))])) paths),
         ''Counted matches across '' @ n @ '' files'')
      else (JList (map (\<lambda>m. JObj (entry m @ [(''line_number'', JInt (int (sx_line_number m))), (''content'', JStr (sx_content m))])) ms),
         ''Found '' @ show_nat (length ms) @ '' matches''))"

definition grep_files :: "file_manager \<Rightarrow> string \<Rightarrow> string \<Rightarrow> string \<Rightarrow> (fs, jdict) act" where
  "grep_files fm pattern glob_pattern output_mode =
     permitted fm ''grep'' (without_chars [CHR ''*''] glob_pattern) '' (Tip: Use a strict glob pattern starting with allowed paths)''
     (a_bind (a_fs (\<lambda>fs. (storage_grep (fm_storage fm) pattern (stored_at fm glob_pattern) fs, fs))) (\<lambda>found.
       let ms = map (\<lambda>m. m\<lparr>sx_path := from_storage_path (fm_context fm) (sx_path m)\<rparr>) found in
       build_evicted_response fm ''grep'' (fst (grep_payload output_mode ms)) (snd (grep_payload output_mode ms))))"

definition glob_files :: "file_manager \<Rightarrow> string \<Rightarrow> (fs, jdict) act" where
  "glob_files fm pattern =
     permitted fm ''glob'' (without_chars [CHR ''*'', CHR ''?''] pattern) '' (Tip: Use a glob pattern rooted at an allowed path)''
     (a_bind (a_fs (\<lambda>fs. (storage_glob (fm_storage fm) (stored_at fm pattern) fs, fs))) (\<lambda>items.
       build_evicted_response fm ''glob'' (JList (map (path_entry fm) items))
         (''Found '' @ show_nat (length items) @ '' matching paths'')))"

section \<open>The work space of a task\<close>

text \<open>Identifiers are single names here: none is empty, holds a slash or is made of dots only.\<close>

definition task_dir :: "string list \<Rightarrow> string \<Rightarrow> string \<Rightarrow> string \<Rightarrow> string \<Rightarrow> string list" where
  "task_dir base session_id task_id user_code agent_id =
     base @ [str_or agent_id ''default-agent'', user_code, ''sessions'', session_id, ''private'', task_id]"

definition workspace_dirs :: "string list \<Rightarrow> string \<Rightarrow> string \<Rightarrow> string \<Rightarrow> string \<Rightarrow> string list list" where
  "workspace_dirs base session_id task_id user_code agent_id =
     (let shared = base @ [''public'', user_code]; agent = base @ [str_or agent_id ''default-agent'', user_code];
          private = task_dir base session_id task_id user_code agent_id in
      [shared @ [''public''], shared @ [''sessions'', session_id],
       agent @ [''public'', ''session''], agent @ [''public'', ''memory'', ''local_db''], agent @ [''public'', ''agent_skills''],
       agent @ [''sessions'', session_id],
       private @ [''input''], private @ [''temp''], private @ [''output''], private @ [''system'']])"

primrec mkdirs_all :: "string list list \<Rightarrow> fs \<Rightarrow> (string + unit) \<times> fs" where
  "mkdirs_all [] fs = (Inr (), fs)"
| "mkdirs_all (p # ps) fs = (case mkdirs p fs of Inl m \<Rightarrow> (Inl m, fs) | Inr fs1 \<Rightarrow> mkdirs_all ps fs1)"

definition workspace_paths :: "string list \<Rightarrow> string \<Rightarrow> string \<Rightarrow> string \<Rightarrow> string \<Rightarrow> (string \<times> string) list" where
  "workspace_paths base session_id task_id user_code agent_id =
     (let shared = base @ [''public'', user_code]; agent = base @ [str_or agent_id ''default-agent'', user_code] in
      map (\<lambda>(k, p). (k, path_text p))
       [(''root'', agent), (''public'', agent @ [''public'']), (''private'', task_dir base session_id task_id user_code agent_id),
        (''history_db'', agent @ [''public'', ''session'', ''history.json'']), (''shared_root'', shared),
        (''shared_public'', shared @ [''public'']), (''shared_session'', shared @ [''sessions'', session_id]),
        (''agent_root'', agent), (''agent_public'', agent @ [''public'']), (''agent_session'', agent @ [''sessions'', session_id])])"

definition setup_workspace ::
  "string list \<Rightarrow> string \<Rightarrow> string \<Rightarrow> string \<Rightarrow> string \<Rightarrow> fs \<Rightarrow> (string + (string \<times> string) list) \<times> fs" where
  "setup_workspace base session_id task_id user_code agent_id fs =
     (case mkdirs_all (workspace_dirs base session_id task_id user_code agent_id) fs of
        (Inl m, fs1) \<Rightarrow> (Inl m, fs1)
      | (Inr _, fs1) \<Rightarrow> (Inr (workspace_paths base session_id task_id user_code agent_id), fs1))"

definition cleanup_task :: "string list \<Rightarrow> string \<Rightarrow> string \<Rightarrow> string \<Rightarrow> string \<Rightarrow> fs \<Rightarrow> (string + unit) \<times> fs" where
  "cleanup_task base session_id task_id user_code agent_id fs =
     (let p = task_dir base session_id task_id user_code agent_id in
      case node_at fs p of
        None \<Rightarrow> (Inr (), fs)
      | Some Directory \<Rightarrow> (Inr (), remove_tree p fs)
      | Some (Regular b) \<Rightarrow> (Inl (os_error ''20'' ''Not a directory'' p), fs))"

end
