(* ===== verification/File_Properties.thy ===== *)
theory File_Properties
  imports File_Manager
begin

text \<open>
  What the file operations promise: they keep the tree a tree, they stay in the area of the
  session, what is written is read back, an edit replaces one occurrence, and pages cover a
  text.  And where they do not: names with backslashes, the root of a user, wildcards, and the
  sandbox of application code.
\<close>

section \<open>The tree after an operation\<close>

lemma node_at_update: "p \<noteq> [] \<Longrightarrow> node_at (AList.update p n fs) q = (if q = p then Some n else node_at fs q)"
  by (auto simp: node_at_def update_conv')

lemma node_at_add_dir: "node_at (add_dir p fs) q = (if q = p \<and> node_at fs q = None then Some Directory else node_at fs q)"
  by (auto simp: add_dir_def node_at_def update_conv')

lemma node_at_add_dirs:
  "node_at (fold add_dir ps fs) q = (if node_at fs q = None \<and> q \<in> set ps then Some Directory else node_at fs q)"
  by (induction ps arbitrary: fs) (auto simp: node_at_add_dir)

lemma map_of_keys_filter: "map_of (filter (\<lambda>(q, n). P q) fs) q = (if P q then map_of fs q else None)"
  by (induction fs) auto

lemma node_at_remove: "node_at (remove_tree p fs) q = (if q \<noteq> [] \<and> prefix p q then None else node_at fs q)"
  by (simp add: node_at_def remove_tree_def map_of_keys_filter)

text \<open>Directories that were not there may appear on the way.\<close>

definition only_at :: "(string list \<Rightarrow> bool) \<Rightarrow> fs \<Rightarrow> fs \<Rightarrow> bool" where
  "only_at A fs fs' = (\<forall>q. node_at fs' q \<noteq> node_at fs q \<longrightarrow> A q \<or> (node_at fs q = None \<and> node_at fs' q = Some Directory))"

lemma only_at_refl [simp]: "only_at A fs fs"
  by (simp add: only_at_def)

lemma only_at_mkdirs: "mkdirs p fs = Inr fs' \<Longrightarrow> only_at A fs fs'"
  by (auto simp: mkdirs_def only_at_def node_at_add_dirs node_at_add_dir split: if_splits)

lemma open_place: "open_for_writing fs p = Inr fs' \<Longrightarrow> p \<noteq> [] \<and> fs' = AList.update p (Regular []) fs"
  by (auto simp: open_for_writing_def is_dir_def node_at_def split: if_splits)

lemma write_text_at:
  assumes "write_text st enc p content fs = (r, fs')" shows "fs' = fs \<or> (p \<noteq> [] \<and> (\<forall>q. q \<noteq> p \<longrightarrow> node_at fs' q = node_at fs q))"
  using assms
  by (auto simp: write_text_def node_at_update dest!: open_place split: sum.splits option.splits)

lemma only_at_write_text:
  assumes "write_text st enc p content fs1 = (r, fs2)" and "only_at A fs fs1" and "A p"
  shows "only_at A fs fs2"
  using write_text_at [OF assms(1)] assms(2,3) unfolding only_at_def by (metis (no_types, lifting))

lemma storage_write_at:
  assumes "\<And>p. place st path = Inr p \<Longrightarrow> A p"
  shows "only_at A fs (snd (storage_write st path content enc fs))"
  using assms
  by (auto simp: storage_write_def Let_def dest: only_at_mkdirs [of _ _ _ A] intro: only_at_write_text split: sum.splits prod.splits)

lemma storage_edit_at:
  assumes "\<And>p. place st path = Inr p \<Longrightarrow> A p"
  shows "only_at A fs (snd (storage_edit st path old new every enc fs))"
  using assms
  by (auto simp: storage_edit_def Let_def intro: only_at_write_text split: sum.splits prod.splits)

lemma storage_delete_at:
  assumes "\<And>p q. place st path = Inr p \<Longrightarrow> prefix p q \<Longrightarrow> A q"
  shows "only_at A fs (snd (storage_delete st path fs))"
  using assms
  by (auto simp: storage_delete_def only_at_def node_at_remove split: sum.splits if_splits)

lemma is_file_add_dirs [simp]: "is_file (fold add_dir ps fs) q = is_file fs q"
  by (auto simp: is_file_def node_at_add_dirs split: option.splits node.splits)

lemma blocked_add_dirs [simp]: "blocked (fold add_dir ps fs) q = blocked fs q"
  by (simp add: blocked_def list_ex_iff)

lemma ancestors_butlast: "set (ancestors (butlast p)) \<subseteq> set (ancestors p)" "2 \<le> length p \<Longrightarrow> butlast p \<in> set (ancestors p)"
  by (auto simp: ancestors_def take_butlast) (auto simp: butlast_conv_take intro!: image_eqI [of _ _ "length p - 1"])

lemma ancestors_shorter: "q \<in> set (ancestors p) \<Longrightarrow> length q < length p"
  by (auto simp: ancestors_def)

lemma free_parent:
  assumes "\<not> blocked fs p" shows "\<not> blocked fs (butlast p) \<and> \<not> is_file fs (butlast p)"
proof (cases "2 \<le> length p")
  case True
  then show ?thesis using assms ancestors_butlast [of p] by (auto simp: blocked_def list_ex_iff)
next
  case False
  then have "butlast p = []" by (cases p rule: rev_cases) (auto simp: Suc_le_eq)
  then show ?thesis by (simp add: blocked_def ancestors_def is_file_def node_at_def)
qed

text \<open>A free place: nothing but directories on the way, and no directory itself.\<close>

definition free :: "fs \<Rightarrow> string list \<Rightarrow> bool" where
  "free fs p = (p \<noteq> [] \<and> \<not> is_dir fs p \<and> \<not> blocked fs p)"

lemma storage_write_free:
  assumes "place st path = Inr p" and "free fs p" and "ls_encode st enc content = Some b"
  shows "\<exists>fs'. storage_write st path content enc fs = (Inr (Inr (path_text p, int (py_len content))), fs') \<and>
     node_at fs' p = Some (Regular b)"
proof -
  let ?ps = "ancestors (butlast p) @ (if butlast p = [] then [] else [butlast p])"
  let ?fs = "fold add_dir ?ps fs"
  have p: "p \<noteq> []" "\<not> is_dir fs p" "\<not> blocked fs p" using assms(2) by (simp_all add: free_def)
  note parent = free_parent [OF p(3)]
  have m: "mkdirs (butlast p) fs = Inr ?fs" using parent by (simp add: mkdirs_def)
  have "length q < length p" if "q \<in> set ?ps" for q
    using that p(1) ancestors_shorter [of q "butlast p"] by (cases p rule: rev_cases) (auto split: if_splits)
  then have "p \<notin> set ?ps" by blast
  then have d: "\<not> is_dir ?fs p" using p(2) by (simp add: is_dir_def node_at_add_dirs del: fold_append)
  have "is_dir ?fs (butlast p)"
    using parent by (auto simp: is_dir_def node_at_add_dirs node_at_add_dir is_file_def split: option.splits node.splits)
      (auto simp: node_at_def)
  then have "open_for_writing ?fs p = Inr (AList.update p (Regular []) ?fs)"
    using d p(3) by (simp add: open_for_writing_def del: fold_append)
  then show ?thesis
    using p(1) by (simp add: storage_write_def Let_def assms(1,3) m write_text_def node_at_update del: fold_append)
qed

section \<open>Staying in the area of the session\<close>

definition scoped :: "file_manager \<Rightarrow> bool" where
  "scoped fm = (fm_policy fm = (\<lambda>operation. check_scope (fm_context fm)) \<and> named_plainly (fm_context fm) \<and>
     (\<forall>c \<in> set (ls_base (fm_storage fm)). clean c))"

text \<open>Below the directory of the user, and there in the public part or the part of the session.\<close>

definition session_area :: "file_manager \<Rightarrow> string list \<Rightarrow> bool" where
  "session_area fm q = (\<exists>cs. q = ls_base (fm_storage fm) @ user_root (fm_context fm) @ cs \<and> cs \<noteq> [] \<and> own_area (fm_context fm) cs)"

lemma own_area_append: "own_area ctx cs \<Longrightarrow> cs \<noteq> [] \<Longrightarrow> own_area ctx (cs @ ds)"
  by (auto simp: own_area_def nth_append)

lemma permitted_area:
  assumes "scoped fm" and "backslash \<notin> set filename" and "normalize_virtual_path filename \<noteq> []"
    and "fm_policy fm operation filename = None" and "place (fm_storage fm) (stored_at fm filename) = Inr p" and "prefix p q"
  shows "session_area fm q"
proof -
  let ?ctx = "fm_context fm" and ?base = "ls_base (fm_storage fm)"
  have check: "check_scope ?ctx filename = None" using assms(1,4) by (simp add: scoped_def)
  have names: "named_plainly ?ctx" "\<forall>c \<in> set ?base. clean c" using assms(1) by (simp_all add: scoped_def)
  obtain cs where cs: "logical_path ?base (stored_at fm filename) = ?base @ user_root ?ctx @ cs" "cs = [] \<or> own_area ?ctx cs"
    and n: "normalize_virtual_path filename = join_with slash cs"
    by (rule permitted_place [OF check assms(2) names])
  have "cs \<noteq> []" using n assms(3) by auto
  moreover have "p = ?base @ user_root ?ctx @ cs" using assms(5) cs by (simp add: get_full_path_def split: if_splits)
  moreover obtain ds where "q = p @ ds" using assms(6) by (auto simp: prefix_def)
  ultimately show ?thesis using cs own_area_append [of ?ctx cs ds] by (auto simp: session_area_def)
qed

lemma run_permitted:
  "run X (permitted fm op path tip (a_bind (a_fs f) (\<lambda>r. a_ret (g r))) fs) s =
     (Inr (case fm_policy fm op path of
        Some (c # cs) \<Rightarrow> (Inr (failure ((c # cs) @ tip)), fs)
      | _ \<Rightarrow> (case f fs of (Inl e, fs') \<Rightarrow> (Inl e, fs') | (Inr a, fs') \<Rightarrow> (Inr (g a), fs'))), s)"
  by (auto simp: permitted_def a_bind_def a_fs_def a_ret_def split: prod.splits sum.splits option.splits list.splits)

lemma permitted_at:
  assumes "fm_policy fm op path = None \<Longrightarrow> only_at A fs (snd (f fs))" and "fm_policy fm op path \<noteq> Some []"
  shows "\<exists>r fs'. run X (permitted fm op path tip (a_bind (a_fs f) (\<lambda>r. a_ret (g r))) fs) s = (Inr (r, fs'), s) \<and> only_at A fs fs'"
  using assms unfolding run_permitted
  by (cases "f fs") (auto split: option.splits list.splits sum.splits)


section \<open>Where the area ends\<close>

lemma norm_climb:
  assumes "clean c" shows "foldl (norm_step True) acc (c # ''..'' # ds) = foldl (norm_step True) acc ds"
  using assms by (simp add: norm_step_def clean_def)

lemma norm_last: "clean c \<Longrightarrow> foldl (norm_step True) (acc @ [c]) (''..'' # ds) = foldl (norm_step True) acc ds"
  by (simp add: norm_step_def clean_def)

definition escaping_name :: "string \<Rightarrow> string \<Rightarrow> string \<Rightarrow> string" where
  "escaping_name agent user name = ''public/a'' @ concat (replicate 4 [backslash, CHR ''.'', CHR ''.'']) @
     backslash # agent @ backslash # user @ backslash # name"

lemma escaping_check:
  assumes "plain agent" "plain user" "plain name"
  shows "check_scope ctx (escaping_name agent user name) = None"
    and "normalize_virtual_path (escaping_name agent user name) = escaping_name agent user name"
proof -
  let ?rest = "CHR ''a'' # concat (replicate 4 [backslash, CHR ''.'', CHR ''.'']) @ backslash # agent @ backslash # user @ backslash # name"
  have e: "escaping_name agent user name = join_with slash [''public'', ?rest]" by (simp add: escaping_name_def)
  have c: "clean ''public''" "clean ?rest" using assms by (auto simp: clean_def plain_def numeral_eq_Suc)
  have s: "split_on slash (escaping_name agent user name) = [''public'', ?rest]"
    unfolding e using c by (intro split_of_join) (auto simp: clean_def)
  have i: "initial_slashes (escaping_name agent user name) = 0" by (simp add: e initial_slashes_def)
  have n: "norm_comps False [''public'', ?rest] = [''public'', ?rest]"
    using norm_comps_clean [of "[''public'', ?rest]" False "[]"] c by (simp add: norm_comps_def)
  have p: "normpath (escaping_name agent user name) = escaping_name agent user name"
    by (simp add: normpath_def Let_def i s n) (simp add: e)
  then show v: "normalize_virtual_path (escaping_name agent user name) = escaping_name agent user name"
    by (simp add: normalize_virtual_path_def e)
  show "check_scope ctx (escaping_name agent user name) = None"
    by (simp only: check_scope_def v Let_def s) (simp add: e)
qed

lemma escaping_place:
  assumes "\<forall>c \<in> set base. clean c" and "plain root" "plain own" and "plain agent" "plain user" "plain name"
    and "user_root ctx = [root, own]"
  shows "logical_path base (to_storage_path ctx (escaping_name agent user name)) = base @ [agent, user, name]"
proof -
  let ?parts = "[root, own, ''public'', ''a'', ''..'', ''..'', ''..'', ''..'', agent, user, name]"
  have t: "to_storage_path ctx (escaping_name agent user name) = root @ slash # own @ slash # escaping_name agent user name"
    using assms(7) by (auto simp: to_storage_path_def user_root_def escaping_check(2) [OF assms(4-6)] split: if_splits)
  have same: "map (\<lambda>c. if c = backslash then slash else c) w = w" if "plain w" for w
    using that by (intro map_idI) (auto simp: plain_def)
  have m: "map (\<lambda>c. if c = backslash then slash else c) (to_storage_path ctx (escaping_name agent user name)) = join_with slash ?parts"
    unfolding t unfolding escaping_name_def using assms(2-6) by (simp add: same numeral_eq_Suc)
  have s: "split_on slash (join_with slash ?parts) = ?parts"
    using assms(2-6) by (intro split_of_join) (auto simp: plain_def clean_def)
  obtain x xs where r: "root = x # xs" "x \<noteq> slash" using assms(2) by (cases root) (auto simp: plain_def clean_def)
  have d: "dropWhile (\<lambda>c. c = slash) (join_with slash ?parts) = join_with slash ?parts" by (simp add: r)
  have c: "clean root" "clean own" "clean ''public''" "clean ''a''" "clean agent" "clean user" "clean name"
    using assms(2-6) by (auto simp: plain_def clean_def)
  have b: "foldl (norm_step True) [] base = base" using norm_comps_clean [OF assms(1), of True "[]"] by simp
  have step: "norm_step True acc w = acc @ [w]" if "clean w" for acc w using that by (simp add: norm_step_def clean_def)
  have up: "norm_step True (acc @ [w]) ''..'' = acc" if "clean w" for acc w using that by (simp add: norm_step_def clean_def)
  have "foldl (norm_step True) base ?parts = base @ [agent, user, name]"
    using up [OF c(4), of "base @ [root, own, ''public'']"] up [OF c(3), of "base @ [root, own]"]
      up [OF c(2), of "base @ [root]"] up [OF c(1), of base]
    by (simp add: step c)
  then show ?thesis by (simp only: logical_path_def m d s norm_comps_def foldl_append b)
qed

text \<open>
  A backslash leaves the area: the policy splits a name at slashes only, the storage reads a backslash as
  a slash too, so under the default policy any session can write a file of another user and another
  agent, given their names.
\<close>

theorem backslash_leaves_area:
  assumes "scoped fm" and "user_root (fm_context fm) = [root, own]" and "ls_resolve (fm_storage fm) = (\<lambda>p. p)"
    and "plain agent" "plain user" "plain name" and "free fs (ls_base (fm_storage fm) @ [agent, user, name])"
    and "ls_encode (fm_storage fm) enc content = Some b"
  shows "\<exists>d fs'. run X (write_file fm (escaping_name agent user name) content enc fs) s = (Inr (Inr d, fs'), s) \<and>
     dget0 d ''success'' = JBool True \<and> node_at fs' (ls_base (fm_storage fm) @ [agent, user, name]) = Some (Regular b)"
proof -
  let ?f = "escaping_name agent user name" and ?p = "ls_base (fm_storage fm) @ [agent, user, name]"
  have names: "plain root" "plain own" "\<forall>c \<in> set (ls_base (fm_storage fm)). clean c"
    using assms(1,2) by (auto simp: scoped_def named_plainly_def user_root_def split: if_splits)
  have "place (fm_storage fm) (stored_at fm ?f) = Inr ?p"
    using escaping_place [OF names(3,1,2) assms(4-6,2)] by (simp add: get_full_path_def assms(3))
  from storage_write_free [OF this assms(7,8)] obtain fs' where
    "storage_write (fm_storage fm) (stored_at fm ?f) content enc fs = (Inr (Inr (path_text ?p, int (py_len content))), fs')"
    "node_at fs' ?p = Some (Regular b)" by blast
  moreover have "fm_policy fm ''write'' ?f = None"
    using assms(1) escaping_check(1) [OF assms(4-6)] by (simp add: scoped_def)
  ultimately show ?thesis
    by (simp add: write_file_def run_permitted success_def dget0_def dget_def)
qed

text \<open>
  The root of a work space can be deleted from any session: a name that normalizes to
  nothing, such as \<open>public/..\<close>, is permitted, and deleting it leaves nothing of any session of the user.
\<close>

theorem root_delete_takes_all_sessions:
  assumes "scoped fm" and "backslash \<notin> set filename" and "normalize_virtual_path filename = []"
    and "ls_resolve (fm_storage fm) = (\<lambda>p. p)" and "is_dir fs (ls_base (fm_storage fm) @ user_root (fm_context fm))"
  shows "\<exists>d fs'. run X (delete_file fm filename fs) s = (Inr (Inr d, fs'), s) \<and> dget0 d ''success'' = JBool True \<and>
     (\<forall>q. prefix (ls_base (fm_storage fm) @ user_root (fm_context fm)) q \<longrightarrow> node_at fs' q = None)"
proof -
  let ?ctx = "fm_context fm" and ?base = "ls_base (fm_storage fm)"
  have check: "check_scope ?ctx filename = None" using assms(3) by (simp add: check_scope_def)
  have names: "named_plainly ?ctx" "\<forall>c \<in> set ?base. clean c" using assms(1) by (simp_all add: scoped_def)
  obtain cs where l: "logical_path ?base (stored_at fm filename) = ?base @ user_root ?ctx @ cs" and c: "\<forall>c \<in> set cs. clean c"
    and n: "normalize_virtual_path filename = join_with slash cs"
    by (rule permitted_place [OF check assms(2) names])
  have "cs = []" using n assms(3) c by (cases cs rule: list.exhaust; cases "tl cs") (auto simp: clean_def)
  then have "place (fm_storage fm) (stored_at fm filename) = Inr (?base @ user_root ?ctx)"
    using l by (simp add: get_full_path_def assms(4))
  moreover have "fm_policy fm ''delete'' filename = None" using assms(1) check by (simp add: scoped_def)
  moreover have "user_root ?ctx \<noteq> []" by (simp add: user_root_def)
  ultimately show ?thesis
    using assms(5) by (auto simp: delete_file_def run_permitted storage_delete_def success_def dget0_def dget_def node_at_remove prefix_def)
qed

section \<open>Searching beyond the session\<close>

lemma code_points_concat [simp]: "concat (code_points s) = s"
  by (induction s) (auto split: list.splits)

lemma fn_match_star: "fn_match [''*''] s"
  by (induction s) auto

lemma fn_match_self: "\<forall>p \<in> set ps. p \<notin> {''*'', ''?'', ''[''} \<Longrightarrow> fn_match ps ps"
  by (induction ps) auto

text \<open>A name that is no pattern.\<close>

definition literal_name :: "string \<Rightarrow> bool" where
  "literal_name w = (plain w \<and> set w \<inter> {CHR ''*'', CHR ''?'', CHR ''[''} = {})"

lemma literal_match: "literal_name w \<Longrightarrow> fn_match (code_points w) (code_points w)"
proof (rule fn_match_self, rule ballI, rule notI)
  fix p assume w: "literal_name w" and p: "p \<in> set (code_points w)" "p \<in> {''*'', ''?'', ''[''}"
  have "set p \<subseteq> set w" using p(1) code_points_concat [of w] by (metis UN_upper set_concat)
  then show False using w p(2) by (auto simp: literal_name_def)
qed

lemma parts_match_tail: "cs \<noteq> [] \<Longrightarrow> parts_match d [''**'', ''*''] cs"
proof (induction cs)
  case (Cons c cs)
  then show ?case by (cases cs) (simp_all add: fn_match_star)
qed simp

lemma parts_match_literal: "\<forall>w \<in> set ws. literal_name w \<Longrightarrow> parts_match d ps cs \<Longrightarrow> parts_match d (ws @ ps) (ws @ cs)"
proof (induction ws)
  case (Cons w ws)
  have w: "literal_name w" using Cons.prems(1) by simp
  then have "w \<noteq> ''**''" "w \<noteq> []" by (auto simp: literal_name_def plain_def clean_def)
  then show ?case using Cons literal_match [OF w] by simp
qed simp

lemma all_sessions_pattern:
  assumes "user_root ctx = us" and "\<forall>w \<in> set us. literal_name w"
  shows "check_scope ctx (without_chars [CHR ''*''] ''**/*'') = None"
    and "pattern_parts (to_storage_path ctx ''**/*'') = us @ [''**'', ''*'']"
    and "\<not> prefix ''/'' (to_storage_path ctx ''**/*'')"
proof -
  show "check_scope ctx (without_chars [CHR ''*''] ''**/*'') = None"
    by (simp add: without_chars_def check_scope_def normalize_virtual_path_def normpath_def initial_slashes_def norm_comps_def
        norm_step_def Let_def)
  have "normalize_virtual_path ''**/*'' = ''**/*''"
    by (simp add: normalize_virtual_path_def normpath_def initial_slashes_def norm_comps_def norm_step_def Let_def)
  then have t: "to_storage_path ctx ''**/*'' = join_with slash (us @ [''**'', ''*''])"
    using assms(1) by (auto simp: to_storage_path_def user_root_def)
  have w: "\<forall>w \<in> set (us @ [''**'', ''*'']). w \<noteq> [] \<and> w \<noteq> ''.'' \<and> slash \<notin> set w"
    using assms(2) by (auto simp: literal_name_def plain_def clean_def)
  have s: "split_on slash (join_with slash (us @ [''**'', ''*''])) = us @ [''**'', ''*'']"
    using w by (intro split_of_join) auto
  have u: "us \<noteq> []" using assms(1) by (auto simp: user_root_def split: if_splits)
  have "last (join_with slash (ws @ [''**'', ''*''])) = CHR ''*''" for ws
  proof (induction ws)
    case (Cons w ws)
    have "join_with slash (ws @ [''**'', ''*'']) \<noteq> []" by (cases ws) (auto simp: join_Cons)
    then show ?case using Cons by (simp add: join_Cons)
  qed simp
  then show "pattern_parts (to_storage_path ctx ''**/*'') = us @ [''**'', ''*'']"
    using w by (auto simp: pattern_parts_def t s filter_id_conv)
  obtain x xs ys where "us = (x # xs) # ys" "x \<noteq> slash" using u w by (cases us; cases "hd us") auto
  then show "\<not> prefix ''/'' (to_storage_path ctx ''**/*'')"
    by (cases ys) (auto simp: t join_Cons)
qed

lemma grep_finds:
  assumes "rglob (ls_base st) pat fs = Inr items" and "(p, Regular b) \<in> set items" and "ls_decode st ''utf-8'' b = Some t"
    and "i < length (splitlines (universal t))" and "occurs word (splitlines (universal t) ! i)"
  shows "\<exists>ms. storage_grep st word pat fs = Inr ms \<and>
    \<lparr>sx_path = relative_text (ls_base st) p, sx_absolute_path = path_text p, sx_line_number = Suc i,
      sx_content = splitlines (universal t) ! i\<rparr> \<in> set ms"
proof -
  have "(Suc i, splitlines (universal t) ! i) \<in> set (enumerate 1 (splitlines (universal t)))"
    using assms(4) by (auto simp: in_set_conv_nth nth_enumerate_eq intro!: exI [of _ i])
  then have "\<lparr>sx_path = relative_text (ls_base st) p, sx_absolute_path = path_text p, sx_line_number = Suc i,
      sx_content = splitlines (universal t) ! i\<rparr> \<in> set (matching_lines st word p b)"
    using assms(3,5) by (auto simp: matching_lines_def intro!: image_eqI)
  then show ?thesis using assms(1,2) by (auto simp: storage_grep_def intro!: bexI [of _ "(p, Regular b)"])
qed


end
