(* ===== verification/File_Contents.thy ===== *)
theory File_Contents
  imports File_Properties
begin

text \<open>
  What becomes of contents: the tree stays a tree, a text is read back as it was written, an
  edit replaces one occurrence, pages cover a text; and the work space of a task, and the sandbox.
\<close>

section \<open>The tree stays a tree\<close>

definition tree :: "fs \<Rightarrow> bool" where
  "tree fs = (distinct (map fst fs) \<and> [] \<notin> set (map fst fs) \<and>
     (\<forall>q. node_at fs q \<noteq> None \<longrightarrow> is_dir fs (butlast q)))"

lemma keys_update: "set (map fst (AList.update p n fs)) = insert p (set (map fst fs))"
  by (induction fs) auto

lemma tree_update:
  assumes "tree fs" and "p \<noteq> []" and "is_dir fs (butlast p)" and "n = Directory \<or> \<not> is_dir fs p"
  shows "tree (AList.update p n fs)"
proof -
  have "is_dir fs q \<Longrightarrow> is_dir (AList.update p n fs) q" for q
    using assms(2,4) by (auto simp: is_dir_def node_at_update)
  then show ?thesis
    using assms(1-3) by (auto simp: tree_def distinct_update keys_update node_at_update simp del: set_map)
qed

lemma tree_add_dir: "tree fs \<Longrightarrow> is_dir fs (butlast p) \<Longrightarrow> tree (add_dir p fs)"
  by (auto simp: add_dir_def node_at_def intro!: tree_update split: if_splits)

lemma tree_add_dirs:
  assumes "tree fs" and "\<forall>i < length ps. butlast (ps ! i) \<in> insert [] (set (take i ps))" and "\<forall>p \<in> set ps. \<not> is_file fs p"
  shows "tree (fold add_dir ps fs) \<and> (\<forall>p \<in> set ps. is_dir (fold add_dir ps fs) p)"
  using assms
proof (induction ps rule: rev_induct)
  case (snoc p ps)
  have ok: "\<forall>i < length ps. butlast (ps ! i) \<in> insert [] (set (take i ps))"
  proof (intro allI impI)
    fix i assume "i < length ps"
    then show "butlast (ps ! i) \<in> insert [] (set (take i ps))"
      using spec [OF snoc.prems(2), of i] by (simp add: nth_append)
  qed
  have files: "\<forall>p \<in> set ps. \<not> is_file fs p" "\<not> is_file fs p" using snoc.prems(3) by auto
  note ih = snoc.IH [OF snoc.prems(1) ok files(1)]
  have "butlast p \<in> insert [] (set ps)" using spec [OF snoc.prems(2), of "length ps"] by simp
  then have parent: "is_dir (fold add_dir ps fs) (butlast p)" using ih by (auto simp: is_dir_def node_at_def)
  have "is_dir (add_dir p (fold add_dir ps fs)) q" if "is_dir (fold add_dir ps fs) q \<or> q = p" for q
    using that files(2) by (auto simp: is_dir_def is_file_def node_at_add_dir node_at_add_dirs split: option.splits node.splits if_splits)
  then show ?case using tree_add_dir [OF _ parent] ih by auto
qed (simp add: is_dir_def)

lemma path_chain:
  assumes "ps = ancestors p @ (if p = [] then [] else [p])" and "i < length ps"
  shows "butlast (ps ! i) \<in> insert [] (set (take i ps))"
proof -
  have ps: "ps = map (\<lambda>n. take n p) [1..<Suc (length p)]" using assms(1) by (cases p) (auto simp: ancestors_def)
  then have i: "i < length p" using assms(2) by (simp del: upt_Suc)
  then have b: "butlast (ps ! i) = take i p" by (simp add: ps butlast_take del: upt_Suc)
  show ?thesis
  proof (cases i)
    case (Suc j)
    then have "ps ! j = take i p" using i by (simp add: ps del: upt_Suc)
    then show ?thesis using b Suc assms(2) by (metis insertI2 in_set_conv_nth length_take lessI min.absorb4 nth_take)
  qed (use b in simp)
qed

lemma mkdirs_tree:
  assumes "tree fs" and "mkdirs p fs = Inr fs'" shows "tree fs' \<and> is_dir fs' p"
proof -
  let ?ps = "ancestors p @ (if p = [] then [] else [p])"
  have fs': "fs' = fold add_dir ?ps fs" and b: "\<not> blocked fs p" "\<not> is_file fs p"
    using assms(2) by (auto simp: mkdirs_def split: if_splits)
  have "\<forall>q \<in> set ?ps. \<not> is_file fs q" using b by (auto simp: blocked_def list_ex_iff)
  then have "tree (fold add_dir ?ps fs) \<and> (\<forall>q \<in> set ?ps. is_dir (fold add_dir ?ps fs) q)"
    using path_chain [OF refl, of _ p] by (intro tree_add_dirs [OF assms(1)]) auto
  then show ?thesis unfolding fs' by (auto simp: is_dir_def node_at_def split: if_splits)
qed

lemma write_text_tree:
  assumes "tree fs" and "write_text st enc p content fs = (r, fs')" shows "tree fs'"
proof (cases "open_for_writing fs p")
  case (Inr fs1)
  then have p: "p \<noteq> []" "\<not> is_dir fs p" "is_dir fs (butlast p)" "fs1 = AList.update p (Regular []) fs"
    using open_place [OF Inr] by (auto simp: open_for_writing_def split: if_splits)
  have "tree fs1" unfolding p(4) by (rule tree_update) (use assms(1) p in auto)
  moreover have "is_dir fs1 (butlast p)" "\<not> is_dir fs1 p"
    using p by (auto simp: is_dir_def node_at_update)
  ultimately show ?thesis
    using assms(2) Inr p(1) by (auto simp: write_text_def split: option.splits intro!: tree_update)
qed (use assms in \<open>auto simp: write_text_def\<close>)

lemma remove_tree_tree: "tree fs \<Longrightarrow> tree (remove_tree p fs)"
proof -
  assume t: "tree fs"
  have "distinct (map fst (remove_tree p fs))" "[] \<notin> set (map fst (remove_tree p fs))"
    using t by (auto simp: tree_def remove_tree_def distinct_map inj_on_def)
  moreover have "is_dir (remove_tree p fs) (butlast q)" if "node_at (remove_tree p fs) q \<noteq> None" for q
  proof -
    have "node_at fs q \<noteq> None" "q = [] \<or> \<not> prefix p q" using that by (auto simp: node_at_remove split: if_splits)
    moreover have "prefix p (butlast q) \<Longrightarrow> prefix p q" by (metis append_butlast_last_id butlast.simps(1) prefix_snoc)
    ultimately show ?thesis using t by (auto simp: tree_def is_dir_def node_at_remove)
  qed
  ultimately show ?thesis by (simp add: tree_def)
qed

lemma storage_tree:
  assumes "tree fs"
  shows "tree (snd (storage_write st path content enc fs))" "tree (snd (storage_edit st path old new every enc fs))"
    "tree (snd (storage_delete st path fs))"
  using assms
  by (auto simp: storage_write_def storage_edit_def storage_delete_def Let_def remove_tree_tree
      dest: mkdirs_tree intro: write_text_tree split: sum.splits prod.splits)

lemma permitted_keeps:
  assumes "P fs" and "P (snd (f fs))"
  shows "\<exists>r fs'. run X (permitted fm op path tip (a_bind (a_fs f) (\<lambda>r. a_ret (g r))) fs) s = (Inr (r, fs'), s) \<and> P fs'"
  using assms unfolding run_permitted by (cases "f fs") (auto split: option.splits list.splits sum.splits)


section \<open>Codecs\<close>

text \<open>What the storage relies on of a codec.\<close>

locale text_codec =
  fixes enc :: "string \<Rightarrow> string option" and dec :: "string \<Rightarrow> string option"
  assumes dec_enc: "enc s = Some b \<Longrightarrow> dec b = Some s"
begin

lemma read_after_write:
  assumes "ls_encode st e = enc" and "ls_decode st e = dec" and "node_at fs p = Some (Regular b)" and "enc t = Some b"
  shows "read_text st e p fs = Inr (Inr (universal t))"
  using assms dec_enc by (simp add: read_text_def read_bytes_def)

end

text \<open>UTF-8: a text is its own encoding, provided that its bytes form characters.\<close>

definition in_bytes :: "nat \<Rightarrow> nat \<Rightarrow> char \<Rightarrow> bool" where
  "in_bytes lo hi c = (lo \<le> (of_char c :: nat) \<and> (of_char c :: nat) \<le> hi)"

fun char_length :: "string \<Rightarrow> nat option" where
  "char_length [] = None"
| "char_length (c # cs) =
     (let tail = \<lambda>n. length (takeWhile continuation (take n cs)) = n in
      if in_bytes 0 0x7F c then Some 1
      else if in_bytes 0xC2 0xDF c \<and> tail 1 then Some 2
      else if in_bytes 0xE0 0xEF c \<and> tail 2 \<and> (c = CHR 0xE0 \<longrightarrow> in_bytes 0xA0 0xBF (hd cs)) \<and>
        (c = CHR 0xED \<longrightarrow> in_bytes 0x80 0x9F (hd cs)) then Some 3
      else if in_bytes 0xF0 0xF4 c \<and> tail 3 \<and> (c = CHR 0xF0 \<longrightarrow> in_bytes 0x90 0xBF (hd cs)) \<and>
        (c = CHR 0xF4 \<longrightarrow> in_bytes 0x80 0x8F (hd cs)) then Some 4
      else None)"

function valid_utf8 :: "string \<Rightarrow> bool" where
  "valid_utf8 s = (if s = [] then True else case char_length s of None \<Rightarrow> False | Some n \<Rightarrow> if n = 0 then False else valid_utf8 (drop n s))"
  by auto
termination by (relation "measure length") auto

declare valid_utf8.simps [simp del]

definition utf8 :: "string \<Rightarrow> string option" where
  "utf8 s = (if valid_utf8 s then Some s else None)"

interpretation utf8: text_codec utf8 utf8
  by unfold_locales (auto simp: utf8_def split: if_splits)

section \<open>Read back\<close>

text \<open>A file of text: permitted, with a place, and no image.\<close>

definition text_place :: "file_manager \<Rightarrow> string \<Rightarrow> string list \<Rightarrow> bool" where
  "text_place fm filename p = (place (fm_storage fm) (stored_at fm filename) = Inr p \<and>
     (\<forall>operation. fm_policy fm operation filename = None) \<and> map_of IMAGE_MEDIA_TYPES (map lower_char (suffix_of p)) = None)"

lemma read_file_text:
  assumes "text_place fm filename p" and "enc \<noteq> []" and "read_text (fm_storage fm) enc p fs = Inr (Inr t)"
  shows "run X (read_file fm filename enc offset limit fs) s = (Inr (Inr (success (''Successfully read file '' @ filename)
     (JObj [(''path'', JStr filename), (''absolute_path'', JStr (path_text p)),
       (''content'', JStr (if 0 < offset \<or> limit \<noteq> None then slice_lines t offset limit else t))])), fs), s)"
  using assms by (simp add: read_file_def run_permitted storage_read_def text_place_def Let_def)

text \<open>
  C21: a text is read back as it was written: writing a text to a free place, with a codec that decodes what it encodes, and
  reading it gives the text, with every line end as a line feed.
\<close>

theorem write_then_read:
  assumes "text_codec (ls_encode (fm_storage fm) enc) (ls_decode (fm_storage fm) enc)"
    and "text_place fm filename p" and "enc \<noteq> []" and "free fs p" and "ls_encode (fm_storage fm) enc content = Some b"
  shows "\<exists>d fs'. run X (a_bind (write_file fm filename content enc) (\<lambda>_. read_file fm filename enc 0 None) fs) s = (Inr (Inr d, fs'), s) \<and>
     (\<exists>v. dget0 d ''data'' = JObj v \<and> dget0 v ''content'' = JStr (universal content))"
proof -
  have place: "place (fm_storage fm) (stored_at fm filename) = Inr p" and "fm_policy fm ''write'' filename = None"
    using assms(2) by (simp_all add: text_place_def)
  moreover obtain fs' where "storage_write (fm_storage fm) (stored_at fm filename) content enc fs =
      (Inr (Inr (path_text p, int (py_len content))), fs')" "node_at fs' p = Some (Regular b)"
    using storage_write_free [OF place assms(4,5)] by blast
  moreover from this have "read_text (fm_storage fm) enc p fs' = Inr (Inr (universal content))"
    using text_codec.read_after_write [OF assms(1) refl refl _ assms(5)] by blast
  ultimately show ?thesis
    by (auto simp: run_a_bind write_file_def run_permitted read_file_text [OF assms(2,3)] success_def dget0_def dget_def)
qed

section \<open>Editing\<close>

lemma occurrences_step:
  "old \<noteq> [] \<Longrightarrow> occurrences old [] = 0"
  "old \<noteq> [] \<Longrightarrow> prefix old (c # s) \<Longrightarrow> occurrences old (c # s) = 1 + occurrences old (drop (length old) (c # s))"
  "old \<noteq> [] \<Longrightarrow> \<not> prefix old (c # s) \<Longrightarrow> occurrences old (c # s) = occurrences old s"
  by (subst occurrences.simps; simp)+

lemma replace_first_step:
  "replace_first 0 old new s = s"
  "replace_first n old new [] = []"
  "old \<noteq> [] \<Longrightarrow> prefix old (c # s) \<Longrightarrow> replace_first (Suc n) old new (c # s) = new @ replace_first n old new (drop (length old) (c # s))"
  "old \<noteq> [] \<Longrightarrow> \<not> prefix old (c # s) \<Longrightarrow> replace_first (Suc n) old new (c # s) = c # replace_first (Suc n) old new s"
  by (subst replace_first.simps; simp)+

lemma replace_one:
  assumes "old \<noteq> []" and "0 < occurrences old s"
  shows "\<exists>pre post. s = pre @ old @ post \<and> replace_first 1 old new s = pre @ new @ post \<and> \<not> occurs old (butlast (pre @ old))"
  using assms(2)
proof (induction s)
  case (Cons c s)
  show ?case
  proof (cases "prefix old (c # s)")
    case True
    then obtain post where p: "c # s = old @ post" by (auto simp: prefix_def)
    have "\<not> occurs old (butlast old)"
    proof
      have len: "occurs m w \<Longrightarrow> length m \<le> length w" for m w :: string
        by (induction w) (auto dest: prefix_length_le)
      assume "occurs old (butlast old)"
      then have "length old \<le> length old - 1" using len [of old "butlast old"] unfolding length_butlast by blast
      moreover have "0 < length old" using assms(1) by simp
      ultimately show False by linarith
    qed
    then show ?thesis
      using True p assms(1) replace_first_step(1) replace_first_step(3) [of old c s 0 new] by (intro exI [of _ "[]"] exI [of _ post]) simp
  next
    case False
    then have "0 < occurrences old s" using Cons.prems assms(1) by (simp add: occurrences_step)
    from Cons.IH [OF this] obtain pre post where
      ih: "s = pre @ old @ post" "replace_first 1 old new s = pre @ new @ post" "\<not> occurs old (butlast (pre @ old))" by blast
    have "\<not> prefix old (c # butlast (pre @ old))"
      using False ih(1) assms(1) by (auto simp: prefix_def butlast_append) (metis append.assoc append_butlast_last_id append_Cons)+
    then show ?thesis
      using False ih assms(1) replace_first_step(4) [of old c s 0 new]
      by (intro exI [of _ "c # pre"] exI [of _ post]) (simp add: butlast_append)
  qed
qed (use assms(1) in \<open>simp add: occurrences_step\<close>)

text \<open>
  C19: an edit replaces the one occurrence: without \<open>replace_all\<close>, an edit of a text succeeds exactly when the
  old string occurs once, counted without overlap; then the text before and after the first occurrence
  stays and the new string stands between them.  Otherwise the edit reports an error and no file changes.
\<close>

theorem edit_replaces_one:
  assumes "text_place fm filename p" and "read_text (fm_storage fm) enc p fs = Inr (Inr t)" and "is_file fs p" and "\<not> blocked fs p"
    and "is_dir fs (butlast p)" and "old \<noteq> []" 
    and "\<forall>pre post. t = pre @ old @ post \<longrightarrow> ls_encode (fm_storage fm) enc (pre @ new @ post) \<noteq> None"
  shows "\<exists>d fs'. run X (edit_file fm filename old new False enc fs) s = (Inr (Inr d, fs'), s) \<and>
     (if occurrences old t = 1
      then dget0 d ''success'' = JBool True \<and> (\<forall>q. q \<noteq> p \<longrightarrow> node_at fs' q = node_at fs q) \<and>
        (\<exists>pre post b. t = pre @ old @ post \<and> \<not> occurs old (butlast (pre @ old)) \<and>
          ls_encode (fm_storage fm) enc (pre @ new @ post) = Some b \<and> node_at fs' p = Some (Regular b))
      else dget0 d ''success'' = JBool False \<and> fs' = fs)"
proof -
  have place: "place (fm_storage fm) (stored_at fm filename) = Inr p" and pol: "fm_policy fm ''edit'' filename = None"
    using assms(1) by (simp_all add: text_place_def)
  have p: "p \<noteq> []" "\<not> is_dir fs p" using assms(3) by (auto simp: is_file_def is_dir_def node_at_def split: option.splits node.splits)
  show ?thesis
  proof (cases "occurrences old t = 1")
    case True
    then obtain pre post where t: "t = pre @ old @ post" "replace_first 1 old new t = pre @ new @ post" "\<not> occurs old (butlast (pre @ old))"
      using replace_one [OF assms(6), of t new] by auto
    obtain b where b: "ls_encode (fm_storage fm) enc (pre @ new @ post) = Some b" using assms(7) t(1) by blast
    have "open_for_writing fs p = Inr (AList.update p (Regular []) fs)" using p assms(4,5) by (simp add: open_for_writing_def)
    then have "storage_edit (fm_storage fm) (stored_at fm filename) old new False enc fs =
        (Inr (Inr (path_text p, 1)), AList.update p (Regular b) (AList.update p (Regular []) fs))"
      using True t(2) assms(2,3,6) b by (simp add: storage_edit_def place Let_def replaced_def write_text_def)
    then show ?thesis
      using True t b p by (auto simp: edit_file_def run_permitted pol success_def dget0_def dget_def node_at_update)
  next
    case False
    then have "\<exists>m. storage_edit (fm_storage fm) (stored_at fm filename) old new False enc fs = (Inr (Inl m), fs)"
      using assms(2,3) by (auto simp: storage_edit_def place Let_def)
    then show ?thesis using False by (auto simp: edit_file_def run_permitted pol failure_def dget0_def dget_def)
  qed
qed

section \<open>Pages\<close>

lemma join_join: "\<forall>ws \<in> set wss. ws \<noteq> [] \<Longrightarrow> join_with c (map (join_with c) wss) = join_with c (concat wss)"
proof (induction wss)
  case (Cons ws wss)
  have app: "ys \<noteq> [] \<Longrightarrow> xs \<noteq> [] \<Longrightarrow> join_with c (xs @ ys) = join_with c xs @ c # join_with c ys" for xs ys
    by (induction xs rule: induct_list012) (auto simp: join_Cons)
  show ?case using Cons by (cases wss) (auto simp: app join_Cons)
qed simp

lemma chunks:
  assumes "0 < n"
  shows "concat (map (\<lambda>k. take n (drop (k * n) l)) [0..<m]) = take (m * n) l"
  by (induction m) (simp_all add: take_add [symmetric] add.commute)

text \<open>
  Pages cover a text: reading a text file in consecutive windows of the same number of lines, until the lines are used up,
  gives pages that joined by line feeds are the lines of the text, each once and in order.
\<close>

theorem pages_cover_text:
  assumes "text_place fm filename p" and "enc \<noteq> []" and "read_text (fm_storage fm) enc p fs = Inr (Inr t)" and "0 < n"
    and "m = (length (splitlines t) + n - 1) div n"
  shows "\<exists>pages. length pages = m \<and> join_with (CHR 0x0A) pages = join_with (CHR 0x0A) (splitlines t) \<and>
     (\<forall>k < m. \<exists>d v. run X (read_file fm filename enc (int (k * n)) (Some (int n)) fs) s = (Inr (Inr d, fs), s) \<and>
        dget0 d ''data'' = JObj v \<and> dget0 v ''content'' = JStr (pages ! k))"
proof -
  let ?l = "splitlines t"
  let ?chunks = "map (\<lambda>k. take n (drop (k * n) ?l)) [0..<m]"
  have "length ?l \<le> m * n"
  proof -
    have "length ?l + n - 1 < m * n + n" using assms(4,5) by (metis add.commute div_mult_mod_eq mod_less_divisor nat_add_left_cancel_less)
    then show ?thesis by linarith
  qed
  then have all: "concat ?chunks = ?l" using chunks [OF assms(4), of ?l m] by simp
  have "k * n < length ?l" if "k < m" for k
  proof -
    have "Suc k * n \<le> length ?l + n - 1"
      using that assms(4,5) by (metis Suc_leI div_times_less_eq_dividend le_trans mult_le_mono1)
    then show ?thesis using assms(4) by simp
  qed
  then have short: "take n (drop (k * n) ?l) \<noteq> []" if "k < m" for k using that assms(4) by (simp add: not_le)
  have ne: "\<forall>c \<in> set ?chunks. c \<noteq> []"
  proof
    fix c assume "c \<in> set ?chunks"
    then obtain k where "k < m" "c = take n (drop (k * n) ?l)" by auto
    then show "c \<noteq> []" using short [of k] by simp
  qed
  have page: "slice_lines t (int (k * n)) (Some (int n)) = join_with (CHR 0x0A) (take n (drop (k * n) ?l))" for k
    by (simp add: slice_lines_def Let_def nat_mult_distrib del: of_nat_mult)
  show ?thesis
    using join_join [OF ne, of "CHR 0x0A"] all read_file_text [OF assms(1-3), where X = X and s = s]
    by (intro exI [of _ "map (join_with (CHR 0x0A)) ?chunks"])
      (simp add: page success_def dget0_def dget_def del: of_nat_mult map_map)
qed

section \<open>The work space of a task\<close>

lemma mkdirs_kept: "mkdirs p fs = Inr fs' \<Longrightarrow> node_at fs q = Some n \<Longrightarrow> node_at fs' q = Some n"
proof -
  assume "mkdirs p fs = Inr fs'" and n: "node_at fs q = Some n"
  then have "only_at (\<lambda>_. False) fs fs'" by (intro only_at_mkdirs)
  then show ?thesis using n unfolding only_at_def by (metis option.distinct(1))
qed

lemma mkdirs_all_made:
  assumes "mkdirs_all ps fs = (Inr (), fs')" and "tree fs"
  shows "tree fs' \<and> (\<forall>p \<in> set ps. is_dir fs' p) \<and> (\<forall>q n. node_at fs q = Some n \<longrightarrow> node_at fs' q = Some n)"
  using assms
proof (induction ps arbitrary: fs)
  case (Cons p ps)
  then obtain fs1 where m: "mkdirs p fs = Inr fs1" "mkdirs_all ps fs1 = (Inr (), fs')" by (auto split: sum.splits)
  note made = mkdirs_tree [OF Cons.prems(2) m(1)]
  note ih = Cons.IH [OF m(2) conjunct1 [OF made]]
  show ?case using ih made mkdirs_kept [OF m(1)] by (auto simp: is_dir_def)
qed simp

text \<open>
  The work space of a task comes and goes: after a successful setup all its directories are there and nothing that was there
  before has changed; the cleanup then takes exactly the private directory of the task.
\<close>

theorem workspace_comes_and_goes:
  assumes "tree fs" and "setup_workspace base sid task user agent fs = (Inr paths, fs1)"
  shows "(\<forall>p \<in> set (workspace_dirs base sid task user agent). is_dir fs1 p) \<and>
     (\<forall>q n. node_at fs q = Some n \<longrightarrow> node_at fs1 q = Some n) \<and>
     (\<exists>fs2. cleanup_task base sid task user agent fs1 = (Inr (), fs2) \<and> tree fs2 \<and>
        (\<forall>q. node_at fs2 q = (if prefix (task_dir base sid task user agent) q then None else node_at fs1 q)))"
proof -
  let ?t = "task_dir base sid task user agent"
  have m: "mkdirs_all (workspace_dirs base sid task user agent) fs = (Inr (), fs1)"
    using assms(2) by (auto simp: setup_workspace_def split: sum.splits prod.splits)
  note made = mkdirs_all_made [OF m assms(1)]
  have "?t @ [''input''] \<in> set (workspace_dirs base sid task user agent)"
    by (simp add: workspace_dirs_def Let_def)
  then have "is_dir fs1 (?t @ [''input''])" using made by blast
  then have "is_dir fs1 ?t" using made unfolding tree_def is_dir_def by (metis butlast_snoc option.distinct(1))
  then have "cleanup_task base sid task user agent fs1 = (Inr (), remove_tree ?t fs1)"
    by (simp add: cleanup_task_def is_dir_def)
  moreover have "?t \<noteq> []" by (simp add: task_dir_def)
  ultimately show ?thesis using made remove_tree_tree [of fs1 ?t] by (auto simp: node_at_remove)
qed

section \<open>The sandbox of application code\<close>

lemma normpath_clean:
  assumes "\<forall>c \<in> set cs. clean c" and "cs \<noteq> []" shows "normpath (path_text cs) = path_text cs"
proof -
  obtain x xs w where w: "cs = (x # xs) # w" "x \<noteq> slash"
    using assms by (cases cs; cases "hd cs") (auto simp: clean_def)
  then have i: "initial_slashes (path_text cs) = 1" by (cases w) (auto simp: initial_slashes_def path_text_def)
  have "\<forall>c \<in> set cs. slash \<notin> set c" using assms(1) by (auto simp: clean_def)
  then have s: "split_on slash (path_text cs) = [] # cs" using assms(2) by (simp add: path_text_def split_of_join)
  have n: "norm_comps True ([] # cs) = cs"
    using norm_comps_clean [OF assms(1), of True "[]"] by (simp add: norm_comps_def norm_step_def)
  show ?thesis by (simp add: normpath_def Let_def i s n) (simp add: path_text_def)
qed

lemma join_prefix: "prefix (join_with c (ws @ [w])) (join_with c (ws @ [w @ x] @ rest))"
proof (induction ws)
  case Nil
  then show ?case by (cases rest) (auto simp: join_Cons)
qed (auto simp: join_Cons)

text \<open>
  The sandbox lets code into a neighbour: application code with the work space \<open>/w\<close> may not open a file whose path does
  not begin with the text of that path, but it may open every file below any sibling whose name
  begins like the one of the work space, such as \<open>/w-other\<close>.
\<close>

theorem sandbox_admits_siblings:
  assumes "\<forall>c \<in> set (ws @ [w] @ rest). clean c" and "x \<noteq> []" and "slash \<notin> set x"
  shows "safe_open cwd (path_text (ws @ [w])) caller (path_text (ws @ [w @ x] @ rest)) = None \<and>
     \<not> prefix (ws @ [w]) (ws @ [w @ x] @ rest)"
proof -
  have "clean (w @ x)" using assms by (cases x; cases w) (auto simp: clean_def append_eq_Cons_conv)
  then have c: "\<forall>c \<in> set (ws @ [w @ x] @ rest). clean c" "\<forall>c \<in> set (ws @ [w]). clean c" using assms(1) by auto
  have a: "abspath cwd (path_text cs) = path_text cs" if "\<forall>c \<in> set cs. clean c" "cs \<noteq> []" for cs
    using normpath_clean [OF that] by (simp add: abspath_def path_text_def)
  have "safe_open cwd (path_text (ws @ [w])) caller (path_text (ws @ [w @ x] @ rest)) = None"
    using a [OF c(1)] a [OF c(2)] join_prefix [of slash ws w x rest] by (simp add: safe_open_def path_text_def)
  then show ?thesis using assms(2) by simp
qed

section \<open>The properties at concrete inputs\<close>

definition demo_area :: access_context where
  "demo_area = \<lparr>fa_session_id = ''s1'', fa_user_code = ''alice'', fa_shared_public = False, fa_agent_id = ''bot''\<rparr>"

definition demo_files :: file_manager where
  "demo_files = \<lparr>fm_context = demo_area,
     fm_storage = \<lparr>ls_base = [''ws''], ls_resolve = (\<lambda>p. p), ls_encode = (\<lambda>_. utf8), ls_decode = (\<lambda>_. utf8)\<rparr>,
     fm_max_chars = 8000, fm_policy = (\<lambda>operation. check_scope demo_area), fm_printed = (\<lambda>_. []), fm_base64 = (\<lambda>b. b)\<rparr>"

definition demo_tree :: fs where
  "demo_tree = [([''ws''], Directory), ([''ws'', ''bot''], Directory), ([''ws'', ''bot'', ''alice''], Directory),
     ([''ws'', ''bot'', ''alice'', ''sessions''], Directory), ([''ws'', ''bot'', ''alice'', ''sessions'', ''s2''], Directory),
     ([''ws'', ''bot'', ''alice'', ''sessions'', ''s2'', ''n.txt''], Regular ''my key'')]"

lemma demo_files_simps [simp]:
  "fm_context demo_files = demo_area" "ls_base (fm_storage demo_files) = [''ws'']" "ls_resolve (fm_storage demo_files) = (\<lambda>p. p)"
  "ls_encode (fm_storage demo_files) = (\<lambda>_. utf8)" "ls_decode (fm_storage demo_files) = (\<lambda>_. utf8)"
  "fm_policy demo_files = (\<lambda>operation. check_scope demo_area)" "fm_printed demo_files = (\<lambda>_. [])" "fm_max_chars demo_files = 8000"
  "user_root demo_area = [''bot'', ''alice'']"
  by (simp_all add: demo_files_def user_root_def storage_root_prefix_def demo_area_def)

lemma demo_scoped [simp]: "scoped demo_files"
  by (simp add: scoped_def named_plainly_def storage_root_prefix_def demo_area_def plain_def clean_def)

lemma demo_names [simp]: "normalize_virtual_path ''public/a.txt'' = ''public/a.txt''" "check_scope demo_area ''public/a.txt'' = None"
  by (simp_all add: check_scope_def normalize_virtual_path_def normpath_def initial_slashes_def norm_comps_def norm_step_def Let_def)

lemma demo_place [simp]: "get_full_path (\<lambda>p. p) [''ws''] (to_storage_path demo_area ''public/a.txt'') = Inr [''ws'', ''bot'', ''alice'', ''public'', ''a.txt'']"
  by (simp add: to_storage_path_def storage_root_prefix_def demo_area_def get_full_path_def logical_path_def norm_comps_def norm_step_def)

lemma demo_utf8 [simp]: "utf8 ''hi'' = Some ''hi''" "utf8 ''my key'' = Some ''my key''"
  by code_simp+


theorem backslash_leaves_area_witness:
  "\<exists>d fs'. run ref_exec (write_file demo_files (escaping_name ''other'' ''bob'' ''x'') ''hi'' ''utf-8'' demo_tree) empty_server =
       (Inr (Inr d, fs'), empty_server) \<and> dget0 d ''success'' = JBool True \<and>
     node_at fs' (ls_base (fm_storage demo_files) @ [''other'', ''bob'', ''x'']) = Some (Regular ''hi'')"
  by (rule backslash_leaves_area [where root = "''bot''" and own = "''alice''"])
    (simp_all add: plain_def clean_def free_def is_dir_def is_file_def node_at_def blocked_def ancestors_def demo_tree_def upt_rec)

theorem root_delete_takes_all_sessions_witness:
  "\<exists>d fs'. run ref_exec (delete_file demo_files ''public/..'' demo_tree) empty_server = (Inr (Inr d, fs'), empty_server) \<and>
     dget0 d ''success'' = JBool True \<and>
     (\<forall>q. prefix (ls_base (fm_storage demo_files) @ user_root (fm_context demo_files)) q \<longrightarrow> node_at fs' q = None)"
  by (rule root_delete_takes_all_sessions)
    (simp_all add: normalize_virtual_path_def normpath_def initial_slashes_def norm_comps_def norm_step_def is_dir_def node_at_def demo_tree_def)



lemma demo_text: "text_place demo_files ''public/a.txt'' [''ws'', ''bot'', ''alice'', ''public'', ''a.txt'']"
  by (simp add: text_place_def IMAGE_MEDIA_TYPES_def suffix_of_def lower_char_def Let_def)

theorem write_then_read_witness:
  "\<exists>d fs'. run ref_exec (a_bind (write_file demo_files ''public/a.txt'' ''hi'' ''utf-8'') (\<lambda>_. read_file demo_files ''public/a.txt'' ''utf-8'' 0 None)
       demo_tree) empty_server = (Inr (Inr d, fs'), empty_server) \<and>
     (\<exists>v. dget0 d ''data'' = JObj v \<and> dget0 v ''content'' = JStr (universal ''hi''))"
  by (rule write_then_read [OF _ demo_text])
    (simp_all add: utf8.text_codec_axioms free_def is_dir_def is_file_def node_at_def blocked_def ancestors_def demo_tree_def upt_rec)

definition demo_hi :: fs where
  "demo_hi = [([''ws''], Directory), ([''ws'', ''bot''], Directory), ([''ws'', ''bot'', ''alice''], Directory),
     ([''ws'', ''bot'', ''alice'', ''public''], Directory), ([''ws'', ''bot'', ''alice'', ''public'', ''a.txt''], Regular ''hi'')]"

lemma demo_hi_facts [simp]:
  "node_at demo_hi [''ws'', ''bot'', ''alice'', ''public'', ''a.txt''] = Some (Regular ''hi'')"
  "is_file demo_hi [''ws'', ''bot'', ''alice'', ''public'', ''a.txt'']"
  "is_dir demo_hi [''ws'', ''bot'', ''alice'', ''public'']"
  "\<not> blocked demo_hi [''ws'', ''bot'', ''alice'', ''public'', ''a.txt'']"
  "read_text (fm_storage demo_files) e [''ws'', ''bot'', ''alice'', ''public'', ''a.txt''] demo_hi = Inr (Inr ''hi'')"
  by (simp_all add: node_at_def is_file_def is_dir_def blocked_def ancestors_def demo_hi_def upt_rec read_text_def read_bytes_def)

theorem edit_replaces_one_witness:
  "\<exists>d fs'. run ref_exec (edit_file demo_files ''public/a.txt'' ''i'' ''o'' False ''utf-8'' demo_hi) empty_server = (Inr (Inr d, fs'), empty_server) \<and>
     dget0 d ''success'' = JBool True \<and> node_at fs' [''ws'', ''bot'', ''alice'', ''public'', ''a.txt''] = Some (Regular ''ho'')"
proof -
  have one: "occurrences ''i'' ''hi'' = 1" by code_simp
  have pre: "''hi'' = pre @ CHR ''i'' # post \<longleftrightarrow> pre = ''h'' \<and> post = []" for pre post
    by (auto simp: Cons_eq_append_conv)
  have ho: "utf8 ''ho'' = Some ''ho''" by code_simp
  show ?thesis
    using edit_replaces_one [OF demo_text, where enc = "''utf-8''" and fs = demo_hi and t = "''hi''" and old = "''i''" and new = "''o''"
        and X = ref_exec and s = empty_server]
    by (auto simp: one pre ho)
qed

theorem pages_cover_text_witness:
  "\<exists>pages. length pages = (1::nat) \<and> join_with (CHR 0x0A) pages = join_with (CHR 0x0A) (splitlines ''hi'') \<and>
     (\<forall>k < 1. \<exists>d v. run ref_exec (read_file demo_files ''public/a.txt'' ''utf-8'' (int (k * 5)) (Some (int 5)) demo_hi) empty_server =
        (Inr (Inr d, demo_hi), empty_server) \<and> dget0 d ''data'' = JObj v \<and> dget0 v ''content'' = JStr (pages ! k))"
proof -
  have "splitlines ''hi'' = [''hi'']" by code_simp
  then show ?thesis by (intro pages_cover_text [OF demo_text]) simp_all
qed

theorem sandbox_admits_siblings_witness:
  "safe_open ''/'' (path_text [''tmp'', ''ws'']) ''app.py'' (path_text [''tmp'', ''ws-other'', ''key'']) = None"
  using sandbox_admits_siblings [of "[''tmp'']" "''ws''" "[''key'']" "''-other''"] by (simp add: clean_def)

theorem workspace_comes_and_goes_witness:
  "\<forall>p \<in> set (workspace_dirs [''ws''] ''s'' ''t'' ''u'' ''a''). is_dir (snd (setup_workspace [''ws''] ''s'' ''t'' ''u'' ''a'' [])) p"
proof -
  obtain paths fs1 where s: "setup_workspace [''ws''] ''s'' ''t'' ''u'' ''a'' [] = (Inr paths, fs1)"
  proof -
    have "case setup_workspace [''ws''] ''s'' ''t'' ''u'' ''a'' [] of (Inr paths, fs1) \<Rightarrow> True | _ \<Rightarrow> False" by code_simp
    then show ?thesis using that by (auto split: prod.splits sum.splits)
  qed
  have "tree []" by (simp add: tree_def node_at_def is_dir_def)
  from workspace_comes_and_goes [OF this s] show ?thesis by (simp add: s)
qed

end
