(* ===== verification/Worker_Lifecycle.thy ===== *)
theory Worker_Lifecycle
  imports Runner
begin

text \<open>
  The life of a worker: the administrator's side (\<open>admin/worker_manager.py\<close>), the thread
  that renews the worker's lease and follows what the administrator wants
  (\<open>worker/heartbeat.py\<close>), and how the runner's loops of \<open>worker/runner.py\<close> obey the two.
  The thread's registry shares the token of the claim, not the runner's connection.
\<close>

section \<open>The administrator\<close>

definition admin_header :: "header prog" where
  "admin_header = bindp uuid_hex (\<lambda>trace_id. bindp uuid_hex (\<lambda>message_id.
     Ret \<lparr>mh_message_id = message_id, mh_session_id = ''admin'', mh_trace_id = trace_id,
       mh_source_agent_type = [], mh_target_agent_type = [], mh_parent_message_id = [], mh_task_group_id = [],
       mh_user_code = [], mh_user_name = [], mh_metadata = [], mh_trace_parent_span_id = [],
       mh_langfuse_parent_observation_id = []\<rparr>))"

text \<open>The command on the worker's own control stream.\<close>

definition push_command :: "schema \<Rightarrow> string \<Rightarrow> (header \<Rightarrow> command) \<Rightarrow> unit prog" where
  "push_command V worker_id command = bindp admin_header (\<lambda>h.
     exec_cmd (XAdd (worker_ctrl_stream V worker_id) (to_redis_payload (command h))))"

definition suspend_worker :: "schema \<Rightarrow> string \<Rightarrow> string \<Rightarrow> unit prog" where
  "suspend_worker V worker_id reason =
     bindp (set_worker_admin_state V worker_id ''suspended'' reason) (\<lambda>_.
     bindp (remove_worker_from_type_members V worker_id) (\<lambda>_.
     push_command V worker_id (\<lambda>h. SuspendWorkerCommand h reason)))"

definition resume_worker :: "schema \<Rightarrow> string \<Rightarrow> unit prog" where
  "resume_worker V worker_id =
     bindp (set_worker_admin_state V worker_id ''active'' []) (\<lambda>_.
     bindp (restore_worker_to_type_members V worker_id) (\<lambda>_.
     push_command V worker_id ResumeWorkerCommand))"

definition evict_worker :: "schema \<Rightarrow> string \<Rightarrow> bool \<Rightarrow> string \<Rightarrow> unit prog" where
  "evict_worker V worker_id force reason =
     bindp (set_worker_admin_state V worker_id ''evicted'' reason) (\<lambda>_.
     bindp (remove_worker_from_type_members V worker_id) (\<lambda>_.
     push_command V worker_id (\<lambda>h. EvictWorkerCommand h reason force)))"

definition allow_worker_rejoin :: "schema \<Rightarrow> string \<Rightarrow> unit prog" where
  "allow_worker_rejoin V worker_id = clear_worker_admin_state V worker_id"

text \<open>\<open>admin_state.get("lifecycle", "active") or "active"\<close>.\<close>

definition admin_lifecycle :: "jdict \<Rightarrow> string" where
  "admin_lifecycle admin_state = str_or (py_text (dget admin_state ''lifecycle'' (JStr ''active''))) ''active''"

section \<open>The heartbeat\<close>

definition quoted :: "string \<Rightarrow> string" where
  "quoted s = CHR 0x27 # s @ [CHR 0x27]"

text \<open>
  \<open>hb_runner\<close> is the object the callbacks change.  Times are in milliseconds;
  \<open>hb_task\<close>: the watcher task exists, \<open>hb_lock_stolen\<close>: the event it waits for is set.
\<close>

record heartbeat =
  hb_worker_id :: string
  hb_agent_types :: "string list"
  hb_interval :: int
  hb_lease_ttl_seconds :: int
  hb_lifecycle_callback :: "(string \<Rightarrow> runner \<Rightarrow> runner) option"
  hb_denylist_refresh :: "(string list \<Rightarrow> runner \<Rightarrow> runner) option"
  hb_task :: bool
  hb_lock_stolen :: bool
  hb_failure_reason :: string
  hb_last_success :: int
  hb_runner :: runner

definition failure_deadline :: "heartbeat \<Rightarrow> int" where
  "failure_deadline hb = max (hb_interval hb) (hb_lease_ttl_seconds hb * 1000 - hb_interval hb)"

definition update_denied_agent_types :: "string list \<Rightarrow> runner \<Rightarrow> runner" where
  "update_denied_agent_types refused r = r\<lparr>rn_denied_agent_types := refused\<rparr>"

text \<open>The callbacks, as \<open>WorkerRunner.start\<close> passes them.\<close>

definition new_heartbeat :: "runner \<Rightarrow> int \<Rightarrow> int \<Rightarrow> heartbeat" where
  "new_heartbeat r interval lease_ttl_seconds =
     \<lparr>hb_worker_id = wk_worker_id (rn_worker r), hb_agent_types = rn_agent_types r, hb_interval = interval,
      hb_lease_ttl_seconds = lease_ttl_seconds,
      hb_lifecycle_callback = Some (\<lambda>lifecycle r. r\<lparr>rn_admin_lifecycle := lifecycle\<rparr>),
      hb_denylist_refresh = Some update_denied_agent_types,
      hb_task = False, hb_lock_stolen = False, hb_failure_reason = [], hb_last_success = 0, hb_runner = r\<rparr>"

definition on_lifecycle :: "string \<Rightarrow> heartbeat \<Rightarrow> heartbeat" where
  "on_lifecycle lifecycle hb = (case hb_lifecycle_callback hb of
     None \<Rightarrow> hb | Some f \<Rightarrow> hb\<lparr>hb_runner := f lifecycle (hb_runner hb)\<rparr>)"

definition signal_lock_stolen :: "string \<Rightarrow> heartbeat \<Rightarrow> heartbeat" where
  "signal_lock_stolen reason hb =
     (if reason \<noteq> [] then hb\<lparr>hb_failure_reason := reason, hb_lock_stolen := True\<rparr> else hb\<lparr>hb_lock_stolen := True\<rparr>)"

definition start_heartbeat :: "schema \<Rightarrow> registry \<Rightarrow> (heartbeat, unit) act" where
  "start_heartbeat V reg = a_with (\<lambda>hb. if hb_task hb then a_ret () else
     a_bind (a_lift (get_worker_admin_state V (hb_worker_id hb))) (\<lambda>admin_state.
     let startup_lifecycle = admin_lifecycle admin_state in
     a_seq (if startup_lifecycle = ''active''
        then a_lift (register_worker_membership V (hb_worker_id hb) (hb_agent_types hb)) else a_ret ())
    (a_bind (a_lift (heartbeat_worker V reg (hb_worker_id hb) (hb_lease_ttl_seconds hb))) (\<lambda>ok.
     if \<not> ok then a_raise (RuntimeError (''Worker ID '' @ quoted (hb_worker_id hb) @ '' heartbeat was rejected; another instance may own the lease''))
     else a_seq (if startup_lifecycle \<noteq> ''active'' then a_set (on_lifecycle startup_lifecycle) else a_ret ())
       (a_set (\<lambda>hb. hb\<lparr>hb_lock_stolen := False, hb_task := True\<rparr>))))))"

text \<open>The watcher: what the runner finds when it looks at the task.\<close>

definition watcher :: "heartbeat \<Rightarrow> exn option" where
  "watcher hb = (if hb_lock_stolen hb
     then Some (RuntimeError (str_or (hb_failure_reason hb) (''Worker ID '' @ quoted (hb_worker_id hb) @
       '' lock was stolen by another instance; this process must exit'')))
     else None)"

text \<open>
  One renewal: the body of the loop's \<open>try\<close>.  \<open>True\<close> when the loop goes on.
\<close>

primrec denied_types :: "schema \<Rightarrow> string \<Rightarrow> string list \<Rightarrow> string list prog" where
  "denied_types V worker_id [] = Ret []"
| "denied_types V worker_id (a # as) =
     bindp (is_worker_denied_for_type V a worker_id) (\<lambda>d.
     bindp (denied_types V worker_id as) (\<lambda>rest. Ret (if d then a # rest else rest)))"

definition renew_lease :: "schema \<Rightarrow> registry \<Rightarrow> (heartbeat, bool) act" where
  "renew_lease V reg = a_with (\<lambda>hb. let worker_id = hb_worker_id hb in
     a_bind (a_lift (heartbeat_worker V reg worker_id (hb_lease_ttl_seconds hb))) (\<lambda>ok.
     if \<not> ok then a_seq (a_set (signal_lock_stolen [])) (a_ret False)
     else
       a_bind (a_lift (call Monotonic r_int)) (\<lambda>now.
       a_seq (a_set (\<lambda>hb. hb\<lparr>hb_last_success := now\<rparr>))
      (a_bind (a_lift (get_worker_admin_state V worker_id)) (\<lambda>admin_state.
       let current_lifecycle = admin_lifecycle admin_state in
       a_seq (a_set (on_lifecycle current_lifecycle))
      (a_seq (if current_lifecycle = ''active''
          then a_lift (register_worker_membership V worker_id (hb_agent_types hb)) else a_ret ())
      (a_seq (case hb_denylist_refresh hb of
          None \<Rightarrow> a_ret ()
        | Some f \<Rightarrow> a_bind (a_lift (denied_types V worker_id (hb_agent_types hb))) (\<lambda>refused.
            a_set (\<lambda>hb. hb\<lparr>hb_runner := f refused (hb_runner hb)\<rparr>)))
       (a_ret True))))))))"

definition heartbeat_failed :: "(heartbeat, bool) act" where
  "heartbeat_failed =
     a_bind (a_lift (call Monotonic r_int)) (\<lambda>now. a_with (\<lambda>hb.
     if now - hb_last_success hb \<ge> failure_deadline hb then a_seq (a_set (signal_lock_stolen [])) (a_ret False)
     else a_ret True))"

text \<open>
  \<open>_sleep_or_stop\<close>: the flags are what each look at the stop event finds.  Running out of
  them is no outcome of the code.
\<close>

primrec sleep_or_stop :: "bool list \<Rightarrow> int \<Rightarrow> bool prog" where
  "sleep_or_stop [] deadline = Raise Diverges"
| "sleep_or_stop (stopped # flags) deadline = (if stopped then Ret True
     else bindp (call Monotonic r_int) (\<lambda>now.
       if deadline - now \<le> 0 then Ret False else sleep_or_stop flags deadline))"

text \<open>
  A round: the looks at the stop event (the first one is the loop's), and whether the reader
  is healthy.  A loop whose rounds are over is still running: \<open>None\<close>.
\<close>

type_synonym hb_round = "bool list \<times> bool"

definition heartbeat_sleep :: "bool list \<Rightarrow> (heartbeat, bool) act" where
  "heartbeat_sleep flags = (case flags of
     [] \<Rightarrow> a_lift (Raise Diverges)
   | stopped # rest \<Rightarrow> if stopped then a_ret True else
       a_bind (a_lift (call Monotonic r_int)) (\<lambda>now. a_with (\<lambda>hb. a_lift (sleep_or_stop rest (now + hb_interval hb)))))"

primrec heartbeat_loop :: "schema \<Rightarrow> registry \<Rightarrow> hb_round list \<Rightarrow> (heartbeat, bool option) act" where
  "heartbeat_loop V reg [] = a_ret None"
| "heartbeat_loop V reg (r # rounds) =
     a_bind (heartbeat_sleep (fst r)) (\<lambda>stopped.
     if stopped then a_ret (Some True)
     else if \<not> snd r then a_seq (a_with (\<lambda>hb. a_set (signal_lock_stolen
         (''Worker ID '' @ quoted (hb_worker_id hb) @ '' reader is unhealthy; this process must exit'')))) (a_ret (Some False))
     else a_bind (a_except (renew_lease V reg) (\<lambda>_. heartbeat_failed)) (\<lambda>go_on.
       if go_on then heartbeat_loop V reg rounds else a_ret (Some False)))"

text \<open>
  The thread: a registry over a connection of its own, when it gets one, with the token of
  the claim.  Whatever ends the loop but a stop is signalled to the runner.
\<close>

definition isolated_registry :: "heartbeat \<Rightarrow> string \<Rightarrow> string \<Rightarrow> registry" where
  "isolated_registry hb token ip =
     \<lparr>lock_tokens = (if token \<noteq> [] then [(hb_worker_id hb, token)] else []), reg_ip_address = ip\<rparr>"

definition run_heartbeat :: "schema \<Rightarrow> string \<Rightarrow> string \<Rightarrow> bool \<Rightarrow> hb_round list \<Rightarrow> (heartbeat, unit) act" where
  "run_heartbeat V token ip connected rounds = a_with (\<lambda>hb.
     a_bind (a_except
        (if \<not> connected then a_seq (a_set (signal_lock_stolen [])) (a_ret (Some False))
         else a_bind (a_lift (call Monotonic r_int)) (\<lambda>now.
           a_seq (a_set (\<lambda>hb. hb\<lparr>hb_last_success := now\<rparr>)) (heartbeat_loop V (isolated_registry hb token ip) rounds)))
        (\<lambda>_. a_ret (Some False))) (\<lambda>ended.
     if ended = Some False then a_set (signal_lock_stolen []) else a_ret ()))"

section \<open>The runner's loops\<close>

datatype consumer_turn = Pauses | Leaves | Consumes

definition consumer_turn :: "runner \<Rightarrow> consumer_turn" where
  "consumer_turn r =
     (if rn_admin_lifecycle r = ''suspended'' then Pauses
      else if rn_admin_lifecycle r = ''evicted'' then Leaves else Consumes)"

text \<open>
  A turn of the main loop of \<open>start\<close>.  \<open>consumer\<close>: whether the consumer task is done, and with
  which exception.  \<open>Returns True\<close>: after waiting for the tasks that run.
\<close>

datatype supervision = GoesOn | Returns bool | Fails exn

definition supervise :: "heartbeat \<Rightarrow> exn option option \<Rightarrow> supervision" where
  "supervise hb consumer = (case watcher hb of
     Some e \<Rightarrow> Fails e
   | None \<Rightarrow> (case consumer of
       None \<Rightarrow> GoesOn
     | Some (Some e) \<Rightarrow> Fails e
     | Some None \<Rightarrow>
         if rn_admin_lifecycle (hb_runner hb) = ''evicted'' then Returns (\<not> rn_evict_force (hb_runner hb))
         else Fails (RuntimeError (''Worker '' @ quoted (hb_worker_id hb) @ '' consumer loop stopped''))))"

end
