(* ===== verification/Lifecycle_Properties.thy ===== *)
theory Lifecycle_Properties
  imports Worker_Lifecycle Runner_Properties
begin

text \<open>
  What the administrator's orders achieve: a suspended or evicted worker is not routed by its
  own heartbeats or restarts, unless an order falls between the reading of the order and the
  registration of the same round; an evicted worker leaves at its next start until it is let
  in again; a worker that cannot renew its lease is told so before the lease is over.
\<close>

section \<open>Renewals of a worker that is not active\<close>

text \<open>The order stands, and the routing sets are as given.\<close>

definition ordered :: "schema \<Rightarrow> string \<Rightarrow> string \<Rightarrow> (string \<Rightarrow> string set) \<Rightarrow> kspace \<Rightarrow> bool" where
  "ordered V w l M K = (hs K (worker_admin V w) ''lifecycle'' = Some (Txt l) \<and> members V K = M)"

definition keeps_order :: "schema \<Rightarrow> string \<Rightarrow> cmd \<Rightarrow> bool" where
  "keeps_order V w c = (\<forall>l M K. ordered V w l M K \<longrightarrow> ordered V w l M (apply_cmd c K))"

lemma keeps_order_simps [simp]:
  "keeps_order V w Now" "keeps_order V w Monotonic" "keeps_order V w Uuid" "keeps_order V w (Eval k s)"
  "keeps_order V w (SMembers k)" "keeps_order V w (SIsMember k m)" "keeps_order V w (HGetAll k)" "keeps_order V w (XAdd k v)"
  "keeps_order V w (SAdd (known_workers V) x)" "keeps_order V w (SAdd (admin_workers V) x)"
  "keeps_order V w (SAdd (worker_declared_agent_types V x) y)"
  by (auto simp: keeps_order_def ordered_def key_simps fun_eq_iff)

lemma wp_keeps_order:
  assumes "only (keeps_order V w) p" and "ordered V w l M K"
  shows "wp p (\<lambda>_. ordered V w l M) K"
proof -
  have "wp p (\<lambda>_ K'. ordered V w l M K \<longrightarrow> ordered V w l M K') K"
    by (rule wp_only [OF assms(1)]) (auto simp: keeps_order_def)
  then show ?thesis using assms(2) by simp
qed

lemma only_heartbeat [simp]: "only (keeps_order V w) (heartbeat_worker V reg w' ttl)"
  by (auto simp: heartbeat_worker_def Let_def intro!: only_bindp)

lemma only_denied_types [simp]: "only (keeps_order V w) (denied_types V w' as)"
  by (induction as) (auto simp: is_worker_denied_for_type_def intro!: only_bindp)

lemma only_sleep [simp]: "only (keeps_order V w) (sleep_or_stop looks deadline)"
  by (induction looks) (auto intro!: only_bindp)

lemma read_lifecycle:
  assumes "map_of raw ''lifecycle'' = Some (Txt l)" and "l \<noteq> []"
  shows "admin_lifecycle (map admin_field raw) = l"
proof -
  have "map_of (map admin_field raw) ''lifecycle'' = Some (JStr l)"
    using assms(1) by (induction raw) (auto simp: admin_field_def split: if_splits)
  then show ?thesis using assms(2) by (simp add: admin_lifecycle_def dget_def str_or_def)
qed

text \<open>The thread works for the worker, and its callbacks have told the runner nothing but \<open>S\<close>.\<close>

definition tells :: "string \<Rightarrow> string set \<Rightarrow> heartbeat \<Rightarrow> bool" where
  "tells w S hb = (hb_worker_id hb = w \<and>
     hb_lifecycle_callback hb = Some (\<lambda>lifecycle r. r\<lparr>rn_admin_lifecycle := lifecycle\<rparr>) \<and>
     hb_denylist_refresh hb = Some update_denied_agent_types \<and> rn_admin_lifecycle (hb_runner hb) \<in> S)"

lemma tells_simps:
  "tells w S (signal_lock_stolen m hb) = tells w S hb"
  "tells w S (hb\<lparr>hb_last_success := n\<rparr>) = tells w S hb"
  "tells w S (hb\<lparr>hb_lock_stolen := b, hb_task := b'\<rparr>) = tells w S hb"
  "l \<in> S \<Longrightarrow> tells w S hb \<Longrightarrow> tells w S (on_lifecycle l hb)"
  "tells w S hb \<Longrightarrow> tells w S (hb\<lparr>hb_runner := update_denied_agent_types d (hb_runner hb)\<rparr>)"
  by (auto simp: tells_def signal_lock_stolen_def on_lifecycle_def update_denied_agent_types_def)

text \<open>
  A method that keeps an invariant of the object and the server, however it ends; what it
  returns is in \<open>E\<close>, and where it never ends, the server is in \<open>D\<close>.
\<close>

definition stays :: "('c \<Rightarrow> kspace \<Rightarrow> bool) \<Rightarrow> (kspace \<Rightarrow> bool) \<Rightarrow> ('a \<Rightarrow> bool) \<Rightarrow> ('c, 'a) act \<Rightarrow> bool" where
  "stays J D E m = (\<forall>c K. J c K \<longrightarrow> awp m (\<lambda>r c' K'. J c' K' \<and> (\<forall>a. r = Inr a \<longrightarrow> E a)) D c K)"

named_theorems stays_intros "methods that keep an invariant of the object and the server"

lemma stays_basic [stays_intros]:
  "E1 a \<Longrightarrow> stays J1 D1 E1 (a_ret a)"
  "stays J2 D2 E2 (a_raise e)"
  "(\<And>c K. J3 c K \<Longrightarrow> J3 (g c) K) \<Longrightarrow> E3 () \<Longrightarrow> stays J3 D3 E3 (a_set g)"
  by (simp_all add: stays_def awp_basic)

lemma stays_bind:
  "stays J D F m \<Longrightarrow> (\<And>a. F a \<Longrightarrow> stays J D E (f a)) \<Longrightarrow> stays J D E (a_bind m f)"
  unfolding stays_def awp_bind by (intro allI impI) (erule allE, erule allE, erule (1) impE, erule awp_mono, auto split: sum.splits)

lemma stays_any [stays_intros]: "stays J D (\<lambda>_. True) m \<Longrightarrow> (\<And>a. stays J D E (f a)) \<Longrightarrow> stays J D E (a_bind m f)"
  by (rule stays_bind)

lemma stays_seq [stays_intros]: "stays J D (\<lambda>_. True) m \<Longrightarrow> stays J D E n \<Longrightarrow> stays J D E (a_seq m n)"
  unfolding a_seq_def by (rule stays_bind)

lemma stays_with [stays_intros]: "(\<And>c. (\<exists>K. J c K) \<Longrightarrow> stays J D E (f c)) \<Longrightarrow> stays J D E (a_with f)"
  unfolding stays_def awp_with by blast

lemma stays_if [stays_intros]: "(b \<Longrightarrow> stays J D E m) \<Longrightarrow> (\<not> b \<Longrightarrow> stays J D E n) \<Longrightarrow> stays J D E (if b then m else n)"
  by simp

lemma stays_when [stays_intros]: "(b \<Longrightarrow> stays J D E m) \<Longrightarrow> E () \<Longrightarrow> stays J D E (a_when b m)"
  by (auto simp: a_when_def intro: stays_intros)

lemma stays_except [stays_intros]:
  "stays J D E m \<Longrightarrow> (\<And>e. stays J D E (h e)) \<Longrightarrow> stays J D E (a_except m h)"
  unfolding stays_def awp_except
  by (intro allI impI) (erule allE, erule allE, erule (1) impE, erule awp_mono, auto split: sum.splits exn.splits)

abbreviation "standing V w S l M \<equiv> stays (\<lambda>hb K. tells w S hb \<and> ordered V w l M K) (ordered V w l M)"

lemma standing_lift [stays_intros]:
  assumes "only (keeps_order V w) p" and "\<And>a. E a"
  shows "standing V w S l M E (a_lift p)"
  unfolding stays_def awp_lift
proof (intro allI impI)
  fix hb K assume "tells w S hb \<and> ordered V w l M K"
  then show "wp p (\<lambda>o' K'. if o' = Inl Diverges then ordered V w l M K'
      else (tells w S hb \<and> ordered V w l M K') \<and> (\<forall>a. o' = Inr a \<longrightarrow> E a)) K"
    using assms(2) by (auto intro: wp_mono [OF wp_keeps_order [OF assms(1)]])
qed

lemma standing_admin:
  "l \<noteq> [] \<Longrightarrow> standing V w S l M (\<lambda>admin. admin_lifecycle admin = l) (a_lift (get_worker_admin_state V w))"
  by (auto simp: stays_def awp_lift get_worker_admin_state_def wp_bindp wp_simps ordered_def read_lifecycle)

lemma standing_renew:
  assumes l: "l \<noteq> []" "l \<noteq> ''active''" "l \<in> S"
  shows "standing V w S l M (\<lambda>_. True) (renew_lease V reg)"
proof -
  have refresh: "standing V w S l M (\<lambda>_. True) (case hb_denylist_refresh hb of None \<Rightarrow> a_ret ()
        | Some f \<Rightarrow> a_bind (a_lift (denied_types V w (hb_agent_types hb))) (\<lambda>refused.
            a_set (\<lambda>hb. hb\<lparr>hb_runner := f refused (hb_runner hb)\<rparr>)))" if "tells w S hb" for hb
  proof -
    have f: "hb_denylist_refresh hb = Some update_denied_agent_types" using that by (simp add: tells_def)
    show ?thesis unfolding f option.case by (intro stays_intros) (auto simp: tells_simps)
  qed
  show ?thesis
    unfolding renew_lease_def Let_def
  proof (intro stays_with stays_any)
    fix hb ok now
    assume "\<exists>K. tells w S hb \<and> ordered V w l M K"
    then have t: "tells w S hb" "hb_worker_id hb = w" by (auto simp: tells_def)
    show "standing V w S l M (\<lambda>_. True) (a_lift (heartbeat_worker V reg (hb_worker_id hb) (hb_lease_ttl_seconds hb)))"
      by (intro stays_intros) auto
    have after: "standing V w S l M (\<lambda>_. True) (a_bind (a_lift (get_worker_admin_state V w)) (\<lambda>admin.
        a_seq (a_set (on_lifecycle (admin_lifecycle admin)))
       (a_seq (if admin_lifecycle admin = ''active''
          then a_lift (register_worker_membership V w (hb_agent_types hb)) else a_ret ())
       (a_seq (case hb_denylist_refresh hb of None \<Rightarrow> a_ret ()
        | Some f \<Rightarrow> a_bind (a_lift (denied_types V w (hb_agent_types hb))) (\<lambda>refused.
            a_set (\<lambda>hb. hb\<lparr>hb_runner := f refused (hb_runner hb)\<rparr>))) (a_ret True)))))"
      by (rule stays_bind [OF standing_admin [OF l(1)]], intro stays_intros refresh t(1))
        (use l in \<open>auto intro: tells_simps\<close>)
    show "standing V w S l M (\<lambda>_. True) (if \<not> ok then a_seq (a_set (signal_lock_stolen [])) (a_ret False)
       else a_bind (a_lift (call Monotonic r_int)) (\<lambda>now. a_seq (a_set (\<lambda>hb. hb\<lparr>hb_last_success := now\<rparr>))
      (a_bind (a_lift (get_worker_admin_state V (hb_worker_id hb))) (\<lambda>admin.
        a_seq (a_set (on_lifecycle (admin_lifecycle admin)))
       (a_seq (if admin_lifecycle admin = ''active''
          then a_lift (register_worker_membership V (hb_worker_id hb) (hb_agent_types hb)) else a_ret ())
       (a_seq (case hb_denylist_refresh hb of None \<Rightarrow> a_ret ()
        | Some f \<Rightarrow> a_bind (a_lift (denied_types V (hb_worker_id hb) (hb_agent_types hb))) (\<lambda>refused.
            a_set (\<lambda>hb. hb\<lparr>hb_runner := f refused (hb_runner hb)\<rparr>))) (a_ret True)))))))"
      unfolding t(2) by (intro stays_intros after) (auto simp: tells_simps)
  qed
qed

lemma standing_failed: "standing V w S l M (\<lambda>_. True) heartbeat_failed"
  unfolding heartbeat_failed_def by (intro stays_intros) (auto simp: tells_simps)

lemma standing_sleep: "standing V w S l M (\<lambda>_. True) (heartbeat_sleep looks)"
  unfolding heartbeat_sleep_def by (cases looks) (auto intro!: stays_intros)

lemma standing_loop:
  assumes "l \<noteq> []" "l \<noteq> ''active''" "l \<in> S"
  shows "standing V w S l M (\<lambda>_. True) (heartbeat_loop V reg rounds)"
proof (induction rounds)
  case (Cons r rounds)
  then show ?case
    unfolding heartbeat_loop.simps
    by (intro stays_intros standing_sleep standing_renew [OF assms] standing_failed) (auto simp: tells_simps)
qed (auto intro: stays_intros)

lemma standing_start:
  assumes "l \<noteq> []" "l \<noteq> ''active''" "l \<in> S"
  shows "standing V w S l M (\<lambda>_. True) (start_heartbeat V reg)"
  unfolding start_heartbeat_def
proof (intro stays_with stays_if)
  fix hb assume "\<exists>K. tells w S hb \<and> ordered V w l M K"
  then have w: "hb_worker_id hb = w" by (auto simp: tells_def)
  show "standing V w S l M (\<lambda>_. True) (a_bind (a_lift (get_worker_admin_state V (hb_worker_id hb))) (\<lambda>admin_state.
     let startup_lifecycle = admin_lifecycle admin_state in
     a_seq (if startup_lifecycle = ''active''
        then a_lift (register_worker_membership V (hb_worker_id hb) (hb_agent_types hb)) else a_ret ())
    (a_bind (a_lift (heartbeat_worker V reg (hb_worker_id hb) (hb_lease_ttl_seconds hb))) (\<lambda>ok.
     if \<not> ok then a_raise (RuntimeError (''Worker ID '' @ quoted (hb_worker_id hb) @ '' heartbeat was rejected; another instance may own the lease''))
     else a_seq (if startup_lifecycle \<noteq> ''active'' then a_set (on_lifecycle startup_lifecycle) else a_ret ())
       (a_set (\<lambda>hb. hb\<lparr>hb_lock_stolen := False, hb_task := True\<rparr>))))))"
    unfolding w Let_def
    by (rule stays_bind [OF standing_admin [OF assms(1)]])
      (use assms in \<open>auto intro!: stays_intros tells_simps simp: tells_simps\<close>)
qed (auto intro: stays_intros)

section \<open>The orders\<close>

lemma set_state_wp:
  "wp (set_worker_admin_state V w l reason) (\<lambda>o' K'. o' = Inr () \<and> ordered V w l (members V K) K' \<and>
     declared V K' = declared V K \<and> denied V K' = denied V K) K"
  by (auto simp: set_worker_admin_state_def ordered_def wp_simps key_simps fun_eq_iff)

lemma remove_keeps_hashes: "wp (remove_worker_from_type_members V w) (\<lambda>_ K'. hs K' = hs K) K"
  by (rule wp_only [where P = "\<lambda>c. \<forall>K. hs (apply_cmd c K) = hs K"])
    (auto simp: remove_worker_from_type_members_def intro!: only_bindp only_for_each)

lemma push_wp: "wp (push_command V w' f) (\<lambda>o' K'. o' = Inr () \<and> hs K' = hs K \<and> ss K' = ss K) K"
  by (simp add: push_command_def admin_header_def wp_bindp wp_simps)

lemma taken_out_wp:
  assumes "routing_ok V K"
  shows "wp (bindp (set_worker_admin_state V w l reason) (\<lambda>_. bindp (remove_worker_from_type_members V w)
      (\<lambda>_. push_command V w f))) (\<lambda>o' K'. o' = Inr () \<and> ordered V w l (\<lambda>a. members V K a - {w}) K' \<and>
        declared V K' = declared V K \<and> denied V K' = denied V K) K"
  unfolding wp_bindp
proof (rule wp_mono [OF set_state_wp], elim conjE, simp only: sum.case)
  fix o' :: "exn + unit" and K1
  assume 1: "ordered V w l (members V K) K1" "declared V K1 = declared V K" "denied V K1 = denied V K"
  have m: "(if a \<in> declared V K1 w then members V K1 a - {w} else members V K1 a) = members V K a - {w}" for a
    using 1 assms by (auto simp: ordered_def routing_ok_def fun_eq_iff)
  show "wp (remove_worker_from_type_members V w) (\<lambda>o' K'. case o' of
       Inl e \<Rightarrow> Inl e = Inr () \<and> ordered V w l (\<lambda>a. members V K a - {w}) K' \<and>
         declared V K' = declared V K \<and> denied V K' = denied V K
     | Inr a \<Rightarrow> wp (push_command V w f) (\<lambda>o' K'. o' = Inr () \<and> ordered V w l (\<lambda>a. members V K a - {w}) K' \<and>
         declared V K' = declared V K \<and> denied V K' = denied V K) K') K1"
    by (rule wp_mono [OF wp_conj [OF remove_wp remove_keeps_hashes]])
      (use 1 in \<open>auto simp: ordered_def m fun_eq_iff intro!: wp_mono [OF push_wp]\<close>)
qed

text \<open>The two orders that take a worker out, and what they make of its lifecycle.\<close>

datatype order = Suspend string | Evict bool string

fun order_prog :: "schema \<Rightarrow> string \<Rightarrow> order \<Rightarrow> unit prog" where
  "order_prog V w (Suspend reason) = suspend_worker V w reason"
| "order_prog V w (Evict force reason) = evict_worker V w force reason"

fun ordered_lifecycle :: "order \<Rightarrow> string" where
  "ordered_lifecycle (Suspend reason) = ''suspended''"
| "ordered_lifecycle (Evict force reason) = ''evicted''"

lemma order_wp:
  "routing_ok V K \<Longrightarrow> wp (order_prog V w ord) (\<lambda>o' K'. o' = Inr () \<and>
     ordered V w (ordered_lifecycle ord) (\<lambda>a. members V K a - {w}) K' \<and>
     declared V K' = declared V K \<and> denied V K' = denied V K) K"
  by (cases ord) (simp_all only: order_prog.simps ordered_lifecycle.simps suspend_worker_def evict_worker_def taken_out_wp)

lemma lifecycle_ne [simp]: "ordered_lifecycle ord \<noteq> []" "ordered_lifecycle ord \<noteq> ''active''"
  by (cases ord; simp)+

definition heart :: "schema \<Rightarrow> registry \<Rightarrow> registry \<Rightarrow> bool \<Rightarrow> hb_round list \<Rightarrow> (heartbeat, bool option) act" where
  "heart V reg reg' restarts rounds = a_seq (a_when restarts (start_heartbeat V reg)) (heartbeat_loop V reg' rounds)"

lemma standing_heart:
  "l \<noteq> [] \<Longrightarrow> l \<noteq> ''active'' \<Longrightarrow> l \<in> S \<Longrightarrow> standing V w S l M (\<lambda>_. True) (heart V reg reg' restarts rounds)"
  unfolding heart_def by (intro stays_intros standing_loop standing_start) auto

text \<open>
  C10: an order to suspend or to evict a worker holds against the worker itself: whatever
  its heartbeats do afterwards, and also when the worker is started again, it is routed for no
  agent type, the other workers are routed as before, and its runner is told nothing but the
  order.
\<close>

theorem order_outlasts_heartbeats:
  assumes "redis exec view" and "routing_ok V (view s)" and "wk_worker_id (rn_worker r) = w"
  shows "case run exec (bindp (order_prog V w ord) (\<lambda>_. heart V reg reg' restarts rounds (new_heartbeat r interval ttl))) s of (res, t) \<Rightarrow>
     (\<forall>a. members V (view t) a = members V (view s) a - {w}) \<and>
     (\<forall>x hb. res = Inr (x, hb) \<longrightarrow> rn_admin_lifecycle (hb_runner hb) \<in> {rn_admin_lifecycle r, ordered_lifecycle ord})"
proof -
  let ?S = "{rn_admin_lifecycle r, ordered_lifecycle ord}"
  let ?M = "\<lambda>a. members V (view s) a - {w}"
  have t: "tells w ?S (new_heartbeat r interval ttl)" using assms(3) by (simp add: tells_def new_heartbeat_def)
  have "wp (bindp (order_prog V w ord) (\<lambda>_. heart V reg reg' restarts rounds (new_heartbeat r interval ttl)))
     (\<lambda>o' K'. members V K' = ?M \<and> (\<forall>x hb. o' = Inr (x, hb) \<longrightarrow> rn_admin_lifecycle (hb_runner hb) \<in> ?S)) (view s)"
    unfolding wp_bindp
  proof (rule wp_mono [OF order_wp [OF assms(2)]], elim conjE, simp only: sum.case)
    fix K1 assume "ordered V w (ordered_lifecycle ord) ?M K1"
    with t have "awp (heart V reg reg' restarts rounds) (\<lambda>_ hb K. (tells w ?S hb \<and> ordered V w (ordered_lifecycle ord) ?M K) \<and> (\<forall>a. True \<longrightarrow> True))
        (ordered V w (ordered_lifecycle ord) ?M) (new_heartbeat r interval ttl) K1"
      using standing_heart [of "ordered_lifecycle ord" ?S, where V = V and w = w and M = ?M and reg = reg and reg' = reg' and restarts = restarts and rounds = rounds] by (simp add: stays_def)
    then show "wp (heart V reg reg' restarts rounds (new_heartbeat r interval ttl))
       (\<lambda>o' K'. members V K' = ?M \<and> (\<forall>x hb. o' = Inr (x, hb) \<longrightarrow> rn_admin_lifecycle (hb_runner hb) \<in> ?S)) K1"
      unfolding awp_def by (rule wp_mono) (auto simp: ordered_def tells_def split: sum.splits prod.splits)
  qed
  from redis.wp_run [OF assms(1) this] show ?thesis by (auto simp: fun_eq_iff split: prod.splits)
qed

section \<open>Starting again\<close>

lemma start_ordered:
  assumes "ordered V w l M K" and "l \<noteq> []" and "l \<noteq> ''active''" and "wk_worker_id (rn_worker r) = w"
  shows "awp (start_heartbeat V reg) (\<lambda>res hb K'. ordered V w l M K' \<and>
      (\<forall>u. res = Inr u \<longrightarrow> hb_runner hb = r\<lparr>rn_admin_lifecycle := l\<rparr> \<and> \<not> hb_lock_stolen hb)) (ordered V w l M) (new_heartbeat r interval ttl) K"
proof -
  have "map_of raw ''lifecycle'' = Some (Txt l) \<Longrightarrow> admin_lifecycle (map admin_field raw) = l" for raw
    using read_lifecycle assms(2) by blast
  then show ?thesis
    using assms
    by (auto simp: start_heartbeat_def awp_with new_heartbeat_def awp_bind awp_seq awp_basic awp_lift get_worker_admin_state_def
        wp_bindp wp_simps ordered_def on_lifecycle_def
      split: sum.splits
      intro!: wp_mono [OF wp_keeps_order [of V w _ l M]])
qed

lemma clear_wp:
  "wp (allow_worker_rejoin V w) (\<lambda>o' K'. o' = Inr () \<and> hs K' (worker_admin V w) = (\<lambda>_. None) \<and>
     members V K' = members V K \<and> declared V K' = declared V K \<and> denied V K' = denied V K) K"
proof -
  have "agent_type_members V a \<noteq> worker_admin V w" "worker_declared_agent_types V a \<noteq> worker_admin V w"
    "agent_type_denied V a \<noteq> worker_admin V w" for a
    using render_inj [of "KMembers a" "KAdmin w" V] render_inj [of "KDeclared a" "KAdmin w" V]
      render_inj [of "KDenied a" "KAdmin w" V] by simp_all
  then show ?thesis
    by (auto simp: allow_worker_rejoin_def clear_worker_admin_state_def wp_simps key_simps fun_eq_iff)
qed

lemma heartbeat_members: "wp (heartbeat_worker V reg w ttl) (\<lambda>_ K'. members V K' = members V K) K"
  by (rule wp_only [where P = "\<lambda>c. \<forall>K. members V (apply_cmd c K) = members V K"])
    (auto simp: heartbeat_worker_def Let_def key_simps fun_eq_iff intro!: only_bindp)

lemma start_active:
  assumes "hs K (worker_admin V w) = (\<lambda>_. None)" and "wk_worker_id (rn_worker r) = w" and "\<And>a. w \<notin> members V K a"
  shows "awp (start_heartbeat V reg) (\<lambda>res hb K'. \<forall>u. res = Inr u \<longrightarrow> hb_runner hb = r \<and>
      (\<forall>a. w \<in> members V K' a \<longleftrightarrow> a \<in> set (rn_agent_types r) \<and> w \<notin> denied V K a)) (\<lambda>_. True) (new_heartbeat r interval ttl) K"
proof -
  have registered: "wp (register_worker_membership V w types) (\<lambda>o' K'. o' = Inr () \<and>
      (\<forall>a. w \<in> members V K' a \<longleftrightarrow> a \<in> set types \<and> w \<notin> denied V K a)) K" for types
    by (rule wp_mono [OF register_membership_wp]) (use assms(3) in auto)
  have beats: "wp (heartbeat_worker V reg w ttl) (\<lambda>_ K'. \<forall>a. w \<in> members V K' a \<longleftrightarrow> X a) K1"
    if "\<forall>a. w \<in> members V K1 a \<longleftrightarrow> X a" for K1 X
    by (rule wp_mono [OF heartbeat_members]) (use that in \<open>simp add: fun_eq_iff\<close>)
  have state: "wp (get_worker_admin_state V w) Q K = Q (Inr []) K" for Q
    using assms(1) by (auto simp: get_worker_admin_state_def wp_bindp wp_simps map_of_nil_iff)
  have active: "admin_lifecycle [] = ''active''" by (simp add: admin_lifecycle_def dget_def str_or_def)
  show ?thesis
    unfolding start_heartbeat_def new_heartbeat_def
    by (simp add: Let_def awp_with assms(2) awp_bind state active awp_seq awp_basic awp_lift,
        rule wp_mono [OF registered], simp, simp only: awp_bind awp_lift, rule wp_mono [OF beats], assumption)
      (auto simp: awp_seq awp_basic split: sum.splits)
qed

text \<open>
  C13: an evicted worker that is started again is not routed, its consumer leaves at once and
  the process ends in order, until the id is let in again: then it starts as it is and is routed
  for exactly its types, less those it is denied for.
\<close>

theorem evicted_worker_stays_out:
  assumes "redis exec view" and "routing_ok V (view s)" and "wk_worker_id (rn_worker r) = w"
  shows "(case run exec (bindp (evict_worker V w force reason)
         (\<lambda>_. start_heartbeat V reg (new_heartbeat r interval ttl))) s of (res, t) \<Rightarrow>
       (\<forall>a. w \<notin> members V (view t) a) \<and> (\<forall>u hb. res = Inr (Inr u, hb) \<longrightarrow>
         consumer_turn (hb_runner hb) = Leaves \<and> supervise hb (Some None) = Returns (\<not> rn_evict_force r))) \<and>
     (case run exec (bindp (evict_worker V w force reason) (\<lambda>_. bindp (allow_worker_rejoin V w)
         (\<lambda>_. start_heartbeat V reg (new_heartbeat r interval ttl)))) s of (res, t) \<Rightarrow>
       \<forall>u hb. res = Inr (Inr u, hb) \<longrightarrow> hb_runner hb = r \<and>
         (\<forall>a. w \<in> members V (view t) a \<longleftrightarrow> a \<in> set (rn_agent_types r) \<and> w \<notin> denied V (view s) a))"
proof -
  let ?M = "\<lambda>a. members V (view s) a - {w}"
  have evict: "wp (evict_worker V w force reason) (\<lambda>o' K'. o' = Inr () \<and> ordered V w ''evicted'' ?M K' \<and>
     declared V K' = declared V (view s) \<and> denied V K' = denied V (view s)) (view s)"
    using order_wp [OF assms(2), of w "Evict force reason"] by simp
  have "wp (bindp (evict_worker V w force reason) (\<lambda>_. start_heartbeat V reg (new_heartbeat r interval ttl)))
     (\<lambda>o' K'. members V K' = ?M \<and> (\<forall>u hb. o' = Inr (Inr u, hb) \<longrightarrow>
         consumer_turn (hb_runner hb) = Leaves \<and> supervise hb (Some None) = Returns (\<not> rn_evict_force r))) (view s)"
    unfolding wp_bindp
  proof (rule wp_mono [OF evict], elim conjE, simp only: sum.case)
    fix K1 assume 1: "ordered V w ''evicted'' ?M K1"
    show "wp (start_heartbeat V reg (new_heartbeat r interval ttl)) (\<lambda>o' K'. members V K' = ?M \<and> (\<forall>u hb. o' = Inr (Inr u, hb) \<longrightarrow>
         consumer_turn (hb_runner hb) = Leaves \<and> supervise hb (Some None) = Returns (\<not> rn_evict_force r))) K1"
      by (rule wp_mono [OF start_ordered [OF 1, unfolded awp_def]])
        (auto simp: assms(3) ordered_def consumer_turn_def supervise_def watcher_def split: sum.splits prod.splits)
  qed
  from redis.wp_run [OF assms(1) this]
  have out: "case run exec (bindp (evict_worker V w force reason)
         (\<lambda>_. start_heartbeat V reg (new_heartbeat r interval ttl))) s of (res, t) \<Rightarrow>
       (\<forall>a. w \<notin> members V (view t) a) \<and> (\<forall>u hb. res = Inr (Inr u, hb) \<longrightarrow>
         consumer_turn (hb_runner hb) = Leaves \<and> supervise hb (Some None) = Returns (\<not> rn_evict_force r))"
    by (auto simp: fun_eq_iff split: prod.splits)
  have "wp (bindp (evict_worker V w force reason) (\<lambda>_. bindp (allow_worker_rejoin V w)
       (\<lambda>_. start_heartbeat V reg (new_heartbeat r interval ttl))))
     (\<lambda>o' K'. \<forall>u hb. o' = Inr (Inr u, hb) \<longrightarrow> hb_runner hb = r \<and>
         (\<forall>a. w \<in> members V K' a \<longleftrightarrow> a \<in> set (rn_agent_types r) \<and> w \<notin> denied V (view s) a)) (view s)"
    unfolding wp_bindp
  proof (rule wp_mono [OF evict], elim conjE, simp only: sum.case)
    fix K1 :: kspace
    assume 1: "ordered V w ''evicted'' ?M K1" "denied V K1 = denied V (view s)"
    have started: "wp (start_heartbeat V reg (new_heartbeat r interval ttl)) (\<lambda>o' K'. \<forall>u hb. o' = Inr (Inr u, hb) \<longrightarrow> hb_runner hb = r \<and>
         (\<forall>a. w \<in> members V K' a \<longleftrightarrow> a \<in> set (rn_agent_types r) \<and> w \<notin> denied V (view s) a)) K2"
      if 2: "hs K2 (worker_admin V w) = (\<lambda>_. None)" "members V K2 = members V K1" "denied V K2 = denied V K1" for K2 :: kspace
    proof -
      have no: "w \<notin> members V K2 a" for a using 1 2 by (simp add: ordered_def fun_eq_iff)
      show ?thesis
        by (rule wp_mono [OF start_active [OF 2(1) assms(3) no, unfolded awp_def]])
          (use 1 2 in \<open>auto simp: fun_eq_iff\<close>)
    qed
    show "wp (allow_worker_rejoin V w) (\<lambda>o' K'. case o' of
        Inl e \<Rightarrow> \<forall>u hb. Inl e = Inr (Inr u, hb) \<longrightarrow> hb_runner hb = r \<and>
         (\<forall>a. w \<in> members V K' a \<longleftrightarrow> a \<in> set (rn_agent_types r) \<and> w \<notin> denied V (view s) a)
      | Inr a \<Rightarrow> wp (start_heartbeat V reg (new_heartbeat r interval ttl)) (\<lambda>o' K'. \<forall>u hb. o' = Inr (Inr u, hb) \<longrightarrow> hb_runner hb = r \<and>
         (\<forall>a. w \<in> members V K' a \<longleftrightarrow> a \<in> set (rn_agent_types r) \<and> w \<notin> denied V (view s) a)) K') K1"
      by (rule wp_mono [OF clear_wp], elim conjE, simp only: sum.case, rule started)
  qed
  from redis.wp_run [OF assms(1) this] show ?thesis
    using out by (auto split: prod.splits)
qed

section \<open>An order in the middle of a round\<close>

definition beating :: "runner \<Rightarrow> string \<Rightarrow> string \<Rightarrow> heartbeat" where
  "beating r w a = new_heartbeat (r\<lparr>rn_agent_types := [a], rn_worker := (rn_worker r)\<lparr>wk_worker_id := w\<rparr>\<rparr>) 5000 30"

definition routed_server :: "schema \<Rightarrow> string \<Rightarrow> string \<Rightarrow> rserver" where
  "routed_server V w a = empty_server\<lparr>l_ss := [(worker_declared_agent_types V w, [a]), (agent_type_members V a, [w])]\<rparr>"

lemma undone_schedule:
  "\<exists>u. pool_run ref_exec [0, 0, 0, 0, 0, 1, 1, 1, 1, 1, 1, 1, 1, 0, 0, 0, 0, 0, 0] (routed_server V w a,
       (\<lambda>_. Ret ())(0 := bindp (renew_lease V \<lparr>lock_tokens = [], reg_ip_address = ip\<rparr> (beating r w a)) (\<lambda>_. Ret ()),
          1 := suspend_worker V w reason)) = (u, \<lambda>_. Ret ()) \<and>
     hs (rview u) (worker_admin V w) ''lifecycle'' = Some (Txt ''suspended'') \<and> w \<in> members V (rview u) a"
  by (simp add: renew_lease_def heartbeat_worker_def beating_def new_heartbeat_def routed_server_def empty_server_def
      a_with_def a_bind_def a_lift_def a_seq_def a_set_def a_ret_def attempt_def held_token_def HEARTBEAT_CAS_SCRIPT_def
      now_ms_def call_def exec_cmd_def Let_def get_worker_admin_state_def ref_exec_def key_simps look_def
      suspend_worker_def set_worker_admin_state_def remove_worker_from_type_members_def push_command_def admin_header_def
      uuid_hex_def register_worker_membership_def is_worker_denied_for_type_def on_lifecycle_def admin_lifecycle_def dget_def str_or_def
      update_denied_agent_types_def rview_def try_exc_def)
    (simp add: fun_eq_iff)

text \<open>
  C12: a suspension that falls between a heartbeat's reading of the order and its
  registration of the same round is undone for good: the worker is suspended and routed, and no
  later heartbeat takes it out again.
\<close>

theorem suspension_undone_by_heartbeat:
  "\<exists>schedule u. pool_run ref_exec schedule (routed_server V w a,
       (\<lambda>_. Ret ())(0 := bindp (renew_lease V \<lparr>lock_tokens = [], reg_ip_address = ip\<rparr> (beating r w a)) (\<lambda>_. Ret ()),
          1 := suspend_worker V w reason)) = (u, \<lambda>_. Ret ()) \<and>
     hs (rview u) (worker_admin V w) ''lifecycle'' = Some (Txt ''suspended'') \<and> w \<in> members V (rview u) a \<and>
     (\<forall>reg rounds. w \<in> members V (rview (snd (run ref_exec (heartbeat_loop V reg rounds (beating r w a)) u))) a)"
proof -
  obtain u where u: "pool_run ref_exec [0, 0, 0, 0, 0, 1, 1, 1, 1, 1, 1, 1, 1, 0, 0, 0, 0, 0, 0] (routed_server V w a,
       (\<lambda>_. Ret ())(0 := bindp (renew_lease V \<lparr>lock_tokens = [], reg_ip_address = ip\<rparr> (beating r w a)) (\<lambda>_. Ret ()),
          1 := suspend_worker V w reason)) = (u, \<lambda>_. Ret ())"
    "hs (rview u) (worker_admin V w) ''lifecycle'' = Some (Txt ''suspended'')" "w \<in> members V (rview u) a"
    using undone_schedule by blast
  let ?M = "members V (rview u)" and ?S = "UNIV :: string set"
  have later: "w \<in> members V (rview (snd (run ref_exec (heartbeat_loop V reg rounds (beating r w a)) u))) a" for reg rounds
  proof -
    have "tells w ?S (beating r w a)" by (simp add: tells_def beating_def new_heartbeat_def)
    moreover have "ordered V w ''suspended'' ?M (rview u)" using u(2) by (simp add: ordered_def)
    moreover have "standing V w ?S ''suspended'' ?M (\<lambda>_. True) (heartbeat_loop V reg rounds)"
      by (rule standing_loop) simp_all
    ultimately have "awp (heartbeat_loop V reg rounds) (\<lambda>_ hb K. tells w ?S hb \<and> ordered V w ''suspended'' ?M K)
        (ordered V w ''suspended'' ?M) (beating r w a) (rview u)" by (simp add: stays_def)
    then have "wp (heartbeat_loop V reg rounds (beating r w a)) (\<lambda>_ K. w \<in> members V K a) (rview u)"
      unfolding awp_def by (rule wp_mono) (use u(3) in \<open>auto simp: ordered_def fun_eq_iff split: sum.splits prod.splits\<close>)
    from ref.wp_run [OF this] show ?thesis by (simp split: prod.splits)
  qed
  show ?thesis using u later by blast
qed

section \<open>A lease that cannot be renewed\<close>

text \<open>
  A server that refuses every script, while time passes: every command takes at most \<open>d\<close>
  milliseconds, and every look at the clock at least one.
\<close>

definition refuses :: "(cmd \<Rightarrow> 's \<Rightarrow> reply \<times> 's) \<Rightarrow> ('s \<Rightarrow> int) \<Rightarrow> int \<Rightarrow> bool" where
  "refuses exec clock d =
     ((\<forall>s. fst (exec Monotonic s) = RInt (clock s) \<and> clock s < clock (snd (exec Monotonic s))) \<and>
      (\<forall>s. \<exists>n. fst (exec Now s) = RInt n) \<and>
      (\<forall>k l s. \<exists>m. fst (exec (Eval k l) s) = RFail (RedisError m)) \<and>
      (\<forall>c s. clock s \<le> clock (snd (exec c s)) \<and> clock (snd (exec c s)) \<le> clock s + d))"

lemma refusesD:
  assumes "refuses exec clock d"
  shows "fst (exec Monotonic s) = RInt (clock s)" and "clock s < clock (snd (exec Monotonic s))"
    and "\<exists>n. fst (exec Now s) = RInt n" and "\<exists>m. fst (exec (Eval k l) s) = RFail (RedisError m)"
    and "clock s \<le> clock (snd (exec c s))" and "clock (snd (exec c s)) \<le> clock s + d" and "0 \<le> d"
proof -
  show "0 \<le> d" using assms order_trans by (fastforce simp: refuses_def)
qed (use assms in \<open>auto simp: refuses_def\<close>)

lemma sleep_run:
  assumes r: "refuses exec clock d"
  shows "looks \<noteq> [] \<Longrightarrow> True \<notin> set looks \<Longrightarrow> deadline - clock s < int (length looks) \<Longrightarrow>
    \<exists>t. run exec (sleep_or_stop looks deadline) s = (Inr False, t) \<and> deadline \<le> clock t \<and>
      clock s \<le> clock t \<and> clock t \<le> max (clock s) (deadline + d) + d"
proof (induction looks arbitrary: s)
  case (Cons f looks)
  let ?s = "snd (exec Monotonic s)"
  note m = refusesD(1,2) [OF r, of s] refusesD(6) [OF r, of Monotonic s] refusesD(7) [OF r]
  show ?case
  proof (cases "deadline - clock s \<le> 0")
    case False
    then have "\<exists>t. run exec (sleep_or_stop looks deadline) ?s = (Inr False, t) \<and> deadline \<le> clock t \<and>
        clock ?s \<le> clock t \<and> clock t \<le> max (clock ?s) (deadline + d) + d"
      using Cons.prems m by (intro Cons.IH) auto
    then show ?thesis using False Cons.prems m by (auto simp: call_def)
  qed (use Cons.prems m in \<open>auto simp: call_def\<close>)
qed simp

lemma heartbeat_sleep_run:
  assumes r: "refuses exec clock d" and "True \<notin> set looks" and "1 < length looks"
    and "hb_interval hb + 1 < int (length looks)" and "0 < hb_interval hb"
  shows "\<exists>t. run exec (heartbeat_sleep looks hb) s = (Inr (Inr False, hb), t) \<and> clock s + hb_interval hb \<le> clock t \<and>
      clock t \<le> clock s + hb_interval hb + 2 * d"
proof -
  obtain f rest where looks: "looks = f # rest" "rest \<noteq> []" using assms(3) by (cases looks) auto
  let ?s = "snd (exec Monotonic s)"
  note m = refusesD(1,2) [OF r, of s] refusesD(6) [OF r, of Monotonic s] refusesD(7) [OF r]
  have "\<exists>t. run exec (sleep_or_stop rest (clock s + hb_interval hb)) ?s = (Inr False, t) \<and> clock s + hb_interval hb \<le> clock t \<and>
      clock ?s \<le> clock t \<and> clock t \<le> max (clock ?s) (clock s + hb_interval hb + d) + d"
    using assms m by (intro sleep_run [OF r]) (auto simp: looks)
  then show ?thesis
    using assms(2,5) m
    by (auto simp: heartbeat_sleep_def looks a_bind_def a_lift_def attempt_def a_with_def run_bindp run_catch call_def)
qed

lemma renew_refused:
  assumes r: "refuses exec clock d"
  shows "\<exists>m t. run exec (renew_lease V reg hb) s = (Inr (Inl (RedisError m), hb), t) \<and> clock s \<le> clock t \<and> clock t \<le> clock s + 2 * d"
proof -
  let ?s = "snd (exec Now s)"
  obtain n where n: "fst (exec Now s) = RInt n" using refusesD(3) [OF r] by blast
  have bad: "\<exists>m t. run exec (call (Eval k l) f) ?s = (Inl (RedisError m), t) \<and> clock ?s \<le> clock t \<and> clock t \<le> clock ?s + d"
    for k l and f :: "reply \<Rightarrow> int"
    using refusesD(4) [OF r, of k l ?s] refusesD(5,6) [OF r, where s = ?s and c = "Eval k l"] by (auto simp: call_def raised_def)
  have beat: "\<exists>m t. run exec (heartbeat_worker V reg w ttl) s = (Inl (RedisError m), t) \<and> clock ?s \<le> clock t \<and> clock t \<le> clock ?s + d"
    for w ttl
  proof -
    obtain m t where "run exec (call (Eval (worker_online_lease V w) (HEARTBEAT_CAS_SCRIPT (held_token reg w)
        (encode_worker_presence (if held_token reg w \<noteq> [] then Some (held_token reg w) else None) n (reg_ip_address reg)) ttl)) r_int) ?s =
        (Inl (RedisError m), t)" "clock ?s \<le> clock t" "clock t \<le> clock ?s + d"
      using bad by blast
    moreover have "run exec now_ms s = (Inr n, ?s)" by (simp add: now_ms_def call_def n)
    ultimately show ?thesis by (simp add: heartbeat_worker_def Let_def run_bindp)
  qed
  obtain m t where "run exec (heartbeat_worker V reg (hb_worker_id hb) (hb_lease_ttl_seconds hb)) s = (Inl (RedisError m), t)"
    "clock ?s \<le> clock t" "clock t \<le> clock ?s + d"
    using beat by blast
  then show ?thesis
    using refusesD(5,6) [OF r, where s = s and c = Now]
    by (auto simp: renew_lease_def a_with_def Let_def a_bind_def a_lift_def attempt_def run_bindp run_catch)
qed

lemma round_refused:
  assumes r: "refuses exec clock d"
    and s': "run exec (renew_lease V reg hb) s = (Inr (Inl (RedisError m), hb), s')" "clock s \<le> clock s'" "clock s' \<le> clock s + 2 * d"
  shows "\<exists>t. run exec (a_except (renew_lease V reg) (\<lambda>_. heartbeat_failed) hb) s =
      (if clock s' - hb_last_success hb \<ge> failure_deadline hb then (Inr (Inr False, signal_lock_stolen [] hb), t) else (Inr (Inr True, hb), t)) \<and>
      clock s \<le> clock s' \<and> clock s' \<le> clock s + 2 * d \<and> clock s' \<le> clock t \<and> clock t \<le> clock s' + d"
  using s' refusesD(1,2) [OF r, of s'] refusesD(6) [OF r, where s = s' and c = Monotonic]
  by (auto simp: a_except_def run_bindp heartbeat_failed_def a_bind_def a_lift_def attempt_def run_catch call_def a_with_def
      a_seq_def a_set_def a_ret_def)

lemma loop_refused:
  assumes r: "refuses exec clock d" and i: "0 < hb_interval hb"
  shows "rounds \<noteq> [] \<Longrightarrow> \<forall>q \<in> set rounds. snd q \<and> True \<notin> set (fst q) \<and> hb_interval hb + 1 < int (length (fst q)) \<Longrightarrow>
    hb_last_success hb + failure_deadline hb \<le> clock s + int (length rounds) * hb_interval hb \<Longrightarrow>
    clock s \<le> hb_last_success hb + failure_deadline hb + d \<Longrightarrow>
    \<exists>t. run exec (heartbeat_loop V reg rounds hb) s = (Inr (Inr (Some False), signal_lock_stolen [] hb), t) \<and>
      clock t \<le> hb_last_success hb + failure_deadline hb + hb_interval hb + 6 * d"
proof (induction rounds arbitrary: s)
  case (Cons q rounds)
  let ?L = "hb_last_success hb" and ?F = "failure_deadline hb" and ?I = "hb_interval hb"
  have "1 < length (fst q)" using Cons.prems(2) i by auto
  then obtain s1 where s1: "run exec (heartbeat_sleep (fst q) hb) s = (Inr (Inr False, hb), s1)" "clock s + ?I \<le> clock s1"
    "clock s1 \<le> clock s + ?I + 2 * d"
    using heartbeat_sleep_run [OF r, of "fst q" hb s] Cons.prems(2) i by auto
  obtain m s2 where s2: "run exec (renew_lease V reg hb) s1 = (Inr (Inl (RedisError m), hb), s2)" "clock s1 \<le> clock s2" "clock s2 \<le> clock s1 + 2 * d"
    using renew_refused [OF r] by blast
  obtain t where t: "run exec (a_except (renew_lease V reg) (\<lambda>_. heartbeat_failed) hb) s1 =
      (if clock s2 - ?L \<ge> ?F then (Inr (Inr False, signal_lock_stolen [] hb), t) else (Inr (Inr True, hb), t))"
    "clock s2 \<le> clock t" "clock t \<le> clock s2 + d"
    using round_refused [OF r s2] by blast
  have d: "0 \<le> d" by (rule refusesD(7) [OF r])
  have step: "run exec (heartbeat_loop V reg (q # rounds) hb) s =
      (if clock s2 - ?L \<ge> ?F then (Inr (Inr (Some False), signal_lock_stolen [] hb), t) else run exec (heartbeat_loop V reg rounds hb) t)"
    using Cons.prems(2) by (simp add: a_bind_def run_bindp s1(1) t(1) a_ret_def)
  show ?case
  proof (cases "clock s2 - ?L \<ge> ?F")
    case True
    then show ?thesis using step s1 s2 t d Cons.prems(4) by simp
  next
    case False
    have more: "?L + ?F \<le> clock t + int (length rounds) * ?I"
      using Cons.prems(3) s1 s2 t by (simp add: algebra_simps)
    moreover have "rounds \<noteq> []" using Cons.prems(3) False s1 s2 by auto
    ultimately have "\<exists>u. run exec (heartbeat_loop V reg rounds hb) t = (Inr (Inr (Some False), signal_lock_stolen [] hb), u) \<and>
      clock u \<le> ?L + ?F + ?I + 6 * d"
      using Cons.prems(2) False t by (intro Cons.IH) auto
    then show ?thesis using step False by simp
  qed
qed simp

text \<open>
  C11: a worker whose lease cannot be renewed is told to stop: with a server that refuses every
  script, after finitely many rounds the watcher raises, and at most six commands after the lease is
  over, when the interval is at most half of it.
\<close>

theorem lost_lease_is_noticed:
  assumes "refuses exec clock d" and "0 < hb_interval hb" and "2 * hb_interval hb \<le> hb_lease_ttl_seconds hb * 1000"
    and "\<forall>q \<in> set rounds. snd q \<and> True \<notin> set (fst q) \<and> hb_interval hb + 1 < int (length (fst q))"
    and "hb_lease_ttl_seconds hb * 1000 \<le> int (length rounds + 1) * hb_interval hb"
    and "hb_last_success hb \<le> clock s" and "clock s \<le> hb_last_success hb + d"
  shows "\<exists>hb' t. run exec (heartbeat_loop V reg rounds hb) s = (Inr (Inr (Some False), hb'), t) \<and> watcher hb' \<noteq> None \<and>
     clock t \<le> hb_last_success hb + hb_lease_ttl_seconds hb * 1000 + 6 * d"
proof -
  have f: "failure_deadline hb = hb_lease_ttl_seconds hb * 1000 - hb_interval hb" using assms(3) by (simp add: failure_deadline_def)
  have "rounds \<noteq> []" using assms(2,3,5) by auto
  moreover have "hb_last_success hb + failure_deadline hb \<le> clock s + int (length rounds) * hb_interval hb"
    using assms(5,6) f by (simp add: algebra_simps)
  ultimately have "\<exists>t. run exec (heartbeat_loop V reg rounds hb) s = (Inr (Inr (Some False), signal_lock_stolen [] hb), t) \<and>
      clock t \<le> hb_last_success hb + failure_deadline hb + hb_interval hb + 6 * d"
    using assms(2,3,4,7) f by (intro loop_refused [OF assms(1)]) auto
  then show ?thesis using f by (auto simp: watcher_def signal_lock_stolen_def)
qed

section \<open>The properties at concrete servers\<close>

lemma routed_ok: "routing_ok V (rview (routed_server V w a))"
  by (auto simp: routing_ok_def routed_server_def empty_server_def rview_def look_def key_simps split: if_splits)

definition demo_worker_runner :: runner where
  "demo_worker_runner = demo_runner empty_tracker True"

definition demo_beat_registry :: registry where
  "demo_beat_registry = \<lparr>lock_tokens = [], reg_ip_address = ''10.0.0.1''\<rparr>"

lemma demo_worker_id: "wk_worker_id (rn_worker demo_worker_runner) = ''w''"
  by (simp add: demo_worker_runner_def demo_runner_def demo_worker_def)

theorem order_outlasts_heartbeats_witness:
  "\<forall>a. members V1 (rview (snd (run ref_exec (bindp (order_prog V1 ''w'' (Suspend ''maintenance''))
       (\<lambda>_. heart V1 demo_beat_registry demo_beat_registry True [([False, False, False], True)] (new_heartbeat demo_worker_runner 1 30)))
       (routed_server V1 ''w'' ''a'')))) a = members V1 (rview (routed_server V1 ''w'' ''a'')) a - {''w''}"
  using order_outlasts_heartbeats [OF ref.redis_axioms routed_ok [of V1 "''w''" "''a''"] demo_worker_id, of "Suspend ''maintenance''" demo_beat_registry
      demo_beat_registry True "[([False, False, False], True)]" 1 30]
  by (auto split: prod.splits)

theorem evicted_worker_stays_out_witness:
  "\<forall>a. ''w'' \<notin> members V1 (rview (snd (run ref_exec (bindp (evict_worker V1 ''w'' True ''gone'')
       (\<lambda>_. start_heartbeat V1 demo_beat_registry (new_heartbeat demo_worker_runner 1 30))) (routed_server V1 ''w'' ''a'')))) a"
  using evicted_worker_stays_out [OF ref.redis_axioms routed_ok [of V1 "''w''" "''a''"] demo_worker_id, of True "''gone''" demo_beat_registry 1 30]
  by (auto split: prod.splits)

fun lost_exec :: "cmd \<Rightarrow> int \<Rightarrow> reply \<times> int" where
  "lost_exec Monotonic n = (RInt n, n + 100)"
| "lost_exec (Eval k l) n = (RFail (RedisError ''connection lost''), n + 50)"
| "lost_exec Now n = (RInt n, n)"
| "lost_exec c n = (ROk, n)"

lemma lost_refuses: "refuses lost_exec (\<lambda>n. n) 100"
proof -
  have "n \<le> snd (lost_exec c n) \<and> snd (lost_exec c n) \<le> n + 100" for c n by (cases c) auto
  then show ?thesis by (simp add: refuses_def)
qed

theorem lost_lease_is_noticed_witness:
  "\<exists>hb' t. run lost_exec (heartbeat_loop V1 demo_beat_registry [(replicate 1002 False, True)]
       ((new_heartbeat demo_worker_runner 1000 2)\<lparr>hb_last_success := 7\<rparr>)) 7 = (Inr (Inr (Some False), hb'), t) \<and>
     watcher hb' \<noteq> None \<and> t \<le> 2607"
  using lost_lease_is_noticed [OF lost_refuses, of "(new_heartbeat demo_worker_runner 1000 2)\<lparr>hb_last_success := 7\<rparr>"
      "[(replicate 1002 False, True)]" 7 V1 demo_beat_registry]
  by (simp add: new_heartbeat_def)

end
