(* ===== verification/Processor.thy ===== *)
theory Processor
  imports Worker_Message Wait_Gate
begin

text \<open>
  \<open>worker/processor.py\<close>: \<open>GatewayProcessor\<close>, the second entry point for messages, for
  programs that read their streams themselves.  The gate, the record and the reply are those of
  the worker; it has no plugins, no join of a fan-out and no end of a work space.  The
  workspace manager (with the sandbox it installs) is a parameter.
\<close>

record processor =
  ps_worker_id :: string
  ps_services :: services
  ps_setup_workspace :: "(string \<Rightarrow> string \<Rightarrow> string \<Rightarrow> string \<Rightarrow> unit prog) option"
  ps_emitter :: emitter
  ps_span_recorder :: recorder
  ps_printed :: "json \<Rightarrow> string"

definition load_execution_snapshot :: "schema \<Rightarrow> header \<Rightarrow> execution option prog" where
  "load_execution_snapshot V h =
     try_exc (get_execution_by_message_id V (mh_message_id h) (mh_session_id h)) (\<lambda>_. Ret None)"

definition snapshot_fields :: "execution option \<Rightarrow> execution" where
  "snapshot_fields snapshot = (case snapshot of None \<Rightarrow> [] | Some e \<Rightarrow> e)"

definition resolve_reply_header :: "command \<Rightarrow> execution option \<Rightarrow> exn + header option" where
  "resolve_reply_header command snapshot =
     (let h = command_header command; d = snapshot_fields snapshot in
      if \<not> is_resume command then Inr (if mh_source_agent_type h \<noteq> [] then Some h else None)
      else let caller_agent_type = py_text (dget d ''source_agent_type'' (JStr [])) in
        if caller_agent_type = [] \<or> caller_agent_type = CLIENT_SOURCE_AGENT_TYPE then Inr None
        else res_bind (as_dict (py_or (dget0 d ''metadata'') (JObj []))) (\<lambda>metadata.
          Inr (Some (h\<lparr>mh_source_agent_type := caller_agent_type,
             mh_parent_message_id := py_text (dget d ''parent_message_id'' (JStr [])),
             mh_task_group_id := py_text (dget d ''task_group_id'' (JStr [])),
             mh_metadata := metadata\<rparr>))))"

definition restore_metadata :: "command \<Rightarrow> bool \<Rightarrow> execution option \<Rightarrow> exn + command" where
  "restore_metadata command is_agent_return snapshot =
     (if \<not> is_agent_return then Inr command
      else res_bind (merge_resume_metadata (dget0 (snapshot_fields snapshot) ''metadata'') (mh_metadata (command_header command)))
        (\<lambda>metadata. Inr (with_header ((command_header command)\<lparr>mh_metadata := metadata\<rparr>) command)))"

section \<open>The reply\<close>

definition reply_header_of :: "processor \<Rightarrow> header \<Rightarrow> jdict \<Rightarrow> string \<Rightarrow> string \<Rightarrow> header" where
  "reply_header_of ps h metadata message_id trace_id =
     \<lparr>mh_message_id = message_id, mh_session_id = mh_session_id h, mh_trace_id = trace_id,
      mh_source_agent_type = str_or (mh_target_agent_type h) (ps_worker_id ps),
      mh_target_agent_type = mh_source_agent_type h, mh_parent_message_id = mh_message_id h,
      mh_task_group_id = mh_task_group_id h, mh_user_code = mh_user_code h, mh_user_name = mh_user_name h,
      mh_metadata = dupdate (mh_metadata h) metadata, mh_trace_parent_span_id = [],
      mh_langfuse_parent_observation_id = []\<rparr>"

definition enqueue_callback ::
  "processor \<Rightarrow> header \<Rightarrow> string \<Rightarrow> json \<Rightarrow> json \<Rightarrow> jdict \<Rightarrow> jdict \<Rightarrow> unit prog" where
  "enqueue_callback ps h status reply_data content metadata extra_payload =
     bindp (if mh_parent_message_id h \<noteq> [] then Ret (mh_parent_message_id h) else generate_message_id) (\<lambda>message_id.
     bindp (if mh_trace_id h \<noteq> [] then Ret (mh_trace_id h) else uuid_hex) (\<lambda>trace_id.
     bindp (lift_res (new_resume \<lparr>res_header = reply_header_of ps h metadata message_id trace_id, res_content = content,
         res_status = status, res_reply_data = reply_data, res_extra_payload = extra_payload\<rparr>)) (\<lambda>callback.
     exec_cmd (XAdd (ctrl_stream (sv_schema (ps_services ps)) (mh_target_agent_type (command_header callback)))
       (to_redis_payload callback)))))"

section \<open>One message\<close>

definition processor_context :: "processor \<Rightarrow> header \<Rightarrow> command \<Rightarrow> string \<Rightarrow> agent_context" where
  "processor_context ps h command trace_id =
     \<lparr>ac_session_id = mh_session_id h, ac_trace_id = str_or (mh_trace_id h) trace_id,
      ac_current_agent_id = mh_target_agent_type h, ac_execution_id = [], ac_worker_id = [],
      ac_message_id = mh_message_id h, ac_parent_message_id = mh_parent_message_id h, ac_user_code = mh_user_code h,
      ac_user_name = mh_user_name h, ac_current_command = Some command, ac_cancel_requested = False,
      ac_cancel_reason = [], ac_is_sub_agent = False, ac_emitter = ps_emitter ps,
      ac_content_codec = None, ac_span_recorder = ps_span_recorder ps, ac_chunk_count = 0,
      ac_response_buffer = [], ac_is_history_saved = False, ac_is_stream_finished = False,
      ac_permission_transferred = False, ac_is_suspended = False, ac_suspended_state = [],
      ac_pending_group_replies = [], ac_trace_parent_observation_id = [], ac_phoenix_span_id = 0,
      ac_langfuse_observation_id = []\<rparr>"

definition final_text :: "processor \<Rightarrow> task_result \<Rightarrow> string option" where
  "final_text ps r =
     (case tr_content r of
        JStr (x # xs) \<Rightarrow> Some (x # xs)
      | _ \<Rightarrow> (case tr_reply_data r of
          JStr (x # xs) \<Rightarrow> Some (x # xs)
        | JNull \<Rightarrow> None
        | v \<Rightarrow> Some (ps_printed ps v)))"

text \<open>After the reply: what the user sees, and for a task nobody waits for the end of the stream.\<close>

definition show_result :: "processor \<Rightarrow> bool \<Rightarrow> task_result \<Rightarrow> (agent_context, unit) act" where
  "show_result ps has_source r =
     (let sv = ps_services ps in
      a_seq (case final_text ps r of Some m \<Rightarrow> emit_text sv m ''finalAnswer'' | None \<Rightarrow> a_ret ())
     (a_when (\<not> has_source) (a_with (\<lambda>c.
        a_when (is_terminal_state (tr_status r) \<and> \<not> ac_is_suspended c \<and> \<not> ac_permission_transferred c \<and> \<not> ac_is_stream_finished c)
          (a_seq (emit_text sv [] ''appStreamResponse'') (a_set (\<lambda>c. c\<lparr>ac_is_stream_finished := True\<rparr>)))))))"

definition conclude :: "processor \<Rightarrow> header option \<Rightarrow> pyobj \<Rightarrow> (agent_context, pyobj) act" where
  "conclude ps reply_header res =
     a_bind (a_get ac_pending_group_replies) (\<lambda>pending.
     a_seq (a_set (\<lambda>c. c\<lparr>ac_pending_group_replies := []\<rparr>))
    (a_seq (a_lift (flush_pending_group_replies (sv_schema (ps_services ps)) pending))
    (a_bind (a_lift (lift_res (normalize_process_result res))) (\<lambda>r. a_with (\<lambda>c.
     a_seq (case reply_header of
         Some h \<Rightarrow> a_when (\<not> (ac_is_suspended c \<and> \<not> is_terminal_state (tr_status r)))
           (a_lift (enqueue_callback ps h (tr_status r) (tr_reply_data r) (tr_content r) (tr_metadata r) (tr_extra_payload r)))
       | None \<Rightarrow> a_ret ())
    (a_seq (show_result ps (reply_header \<noteq> None) r) (a_ret res)))))))"

definition processing_failed :: "processor \<Rightarrow> header option \<Rightarrow> exn \<Rightarrow> (agent_context, pyobj) act" where
  "processing_failed ps reply_header e =
     a_seq (case reply_header of
         Some h \<Rightarrow> a_lift (enqueue_callback ps h ''FAILED'' (JObj [(''error'', JStr (exn_text e))]) (JStr []) [] [])
       | None \<Rightarrow> a_ret ())
    (a_seq (emit_state (ps_services ps) (''FAILED: '' @ exn_text e) [] [] [] [] [])
    (a_raise e))"

definition handle_command ::
  "processor \<Rightarrow> header option \<Rightarrow> (command \<Rightarrow> (agent_context, pyobj) act) \<Rightarrow> command \<Rightarrow> (agent_context, pyobj) act" where
  "handle_command ps reply_header handler command =
     (let h = command_header command in
      a_except
        (a_seq (case ps_setup_workspace ps of
             None \<Rightarrow> a_ret ()
           | Some setup_workspace \<Rightarrow> a_lift (setup_workspace (mh_session_id h) (mh_message_id h) (str_or (mh_user_code h) ''default'')
               (str_or (mh_target_agent_type h) (ps_worker_id ps))))
          (a_bind (handler command) (conclude ps reply_header)))
        (processing_failed ps reply_header))"

text \<open>\<open>None\<close>: a reply to a wait that is resolved already.\<close>

definition passed_gate :: "processor \<Rightarrow> command \<Rightarrow> bool prog" where
  "passed_gate ps command =
     (let V = sv_schema (ps_services ps) in
      if \<not> is_resume command then Ret True
      else bindp (consume_wait_entry V (command_header command)) (\<lambda>gate.
        if gd_allow gate then Ret True
        else bindp (emit_orphaned_reply V command (ps_worker_id ps) (gd_reason gate)) (\<lambda>_. Ret False)))"

definition process :: "processor \<Rightarrow> command \<Rightarrow> (command \<Rightarrow> (agent_context, pyobj) act) \<Rightarrow> pyobj option prog" where
  "process ps raw handler =
     bindp uuid_hex (\<lambda>trace_id.
     bindp (passed_gate ps raw) (\<lambda>admitted.
     if \<not> admitted then Ret None
     else bindp (if is_resume raw then load_execution_snapshot (sv_schema (ps_services ps)) (command_header raw) else Ret None) (\<lambda>snapshot.
       bindp (lift_res (resolve_reply_header raw snapshot)) (\<lambda>reply_header.
       bindp (lift_res (restore_metadata raw (is_resume raw) snapshot)) (\<lambda>command.
       bindp (handle_command ps reply_header handler command (processor_context ps (command_header command) command trace_id))
         (\<lambda>(res, c). case res of Inl e \<Rightarrow> Raise e | Inr v \<Rightarrow> Ret (Some v)))))))"

end
