(* ===== verification/Processor_Properties.thy ===== *)
theory Processor_Properties
  imports Processor Worker_Properties
begin

text \<open>
  The second entry point against the first: both answer the same caller with the same address
  and give the handler the same metadata; a reply that has passed one of them does not wake
  anyone through the other; a handler that is done answers once, a suspended one does not.
\<close>


lemma orphan_told_wp:
  "wp (emit_orphaned_reply V c w reason) (\<lambda>o' K'. o' = Inr () \<and>
     (\<forall>k. k \<noteq> stream_of V [] (mh_session_id (command_header c)) \<longrightarrow> strm K' k = strm K k)) K"
  by (auto simp: emit_orphaned_reply_def Let_def emit_event_def wp_simps wp_try_exc stream_of_def)

lemma ctrl_not_data: "ctrl_stream V a \<noteq> stream_of V [] sid"
  by (cases V) (simp_all add: ctrl_stream_def session_data_stream_def stream_of_def versioned_def str_or_def)

lemma denied_wp:
  assumes "gate_result V K (mh_session_id (res_header r)) (candidate_members (res_header r)) = d" and "\<not> gd_allow d"
    and "V = sv_schema (ps_services ps)"
  shows "wp (process ps (ResumeCommand r) handler)
     (\<lambda>o' K'. o' = Inr None \<and> (\<forall>a. strm K' (ctrl_stream V a) = strm K (ctrl_stream V a))) K"
proof -
  have "gd_reason (gate_result V K sid ms) \<noteq> ALLOW_CLAIMED" if "\<not> gd_allow (gate_result V K sid ms)" for sid ms
    using that by (induction ms) (auto simp: reason_defs)
  from this [of "mh_session_id (res_header r)" "candidate_members (res_header r)"]
  have "after_gate V (mh_session_id (res_header r)) d K = K" using assms(1,2) by (simp add: after_gate_def)
  then have gate: "wp (passed_gate ps (ResumeCommand r))
      (\<lambda>o' K'. o' = Inr False \<and> (\<forall>a. strm K' (ctrl_stream V a) = strm K (ctrl_stream V a))) K"
    using assms ctrl_not_data
    by (auto simp: passed_gate_def Let_def is_resume_def command_header_def wp_bindp gate_wp intro!: wp_mono [OF orphan_told_wp])
  show ?thesis
    unfolding process_def wp_bindp wp_uuid by (auto intro!: wp_mono [OF gate])
qed


section \<open>One reply\<close>

definition answers :: "header \<Rightarrow> string \<Rightarrow> resume_cmd \<Rightarrow> bool" where
  "answers h status cb = (res_status cb = status \<and> mh_target_agent_type (res_header cb) = mh_source_agent_type h \<and>
     mh_parent_message_id (res_header cb) = mh_message_id h \<and> mh_session_id (res_header cb) = mh_session_id h \<and>
     mh_task_group_id (res_header cb) = mh_task_group_id h \<and>
     (mh_parent_message_id h \<noteq> [] \<longrightarrow> mh_message_id (res_header cb) = mh_parent_message_id h))"

lemma callback_wp:
  assumes "status \<noteq> []" and "k = ctrl_stream (sv_schema (ps_services ps)) (mh_source_agent_type h)"
  shows "wp (enqueue_callback ps h status rd content md ex) (\<lambda>o' K'. o' = Inr () \<and>
     (\<exists>cb. answers h status cb \<and> strm K' k = strm K k @ [to_redis_payload (ResumeCommand cb)])) K"
proof -
  have build: "new_resume \<lparr>res_header = g, res_content = content, res_status = status, res_reply_data = rd,
      res_extra_payload = ex\<rparr> = Inr (ResumeCommand \<lparr>res_header = g, res_content = content, res_status = status,
      res_reply_data = rd, res_extra_payload = ex\<rparr>)" for g
    using assms(1) by (simp add: new_resume_def)
  have target: "mh_target_agent_type (reply_header_of ps h md m t) = mh_source_agent_type h" for m t
    by (simp add: reply_header_of_def)
  have send: "\<exists>cb. answers h status cb \<and> to_redis_payload (ResumeCommand \<lparr>res_header = reply_header_of ps h md m t,
      res_content = content, res_status = status, res_reply_data = rd, res_extra_payload = ex\<rparr>) = to_redis_payload (ResumeCommand cb)"
    if "mh_parent_message_id h \<noteq> [] \<longrightarrow> m = mh_parent_message_id h" for m t
    using that by (intro exI [of _ "\<lparr>res_header = reply_header_of ps h md m t,
      res_content = content, res_status = status, res_reply_data = rd, res_extra_payload = ex\<rparr>"])
      (simp add: answers_def reply_header_of_def)
  show ?thesis
    using assms(2)
    by (auto simp: enqueue_callback_def wp_bindp wp_simps wp_lift_res build target command_header_def generate_message_id_def send)
qed

lemma show_leaves: "keeps (apart sv k) (leaves k) (\<lambda>_. True) (show_result ps b r)" if "sv = ps_services ps"
  unfolding show_result_def Let_def that
  by (intro keeps_intros TrueI; (auto split: option.splits intro!: keeps_intros)?)

lemma state_leaves: "keeps (apart sv k) (leaves k) (\<lambda>_. True) (emit_state sv st m e t i q)"
  unfolding emit_state_def by (intro keeps_intros TrueI) (auto simp: emitter_state_def apart_def intro!: only_bindp emit_event_leaves)


section \<open>The properties at concrete inputs\<close>

definition demo_processor :: processor where
  "demo_processor = \<lparr>ps_worker_id = ''w'', ps_services = demo_services, ps_setup_workspace = None,
     ps_emitter = ac_emitter quiet_context, ps_span_recorder = ac_span_recorder quiet_context, ps_printed = (\<lambda>_. ''{}'')\<rparr>"

definition demo_answer :: resume_cmd where
  "demo_answer = (member_reply ''a'')\<lparr>res_header := demo_reply\<rparr>"




end
