(* ===== verification/Spec2Isabelle.thy ===== *)
theory Spec2Isabelle
  imports Sweeper_Properties Sweeper_Deadlines Availability Client_Cancel Registry_Exec Wait_Gate Wait_Reply Wait_Sweeper Trace_Span Agent_Context Agent_Dispatch Dispatch_Properties Worker_Properties Plugin_Registry Trace_Writer Runner_Properties Client_Stream Client_Resume File_Contents Lifecycle_Properties Processor_Properties
begin

text \<open>
  Verification library of by-framework, a Python framework (\<open>src/src/by_framework\<close>) in
  which agents run on workers and talk to each other through Redis streams.

  \<^bold>\<open>The program.\<close>  A client or an agent sends a command (\<open>core/protocol\<close>) to the control stream
  of an agent type.  A \<open>WorkerRunner\<close> reads it, records the execution in the
  \<open>WorkerRegistry\<close>, and hands it to its \<open>GatewayWorker\<close>, which builds an \<open>AgentContext\<close> and runs
  the handler.  A handler that calls other agents registers a wait for every answer in the
  wait index, sends the calls, and ends suspended; each answer is a \<open>ResumeCommand\<close> on the
  caller's stream, which passes the wait gate exactly once, is gathered in the task group of a
  fan-out, and runs the handler again.  A background sweeper answers for sub-tasks that will
  never do so themselves.  Around it stand the availability router with its queue of pending
  deliveries, the plugin registry, the cancellation of trees of tasks, and the trace.

  \<^bold>\<open>How it is modelled.\<close>  A coroutine is a program over a server (\<open>Server\<close>: type \<open>'a prog\<close>): it
  returns, raises, or issues one command (a Redis command, a clock reading, a fresh id) and
  continues with the answer.  \<open>run exec p s\<close> runs it against any server \<open>exec\<close>.  A method of an
  object that changes the object is \<open>('c, 'a) act\<close> (\<open>Coroutine\<close>).  Errors are values of \<open>exn\<close>, and
  a raise, a \<open>try\<close>, a \<open>finally\<close> or an early return of the source is a branch of the definition.
  Interleavings are runs of a pool of programs, command by command (\<open>Redis.pool_step\<close>).
  What the code relies on of Redis is the locale \<open>redis\<close>: the answers and effects of
  the commands as documented, interpreted on a concrete server (\<open>ref\<close>).  Properties that say
  "on any server" do not assume it; they hold when the server fails on any command.

  \<^bold>\<open>Theories and sources.\<close>
  \<^item> \<open>Prelude\<close>, \<open>Server\<close>, \<open>Coroutine\<close>: JSON values, Python dictionaries and exceptions; programs,
    weakest preconditions (\<open>wp\<close>, \<open>awp\<close>, \<open>aouts\<close>, \<open>keeps\<close>) and stages of a run.
  \<^item> \<open>Redis\<close>: the key space, the commands, the locale \<open>redis\<close>, pools.  \<open>Redis_Keys\<close>:
    \<open>common/constants.py\<close>, every key family in both schemas and that no two collide.
  \<^item> \<open>Protocol\<close> (\<open>core/protocol\<close>): header, commands, their wire form and its round trip, results.
    \<open>Emitter\<close> (\<open>common/emitter.py\<close>): the events of a session's data stream.
  \<^item> \<open>Wait_Index\<close>, \<open>Wait_Gate\<close>, \<open>Wait_Reply\<close>, \<open>Wait_Sweeper\<close> (\<open>core/wait_*.py\<close>) with
    \<open>Sweeper_Properties\<close> and \<open>Sweeper_Deadlines\<close>: a wait is claimed at most once; a dead child is
    reported, a live or unawaited one is not; passes fail soft and give their locks back;
    renewals cannot move the ceiling.
  \<^item> \<open>Registry_Lease\<close> and \<open>Registry_Exec\<close> (\<open>core/registry.py\<close>): ids, leases, routing sets and deny
    lists; execution records and the statistics derived from them.
  \<^item> \<open>Availability\<close> (\<open>core/availability.py\<close>, \<open>delivery_gate.py\<close>, \<open>wakeup_controller.py\<close>): whether a
    delivery goes out, is queued or refused, and what becomes of a queued one.
  \<^item> \<open>Client_Cancel\<close>, \<open>Client_Send\<close>, \<open>Client_Stream\<close>, \<open>Client_Resume\<close>, \<open>Client_Properties\<close>
    (\<open>client/client.py\<close>): the walk over the tree of a task; sending a message with its delivery
    decision and its substitute target; reading a session's data stream, blocking or not, with
    checkpoints, committed and uncommitted entries (locale \<open>stream_server\<close>); reloads; answering a
    question, where a stale answer is refused but has already replaced the execution's state.
  \<^item> \<open>Trace_Span\<close>, \<open>Trace_Writer\<close> (\<open>trace/span_recorder.py\<close>, \<open>trace_schema.py\<close>, \<open>trace_writer.py\<close>): what
    a span may reveal, what is stored, what is read back.
  \<^item> \<open>Agent_Context\<close>, \<open>Agent_Dispatch\<close>, \<open>Dispatch_Properties\<close> (\<open>worker/context.py\<close>): emitting,
    asking, calling one agent or many, and what is left behind when a call fails.
  \<^item> \<open>Worker_Message\<close>, \<open>Worker_Properties\<close> (\<open>worker/worker.py\<close>, \<open>_resume_metadata.py\<close>): a command from
    its arrival to the reply; the join of a fan-out as a refinement of an abstract group.
  \<^item> \<open>Runner\<close>, \<open>Runner_Properties\<close> (\<open>worker/runner.py\<close>, \<open>_execution_tracking.py\<close>,
    \<open>_message_processing.py\<close>, \<open>_control_handling.py\<close>): reading, acknowledging, tracking,
    cancelling, reloading, slots.
  \<^item> \<open>Worker_Lifecycle\<close>, \<open>Lifecycle_Properties\<close> (\<open>admin/worker_manager.py\<close>,
    \<open>worker/heartbeat.py\<close>): the administrator's orders, the thread that renews the lease and
    follows them, and the loops of the runner that obey; an order outlasts heartbeats and restarts,
    but not one that reads before and registers after it; a lost lease is noticed in time.
  \<^item> \<open>Processor\<close>, \<open>Processor_Properties\<close> (\<open>worker/processor.py\<close>): the second entry point for
    messages, and that it decides as the first.
  \<^item> \<open>Plugin_Registry\<close> (\<open>core/extensions\<close>): registration and reload of agent configurations.
  \<^item> \<open>File_Paths\<close> (\<open>core/runtime/file_paths.py\<close>, \<open>file_permissions.py\<close>): strings as paths, their
    normal form, the scope policy and the resolution on disk.  \<open>File_Store\<close>
    (\<open>core/runtime/filestore/local.py\<close>): a tree of directories and files and the storage
    operations on it.  \<open>File_Manager\<close> (\<open>file_manager.py\<close>, \<open>core/workspace.py\<close>,
    \<open>worker/sandbox.py\<close>): the policy in front of the storage, eviction of long results, search,
    the life of a work space.  \<open>File_Properties\<close>, \<open>File_Contents\<close>: what leaves the area of a
    session and what does not, what an operation leaves alone, and the contents that are read back
    (locale \<open>text_codec\<close>).

  \<^bold>\<open>Parameters.\<close>  The handler, plugins, history, work space, layout builder and exporters are
  arguments of the definitions (records of functions), since they are not code of the framework; so
  are the hash functions, the text and base64 codecs, the JSON parser and printer of the standard
  library where only their documented behaviour matters.

  \<^bold>\<open>Bounds and fuel.\<close>  Loops over data are structural.  The walk of \<open>cancel_task\<close> is a
  \<open>partial_function\<close>, since it may not end.  Polling loops take a number of rounds: \<open>sv_rounds\<close>
  for the wait for a wakeup (\<open>Availability.wakeup_wait_ends\<close>: the timeout in milliseconds is
  enough on a clock that advances), the rounds of \<open>collect_group_results\<close>, and the attempts of
  \<open>claim_worker_id_with_retry\<close>; the heartbeat's loop takes what every round finds of the stop
  event and the health check; running out of them is the outcome \<open>Diverges\<close>, which is none
  of the code's.  Times are integers of milliseconds.

  \<^bold>\<open>Not modelled.\<close>  Background tasks that only repeat a modelled step, live OpenTelemetry spans,
  Prometheus counters, logging, metrics snapshots for dashboards, HTTP wrappers, history back ends,
  and the adapters to third-party agent and tracing frameworks.
\<close>

end
